(* ===== verification/Prelude.thy ===== *)
theory Prelude
  imports Main "HOL-Library.Char_ord" "HOL-Library.List_Lexorder" "HOL-Library.Word"
begin

text \<open>
  Shared vocabulary of the development.

  \<^item> Fallible code: a Rust \<open>Result\<close> is a value of \<open>'e + 'a\<close> (\<open>Inl\<close> the error).
    \<open>and_then\<close> is the \<open>?\<close> operator for a call that also changes the state: on an error
    the state reached so far is kept, as the code keeps it (nothing is rolled back unless
    the source opens a transaction).
  \<^item> Strings are lists of bytes; \<open>\<le>\<close> on them is the bytewise lexicographic order of Rust
    \<open>str\<close> and of SQLite's BINARY collation.
  \<^item> SQL tables are lists of rows in insertion (rowid) order. \<open>update_where\<close>,
    \<open>delete_where\<close> and \<open>find\<close> are UPDATE, DELETE and a one-row SELECT; \<open>uniq\<close> is a
    UNIQUE index, \<open>uniq_some\<close> one on a nullable column (NULLs never collide).
\<close>

named_theorems tbl "SQL table operations, evaluated"
named_theorems keys "preservation of unique keys"

section \<open>Results and state\<close>

definition is_ok :: "'e + 'a \<Rightarrow> bool" where
  "is_ok r = (case r of Inl _ \<Rightarrow> False | Inr _ \<Rightarrow> True)"

lemma is_ok_simps [simp]: "is_ok (Inr x)" "\<not> is_ok (Inl e)"
  by (simp_all add: is_ok_def)

lemma is_ok_iff: "is_ok r \<longleftrightarrow> (\<exists>x. r = Inr x)"
  by (cases r) simp_all

definition and_then :: "('e + 'a) \<times> 's \<Rightarrow> ('a \<Rightarrow> 's \<Rightarrow> ('e + 'b) \<times> 's) \<Rightarrow> ('e + 'b) \<times> 's" where
  "and_then r k = (case r of (Inl e, s) \<Rightarrow> (Inl e, s) | (Inr x, s) \<Rightarrow> k x s)"

lemma and_then_simps [simp]:
  "and_then (Inl e, s) k = (Inl e, s)"
  "and_then (Inr x, s) k = k x s"
  by (simp_all add: and_then_def)

lemma and_then_Inr_iff:
  "and_then r k = (Inr y, s') \<longleftrightarrow> (\<exists>x s. r = (Inr x, s) \<and> k x s = (Inr y, s'))"
  by (cases r; cases "fst r") (auto simp: and_then_def)

lemma and_then_invariant:
  assumes "P (snd r)" and "\<And>x s. r = (Inr x, s) \<Longrightarrow> P s \<Longrightarrow> P (snd (k x s))"
  shows "P (snd (and_then r k))"
  using assms by (cases r; cases "fst r") (auto simp: and_then_def)

text \<open>A read that may fail and leaves the state alone, used where a write is expected.\<close>

definition reading :: "'e + 'a \<Rightarrow> 's \<Rightarrow> ('e + 'a) \<times> 's" where
  "reading r s = (r, s)"

lemma reading_simps [simp]: "reading r s = (r, s)"
  by (simp add: reading_def)

definition option_to_result :: "'e \<Rightarrow> 'a option \<Rightarrow> 'e + 'a" where
  "option_to_result e x = (case x of None \<Rightarrow> Inl e | Some y \<Rightarrow> Inr y)"

lemma option_to_result_simps [simp]:
  "option_to_result e None = Inl e" "option_to_result e (Some y) = Inr y"
  by (simp_all add: option_to_result_def)

section \<open>Strings (Rust's str, as bytes)\<close>

definition starts_with :: "string \<Rightarrow> string \<Rightarrow> bool" where
  "starts_with s p = (take (length p) s = p)"

definition ends_with :: "string \<Rightarrow> string \<Rightarrow> bool" where
  "ends_with s p = (length p \<le> length s \<and> drop (length s - length p) s = p)"

fun contains_str :: "string \<Rightarrow> string \<Rightarrow> bool" where
  "contains_str [] p = (p = [])"
| "contains_str (c # cs) p = (starts_with (c # cs) p \<or> contains_str cs p)"

text \<open>\<open>str::split\<close> on one character: always at least one piece.\<close>

fun split_on :: "char \<Rightarrow> string \<Rightarrow> string list" where
  "split_on d [] = [[]]"
| "split_on d (c # cs) =
     (if c = d then [] # split_on d cs
      else (case split_on d cs of [] \<Rightarrow> [[c]] | p # ps \<Rightarrow> (c # p) # ps))"

fun join_with :: "string \<Rightarrow> string list \<Rightarrow> string" where
  "join_with sep [] = []"
| "join_with sep [x] = x"
| "join_with sep (x # y # ys) = x @ sep @ join_with sep (y # ys)"

definition is_ascii_ws :: "char \<Rightarrow> bool" where
  "is_ascii_ws c = (of_char c \<in> {32, 9, 10, 12, 13::nat})"

text \<open>\<open>str::split_ascii_whitespace\<close>: the maximal runs without white space.\<close>

definition split_ws :: "string \<Rightarrow> string list" where
  "split_ws s = filter (\<lambda>w. w \<noteq> [])
     (split_on (CHR '' '') (map (\<lambda>c. if is_ascii_ws c then CHR '' '' else c) s))"

definition ascii_lower_char :: "char \<Rightarrow> char" where
  "ascii_lower_char c =
     (let n = of_char c :: nat in if 65 \<le> n \<and> n \<le> 90 then char_of (n + 32) else c)"

definition ascii_lower :: "string \<Rightarrow> string" where
  "ascii_lower s = map ascii_lower_char s"

definition ascii_lowercase :: "char \<Rightarrow> bool" where
  "ascii_lowercase c = (let n = of_char c :: nat in 97 \<le> n \<and> n \<le> 122)"

definition ascii_uppercase :: "char \<Rightarrow> bool" where
  "ascii_uppercase c = (let n = of_char c :: nat in 65 \<le> n \<and> n \<le> 90)"

definition ascii_digit :: "char \<Rightarrow> bool" where
  "ascii_digit c = (let n = of_char c :: nat in 48 \<le> n \<and> n \<le> 57)"

lemma starts_with_append [simp]: "starts_with (p @ s) p"
  by (simp add: starts_with_def)

lemma starts_with_iff: "starts_with s p \<longleftrightarrow> (\<exists>r. s = p @ r)"
  by (auto simp: starts_with_def) (metis append_take_drop_id)

lemma ends_with_iff: "ends_with s p \<longleftrightarrow> (\<exists>r. s = r @ p)"
  by (auto simp: ends_with_def) (metis append_take_drop_id)

lemma split_on_nonempty [simp]: "split_on d s \<noteq> []"
  by (induction s) (auto split: list.splits)

lemma split_on_no_sep: "d \<notin> set s \<Longrightarrow> split_on d s = [s]"
  by (induction s) auto

lemma split_on_pieces: "p \<in> set (split_on d s) \<Longrightarrow> d \<notin> set p"
  by (induction s arbitrary: p) (auto split: if_splits list.splits)

lemma split_on_append: "d \<notin> set a \<Longrightarrow> split_on d (a @ d # b) = a # split_on d b"
  by (induction a) auto

lemma split_on_join:
  "xs \<noteq> [] \<Longrightarrow> \<forall>x \<in> set xs. d \<notin> set x \<Longrightarrow> split_on d (join_with [d] xs) = xs"
proof (induction xs)
  case (Cons x xs)
  then show ?case
    by (cases xs) (simp_all add: split_on_no_sep split_on_append)
qed simp

lemma split_ws_words:
  assumes "w \<in> set (split_ws s)"
  shows "w \<noteq> [] \<and> CHR '' '' \<notin> set w"
  using assms by (auto simp: split_ws_def dest: split_on_pieces)

text \<open>Splitting, joining with single spaces and splitting again changes nothing more.\<close>

lemma split_on_chars: "p \<in> set (split_on d s) \<Longrightarrow> set p \<subseteq> set s"
  by (induction s arbitrary: p) (fastforce split: if_splits list.splits)+

lemma split_ws_no_ws:
  assumes "w \<in> set (split_ws s)" and "c \<in> set w"
  shows "\<not> is_ascii_ws c"
proof
  assume ws: "is_ascii_ws c"
  let ?t = "map (\<lambda>c. if is_ascii_ws c then CHR '' '' else c) s"
  from assms(1) have w: "w \<in> set (split_on (CHR '' '') ?t)" by (simp add: split_ws_def)
  then have "CHR '' '' \<notin> set w" by (rule split_on_pieces)
  moreover from split_on_chars [OF w] assms(2) have "c \<in> set ?t" by auto
  ultimately show False using ws assms(2) by (auto split: if_splits)
qed

lemma join_chars: "set (join_with sep xs) \<subseteq> set sep \<union> (\<Union>x \<in> set xs. set x)"
  by (induction sep xs rule: join_with.induct) auto

lemma split_ws_join:
  assumes "\<forall>w \<in> set ws. w \<noteq> [] \<and> (\<forall>c \<in> set w. \<not> is_ascii_ws c)"
  shows "split_ws (join_with '' '' ws) = ws"
proof (cases "ws = []")
  case True
  then show ?thesis by (simp add: split_ws_def)
next
  case False
  let ?f = "\<lambda>c. if is_ascii_ws c then CHR '' '' else c"
  have "?f c = c" if "c \<in> set (join_with '' '' ws)" for c
    using that join_chars [of "'' ''" ws] assms by auto
  then have m: "map ?f (join_with '' '' ws) = join_with '' '' ws"
    by (simp add: map_idI)
  have sp: "is_ascii_ws (CHR '' '')" by (simp add: is_ascii_ws_def)
  then have "\<forall>w \<in> set ws. CHR '' '' \<notin> set w" using assms by auto
  then have "split_on (CHR '' '') (join_with '' '' ws) = ws"
    using False split_on_join [of ws "CHR '' ''"] by simp
  with m assms show ?thesis by (simp add: split_ws_def filter_id_conv)
qed

section \<open>Tables\<close>

definition update_where :: "('r \<Rightarrow> bool) \<Rightarrow> ('r \<Rightarrow> 'r) \<Rightarrow> 'r list \<Rightarrow> 'r list" where
  "update_where p f t = map (\<lambda>r. if p r then f r else r) t"

definition delete_where :: "('r \<Rightarrow> bool) \<Rightarrow> 'r list \<Rightarrow> 'r list" where
  "delete_where p t = filter (\<lambda>r. \<not> p r) t"

definition count_where :: "('r \<Rightarrow> bool) \<Rightarrow> 'r list \<Rightarrow> int" where
  "count_where p t = int (length (filter p t))"

definition has_row :: "('r \<Rightarrow> bool) \<Rightarrow> 'r list \<Rightarrow> bool" where
  "has_row p t = list_ex p t"

definition uniq :: "('r \<Rightarrow> 'k) \<Rightarrow> 'r list \<Rightarrow> bool" where
  "uniq k t = distinct (map k t)"

fun uniq_some :: "('r \<Rightarrow> 'k option) \<Rightarrow> 'r list \<Rightarrow> bool" where
  "uniq_some k [] = True"
| "uniq_some k (r # t) = ((k r = None \<or> k r \<notin> k ` set t) \<and> uniq_some k t)"

lemma update_where_Nil [simp]: "update_where p f [] = []"
  by (simp add: update_where_def)

lemma update_where_Cons [simp]:
  "update_where p f (r # t) = (if p r then f r else r) # update_where p f t"
  by (simp add: update_where_def)

lemma delete_where_Nil [simp]: "delete_where p [] = []"
  by (simp add: delete_where_def)

lemma delete_where_Cons [simp]:
  "delete_where p (r # t) = (if p r then delete_where p t else r # delete_where p t)"
  by (simp add: delete_where_def)

lemma set_delete_where [simp]: "set (delete_where p t) = {r \<in> set t. \<not> p r}"
  by (auto simp: delete_where_def)

lemma set_update_where: "set (update_where p f t) = (\<lambda>r. if p r then f r else r) ` set t"
  by (simp add: update_where_def)

lemma has_row_iff: "has_row p t \<longleftrightarrow> (\<exists>r \<in> set t. p r)"
  by (simp add: has_row_def list_ex_iff)

lemma has_row_simps [simp]:
  "has_row p [] = False" "has_row p (r # t) = (p r \<or> has_row p t)"
  by (simp_all add: has_row_def)

lemma not_has_row_find: "\<not> has_row p t \<longleftrightarrow> find p t = None"
  by (auto simp: has_row_iff find_None_iff)

lemma find_delete_where: "\<forall>r. p r \<longrightarrow> q r \<Longrightarrow> find p (delete_where q t) = None"
  by (auto simp: find_None_iff)

lemma find_delete_other: "\<forall>r \<in> set t. p r \<longrightarrow> \<not> q r \<Longrightarrow> find p (delete_where q t) = find p t"
  by (induction t) auto

lemma find_append:
  "find p (t @ u) = (case find p t of None \<Rightarrow> find p u | Some r \<Rightarrow> Some r)"
  by (induction t) auto

lemma find_update_where:
  assumes "\<forall>r \<in> set t. p (if q r then f r else r) = p r"
  shows "find p (update_where q f t) = map_option (\<lambda>r. if q r then f r else r) (find p t)"
  using assms by (induction t) auto

lemma find_Some_set: "find p t = Some r \<Longrightarrow> r \<in> set t \<and> p r"
  by (induction t) (auto split: if_splits)

lemma count_where_0_iff: "count_where p t = 0 \<longleftrightarrow> \<not> has_row p t"
  by (auto simp: count_where_def has_row_iff filter_empty_conv)

lemma count_where_append [simp]: "count_where p (t @ u) = count_where p t + count_where p u"
  by (simp add: count_where_def)

lemma count_where_simps [simp]:
  "count_where p [] = 0"
  "count_where p (r # t) = (if p r then 1 + count_where p t else count_where p t)"
  by (simp_all add: count_where_def)

lemma count_where_nonneg [simp]: "0 \<le> count_where p t"
  by (simp add: count_where_def)

lemma uniq_Nil [simp]: "uniq k []"
  by (simp add: uniq_def)

lemma uniq_Cons [simp]: "uniq k (r # t) \<longleftrightarrow> k r \<notin> k ` set t \<and> uniq k t"
  by (simp add: uniq_def)

lemma uniq_snoc [keys]: "uniq k (t @ [r]) \<longleftrightarrow> uniq k t \<and> k r \<notin> k ` set t"
  by (auto simp: uniq_def)

lemma uniq_delete [keys]: "uniq k t \<Longrightarrow> uniq k (delete_where p t)"
  by (simp add: uniq_def delete_where_def distinct_map_filter)

lemma uniq_update: "uniq k t \<Longrightarrow> \<forall>r. k (f r) = k r \<Longrightarrow> uniq k (update_where p f t)"
proof -
  assume u: "uniq k t" and f: "\<forall>r. k (f r) = k r"
  from f have "map k (update_where p f t) = map k t"
    by (induction t) (auto simp: update_where_def)
  with u show ?thesis by (simp add: uniq_def)
qed

lemma uniq_some_snoc [keys]:
  "uniq_some k (t @ [r]) \<longleftrightarrow> uniq_some k t \<and> (k r = None \<or> k r \<notin> k ` set t)"
  by (induction t) auto

lemma uniq_some_delete [keys]: "uniq_some k t \<Longrightarrow> uniq_some k (delete_where p t)"
  by (induction t) (auto simp: image_iff)

lemma uniq_some_update: "uniq_some k t \<Longrightarrow> \<forall>r. k (f r) = k r \<Longrightarrow> uniq_some k (update_where p f t)"
  by (induction t) (auto simp: set_update_where image_iff split: if_splits)

lemma uniq_some_eqI:
  "uniq_some k t \<Longrightarrow> r \<in> set t \<Longrightarrow> r' \<in> set t \<Longrightarrow> k r = Some x \<Longrightarrow> k r' = Some x \<Longrightarrow> r = r'"
  by (induction t) (auto simp: image_iff)

lemma uniq_some_total: "uniq_some (\<lambda>r. Some (k r)) t = uniq k t"
  by (induction t) (auto simp: image_iff)

text \<open>With a unique key, a one-row SELECT by that key finds the row, whatever the order.\<close>

lemma find_uniq:
  assumes "uniq k t" and "r \<in> set t" and "k r = x"
  shows "find (\<lambda>r'. k r' = x) t = Some r"
  using assms by (induction t) (auto simp: image_iff)

lemma uniq_eqI: "uniq k t \<Longrightarrow> r \<in> set t \<Longrightarrow> r' \<in> set t \<Longrightarrow> k r = k r' \<Longrightarrow> r = r'"
  by (auto simp: uniq_def distinct_map inj_on_def)

lemma count_where_uniq:
  assumes "uniq k t" and "\<forall>r. p r \<longrightarrow> k r = x"
  shows "count_where p t \<le> 1"
  using assms
proof (induction t)
  case (Cons r t)
  show ?case
  proof (cases "p r")
    case True
    with Cons.prems have "\<not> has_row p t"
      by (force simp: has_row_iff)
    then have "count_where p t = 0" by (simp add: count_where_0_iff)
    with True show ?thesis by simp
  next
    case False
    with Cons show ?thesis by auto
  qed
qed simp

lemma not_has_row_key: "\<not> has_row (\<lambda>r. k r = x) t \<longleftrightarrow> x \<notin> k ` set t"
  by (auto simp: has_row_iff)

lemma has_row_key: "has_row (\<lambda>r. k r = x) t \<longleftrightarrow> x \<in> k ` set t"
  by (auto simp: has_row_iff)

lemma has_row_update: "\<forall>r. p (f r) = p r \<Longrightarrow> has_row p (update_where q f t) = has_row p t"
  by (induction t) auto

lemma uniq_filter: "uniq k t \<Longrightarrow> uniq k (filter p t)"
  by (simp add: uniq_def distinct_map_filter)

lemma update_where_id: "\<forall>r \<in> set t. \<not> p r \<Longrightarrow> update_where p f t = t"
  by (induction t) auto

lemma image_update: "h ` set (update_where p f t) = (\<lambda>r. h (if p r then f r else r)) ` set t"
  by (induction t) auto

lemma has_row_find: "has_row p t \<longleftrightarrow> find p t \<noteq> None"
  by (induction t) auto

lemma find_uniq_delete:
  "uniq k t \<Longrightarrow> find (\<lambda>r. k r = x) (delete_where q t) =
   (case find (\<lambda>r. k r = x) t of None \<Rightarrow> None | Some r \<Rightarrow> if q r then None else Some r)"
proof (induction t)
  case (Cons r t)
  show ?case
  proof (cases "k r = x")
    case True
    with Cons.prems have "find (\<lambda>r. k r = x) (delete_where q t) = None"
      by (auto simp: find_None_iff image_iff)
    with True show ?thesis by simp
  next
    case False
    with Cons show ?thesis by auto
  qed
qed simp

lemma find_map: "find p (map f t) = map_option f (find (\<lambda>x. p (f x)) t)"
  by (induction t) auto

lemma filter_uniq_find:
  "uniq k t \<Longrightarrow> filter (\<lambda>r. k r = x) t = (case find (\<lambda>r. k r = x) t of None \<Rightarrow> [] | Some r \<Rightarrow> [r])"
  by (induction t) (fastforce simp: filter_empty_conv image_iff find_None_iff dest: find_Some_set
      split: option.splits)+

lemma find_uniq_conj:
  "uniq k t \<Longrightarrow> find (\<lambda>r. k r = x \<and> P r) t =
   (case find (\<lambda>r. k r = x) t of None \<Rightarrow> None | Some r \<Rightarrow> if P r then Some r else None)"
proof (induction t)
  case (Cons r t)
  show ?case
  proof (cases "k r = x")
    case True
    with Cons.prems have "find (\<lambda>r. k r = x \<and> P r) t = None"
      by (auto simp: find_None_iff image_iff)
    with True show ?thesis by simp
  next
    case False
    with Cons show ?thesis by auto
  qed
qed simp

lemmas table_find = find_delete_where find_delete_other find_append find_update_where

section \<open>Decimal time stamps of fixed width\<close>

text \<open>
  A concrete, order-preserving rendering of numbers as strings of equal length. The
  time-stamp formatter of the code is a library function and a parameter of the model
  (theory Externals); this one instantiates it in witnesses.
\<close>

definition digit_char :: "nat \<Rightarrow> char" where
  "digit_char d = char_of (48 + d mod 10)"

fun pad_dec :: "nat \<Rightarrow> nat \<Rightarrow> string" where
  "pad_dec 0 n = []"
| "pad_dec (Suc k) n = pad_dec k (n div 10) @ [digit_char (n mod 10)]"

definition undigit :: "char \<Rightarrow> nat" where
  "undigit c = of_char c - 48"

definition read_dec :: "string \<Rightarrow> nat" where
  "read_dec s = foldl (\<lambda>a c. 10 * a + undigit c) 0 s"

lemma length_pad_dec [simp]: "length (pad_dec k n) = k"
  by (induction k arbitrary: n) auto

lemma of_digit_char: "d < 10 \<Longrightarrow> (of_char (digit_char d) :: nat) = 48 + d"
  by (simp add: digit_char_def)

lemma undigit_digit: "d < 10 \<Longrightarrow> undigit (digit_char d) = d"
  by (simp add: undigit_def of_digit_char)

lemma read_pad_dec: "n < 10 ^ k \<Longrightarrow> read_dec (pad_dec k n) = n"
proof (induction k arbitrary: n)
  case 0
  then show ?case by (simp add: read_dec_def)
next
  case (Suc k)
  then have "n div 10 < 10 ^ k" by (simp add: less_mult_imp_div_less mult.commute)
  from Suc.IH [OF this] show ?case
    by (simp add: read_dec_def undigit_digit)
qed

lemma list_less_append_eq_len:
  fixes a b :: "'x :: linorder list"
  assumes "length a = length b"
  shows "a @ c < b @ d \<longleftrightarrow> a < b \<or> (a = b \<and> c < d)"
  using assms by (induction a b rule: list_induct2) (auto simp: Cons_less_Cons)

lemma lex_digits:
  fixes q p r s :: nat
  assumes "r < 10" and "s < 10"
  shows "(q < p \<or> (q = p \<and> r < s)) \<longleftrightarrow> 10 * q + r < 10 * p + s"
  using assms by auto

lemma pad_dec_less:
  "m < 10 ^ k \<Longrightarrow> n < 10 ^ k \<Longrightarrow> pad_dec k m < pad_dec k n \<longleftrightarrow> m < n"
proof (induction k arbitrary: m n)
  case 0
  then show ?case by simp
next
  case (Suc k)
  let ?m = "m div 10" and ?n = "n div 10"
  have b: "?m < 10 ^ k" "?n < 10 ^ k"
    using Suc.prems by (simp_all add: less_mult_imp_div_less mult.commute)
  have eq: "pad_dec k ?m = pad_dec k ?n \<longleftrightarrow> ?m = ?n"
    using read_pad_dec b by metis
  have length_eq: "length (pad_dec k ?m) = length (pad_dec k ?n)" by simp
  have d: "[digit_char (m mod 10)] < [digit_char (n mod 10)] \<longleftrightarrow> m mod 10 < n mod 10"
    by (simp add: Cons_less_Cons less_char_def of_digit_char)
  have "pad_dec (Suc k) m < pad_dec (Suc k) n \<longleftrightarrow> ?m < ?n \<or> (?m = ?n \<and> m mod 10 < n mod 10)"
    by (simp only: pad_dec.simps list_less_append_eq_len [OF length_eq] Suc.IH [OF b] eq d)
  also have "\<dots> \<longleftrightarrow> 10 * ?m + m mod 10 < 10 * ?n + n mod 10"
    by (rule lex_digits) simp_all
  finally show ?case by simp
qed

lemma pad_dec_le:
  "m < 10 ^ k \<Longrightarrow> n < 10 ^ k \<Longrightarrow> pad_dec k m \<le> pad_dec k n \<longleftrightarrow> m \<le> n"
  using pad_dec_less [of n k m] by (metis linorder_not_less)

section \<open>Sorted maps\<close>

text \<open>\<open>BTreeMap::insert\<close> on an association list with increasing keys.\<close>

fun btree_insert :: "string \<Rightarrow> 'v \<Rightarrow> (string \<times> 'v) list \<Rightarrow> (string \<times> 'v) list" where
  "btree_insert k v [] = [(k, v)]"
| "btree_insert k v ((k', v') # m) =
     (if k = k' then (k, v) # m else if k < k' then (k, v) # (k', v') # m else (k', v') # btree_insert k v m)"

lemma map_of_btree_insert [simp]: "map_of (btree_insert k v m) = (map_of m)(k \<mapsto> v)"
  by (induction m) (auto simp: fun_eq_iff)

end
