(* ===== verification/Handles.thy ===== *)
theory Handles
  imports Prelude
begin

text \<open>
  The handle validation of \<open>cacos-pds-handle\<close> (\<open>src/lib.rs\<close>, \<open>src/errors.rs\<close>).
  Three checks come from the rsky crates and are parameters: the syntax normaliser, the TLD
  check and the slur filter. Everything after them is the code here: which service domain a
  handle belongs to, and the constraints on the label in front of it. Strings are bytes and
  \<open>len\<close> counts bytes. The lemmas give the exact condition under which a handle is accepted.
\<close>

datatype error_kind = InvalidHandle | HandleNotAvailable | UnsupportedDomain | InternalError

record handle_error =
  he_kind :: error_kind
  he_message :: string

definition handle_error :: "error_kind \<Rightarrow> string \<Rightarrow> handle_error" where
  "handle_error k m = \<lparr>he_kind = k, he_message = m\<rparr>"

record handle_validation_opts =
  hv_handle :: string
  hv_did :: "string option"
  hv_allow_reserved :: "bool option"

definition as_dotted_suffix :: "string \<Rightarrow> string" where
  "as_dotted_suffix domain = (if starts_with domain ''.'' then domain else ''.'' @ domain)"

definition is_service_domain :: "string \<Rightarrow> string list \<Rightarrow> bool" where
  "is_service_domain handle available_user_domains =
     list_ex (\<lambda>domain. ends_with handle (as_dotted_suffix domain)) available_user_domains"

definition RESERVED_SUBDOMAINS :: "string list" where
  "RESERVED_SUBDOMAINS =
     [''at'', ''atp'', ''plc'', ''pds'', ''did'', ''repo'', ''tid'', ''nsid'', ''xrpc'', ''lex'',
      ''lexicon'', ''bsky'', ''bluesky'', ''handle'', ''www'', ''admin'', ''root'', ''mail'',
      ''smtp'', ''imap'', ''webmail'', ''api'', ''oauth'', ''status'', ''help'', ''support'',
      ''docs'', ''blog'', ''news'', ''press'', ''about'', ''contact'', ''login'', ''signup'',
      ''register'', ''account'', ''billing'', ''payments'', ''privacy'', ''terms'',
      ''security'', ''abuse'', ''spam'', ''legal'', ''dmca'']"

definition ensure_handle_service_constraints ::
  "string \<Rightarrow> string list \<Rightarrow> bool \<Rightarrow> handle_error + unit" where
  "ensure_handle_service_constraints handle available_user_domains allow_reserved =
     (case find (\<lambda>domain. ends_with handle domain) (map as_dotted_suffix available_user_domains) of
        None \<Rightarrow> Inl (handle_error InvalidHandle ''Invalid domain'')
      | Some supported_domain \<Rightarrow>
          (let front = take (length handle - length supported_domain) handle in
           if CHR ''.'' \<in> set front then
             Inl (handle_error InvalidHandle ''Invalid characters in handle'')
           else if length front < 3 then Inl (handle_error InvalidHandle ''Handle too short'')
           else if length front > 18 then Inl (handle_error InvalidHandle ''Handle too long'')
           else if \<not> allow_reserved \<and> list_ex (\<lambda>r. r = front) RESERVED_SUBDOMAINS then
             Inl (handle_error HandleNotAvailable ''Reserved handle'')
           else Inr ()))"

definition base_normalize_and_validate ::
  "(string \<Rightarrow> string + string) \<Rightarrow> string \<Rightarrow> handle_error + string" where
  "base_normalize_and_validate normalise handle =
     (case normalise handle of
        Inr normalized \<Rightarrow> Inr normalized
      | Inl e \<Rightarrow> Inl (handle_error InvalidHandle e))"

definition normalize_and_validate_handle ::
  "(string \<Rightarrow> string + string) \<Rightarrow> (string \<Rightarrow> bool) \<Rightarrow> (string \<Rightarrow> bool) \<Rightarrow>
   handle_validation_opts \<Rightarrow> string list \<Rightarrow> handle_error + string" where
  "normalize_and_validate_handle normalise valid_tld slurs opts service_handle_domains =
     (case base_normalize_and_validate normalise (hv_handle opts) of
        Inl e \<Rightarrow> Inl e
      | Inr handle \<Rightarrow>
          if \<not> valid_tld handle then
            Inl (handle_error InvalidHandle ''Handle TLD is invalid or disallowed'')
          else if slurs handle then
            Inl (handle_error InvalidHandle ''Inappropriate language in handle'')
          else if is_service_domain handle service_handle_domains then
            (case ensure_handle_service_constraints handle service_handle_domains
                    (case hv_allow_reserved opts of None \<Rightarrow> False | Some b \<Rightarrow> b) of
               Inl e \<Rightarrow> Inl e
             | Inr _ \<Rightarrow> Inr handle)
          else if hv_did opts = None then
            Inl (handle_error UnsupportedDomain ''Not a supported handle domain'')
          else Inl (handle_error UnsupportedDomain ''Not a supported handle domain''))"

section \<open>What is accepted\<close>

lemma ends_with_take: "ends_with s p \<Longrightarrow> take (length s - length p) s @ p = s"
  by (metis append_take_drop_id ends_with_def)

lemma as_dotted_suffix_dot: "starts_with (as_dotted_suffix d) ''.''"
  by (simp add: as_dotted_suffix_def starts_with_def)

lemma as_dotted_suffix_idem [simp]:
  "as_dotted_suffix (as_dotted_suffix d) = as_dotted_suffix d"
  using as_dotted_suffix_dot [of d] by (simp add: as_dotted_suffix_def)

lemma service_domain_found:
  "is_service_domain h ds \<longleftrightarrow>
   (\<exists>s. find (\<lambda>domain. ends_with h domain) (map as_dotted_suffix ds) = Some s)"
  by (induction ds) (auto simp: is_service_domain_def)

text \<open>The label constraints, as one predicate on the label and the domain it precedes.\<close>

definition good_label :: "bool \<Rightarrow> string \<Rightarrow> bool" where
  "good_label allow_reserved front \<longleftrightarrow>
     CHR ''.'' \<notin> set front \<and> 3 \<le> length front \<and> length front \<le> 18 \<and>
     (allow_reserved \<or> front \<notin> set RESERVED_SUBDOMAINS)"

lemma service_constraints_found:
  assumes "find (\<lambda>domain. ends_with h domain) (map as_dotted_suffix ds) = Some s"
  shows "ensure_handle_service_constraints h ds allow = Inr () \<longleftrightarrow>
         good_label allow (take (length h - length s) h)"
  using assms
  by (auto simp: ensure_handle_service_constraints_def Let_def good_label_def list_ex_iff)

lemma service_constraints_ok:
  "ensure_handle_service_constraints h ds allow = Inr () \<longleftrightarrow>
   (\<exists>s front. find (\<lambda>domain. ends_with h domain) (map as_dotted_suffix ds) = Some s \<and>
      h = front @ s \<and> good_label allow front)"
proof (cases "find (\<lambda>domain. ends_with h domain) (map as_dotted_suffix ds)")
  case None
  then show ?thesis by (simp add: ensure_handle_service_constraints_def)
next
  case (Some s)
  then have "ends_with h s" by (simp add: find_Some_set)
  then have "h = f @ s \<longleftrightarrow> f = take (length h - length s) h" for f
    by (metis ends_with_take append_same_eq)
  with Some show ?thesis by (simp add: service_constraints_found [OF Some])
qed

text \<open>
  The domain a handle is filed under is the first configured one that matches, not the longest:
  the order of the configuration decides.
\<close>

lemma label_under_first_domain:
  assumes "ends_with h (as_dotted_suffix d)"
  shows "ensure_handle_service_constraints h (d # ds) allow = Inr () \<longleftrightarrow>
         good_label allow (take (length h - length (as_dotted_suffix d)) h)"
  using assms by (subst service_constraints_found [where s = "as_dotted_suffix d"]) simp_all

text \<open>C11: A handle is accepted exactly when the library checks pass and, split at the first
  configured service domain it ends with, its label has no dot, 3 to 18 bytes, and is not reserved
  (unless reserved names are allowed); the result is then the normalised handle. In particular
  no handle outside the service domains is ever accepted, with or without a DID.\<close>

theorem normalize_and_validate_handle_accepts:
  "normalize_and_validate_handle normalise valid_tld slurs opts ds = Inr h \<longleftrightarrow>
   normalise (hv_handle opts) = Inr h \<and> valid_tld h \<and> \<not> slurs h \<and>
   (\<exists>s front. find (\<lambda>domain. ends_with h domain) (map as_dotted_suffix ds) = Some s \<and>
      h = front @ s \<and> good_label (hv_allow_reserved opts = Some True) front)"
proof -
  have r: "(case hv_allow_reserved opts of None \<Rightarrow> False | Some b \<Rightarrow> b) \<longleftrightarrow>
      hv_allow_reserved opts = Some True"
    by (cases "hv_allow_reserved opts") auto
  show ?thesis
  proof
    assume "normalize_and_validate_handle normalise valid_tld slurs opts ds = Inr h"
    then show "normalise (hv_handle opts) = Inr h \<and> valid_tld h \<and> \<not> slurs h \<and>
      (\<exists>s front. find (\<lambda>domain. ends_with h domain) (map as_dotted_suffix ds) = Some s \<and>
        h = front @ s \<and> good_label (hv_allow_reserved opts = Some True) front)"
      unfolding service_constraints_ok [symmetric]
      by (auto simp: normalize_and_validate_handle_def base_normalize_and_validate_def r
          split: sum.splits if_splits)
  next
    assume "normalise (hv_handle opts) = Inr h \<and> valid_tld h \<and> \<not> slurs h \<and>
      (\<exists>s front. find (\<lambda>domain. ends_with h domain) (map as_dotted_suffix ds) = Some s \<and>
        h = front @ s \<and> good_label (hv_allow_reserved opts = Some True) front)"
    moreover from this have "is_service_domain h ds" by (auto simp: service_domain_found)
    ultimately show "normalize_and_validate_handle normalise valid_tld slurs opts ds = Inr h"
      unfolding service_constraints_ok [symmetric]
      by (simp add: normalize_and_validate_handle_def base_normalize_and_validate_def r)
  qed
qed

end
