(* ===== verification/Externals.thy ===== *)
theory Externals
  imports Prelude
begin

text \<open>
  The functions of packages outside the repository that the modelled code calls, as one record
  that the model's operations take: the time-stamp formatter and parsers of chrono and
  rsky-common, Unicode case mapping, argon2, SHA-256/base64, and jwt-simple's signing and
  verification. The clock is an argument \<open>now\<close> of the operations that read it, in microseconds
  since the epoch; random strings are arguments as well. What the code relies on is stated as
  the predicates \<open>timestamps_ok\<close>, \<open>passwords_ok\<close> and \<open>jwt_ok\<close>, hypotheses of the theorems that
  need them; \<open>demo_ext\<close> is a concrete record that satisfies them and serves in witnesses.
\<close>

datatype jwt_error = TokenHasExpired | OtherJwtError string

datatype audiences = AsSet "string list" | AsString string

text \<open>What \<open>Claims::with_custom_claims(..).with_audience(..).with_subject(..)\<close> asks for.\<close>

record token_request =
  tq_scope :: string
  tq_valid_for :: int \<comment> \<open>seconds\<close>
  tq_audience :: string
  tq_subject :: string
  tq_jwt_id :: "string option"

text \<open>The claims of a verified token. \<open>cl_expires_at\<close> is \<open>as_millis()\<close> of its duration.\<close>

record jwt_claims =
  cl_scope :: string
  cl_subject :: "string option"
  cl_audiences :: "audiences option"
  cl_expires_at :: "int option"
  cl_issued_at :: "int option"
  cl_jwt_id :: "string option"

record verification_options =
  vo_allowed_audiences :: "string list option"
  vo_max_validity :: "nat option"

record ext =
  fmt_ts :: "int \<Rightarrow> string"
  ts_in_range :: "int \<Rightarrow> bool"
  from_str_to_micros :: "string \<Rightarrow> int option"
  from_str_to_utc :: "string \<Rightarrow> int option"
  less_than_ago_s :: "int \<Rightarrow> int \<Rightarrow> int \<Rightarrow> bool"
  MINUTE :: int
  to_lowercase :: "string \<Rightarrow> string"
  to_uppercase :: "string \<Rightarrow> string"
  argon2_hash :: "string \<Rightarrow> string \<Rightarrow> string option"
  argon2_verify :: "string \<Rightarrow> string \<Rightarrow> bool option"
  sha256_base64 :: "string \<Rightarrow> string"
  jwt_sign :: "int \<Rightarrow> token_request \<Rightarrow> string option"
  jwt_verify :: "int \<Rightarrow> verification_options option \<Rightarrow> string \<Rightarrow> jwt_error + jwt_claims"

definition now_secs :: "int \<Rightarrow> int" where
  "now_secs now = now div 1000000"

section \<open>What the code relies on\<close>

text \<open>
  RFC 3339 time stamps of fixed width: their string order is the order of their milliseconds,
  and parsing a formatted time gives it back to the millisecond.
\<close>

definition timestamps_ok :: "ext \<Rightarrow> bool" where
  "timestamps_ok ext \<longleftrightarrow>
     (\<forall>s t. ts_in_range ext s \<longrightarrow> ts_in_range ext t \<longrightarrow>
        (fmt_ts ext s \<le> fmt_ts ext t) = (s div 1000 \<le> t div 1000)) \<and>
     (\<forall>t. ts_in_range ext t \<longrightarrow>
        from_str_to_micros ext (fmt_ts ext t) = Some (t div 1000 * 1000) \<and>
        from_str_to_utc ext (fmt_ts ext t) = Some (t div 1000 * 1000))"

text \<open>A hash verifies against exactly the password it was made from.\<close>

definition passwords_ok :: "ext \<Rightarrow> bool" where
  "passwords_ok ext \<longleftrightarrow>
     (\<forall>salt p h q. argon2_hash ext salt p = Some h \<longrightarrow> argon2_verify ext q h = Some (q = p))"

text \<open>
  A token just signed verifies with no extra options and carries the requested claims, its
  expiry being the clock in whole seconds plus the requested validity.
\<close>

definition jwt_ok :: "ext \<Rightarrow> bool" where
  "jwt_ok ext \<longleftrightarrow>
     (\<forall>now req jwt. jwt_sign ext now req = Some jwt \<longrightarrow> 0 < tq_valid_for req \<longrightarrow>
        jwt_verify ext now None jwt =
          Inr \<lparr>cl_scope = tq_scope req, cl_subject = Some (tq_subject req),
               cl_audiences = Some (AsString (tq_audience req)),
               cl_expires_at = Some ((now_secs now + tq_valid_for req) * 1000),
               cl_issued_at = Some (now_secs now * 1000), cl_jwt_id = tq_jwt_id req\<rparr>)"

lemma timestamps_le:
  "timestamps_ok ext \<Longrightarrow> ts_in_range ext s \<Longrightarrow> ts_in_range ext t \<Longrightarrow>
   fmt_ts ext s \<le> fmt_ts ext t \<longleftrightarrow> s div 1000 \<le> t div 1000"
  by (simp add: timestamps_ok_def)

lemma timestamps_parse:
  "timestamps_ok ext \<Longrightarrow> ts_in_range ext t \<Longrightarrow>
   from_str_to_micros ext (fmt_ts ext t) = Some (t div 1000 * 1000)"
  by (simp add: timestamps_ok_def)

lemma timestamps_parse_utc:
  "timestamps_ok ext \<Longrightarrow> ts_in_range ext t \<Longrightarrow>
   from_str_to_utc ext (fmt_ts ext t) = Some (t div 1000 * 1000)"
  by (simp add: timestamps_ok_def)

section \<open>A concrete environment\<close>

text \<open>
  Time stamps are 15 decimal digits of milliseconds, a hash is the salt, a separator and the
  password, and a token is the printed request with its signing time. Only its laws matter.
\<close>

definition demo_claims :: "int \<Rightarrow> token_request \<Rightarrow> jwt_claims" where
  "demo_claims now req =
     \<lparr>cl_scope = tq_scope req, cl_subject = Some (tq_subject req),
      cl_audiences = Some (AsString (tq_audience req)),
      cl_expires_at = Some ((now_secs now + tq_valid_for req) * 1000),
      cl_issued_at = Some (now_secs now * 1000), cl_jwt_id = tq_jwt_id req\<rparr>"

definition demo_sign :: "int \<Rightarrow> token_request \<Rightarrow> string option" where
  "demo_sign now req =
     (if 0 \<le> now \<and> now < 10 ^ 18 \<and> 0 < tq_valid_for req \<and> tq_valid_for req < 10 ^ 9 \<and>
         CHR ''|'' \<notin> set (tq_scope req) \<and> CHR ''|'' \<notin> set (tq_audience req) \<and>
         CHR ''|'' \<notin> set (tq_subject req) \<and> (\<forall>j \<in> set_option (tq_jwt_id req). CHR ''|'' \<notin> set j)
      then Some (join_with ''|''
        ([pad_dec 18 (nat now), pad_dec 9 (nat (tq_valid_for req)), tq_scope req,
          tq_audience req, tq_subject req] @
         (case tq_jwt_id req of None \<Rightarrow> [] | Some j \<Rightarrow> [j])))
      else None)"

definition demo_parse :: "string \<Rightarrow> (int \<times> token_request) option" where
  "demo_parse jwt =
     (case split_on (CHR ''|'') jwt of
        [n, v, s, a, d] \<Rightarrow> Some (int (read_dec n), \<lparr>tq_scope = s, tq_valid_for = int (read_dec v),
            tq_audience = a, tq_subject = d, tq_jwt_id = None\<rparr>)
      | [n, v, s, a, d, j] \<Rightarrow> Some (int (read_dec n), \<lparr>tq_scope = s, tq_valid_for = int (read_dec v),
            tq_audience = a, tq_subject = d, tq_jwt_id = Some j\<rparr>)
      | _ \<Rightarrow> None)"

definition demo_verify :: "int \<Rightarrow> verification_options option \<Rightarrow> string \<Rightarrow> jwt_error + jwt_claims" where
  "demo_verify now opts jwt =
     (case demo_parse jwt of
        None \<Rightarrow> Inl (OtherJwtError ''malformed'')
      | Some (n, req) \<Rightarrow>
          if now_secs n + tq_valid_for req \<le> now_secs now then Inl TokenHasExpired
          else if (case opts of None \<Rightarrow> True | Some o' \<Rightarrow>
                     (case vo_allowed_audiences o' of None \<Rightarrow> True
                      | Some as \<Rightarrow> tq_audience req \<in> set as))
          then Inr (demo_claims n req)
          else Inl (OtherJwtError ''audience''))"

definition demo_ext :: ext where
  "demo_ext =
     \<lparr>fmt_ts = (\<lambda>t. pad_dec 15 (nat (t div 1000))),
      ts_in_range = (\<lambda>t. 0 \<le> t \<and> t < 10 ^ 18),
      from_str_to_micros = (\<lambda>s. Some (int (read_dec s) * 1000)),
      from_str_to_utc = (\<lambda>s. Some (int (read_dec s) * 1000)),
      less_than_ago_s = (\<lambda>now t r. now_secs now < now_secs t + r),
      MINUTE = 60000,
      to_lowercase = ascii_lower,
      to_uppercase = map (\<lambda>c. if ascii_lowercase c then char_of (of_char c - 32 :: nat) else c),
      argon2_hash = (\<lambda>salt p. if CHR ''|'' \<in> set salt then None else Some (salt @ ''|'' @ p)),
      argon2_verify = (\<lambda>q h. if CHR ''|'' \<notin> set h then None
                             else Some (tl (dropWhile (\<lambda>c. c \<noteq> CHR ''|'') h) = q)),
      sha256_base64 = (\<lambda>s. s),
      jwt_sign = demo_sign,
      jwt_verify = demo_verify\<rparr>"

lemma demo_timestamps: "timestamps_ok demo_ext"
proof -
  have b: "nat (t div 1000) < 10 ^ 15" if "0 \<le> t" "t < 10 ^ 18" for t :: int
    using that by (simp add: nat_less_iff)
  show ?thesis
    by (auto simp: timestamps_ok_def demo_ext_def pad_dec_le b read_pad_dec nat_le_eq_zle)
qed

lemma demo_passwords: "passwords_ok demo_ext"
proof -
  have "dropWhile (\<lambda>c. c \<noteq> CHR ''|'') (salt @ CHR ''|'' # p) = CHR ''|'' # p"
    if "CHR ''|'' \<notin> set salt" for salt p
    using that by (induction salt) auto
  then show ?thesis
    by (auto simp: passwords_ok_def demo_ext_def split: if_splits)
qed

lemma demo_digits_no_bar: "CHR ''|'' \<notin> set (pad_dec k n)"
proof (induction k arbitrary: n)
  case (Suc k)
  have "digit_char (n mod 10) \<noteq> CHR ''|''"
  proof
    assume "digit_char (n mod 10) = CHR ''|''"
    then have "(of_char (digit_char (n mod 10)) :: nat) = 124" by simp
    moreover have "n mod 10 < 10" by simp
    ultimately show False by (simp add: of_digit_char)
  qed
  with Suc show ?case by auto
qed simp

lemma demo_parse_sign:
  assumes "demo_sign now req = Some jwt"
  shows "demo_parse jwt = Some (now, req)"
proof -
  have bounds: "0 \<le> now" "now < 10 ^ 18" "0 < tq_valid_for req" "tq_valid_for req < 10 ^ 9"
    using assms by (auto simp: demo_sign_def split: if_splits)
  have n: "int (read_dec (pad_dec 18 (nat now))) = now"
    using bounds by (subst read_pad_dec) (simp_all add: nat_less_iff)
  have v: "int (read_dec (pad_dec 9 (nat (tq_valid_for req)))) = tq_valid_for req"
    using bounds by (subst read_pad_dec) (simp_all add: nat_less_iff)
  show ?thesis
    using assms
    by (cases "tq_jwt_id req")
      (auto simp: demo_sign_def demo_parse_def split_on_append split_on_no_sep
        demo_digits_no_bar n v simp del: pad_dec.simps split: if_splits)
qed

lemma demo_jwt: "jwt_ok demo_ext"
  by (auto simp: jwt_ok_def demo_ext_def demo_verify_def demo_claims_def demo_parse_sign)

lemmas demo_ext_ok = demo_timestamps demo_passwords demo_jwt

end
