(* ===== verification/Account_Db.thy ===== *)
theory Account_Db
  imports Externals
begin

text \<open>
  The account database: one record per row of each table that the account crate reads or
  writes (\<open>migration/src/m20260801_000001_account.rs\<close> with the columns added by migrations
  000006, 000007 and 000008), the database as the record of its tables, and \<open>wf_db\<close>, the
  primary keys, unique indexes and foreign keys of the schema. SQLite enforces them: a
  statement that would break one fails with a \<open>db_err\<close> and changes nothing. Failures of the
  file system or of the connection pool are not modelled. The theory also holds the error
  type of the crate (its \<open>anyhow::Error\<close> values) and the frame lemmas for the tables.
\<close>

section \<open>Rows\<close>

record actor_row =
  a_did :: string
  a_handle :: "string option"
  a_created_at :: string
  a_takedown_ref :: "string option"
  a_deactivated_at :: "string option"
  a_delete_after :: "string option"
  a_plc_rotation_keys_migrated :: int

record account_row =
  ac_did :: string
  ac_email :: string
  ac_recovery_key :: "string option"
  ac_password :: string
  ac_created_at :: string
  ac_invites_disabled :: int
  ac_email_confirmed_at :: "string option"
  ac_invite_note :: "string option"
  ac_failed_login_count :: int
  ac_locked_until :: "int option"

record app_password_row =
  ap_did :: string
  ap_name :: string
  ap_password :: string
  ap_created_at :: string
  ap_privileged :: int

record refresh_token_row =
  rt_id :: string
  rt_did :: string
  rt_expires_at :: string
  rt_next_id :: "string option"
  rt_app_password_name :: "string option"

record repo_root_row =
  rr_did :: string
  rr_cid :: string
  rr_rev :: string
  rr_indexed_at :: string

record invite_code_row =
  ic_code :: string
  ic_available_uses :: int
  ic_disabled :: int
  ic_for_account :: string
  ic_created_by :: string
  ic_created_at :: string

record invite_code_use_row =
  iu_code :: string
  iu_used_by :: string
  iu_used_at :: string

record email_token_row =
  et_purpose :: string
  et_did :: string
  et_token :: string
  et_requested_at :: string

text \<open>\<open>DbId\<close> surrogate keys (16 bytes) are strings of bytes here; only equality is used.\<close>

record authorization_request_row =
  ar_id :: string
  ar_request_id :: string
  ar_did :: "string option"
  ar_device_id :: "string option"
  ar_external_device_id :: "string option"
  ar_client_id :: string
  ar_client_auth :: string
  ar_parameters :: string
  ar_expires_at :: int
  ar_code :: "string option"

record device_row =
  dv_id :: string
  dv_device_id :: string
  dv_session_id :: string
  dv_user_agent :: "string option"
  dv_ip_address :: string
  dv_last_seen_at :: int

record account_device_row =
  ad_did :: string
  ad_device_id :: string
  ad_created_at :: int
  ad_updated_at :: int

record authorized_client_row =
  acl_did :: string
  acl_client_id :: string
  acl_created_at :: int
  acl_updated_at :: int
  acl_data :: string

record token_row =
  tk_id :: string
  tk_did :: string
  tk_token_id :: string
  tk_created_at :: int
  tk_updated_at :: int
  tk_expires_at :: int
  tk_client_id :: string
  tk_client_auth :: string
  tk_device_id :: "string option"
  tk_external_device_id :: "string option"
  tk_parameters :: string
  tk_details :: "string option"
  tk_code :: "string option"
  tk_current_refresh_token :: "string option"
  tk_scope :: "string option"

record used_refresh_token_row =
  ur_refresh_token :: string
  ur_token_id :: string

record consent_state_row =
  cs_request_id :: string
  cs_state :: string
  cs_expires_at :: string

record dpop_replay_row =
  dr_jti :: string
  dr_expires_at :: int

section \<open>The database\<close>

record account_db =
  actors :: "actor_row list"
  accounts :: "account_row list"
  app_passwords :: "app_password_row list"
  refresh_tokens :: "refresh_token_row list"
  repo_roots :: "repo_root_row list"
  invite_codes :: "invite_code_row list"
  invite_code_uses :: "invite_code_use_row list"
  email_tokens :: "email_token_row list"
  authorization_requests :: "authorization_request_row list"
  devices :: "device_row list"
  account_devices :: "account_device_row list"
  authorized_clients :: "authorized_client_row list"
  tokens :: "token_row list"
  used_refresh_tokens :: "used_refresh_token_row list"
  consent_states :: "consent_state_row list"
  dpop_replays :: "dpop_replay_row list"

definition empty_db :: account_db where
  "empty_db = \<lparr>actors = [], accounts = [], app_passwords = [], refresh_tokens = [],
     repo_roots = [], invite_codes = [], invite_code_uses = [], email_tokens = [],
     authorization_requests = [], devices = [], account_devices = [], authorized_clients = [],
     tokens = [], used_refresh_tokens = [], consent_states = [], dpop_replays = []\<rparr>"

section \<open>Keys of the schema\<close>

definition handle_key :: "actor_row \<Rightarrow> string option" where
  "handle_key r = map_option ascii_lower (a_handle r)"

definition actor_keys :: "actor_row list \<Rightarrow> bool" where
  "actor_keys t \<longleftrightarrow> uniq a_did t \<and> uniq_some handle_key t"

definition email_key :: "account_row \<Rightarrow> string" where
  "email_key r = ascii_lower (ac_email r)"

definition account_keys :: "account_row list \<Rightarrow> bool" where
  "account_keys t \<longleftrightarrow> uniq ac_did t \<and> uniq email_key t"

definition app_password_key :: "app_password_row \<Rightarrow> string \<times> string" where
  "app_password_key r = (ap_did r, ap_name r)"

definition invite_code_use_key :: "invite_code_use_row \<Rightarrow> string \<times> string" where
  "invite_code_use_key r = (iu_code r, iu_used_by r)"

definition email_token_key :: "email_token_row \<Rightarrow> string \<times> string" where
  "email_token_key r = (et_purpose r, et_did r)"

definition email_token_value_key :: "email_token_row \<Rightarrow> string \<times> string" where
  "email_token_value_key r = (et_purpose r, et_token r)"

definition email_token_keys :: "email_token_row list \<Rightarrow> bool" where
  "email_token_keys t \<longleftrightarrow> uniq email_token_key t \<and> uniq email_token_value_key t"

definition request_keys :: "authorization_request_row list \<Rightarrow> bool" where
  "request_keys t \<longleftrightarrow> uniq ar_id t \<and> uniq ar_request_id t \<and> uniq_some ar_code t"

definition device_keys :: "device_row list \<Rightarrow> bool" where
  "device_keys t \<longleftrightarrow> uniq dv_id t \<and> uniq dv_device_id t \<and> uniq dv_session_id t"

definition account_device_key :: "account_device_row \<Rightarrow> string \<times> string" where
  "account_device_key r = (ad_device_id r, ad_did r)"

definition authorized_client_key :: "authorized_client_row \<Rightarrow> string \<times> string" where
  "authorized_client_key r = (acl_did r, acl_client_id r)"

definition token_keys :: "token_row list \<Rightarrow> bool" where
  "token_keys t \<longleftrightarrow> uniq tk_id t \<and> uniq tk_token_id t \<and> uniq_some tk_code t \<and>
     uniq_some tk_current_refresh_token t"

definition consent_keys :: "consent_state_row list \<Rightarrow> bool" where
  "consent_keys t \<longleftrightarrow> uniq cs_request_id t \<and> uniq cs_state t"

definition foreign_keys :: "account_db \<Rightarrow> bool" where
  "foreign_keys db \<longleftrightarrow>
     ad_did ` set (account_devices db) \<subseteq> ac_did ` set (accounts db) \<and>
     ad_device_id ` set (account_devices db) \<subseteq> dv_id ` set (devices db) \<and>
     acl_did ` set (authorized_clients db) \<subseteq> ac_did ` set (accounts db) \<and>
     ur_token_id ` set (used_refresh_tokens db) \<subseteq> tk_id ` set (tokens db)"

definition wf_db :: "account_db \<Rightarrow> bool" where
  "wf_db db \<longleftrightarrow>
     actor_keys (actors db) \<and> account_keys (accounts db) \<and>
     uniq app_password_key (app_passwords db) \<and> uniq rt_id (refresh_tokens db) \<and>
     uniq rr_did (repo_roots db) \<and> uniq ic_code (invite_codes db) \<and>
     uniq invite_code_use_key (invite_code_uses db) \<and> email_token_keys (email_tokens db) \<and>
     request_keys (authorization_requests db) \<and> device_keys (devices db) \<and>
     uniq account_device_key (account_devices db) \<and>
     uniq authorized_client_key (authorized_clients db) \<and> token_keys (tokens db) \<and>
     uniq ur_refresh_token (used_refresh_tokens db) \<and> consent_keys (consent_states db) \<and>
     uniq dr_jti (dpop_replays db) \<and> foreign_keys db"

lemmas schema_defs = wf_db_def foreign_keys_def actor_keys_def account_keys_def
  email_token_keys_def request_keys_def device_keys_def token_keys_def consent_keys_def

lemma wf_empty_db: "wf_db empty_db"
  by (simp add: schema_defs empty_db_def)

section \<open>Errors\<close>

datatype db_err = UniqueViolation string | ForeignKeyViolation string

datatype account_error =
    UserAlreadyExistsError
  | AccountLocked
  | ConcurrentRefresh
  | NotARefreshToken
  | MissingRefreshClaim string
  | RevRegression string string
  | InviteNotAvailable string
  | InviteNotEnoughUses string
  | DuplicateCreate
  | TokenExpired
  | TokenInvalid
  | AppPasswordNotCreated
  | InvalidAuthScope string
  | InvalidEmailTokenPurpose string
  | TimestampOutOfRange
  | TimestampUnparseable string
  | PasswordHashError
  | Jwt jwt_error
  | JwtSignError
  | Database db_err
  | Panic string

text \<open>
  A statement on one table: its result and the new table. When the statement fails the
  database stays as it was.
\<close>

definition commit_if :: "bool \<Rightarrow> db_err \<Rightarrow> account_db \<Rightarrow> account_db \<Rightarrow> (account_error + unit) \<times> account_db" where
  "commit_if ok e db' db = (if ok then (Inr (), db') else (Inl (Database e), db))"

lemma commit_if_wf: "wf_db db \<Longrightarrow> (ok \<Longrightarrow> wf_db db') \<Longrightarrow> wf_db (snd (commit_if ok e db' db))"
  by (simp add: commit_if_def)

lemma commit_if_simps [simp]:
  "commit_if True e db' db = (Inr (), db')"
  "commit_if False e db' db = (Inl (Database e), db)"
  by (simp_all add: commit_if_def)

section \<open>Frame lemmas\<close>

text \<open>
  A table can be replaced by one with the same keys. Deleting accounts, devices or tokens is
  the exception, because of the foreign keys: those lemmas ask for the cascade.
\<close>

lemma wf_actors: "wf_db db \<Longrightarrow> actor_keys t \<Longrightarrow> wf_db (db\<lparr>actors := t\<rparr>)"
  by (simp add: wf_db_def foreign_keys_def)

lemma wf_accounts:
  "wf_db db \<Longrightarrow> account_keys t \<Longrightarrow> ac_did ` set (accounts db) \<subseteq> ac_did ` set t \<Longrightarrow>
   wf_db (db\<lparr>accounts := t\<rparr>)"
  unfolding wf_db_def foreign_keys_def by (simp, meson subset_trans)

lemma wf_app_passwords:
  "wf_db db \<Longrightarrow> uniq app_password_key t \<Longrightarrow> wf_db (db\<lparr>app_passwords := t\<rparr>)"
  by (simp add: wf_db_def foreign_keys_def)

lemma wf_refresh_tokens: "wf_db db \<Longrightarrow> uniq rt_id t \<Longrightarrow> wf_db (db\<lparr>refresh_tokens := t\<rparr>)"
  by (simp add: wf_db_def foreign_keys_def)

lemma wf_repo_roots: "wf_db db \<Longrightarrow> uniq rr_did t \<Longrightarrow> wf_db (db\<lparr>repo_roots := t\<rparr>)"
  by (simp add: wf_db_def foreign_keys_def)

lemma wf_invite_codes: "wf_db db \<Longrightarrow> uniq ic_code t \<Longrightarrow> wf_db (db\<lparr>invite_codes := t\<rparr>)"
  by (simp add: wf_db_def foreign_keys_def)

lemma wf_invite_code_uses:
  "wf_db db \<Longrightarrow> uniq invite_code_use_key t \<Longrightarrow> wf_db (db\<lparr>invite_code_uses := t\<rparr>)"
  by (simp add: wf_db_def foreign_keys_def)

lemma wf_email_tokens: "wf_db db \<Longrightarrow> email_token_keys t \<Longrightarrow> wf_db (db\<lparr>email_tokens := t\<rparr>)"
  by (simp add: wf_db_def foreign_keys_def)

lemma wf_authorization_requests:
  "wf_db db \<Longrightarrow> request_keys t \<Longrightarrow> wf_db (db\<lparr>authorization_requests := t\<rparr>)"
  by (simp add: wf_db_def foreign_keys_def)

lemma wf_devices:
  "wf_db db \<Longrightarrow> device_keys t \<Longrightarrow> dv_id ` set (devices db) \<subseteq> dv_id ` set t \<Longrightarrow>
   wf_db (db\<lparr>devices := t\<rparr>)"
  unfolding wf_db_def foreign_keys_def by (simp, meson subset_trans)

lemma wf_account_devices:
  "wf_db db \<Longrightarrow> uniq account_device_key t \<Longrightarrow> ad_did ` set t \<subseteq> ac_did ` set (accounts db) \<Longrightarrow>
   ad_device_id ` set t \<subseteq> dv_id ` set (devices db) \<Longrightarrow> wf_db (db\<lparr>account_devices := t\<rparr>)"
  by (simp add: wf_db_def foreign_keys_def)

lemma wf_authorized_clients:
  "wf_db db \<Longrightarrow> uniq authorized_client_key t \<Longrightarrow> acl_did ` set t \<subseteq> ac_did ` set (accounts db) \<Longrightarrow>
   wf_db (db\<lparr>authorized_clients := t\<rparr>)"
  by (simp add: wf_db_def foreign_keys_def)

lemma wf_tokens:
  "wf_db db \<Longrightarrow> token_keys t \<Longrightarrow> tk_id ` set (tokens db) \<subseteq> tk_id ` set t \<Longrightarrow>
   wf_db (db\<lparr>tokens := t\<rparr>)"
  unfolding wf_db_def foreign_keys_def by (simp, meson subset_trans)

lemma wf_used_refresh_tokens:
  "wf_db db \<Longrightarrow> uniq ur_refresh_token t \<Longrightarrow> ur_token_id ` set t \<subseteq> tk_id ` set (tokens db) \<Longrightarrow>
   wf_db (db\<lparr>used_refresh_tokens := t\<rparr>)"
  by (simp add: wf_db_def foreign_keys_def)

lemma wf_dpop_replays: "wf_db db \<Longrightarrow> uniq dr_jti t \<Longrightarrow> wf_db (db\<lparr>dpop_replays := t\<rparr>)"
  by (simp add: wf_db_def foreign_keys_def)

lemmas wf_tables = wf_actors wf_accounts wf_app_passwords wf_refresh_tokens wf_repo_roots
  wf_invite_codes wf_invite_code_uses wf_email_tokens wf_authorization_requests wf_devices
  wf_account_devices wf_authorized_clients wf_tokens wf_used_refresh_tokens wf_dpop_replays

lemma wf_dbD:
  assumes "wf_db db"
  shows "actor_keys (actors db)" "account_keys (accounts db)"
    "uniq app_password_key (app_passwords db)" "uniq rt_id (refresh_tokens db)"
    "uniq rr_did (repo_roots db)" "uniq ic_code (invite_codes db)"
    "uniq invite_code_use_key (invite_code_uses db)" "email_token_keys (email_tokens db)"
    "request_keys (authorization_requests db)" "device_keys (devices db)"
    "uniq account_device_key (account_devices db)"
    "uniq authorized_client_key (authorized_clients db)" "token_keys (tokens db)"
    "uniq ur_refresh_token (used_refresh_tokens db)" "uniq dr_jti (dpop_replays db)"
    "foreign_keys db"
  using assms by (simp_all add: wf_db_def)

lemma actor_keys_update:
  "actor_keys t \<Longrightarrow> \<forall>r. a_did (f r) = a_did r \<Longrightarrow> \<forall>r. a_handle (f r) = a_handle r \<Longrightarrow>
   actor_keys (update_where p f t)"
  by (simp add: actor_keys_def handle_key_def uniq_update uniq_some_update)

lemma account_keys_update:
  "account_keys t \<Longrightarrow> \<forall>r. ac_did (f r) = ac_did r \<Longrightarrow> \<forall>r. ac_email (f r) = ac_email r \<Longrightarrow>
   account_keys (update_where p f t)"
  by (simp add: account_keys_def email_key_def uniq_update)

lemma email_token_keys_delete: "email_token_keys t \<Longrightarrow> email_token_keys (delete_where p t)"
  by (simp add: email_token_keys_def uniq_delete)

lemma image_update_where: "\<forall>r. k (f r) = k r \<Longrightarrow> k ` set (update_where p f t) = k ` set t"
  by (induction t) auto

text \<open>Updating the account row of one DID, keeping its DID and address.\<close>

lemma wf_update_account:
  assumes "wf_db db" and "\<forall>r. ac_did (f r) = ac_did r" and "\<forall>r. ac_email (f r) = ac_email r"
  shows "wf_db (db\<lparr>accounts := update_where p f (accounts db)\<rparr>)"
  using assms
  by (intro wf_accounts account_keys_update) (simp_all add: wf_dbD image_update_where)

lemma wf_update_actor:
  assumes "wf_db db" and "\<forall>r. a_did (f r) = a_did r" and "\<forall>r. a_handle (f r) = a_handle r"
  shows "wf_db (db\<lparr>actors := update_where p f (actors db)\<rparr>)"
  using assms by (intro wf_actors actor_keys_update) (simp_all add: wf_dbD)

lemma wf_delete_refresh_tokens:
  "wf_db db \<Longrightarrow> wf_db (db\<lparr>refresh_tokens := delete_where p (refresh_tokens db)\<rparr>)"
  by (intro wf_refresh_tokens uniq_delete) (simp_all add: wf_dbD)

lemma wf_delete_email_tokens:
  "wf_db db \<Longrightarrow> wf_db (db\<lparr>email_tokens := delete_where p (email_tokens db)\<rparr>)"
  by (intro wf_email_tokens email_token_keys_delete) (simp_all add: wf_dbD)

end
