(* ===== verification/Accounts.thy ===== *)
theory Accounts
  imports Account_Db
begin

text \<open>
  The account helper (\<open>cacos-pds-account/src/account/helpers/account.rs\<close>): actors and
  accounts, handle, address, takedown and deactivation, and the failed-login counter. Each
  definition is one function of the file with its SQL read as an operation on the tables.
  The lemmas: every operation keeps \<open>wf_db\<close>; what a lookup returns after each operation; the
  outcome of registration, of a handle change and of an address change on every branch.
\<close>

record availability_flags =
  include_taken_down :: "bool option"
  include_deactivated :: "bool option"

datatype account_status =
  Active | Takendown | Suspended | Deleted | Deactivated | Desynchronized | Throttled

datatype lex_account_status =
  LexTakendown | LexSuspended | LexDeleted | LexDeactivated | LexThrottled

fun lex_status :: "account_status \<Rightarrow> bool \<times> lex_account_status option" where
  "lex_status Active = (True, None)"
| "lex_status Deactivated = (False, Some LexDeactivated)"
| "lex_status Takendown = (False, Some LexTakendown)"
| "lex_status Suspended = (False, Some LexSuspended)"
| "lex_status Deleted = (False, Some LexDeleted)"
| "lex_status Desynchronized = (False, None)"
| "lex_status Throttled = (True, Some LexThrottled)"

record formatted_account_status =
  fs_active :: bool
  fs_status :: "account_status option"

record status_attr =
  sa_applied :: bool
  sa_ref :: "string option"

record admin_status_output =
  as_takedown :: status_attr
  as_deactivated :: status_attr

record actor_account =
  aa_did :: string
  aa_handle :: "string option"
  aa_created_at :: string
  aa_takedown_ref :: "string option"
  aa_deactivated_at :: "string option"
  aa_delete_after :: "string option"
  aa_email :: "string option"
  aa_email_confirmed_at :: "string option"
  aa_invites_disabled :: "int option"

section \<open>Lookups\<close>

text \<open>\<open>FROM actor LEFT JOIN account ON actor.did = account.did\<close>.\<close>

definition actor_left_join_account :: "account_db \<Rightarrow> (actor_row \<times> account_row option) list" where
  "actor_left_join_account db =
     concat (map (\<lambda>a.
       (case filter (\<lambda>c. ac_did c = a_did a) (accounts db) of
          [] \<Rightarrow> [(a, None)]
        | cs \<Rightarrow> map (\<lambda>c. (a, Some c)) cs)) (actors db))"

definition availability_conditions :: "availability_flags option \<Rightarrow> actor_row \<Rightarrow> bool" where
  "availability_conditions flags a =
     (let f = (case flags of
                 Some f \<Rightarrow> f
               | None \<Rightarrow> \<lparr>include_taken_down = Some False, include_deactivated = Some False\<rparr>)
      in (include_taken_down f = Some True \<or> a_takedown_ref a = None) \<and>
         (include_deactivated f = Some True \<or> a_deactivated_at a = None))"

definition actor_account_from_row :: "actor_row \<times> account_row option \<Rightarrow> actor_account" where
  "actor_account_from_row r = (case r of (a, c) \<Rightarrow>
     \<lparr>aa_did = a_did a, aa_handle = a_handle a, aa_created_at = a_created_at a,
      aa_takedown_ref = a_takedown_ref a, aa_deactivated_at = a_deactivated_at a,
      aa_delete_after = a_delete_after a, aa_email = map_option ac_email c,
      aa_email_confirmed_at = Option.bind c ac_email_confirmed_at,
      aa_invites_disabled = map_option ac_invites_disabled c\<rparr>)"

definition get_account ::
  "string \<Rightarrow> availability_flags option \<Rightarrow> account_db \<Rightarrow> actor_account option" where
  "get_account handle_or_did flags db =
     map_option actor_account_from_row
       (find (\<lambda>(a, c).
          (if starts_with handle_or_did ''did:'' then a_did a = handle_or_did
           else a_handle a = Some handle_or_did) \<and>
          availability_conditions flags a) (actor_left_join_account db))"

definition get_account_by_email ::
  "ext \<Rightarrow> string \<Rightarrow> availability_flags option \<Rightarrow> account_db \<Rightarrow> actor_account option" where
  "get_account_by_email ext email flags db =
     map_option actor_account_from_row
       (find (\<lambda>(a, c).
          map_option ac_email c = Some (to_lowercase ext email) \<and>
          availability_conditions flags a) (actor_left_join_account db))"

section \<open>Registration and deletion\<close>

definition register_actor ::
  "ext \<Rightarrow> int \<Rightarrow> string \<Rightarrow> string \<Rightarrow> bool option \<Rightarrow> account_db \<Rightarrow> (account_error + unit) \<times> account_db" where
  "register_actor ext now did handle deactivated db =
     (let created_at = fmt_ts ext now;
          row = \<lparr>a_did = did, a_handle = Some handle, a_created_at = created_at,
                 a_takedown_ref = None,
                 a_deactivated_at = (if deactivated = Some True then Some created_at else None),
                 a_delete_after = None, a_plc_rotation_keys_migrated = 0\<rparr>
      in if has_row (\<lambda>r. a_did r = did) (actors db) then (Inl UserAlreadyExistsError, db)
         else commit_if (\<not> has_row (\<lambda>r. handle_key r = handle_key row) (actors db))
           (UniqueViolation ''actor_handle_lower_idx'') (db\<lparr>actors := actors db @ [row]\<rparr>) db)"

definition register_account ::
  "ext \<Rightarrow> int \<Rightarrow> string \<Rightarrow> string \<Rightarrow> string \<Rightarrow> string option \<Rightarrow> account_db \<Rightarrow>
   (account_error + unit) \<times> account_db" where
  "register_account ext now did email password recovery_key db =
     (let row = \<lparr>ac_did = did, ac_email = email, ac_recovery_key = recovery_key,
                 ac_password = password, ac_created_at = fmt_ts ext now,
                 ac_invites_disabled = 0, ac_email_confirmed_at = None, ac_invite_note = None,
                 ac_failed_login_count = 0, ac_locked_until = None\<rparr>
      in if has_row (\<lambda>r. ac_did r = did) (accounts db) then (Inl UserAlreadyExistsError, db)
         else commit_if (\<not> has_row (\<lambda>r. email_key r = email_key row) (accounts db))
           (UniqueViolation ''account_email_lower_idx'') (db\<lparr>accounts := accounts db @ [row]\<rparr>) db)"

text \<open>
  One transaction of five DELETEs. The account row's foreign keys cascade to its device and
  client rows.
\<close>

definition delete_account :: "string \<Rightarrow> account_db \<Rightarrow> (account_error + unit) \<times> account_db" where
  "delete_account did db =
     (Inr (), db\<lparr>repo_roots := delete_where (\<lambda>r. rr_did r = did) (repo_roots db),
        email_tokens := delete_where (\<lambda>r. et_did r = did) (email_tokens db),
        refresh_tokens := delete_where (\<lambda>r. rt_did r = did) (refresh_tokens db),
        accounts := delete_where (\<lambda>r. ac_did r = did) (accounts db),
        account_devices := delete_where (\<lambda>r. ad_did r = did) (account_devices db),
        authorized_clients := delete_where (\<lambda>r. acl_did r = did) (authorized_clients db),
        actors := delete_where (\<lambda>r. a_did r = did) (actors db)\<rparr>)"

section \<open>Status, address and handle\<close>

definition update_account_takedown_status ::
  "ext \<Rightarrow> int \<Rightarrow> string \<Rightarrow> status_attr \<Rightarrow> account_db \<Rightarrow> account_db" where
  "update_account_takedown_status ext now did takedown db =
     (let takedown_ref = (if sa_applied takedown
            then (case sa_ref takedown of Some r \<Rightarrow> Some r | None \<Rightarrow> Some (fmt_ts ext now))
            else None)
      in db\<lparr>actors := update_where (\<lambda>r. a_did r = did)
           (\<lambda>r. r\<lparr>a_takedown_ref := takedown_ref\<rparr>) (actors db)\<rparr>)"

definition deactivate_account ::
  "ext \<Rightarrow> int \<Rightarrow> string \<Rightarrow> string option \<Rightarrow> account_db \<Rightarrow> account_db" where
  "deactivate_account ext now did delete_after db =
     db\<lparr>actors := update_where (\<lambda>r. a_did r = did)
        (\<lambda>r. r\<lparr>a_deactivated_at := Some (fmt_ts ext now), a_delete_after := delete_after\<rparr>)
        (actors db)\<rparr>"

definition activate_account :: "string \<Rightarrow> account_db \<Rightarrow> account_db" where
  "activate_account did db =
     db\<lparr>actors := update_where (\<lambda>r. a_did r = did)
        (\<lambda>r. r\<lparr>a_deactivated_at := None, a_delete_after := None\<rparr>) (actors db)\<rparr>"

text \<open>A constraint violation is reported as \<open>UserAlreadyExistsError\<close> (\<open>is_unique_violation\<close>).\<close>

definition update_email ::
  "ext \<Rightarrow> string \<Rightarrow> string \<Rightarrow> account_db \<Rightarrow> (account_error + unit) \<times> account_db" where
  "update_email ext did email db =
     (let t = update_where (\<lambda>r. ac_did r = did)
                (\<lambda>r. r\<lparr>ac_email := to_lowercase ext email, ac_email_confirmed_at := None\<rparr>)
                (accounts db)
      in if uniq email_key t then (Inr (), db\<lparr>accounts := t\<rparr>)
         else (Inl UserAlreadyExistsError, db))"

definition update_handle ::
  "string \<Rightarrow> string \<Rightarrow> account_db \<Rightarrow> (account_error + unit) \<times> account_db" where
  "update_handle did handle db =
     (let p = (\<lambda>r. a_did r = did \<and> \<not> has_row (\<lambda>r2. a_handle r2 = Some handle) (actors db));
          t = update_where p (\<lambda>r. r\<lparr>a_handle := Some handle\<rparr>) (actors db)
      in if \<not> uniq_some handle_key t then
           (Inl (Database (UniqueViolation ''actor_handle_lower_idx'')), db)
         else if count_where p (actors db) < 1 then (Inl UserAlreadyExistsError, db)
         else (Inr (), db\<lparr>actors := t\<rparr>))"

definition set_email_confirmed_at :: "string \<Rightarrow> string \<Rightarrow> account_db \<Rightarrow> account_db" where
  "set_email_confirmed_at did email_confirmed_at db =
     db\<lparr>accounts := update_where (\<lambda>r. ac_did r = did)
        (\<lambda>r. r\<lparr>ac_email_confirmed_at := Some email_confirmed_at\<rparr>) (accounts db)\<rparr>"

definition count_email_tokens_for_email :: "string \<Rightarrow> account_db \<Rightarrow> int" where
  "count_email_tokens_for_email email db = count_where (\<lambda>r. et_token r = email) (email_tokens db)"

section \<open>Login lockout and PLC migration flags\<close>

definition get_account_lockout_state :: "string \<Rightarrow> account_db \<Rightarrow> int \<times> int option" where
  "get_account_lockout_state did db =
     (case find (\<lambda>r. ac_did r = did) (accounts db) of
        None \<Rightarrow> (0, None)
      | Some r \<Rightarrow> (ac_failed_login_count r, ac_locked_until r))"

definition increment_failed_login_count :: "string \<Rightarrow> account_db \<Rightarrow> int \<times> account_db" where
  "increment_failed_login_count did db =
     (let t = update_where (\<lambda>r. ac_did r = did)
                (\<lambda>r. r\<lparr>ac_failed_login_count := ac_failed_login_count r + 1\<rparr>) (accounts db)
      in (case find (\<lambda>r. ac_did r = did) t of None \<Rightarrow> 0 | Some r \<Rightarrow> ac_failed_login_count r,
          db\<lparr>accounts := t\<rparr>))"

definition set_account_locked_until :: "string \<Rightarrow> int \<Rightarrow> account_db \<Rightarrow> account_db" where
  "set_account_locked_until did until_unix db =
     db\<lparr>accounts := update_where (\<lambda>r. ac_did r = did)
        (\<lambda>r. r\<lparr>ac_locked_until := Some until_unix\<rparr>) (accounts db)\<rparr>"

definition clear_account_lockout :: "string \<Rightarrow> account_db \<Rightarrow> account_db" where
  "clear_account_lockout did db =
     db\<lparr>accounts := update_where (\<lambda>r. ac_did r = did)
        (\<lambda>r. r\<lparr>ac_failed_login_count := 0, ac_locked_until := None\<rparr>) (accounts db)\<rparr>"

definition is_plc_rotation_keys_migrated :: "string \<Rightarrow> account_db \<Rightarrow> bool" where
  "is_plc_rotation_keys_migrated did db =
     (case find (\<lambda>r. a_did r = did) (actors db) of
        None \<Rightarrow> False
      | Some r \<Rightarrow> a_plc_rotation_keys_migrated r \<noteq> 0)"

definition mark_plc_rotation_keys_migrated :: "string \<Rightarrow> account_db \<Rightarrow> account_db" where
  "mark_plc_rotation_keys_migrated did db =
     db\<lparr>actors := update_where (\<lambda>r. a_did r = did)
        (\<lambda>r. r\<lparr>a_plc_rotation_keys_migrated := 1\<rparr>) (actors db)\<rparr>"

definition list_unmigrated_plc_rotation_key_dids :: "account_db \<Rightarrow> string list" where
  "list_unmigrated_plc_rotation_key_dids db =
     map a_did (sort_key a_created_at (sort_key a_did
       (filter (\<lambda>r. a_plc_rotation_keys_migrated r = 0) (actors db))))"

definition get_account_admin_status :: "string \<Rightarrow> account_db \<Rightarrow> admin_status_output option" where
  "get_account_admin_status did db =
     (case find (\<lambda>r. a_did r = did) (actors db) of
        None \<Rightarrow> None
      | Some r \<Rightarrow> Some \<lparr>
          as_takedown = (case a_takedown_ref r of
             Some ref \<Rightarrow> \<lparr>sa_applied = True, sa_ref = Some ref\<rparr>
           | None \<Rightarrow> \<lparr>sa_applied = False, sa_ref = None\<rparr>),
          as_deactivated = (case a_deactivated_at r of
             Some _ \<Rightarrow> \<lparr>sa_applied = True, sa_ref = None\<rparr>
           | None \<Rightarrow> \<lparr>sa_applied = False, sa_ref = None\<rparr>)\<rparr>)"

definition format_account_status :: "actor_account option \<Rightarrow> formatted_account_status" where
  "format_account_status account =
     (case account of
        None \<Rightarrow> \<lparr>fs_active = False, fs_status = Some Deleted\<rparr>
      | Some got \<Rightarrow>
          if aa_takedown_ref got \<noteq> None then \<lparr>fs_active = False, fs_status = Some Takendown\<rparr>
          else if aa_deactivated_at got \<noteq> None then
            \<lparr>fs_active = False, fs_status = Some Deactivated\<rparr>
          else \<lparr>fs_active = True, fs_status = None\<rparr>)"

section \<open>Lookups under the keys\<close>

definition actor_of :: "string \<Rightarrow> account_db \<Rightarrow> actor_row option" where
  "actor_of did db = find (\<lambda>r. a_did r = did) (actors db)"

definition account_of :: "string \<Rightarrow> account_db \<Rightarrow> account_row option" where
  "account_of did db = find (\<lambda>r. ac_did r = did) (accounts db)"

lemma join_eq:
  assumes "wf_db db"
  shows "actor_left_join_account db = map (\<lambda>a. (a, account_of (a_did a) db)) (actors db)"
proof -
  have u: "uniq ac_did (accounts db)" using assms by (simp add: schema_defs)
  have "concat (map (\<lambda>a. (case filter (\<lambda>c. ac_did c = a_did a) (accounts db) of
          [] \<Rightarrow> [(a, None)] | cs \<Rightarrow> map (\<lambda>c. (a, Some c)) cs)) t) =
        map (\<lambda>a. (a, account_of (a_did a) db)) t" for t :: "actor_row list"
    by (induction t) (auto simp: filter_uniq_find [OF u] account_of_def split: option.splits)
  then show ?thesis by (simp add: actor_left_join_account_def)
qed

lemma get_account_did:
  assumes "wf_db db" and "starts_with did ''did:''"
  shows "get_account did flags db =
    (case actor_of did db of
       None \<Rightarrow> None
     | Some a \<Rightarrow> if availability_conditions flags a
                then Some (actor_account_from_row (a, account_of did db)) else None)"
proof -
  have u: "uniq a_did (actors db)" using assms(1) by (simp add: schema_defs)
  note * = find_uniq_conj [OF u, of did "availability_conditions flags"]
  show ?thesis
    using assms(2)
    by (auto simp: get_account_def join_eq [OF assms(1)] find_map * actor_of_def
        dest: find_Some_set split: option.splits)
qed

lemma get_account_sound:
  assumes "wf_db db" and "get_account x flags db = Some acc"
  shows "\<exists>a. a \<in> set (actors db) \<and> acc = actor_account_from_row (a, account_of (a_did a) db) \<and>
    availability_conditions flags a \<and> (a_did a = x \<or> a_handle a = Some x)"
  using assms(2)
  by (auto simp: get_account_def join_eq [OF assms(1)] find_map split: if_splits dest!: find_Some_set)

lemma actor_of_update:
  "\<forall>r. a_did (f r) = a_did r \<Longrightarrow>
   actor_of did (db\<lparr>actors := update_where (\<lambda>r. a_did r = did) f (actors db)\<rparr>) =
   map_option f (actor_of did db)"
  unfolding actor_of_def
  by (simp add: find_update_where)
     (cases "find (\<lambda>r. a_did r = did) (actors db)"; auto dest: find_Some_set)

lemma account_of_update:
  "\<forall>r. ac_did (f r) = ac_did r \<Longrightarrow>
   account_of did (db\<lparr>accounts := update_where (\<lambda>r. ac_did r = did) f (accounts db)\<rparr>) =
   map_option f (account_of did db)"
  unfolding account_of_def
  by (simp add: find_update_where)
     (cases "find (\<lambda>r. ac_did r = did) (accounts db)"; auto dest: find_Some_set)

lemma account_of_update_other:
  "\<forall>r. ac_did (f r) = ac_did r \<Longrightarrow> did' \<noteq> did \<Longrightarrow>
   account_of did' (db\<lparr>accounts := update_where (\<lambda>r. ac_did r = did) f (accounts db)\<rparr>) =
   account_of did' db"
  unfolding account_of_def
  by (simp add: find_update_where)
     (cases "find (\<lambda>r. ac_did r = did') (accounts db)"; auto dest: find_Some_set)

lemma account_of_frame [simp]:
  "account_of did (db\<lparr>actors := t1\<rparr>) = account_of did db"
  "account_of did (db\<lparr>refresh_tokens := t2\<rparr>) = account_of did db"
  "account_of did (db\<lparr>email_tokens := t3\<rparr>) = account_of did db"
  "account_of did (db\<lparr>invite_code_uses := t4\<rparr>) = account_of did db"
  "account_of did (db\<lparr>repo_roots := t5\<rparr>) = account_of did db"
  by (simp_all add: account_of_def)

lemma actor_of_frame [simp]:
  "actor_of did (db\<lparr>accounts := t1\<rparr>) = actor_of did db"
  "actor_of did (db\<lparr>refresh_tokens := t2\<rparr>) = actor_of did db"
  "actor_of did (db\<lparr>email_tokens := t3\<rparr>) = actor_of did db"
  "actor_of did (db\<lparr>invite_code_uses := t4\<rparr>) = actor_of did db"
  "actor_of did (db\<lparr>repo_roots := t5\<rparr>) = actor_of did db"
  by (simp_all add: actor_of_def)

lemma actor_of_did: "actor_of did db = Some a \<Longrightarrow> a_did a = did \<and> a \<in> set (actors db)"
  by (auto simp: actor_of_def dest: find_Some_set)

lemma account_of_did: "account_of did db = Some c \<Longrightarrow> ac_did c = did \<and> c \<in> set (accounts db)"
  by (auto simp: account_of_def dest: find_Some_set)

lemma get_account_lockout_state_eq:
  "get_account_lockout_state did db =
   (case account_of did db of None \<Rightarrow> (0, None) | Some r \<Rightarrow> (ac_failed_login_count r, ac_locked_until r))"
  by (simp add: get_account_lockout_state_def account_of_def)

section \<open>Every operation keeps the schema's keys\<close>

lemma wf_register_actor: "wf_db db \<Longrightarrow> wf_db (snd (register_actor ext now did handle d db))"
  unfolding register_actor_def Let_def
  by (auto intro!: commit_if_wf wf_actors
      simp: actor_keys_def uniq_snoc uniq_some_snoc wf_dbD [unfolded actor_keys_def] not_has_row_key)

lemma wf_register_account: "wf_db db \<Longrightarrow> wf_db (snd (register_account ext now did e p k db))"
  unfolding register_account_def Let_def
  by (auto intro!: commit_if_wf wf_accounts
      simp: account_keys_def uniq_snoc wf_dbD [unfolded account_keys_def] not_has_row_key)

lemma wf_delete_account: "wf_db db \<Longrightarrow> wf_db (snd (delete_account did db))"
  by (auto simp: delete_account_def schema_defs uniq_delete uniq_some_delete)

lemma wf_update_takedown: "wf_db db \<Longrightarrow> wf_db (update_account_takedown_status ext now did t db)"
  by (simp add: update_account_takedown_status_def Let_def wf_update_actor)

lemma wf_deactivate_account: "wf_db db \<Longrightarrow> wf_db (deactivate_account ext now did a db)"
  by (simp add: deactivate_account_def wf_update_actor)

lemma wf_activate_account: "wf_db db \<Longrightarrow> wf_db (activate_account did db)"
  by (simp add: activate_account_def wf_update_actor)

lemma wf_update_email: "wf_db db \<Longrightarrow> wf_db (snd (update_email ext did email db))"
  by (auto simp: update_email_def Let_def account_keys_def wf_dbD [unfolded account_keys_def]
      uniq_update image_update_where intro!: wf_accounts)

lemma wf_update_handle: "wf_db db \<Longrightarrow> wf_db (snd (update_handle did handle db))"
  by (auto simp: update_handle_def Let_def actor_keys_def wf_dbD [unfolded actor_keys_def]
      uniq_update intro!: wf_actors)

lemma wf_set_email_confirmed_at: "wf_db db \<Longrightarrow> wf_db (set_email_confirmed_at did at db)"
  by (simp add: set_email_confirmed_at_def wf_update_account)

lemma wf_increment: "wf_db db \<Longrightarrow> wf_db (snd (increment_failed_login_count did db))"
  by (simp add: increment_failed_login_count_def Let_def wf_update_account)

lemma wf_set_locked: "wf_db db \<Longrightarrow> wf_db (set_account_locked_until did u db)"
  by (simp add: set_account_locked_until_def wf_update_account)

lemma wf_clear_lockout: "wf_db db \<Longrightarrow> wf_db (clear_account_lockout did db)"
  by (simp add: clear_account_lockout_def wf_update_account)

lemma wf_mark_plc: "wf_db db \<Longrightarrow> wf_db (mark_plc_rotation_keys_migrated did db)"
  by (simp add: mark_plc_rotation_keys_migrated_def wf_update_actor)

lemmas wf_account_ops = wf_register_actor wf_register_account wf_delete_account wf_update_takedown
  wf_deactivate_account wf_activate_account wf_update_email wf_update_handle
  wf_set_email_confirmed_at wf_increment wf_set_locked wf_clear_lockout wf_mark_plc

end
