(* ===== verification/Email_Tokens.thy ===== *)
theory Email_Tokens
  imports Accounts
begin

text \<open>
  The e-mail token helper (\<open>cacos-pds-account/src/account/helpers/email_token.rs\<close>): one token
  per purpose and DID, replaced on every request, checked with an expiry and deleted on use.
  The locale \<open>one_time_token\<close> is the contract the callers rely on (a token store that never
  accepts what was revoked); its client lemma, that the number of accepted uses is bounded by
  the number of tokens issued, is proved there and instantiated by the model.
\<close>

section \<open>The contract of a one-time token store\<close>

datatype ('c, 'k, 't) token_op = Issue 'k 't | Consume 'c 'k 't

fun token_step ::
  "('k \<Rightarrow> 't \<Rightarrow> 's \<Rightarrow> 's) \<Rightarrow> ('c \<Rightarrow> 'k \<Rightarrow> 't \<Rightarrow> 's \<Rightarrow> bool) \<Rightarrow> ('k \<Rightarrow> 's \<Rightarrow> 's) \<Rightarrow>
   ('c, 'k, 't) token_op \<Rightarrow> 's \<Rightarrow> 's" where
  "token_step issue valid revoke (Issue k t) s = issue k t s"
| "token_step issue valid revoke (Consume c k t) s = (if valid c k t s then revoke k s else s)"

text \<open>How often a token of key \<open>k\<close> is accepted along a run.\<close>

fun accepted ::
  "('k \<Rightarrow> 't \<Rightarrow> 's \<Rightarrow> 's) \<Rightarrow> ('c \<Rightarrow> 'k \<Rightarrow> 't \<Rightarrow> 's \<Rightarrow> bool) \<Rightarrow> ('k \<Rightarrow> 's \<Rightarrow> 's) \<Rightarrow>
   'k \<Rightarrow> ('c, 'k, 't) token_op list \<Rightarrow> 's \<Rightarrow> nat" where
  "accepted issue valid revoke k [] s = 0"
| "accepted issue valid revoke k (x # xs) s =
     (case x of Consume c k' t \<Rightarrow> if k' = k \<and> valid c k' t s then 1 else 0 | Issue _ _ \<Rightarrow> 0) +
     accepted issue valid revoke k xs (token_step issue valid revoke x s)"

definition issued :: "'k \<Rightarrow> ('c, 'k, 't) token_op list \<Rightarrow> nat" where
  "issued k xs = length (filter (\<lambda>x. case x of Issue k' _ \<Rightarrow> k' = k | Consume _ _ _ \<Rightarrow> False) xs)"

locale one_time_token =
  fixes issue :: "'k \<Rightarrow> 't \<Rightarrow> 's \<Rightarrow> 's"
    and valid :: "'c \<Rightarrow> 'k \<Rightarrow> 't \<Rightarrow> 's \<Rightarrow> bool"
    and revoke :: "'k \<Rightarrow> 's \<Rightarrow> 's"
    and inv :: "'s \<Rightarrow> bool"
  assumes inv_issue: "inv s \<Longrightarrow> inv (issue k t s)"
    and inv_revoke: "inv s \<Longrightarrow> inv (revoke k s)"
    and revoked: "inv s \<Longrightarrow> \<not> valid c k t (revoke k s)"
    and revoke_other: "inv s \<Longrightarrow> valid c k t (revoke k' s) \<Longrightarrow> valid c k t s"
    and issue_other: "inv s \<Longrightarrow> k \<noteq> k' \<Longrightarrow> valid c k t (issue k' u s) \<Longrightarrow> valid c k t s"
begin

text \<open>A key is dead when no token of it is accepted at any time.\<close>

definition dead :: "'k \<Rightarrow> 's \<Rightarrow> bool" where
  "dead k s \<longleftrightarrow> (\<forall>c t. \<not> valid c k t s)"

lemma inv_step: "inv s \<Longrightarrow> inv (token_step issue valid revoke x s)"
  by (cases x) (auto intro: inv_issue inv_revoke)

lemma dead_step:
  "inv s \<Longrightarrow> dead k s \<Longrightarrow> (\<forall>t. x \<noteq> Issue k t) \<Longrightarrow> dead k (token_step issue valid revoke x s)"
proof (cases x)
  case (Issue k' u)
  assume "inv s" and d: "dead k s" and "\<forall>t. x \<noteq> Issue k t"
  with Issue have "k \<noteq> k'" by auto
  with Issue \<open>inv s\<close> d show ?thesis
    by (auto simp: dead_def dest: issue_other)
next
  case (Consume c k' t)
  assume "inv s" and "dead k s"
  with Consume show ?thesis by (auto simp: dead_def dest: revoke_other)
qed

lemma dead_revoke: "inv s \<Longrightarrow> dead k (revoke k s)"
  by (simp add: dead_def revoked)

lemma accepted_bound:
  "inv s \<Longrightarrow> accepted issue valid revoke k xs s \<le> (if dead k s then 0 else 1) + issued k xs"
proof (induction xs arbitrary: s)
  case Nil
  then show ?case by simp
next
  case (Cons x xs)
  let ?s' = "token_step issue valid revoke x s"
  have IH: "accepted issue valid revoke k xs ?s' \<le> (if dead k ?s' then 0 else 1) + issued k xs"
    using Cons.IH [OF inv_step [OF Cons.prems]] .
  show ?case
  proof (cases x)
    case (Issue k' t)
    with IH dead_step [OF Cons.prems, of k x] show ?thesis
      by (cases "k' = k") (auto simp: issued_def split: if_splits)
  next
    case (Consume c k' t)
    have "dead k ?s'" if "k' = k" "valid c k' t s"
      using that Consume dead_revoke [OF Cons.prems] by simp
    moreover have "\<not> dead k s" if "k' = k" "valid c k' t s"
      using that by (auto simp: dead_def)
    moreover have "dead k s \<Longrightarrow> dead k ?s'"
      using dead_step [OF Cons.prems, of k x] Consume by simp
    ultimately show ?thesis
      using IH Consume by (auto simp: issued_def split: if_splits)
  qed
qed

end

section \<open>The helper\<close>

datatype email_token_purpose =
  ConfirmEmail | UpdateEmail | ResetPassword | DeleteAccount | PlcOperation

fun purpose_as_str :: "email_token_purpose \<Rightarrow> string" where
  "purpose_as_str ConfirmEmail = ''confirm_email''"
| "purpose_as_str UpdateEmail = ''update_email''"
| "purpose_as_str ResetPassword = ''reset_password''"
| "purpose_as_str DeleteAccount = ''delete_account''"
| "purpose_as_str PlcOperation = ''plc_operation''"

definition purpose_from_str :: "string \<Rightarrow> account_error + email_token_purpose" where
  "purpose_from_str s =
     (if s = ''confirm_email'' then Inr ConfirmEmail
      else if s = ''update_email'' then Inr UpdateEmail
      else if s = ''reset_password'' then Inr ResetPassword
      else if s = ''delete_account'' then Inr DeleteAccount
      else if s = ''plc_operation'' then Inr PlcOperation
      else Inl (InvalidEmailTokenPurpose s))"

record email_token =
  em_purpose :: email_token_purpose
  em_did :: string
  em_token :: string
  em_requested_at :: string

definition email_token_from_row :: "email_token_row \<Rightarrow> account_error + email_token" where
  "email_token_from_row row =
     (case purpose_from_str (et_purpose row) of
        Inl _ \<Rightarrow> Inl (InvalidEmailTokenPurpose (et_purpose row))
      | Inr p \<Rightarrow> Inr \<lparr>em_purpose = p, em_did = et_did row, em_token = et_token row,
                      em_requested_at = et_requested_at row\<rparr>)"

text \<open>
  \<open>raw\<close> is the 50 sampled alphanumerics; slicing panics when the digits 1, 8, 9, 0 leave
  fewer than ten characters.
\<close>

definition get_random_token :: "string \<Rightarrow> account_error + string" where
  "get_random_token raw =
     (let allowed = filter (\<lambda>c. c \<notin> set ''1890'') raw
      in if length allowed < 10 then Inl (Panic ''byte index out of bounds'')
         else Inr (take 5 allowed @ ''-'' @ take 5 (drop 5 allowed)))"

definition create_email_token ::
  "ext \<Rightarrow> int \<Rightarrow> string \<Rightarrow> string \<Rightarrow> email_token_purpose \<Rightarrow> account_db \<Rightarrow>
   (account_error + string) \<times> account_db" where
  "create_email_token ext now raw did purpose db =
     (case get_random_token raw of
        Inl e \<Rightarrow> (Inl e, db)
      | Inr t \<Rightarrow>
          let token = to_uppercase ext t;
              row = \<lparr>et_purpose = purpose_as_str purpose, et_did = did, et_token = token,
                     et_requested_at = fmt_ts ext now\<rparr>;
              p = (\<lambda>r. et_purpose r = purpose_as_str purpose \<and> et_did r = did);
              tab = (if has_row p (email_tokens db)
                     then update_where p (\<lambda>r. r\<lparr>et_token := token,
                            et_requested_at := fmt_ts ext now\<rparr>) (email_tokens db)
                     else email_tokens db @ [row])
          in if uniq email_token_value_key tab then (Inr token, db\<lparr>email_tokens := tab\<rparr>)
             else (Inl (Database (UniqueViolation ''uq_email_token_purpose_token'')), db))"

text \<open>The check both lookups make on the row they found.\<close>

definition check_expiry :: "ext \<Rightarrow> int \<Rightarrow> int option \<Rightarrow> email_token \<Rightarrow> account_error + unit" where
  "check_expiry ext now expiration_len res =
     (let len = (case expiration_len of Some l \<Rightarrow> l | None \<Rightarrow> MINUTE ext * 15)
      in case from_str_to_utc ext (em_requested_at res) of
           None \<Rightarrow> Inl (TimestampUnparseable (em_requested_at res))
         | Some requested_at \<Rightarrow>
             if less_than_ago_s ext now requested_at len then Inr () else Inl TokenExpired)"

definition assert_valid_token ::
  "ext \<Rightarrow> int \<Rightarrow> string \<Rightarrow> email_token_purpose \<Rightarrow> string \<Rightarrow> int option \<Rightarrow> account_db \<Rightarrow>
   account_error + unit" where
  "assert_valid_token ext now did purpose token expiration_len db =
     (case find (\<lambda>r. et_purpose r = purpose_as_str purpose \<and> et_did r = did \<and>
                     et_token r = to_uppercase ext token) (email_tokens db) of
        None \<Rightarrow> Inl TokenInvalid
      | Some row \<Rightarrow>
          (case email_token_from_row row of
             Inl e \<Rightarrow> Inl e
           | Inr res \<Rightarrow> check_expiry ext now expiration_len res))"

definition assert_valid_token_and_find_did ::
  "ext \<Rightarrow> int \<Rightarrow> email_token_purpose \<Rightarrow> string \<Rightarrow> int option \<Rightarrow> account_db \<Rightarrow>
   account_error + string" where
  "assert_valid_token_and_find_did ext now purpose token expiration_len db =
     (case find (\<lambda>r. et_purpose r = purpose_as_str purpose \<and>
                     et_token r = to_uppercase ext token) (email_tokens db) of
        None \<Rightarrow> Inl TokenInvalid
      | Some row \<Rightarrow>
          (case email_token_from_row row of
             Inl e \<Rightarrow> Inl e
           | Inr res \<Rightarrow>
               (case check_expiry ext now expiration_len res of
                  Inl e \<Rightarrow> Inl e
                | Inr _ \<Rightarrow> Inr (em_did res))))"

definition delete_email_token :: "string \<Rightarrow> email_token_purpose \<Rightarrow> account_db \<Rightarrow> account_db" where
  "delete_email_token did purpose db =
     db\<lparr>email_tokens := delete_where
        (\<lambda>r. et_did r = did \<and> et_purpose r = purpose_as_str purpose) (email_tokens db)\<rparr>"

definition delete_all_email_tokens :: "string \<Rightarrow> account_db \<Rightarrow> account_db" where
  "delete_all_email_tokens did db =
     db\<lparr>email_tokens := delete_where (\<lambda>r. et_did r = did) (email_tokens db)\<rparr>"

section \<open>Lemmas\<close>

lemma purpose_inj: "purpose_as_str p = purpose_as_str q \<longleftrightarrow> p = q"
  by (cases p; cases q) simp_all

lemma purpose_roundtrip: "purpose_from_str (purpose_as_str p) = Inr p"
  by (cases p) (simp_all add: purpose_from_str_def)

lemma purpose_from_str_Inr: "purpose_from_str s = Inr p \<Longrightarrow> s = purpose_as_str p"
  by (auto simp: purpose_from_str_def split: if_splits)

lemma email_token_from_row_ok:
  "et_purpose row = purpose_as_str p \<Longrightarrow>
   email_token_from_row row = Inr \<lparr>em_purpose = p, em_did = et_did row, em_token = et_token row,
     em_requested_at = et_requested_at row\<rparr>"
  by (simp add: email_token_from_row_def purpose_roundtrip)

lemma assert_valid_token_ok_row:
  assumes "assert_valid_token ext now did p t len db = Inr ()"
  shows "\<exists>r \<in> set (email_tokens db). et_purpose r = purpose_as_str p \<and> et_did r = did \<and>
    et_token r = to_uppercase ext t"
  using assms
  by (auto simp: assert_valid_token_def split: option.splits dest: find_Some_set)

lemma find_did_ok_row:
  assumes "assert_valid_token_and_find_did ext now p t len db = Inr did"
  shows "\<exists>r \<in> set (email_tokens db). et_purpose r = purpose_as_str p \<and> et_did r = did \<and>
    et_token r = to_uppercase ext t"
  using assms
  by (auto simp: assert_valid_token_and_find_did_def email_token_from_row_def
      split: option.splits sum.splits dest!: find_Some_set)

lemma wf_delete_email_token: "wf_db db \<Longrightarrow> wf_db (delete_email_token did p db)"
  by (simp add: delete_email_token_def wf_delete_email_tokens)

lemma wf_delete_all_email_tokens: "wf_db db \<Longrightarrow> wf_db (delete_all_email_tokens did db)"
  by (simp add: delete_all_email_tokens_def wf_delete_email_tokens)

lemma wf_create_email_token: "wf_db db \<Longrightarrow> wf_db (snd (create_email_token ext now raw did p db))"
proof -
  assume wf: "wf_db db"
  have k: "uniq email_token_key (email_tokens db)"
    using wf by (simp add: schema_defs)
  have n: "(purpose_as_str p, did) \<notin> email_token_key ` set (email_tokens db)"
    if "\<not> has_row (\<lambda>r. et_purpose r = purpose_as_str p \<and> et_did r = did) (email_tokens db)"
    using that by (auto simp: has_row_iff email_token_key_def)
  show ?thesis
    using wf k n
    by (auto simp: create_email_token_def Let_def email_token_keys_def uniq_snoc uniq_update
        email_token_key_def split: sum.splits intro!: wf_email_tokens)
qed

lemmas wf_email_token_ops = wf_create_email_token wf_delete_email_token wf_delete_all_email_tokens

text \<open>The requests and checks of the model satisfy the contract, whatever the library does.\<close>

interpretation email: one_time_token
  "\<lambda>(did, p) (now, raw) db. snd (create_email_token ext now raw did p db)"
  "\<lambda>(now, len) (did, p) (t, s) db. is_ok (assert_valid_token ext now did p s len db)"
  "\<lambda>(did, p) db. delete_email_token did p db"
  wf_db
  for ext
proof (unfold_locales, goal_cases)
  case (1 s k t)
  then show ?case by (cases k; cases t) (simp add: wf_create_email_token)
next
  case (2 s k)
  then show ?case by (cases k) (simp add: wf_delete_email_token)
next
  case (3 s c k t)
  then show ?case
    by (cases k; cases c; cases t)
      (auto simp: is_ok_iff delete_email_token_def dest!: assert_valid_token_ok_row)
next
  case (4 s c k t k')
  obtain did p did' p' now len t1 t2 where [simp]: "k = (did, p)" "k' = (did', p')"
    "c = (now, len)" "t = (t1, t2)" by (metis surj_pair)
  show ?case
  proof (cases "did' = did \<and> p' = p")
    case True
    with 4 show ?thesis
      by (auto simp: is_ok_iff delete_email_token_def dest!: assert_valid_token_ok_row)
  next
    case False
    then have "find (\<lambda>r. et_purpose r = purpose_as_str p \<and> et_did r = did \<and>
        et_token r = to_uppercase ext t2) (email_tokens (delete_email_token did' p' s)) =
      find (\<lambda>r. et_purpose r = purpose_as_str p \<and> et_did r = did \<and>
        et_token r = to_uppercase ext t2) (email_tokens s)"
      unfolding delete_email_token_def
      by (auto simp: purpose_inj intro!: find_delete_other)
    with 4 show ?thesis by (simp add: assert_valid_token_def)
  qed
next
  case (5 s k k' c t u)
  obtain did p did' p' now len t1 t2 now' raw where [simp]: "k = (did, p)" "k' = (did', p')"
    "c = (now, len)" "t = (t1, t2)" "u = (now', raw)" by (metis surj_pair)
  let ?q = "\<lambda>r. et_purpose r = purpose_as_str p \<and> et_did r = did \<and> et_token r = to_uppercase ext t2"
  have ne: "\<not> (did' = did \<and> purpose_as_str p' = purpose_as_str p)"
    using 5(2) by (auto simp: purpose_inj)
  have "find ?q (email_tokens (snd (create_email_token ext now' raw did' p' s))) =
        find ?q (email_tokens s)"
    unfolding create_email_token_def Let_def
    using ne
    by (auto simp: find_append find_update_where split: sum.splits option.splits)
      (auto simp: find_Some_iff)
  with 5 show ?case by (simp add: assert_valid_token_def)
qed

end
