(* ===== verification/Passwords.thy ===== *)
theory Passwords
  imports Accounts
begin

text \<open>
  The password helper (\<open>cacos-pds-account/src/account/helpers/password.rs\<close>): the argon2 hash
  of an account password (random salt, an argument here), the app passwords with their
  deterministic salt (SHA-256 of the DID), and their SQL.
\<close>

section \<open>Hashes\<close>

definition hash_with_salt :: "ext \<Rightarrow> string \<Rightarrow> string \<Rightarrow> account_error + string" where
  "hash_with_salt ext password salt =
     option_to_result PasswordHashError (argon2_hash ext salt password)"

text \<open>\<open>salt\<close> is the value of \<open>SaltString::generate\<close>.\<close>

definition gen_salt_and_hash :: "ext \<Rightarrow> string \<Rightarrow> string \<Rightarrow> account_error + string" where
  "gen_salt_and_hash ext salt password = hash_with_salt ext password salt"

definition verify :: "ext \<Rightarrow> string \<Rightarrow> string \<Rightarrow> account_error + bool" where
  "verify ext password stored_hash =
     option_to_result PasswordHashError (argon2_verify ext password stored_hash)"

definition hash_app_password :: "ext \<Rightarrow> string \<Rightarrow> string \<Rightarrow> account_error + string" where
  "hash_app_password ext did password =
     hash_with_salt ext password (filter (\<lambda>c. c \<noteq> CHR ''='') (sha256_base64 ext did))"

section \<open>Statements\<close>

definition verify_account_password ::
  "ext \<Rightarrow> string \<Rightarrow> string \<Rightarrow> account_db \<Rightarrow> account_error + bool" where
  "verify_account_password ext did password db =
     (case find (\<lambda>r. ac_did r = did) (accounts db) of
        Some r \<Rightarrow> verify ext password (ac_password r)
      | None \<Rightarrow> Inr False)"

definition verify_app_password ::
  "ext \<Rightarrow> string \<Rightarrow> string \<Rightarrow> account_db \<Rightarrow> account_error + string option" where
  "verify_app_password ext did password db =
     (case hash_app_password ext did password of
        Inl e \<Rightarrow> Inl e
      | Inr password_encrypted \<Rightarrow>
          Inr (map_option ap_name
            (find (\<lambda>r. ap_did r = did \<and> ap_password r = password_encrypted) (app_passwords db))))"

record create_app_password_output =
  cao_name :: string
  cao_password :: string
  cao_created_at :: string

text \<open>
  \<open>raw\<close> is \<open>get_random_str()\<close>; taking its first 16 bytes panics when it is shorter. The four
  groups of four are joined with dashes.
\<close>

definition app_password_text :: "ext \<Rightarrow> string \<Rightarrow> string" where
  "app_password_text ext raw =
     (let str = to_lowercase ext (take 16 raw)
      in join_with ''-'' [take 4 str, take 4 (drop 4 str), take 4 (drop 8 str), take 4 (drop 12 str)])"

definition create_app_password ::
  "ext \<Rightarrow> int \<Rightarrow> string \<Rightarrow> string \<Rightarrow> string \<Rightarrow> account_db \<Rightarrow>
   (account_error + create_app_password_output) \<times> account_db" where
  "create_app_password ext now raw did name db =
     (if length raw < 16 \<or> length (to_lowercase ext (take 16 raw)) < 16
      then (Inl (Panic ''byte index out of bounds''), db)
      else let password = app_password_text ext raw
      in case hash_app_password ext did password of
           Inl e \<Rightarrow> (Inl e, db)
         | Inr password_encrypted \<Rightarrow>
             let created_at = fmt_ts ext now;
                 row = \<lparr>ap_did = did, ap_name = name, ap_password = password_encrypted,
                        ap_created_at = created_at, ap_privileged = 0\<rparr>
             in if has_row (\<lambda>r. app_password_key r = (did, name)) (app_passwords db)
                then (Inl AppPasswordNotCreated, db)
                else (Inr \<lparr>cao_name = name, cao_password = password, cao_created_at = created_at\<rparr>,
                      db\<lparr>app_passwords := app_passwords db @ [row]\<rparr>))"

definition list_app_passwords :: "string \<Rightarrow> account_db \<Rightarrow> (string \<times> string) list" where
  "list_app_passwords did db =
     map (\<lambda>r. (ap_name r, ap_created_at r)) (filter (\<lambda>r. ap_did r = did) (app_passwords db))"

definition update_user_password :: "string \<Rightarrow> string \<Rightarrow> account_db \<Rightarrow> account_db" where
  "update_user_password did password_encrypted db =
     db\<lparr>accounts := update_where (\<lambda>r. ac_did r = did)
        (\<lambda>r. r\<lparr>ac_password := password_encrypted\<rparr>) (accounts db)\<rparr>"

definition delete_app_password :: "string \<Rightarrow> string \<Rightarrow> account_db \<Rightarrow> account_db" where
  "delete_app_password did name db =
     db\<lparr>app_passwords := delete_where (\<lambda>r. ap_did r = did \<and> ap_name r = name)
        (app_passwords db)\<rparr>"

section \<open>Lemmas\<close>

lemma verify_hash:
  "passwords_ok ext \<Longrightarrow> gen_salt_and_hash ext salt p = Inr h \<Longrightarrow> verify ext q h = Inr (q = p)"
  by (auto simp: gen_salt_and_hash_def hash_with_salt_def verify_def option_to_result_def
      passwords_ok_def split: option.splits)

lemma verify_account_password_eq:
  "verify_account_password ext did p db =
   (case account_of did db of Some r \<Rightarrow> verify ext p (ac_password r) | None \<Rightarrow> Inr False)"
  by (simp add: verify_account_password_def account_of_def)

lemma verify_after_update:
  assumes "passwords_ok ext" and "gen_salt_and_hash ext salt p = Inr h"
    and "account_of did db = Some c"
  shows "verify_account_password ext did q (update_user_password did h db) = Inr (q = p)"
  using assms
  by (simp add: verify_account_password_eq update_user_password_def account_of_update verify_hash)

lemma verify_app_password_ok_row:
  assumes "verify_app_password ext did p db = Inr (Some name)"
  shows "\<exists>r \<in> set (app_passwords db). ap_did r = did \<and> ap_name r = name \<and>
    hash_app_password ext did p = Inr (ap_password r)"
  using assms
  by (auto simp: verify_app_password_def split: sum.splits dest!: find_Some_set)

lemma wf_create_app_password:
  "wf_db db \<Longrightarrow> wf_db (snd (create_app_password ext now raw did name db))"
  unfolding create_app_password_def Let_def
  by (auto simp: uniq_snoc wf_dbD not_has_row_key app_password_key_def has_row_iff
      split: sum.splits intro!: wf_app_passwords)

lemma wf_update_user_password: "wf_db db \<Longrightarrow> wf_db (update_user_password did h db)"
  by (simp add: update_user_password_def wf_update_account)

lemma wf_delete_app_password: "wf_db db \<Longrightarrow> wf_db (delete_app_password did name db)"
  by (auto simp: delete_app_password_def uniq_delete wf_dbD intro!: wf_app_passwords)

lemmas wf_password_ops = wf_create_app_password wf_update_user_password wf_delete_app_password

end
