(* ===== verification/Invites.thy ===== *)
theory Invites
  imports Accounts
begin

text \<open>
  The invite helper (\<open>cacos-pds-account/src/account/helpers/invite.rs\<close>): codes and their uses.
  The two creating operations run in a transaction (a failure leaves the database as it
  was); checking a code and recording its use are separate statements, which is why the
  budget \<open>invite_inv\<close> is an invariant of whole operations and not of interleaved ones.
\<close>

record code_use =
  cu_used_by :: string
  cu_used_at :: string

record code_detail =
  cd_code :: string
  cd_available :: int
  cd_disabled :: bool
  cd_for_account :: string
  cd_created_by :: string
  cd_created_at :: string
  cd_uses :: "code_use list"

record account_codes =
  acs_account :: string
  acs_codes :: "string list"

section \<open>Creating and using codes\<close>

fun insert_invite_codes ::
  "invite_code_row list \<Rightarrow> account_db \<Rightarrow> (account_error + unit) \<times> account_db" where
  "insert_invite_codes [] db = (Inr (), db)"
| "insert_invite_codes (row # rows) db =
     and_then (commit_if (\<not> has_row (\<lambda>r. ic_code r = ic_code row) (invite_codes db))
        (UniqueViolation ''invite_code.code'')
        (db\<lparr>invite_codes := invite_codes db @ [row]\<rparr>) db)
       (\<lambda>_ db. insert_invite_codes rows db)"

text \<open>
  The SELECT left-joins the actor whose \<open>takedownRef\<close> is null: a left join keeps every code,
  so the condition does not restrict the result.
\<close>

definition invite_left_join_actor ::
  "account_db \<Rightarrow> (invite_code_row \<times> actor_row option) list" where
  "invite_left_join_actor db =
     concat (map (\<lambda>i.
       (case filter (\<lambda>a. ic_for_account i = a_did a \<and> a_takedown_ref a = None) (actors db) of
          [] \<Rightarrow> [(i, None)]
        | as \<Rightarrow> map (\<lambda>a. (i, Some a)) as)) (invite_codes db))"

definition ensure_invite_is_available :: "string \<Rightarrow> account_db \<Rightarrow> account_error + unit" where
  "ensure_invite_is_available invite_code db =
     (case find (\<lambda>(i, a). ic_code i = invite_code) (invite_left_join_actor db) of
        None \<Rightarrow> Inl (InviteNotAvailable invite_code)
      | Some (invite, _) \<Rightarrow>
          if ic_disabled invite > 0 then Inl (InviteNotAvailable invite_code)
          else if ic_available_uses invite
                    \<le> count_where (\<lambda>u. iu_code u = invite_code) (invite_code_uses db)
          then Inl (InviteNotEnoughUses invite_code)
          else Inr ())"

definition record_invite_use ::
  "string \<Rightarrow> string option \<Rightarrow> string \<Rightarrow> account_db \<Rightarrow> (account_error + unit) \<times> account_db" where
  "record_invite_use did invite_code now db =
     (case invite_code of
        None \<Rightarrow> (Inr (), db)
      | Some code \<Rightarrow>
          commit_if (\<not> has_row (\<lambda>u. invite_code_use_key u = (code, did)) (invite_code_uses db))
            (UniqueViolation ''invite_code_use.code, invite_code_use.usedBy'')
            (db\<lparr>invite_code_uses := invite_code_uses db @
                [\<lparr>iu_code = code, iu_used_by = did, iu_used_at = now\<rparr>]\<rparr>) db)"

text \<open>A transaction: what fails inside it leaves the database as it was at \<open>begin\<close>.\<close>

definition transaction ::
  "(account_db \<Rightarrow> (account_error + 'a) \<times> account_db) \<Rightarrow> account_db \<Rightarrow>
   (account_error + 'a) \<times> account_db" where
  "transaction body db =
     (case body db of (Inl e, _) \<Rightarrow> (Inl e, db) | (Inr x, db') \<Rightarrow> (Inr x, db'))"

definition create_invite_codes ::
  "ext \<Rightarrow> int \<Rightarrow> account_codes list \<Rightarrow> int \<Rightarrow> account_db \<Rightarrow> (account_error + unit) \<times> account_db" where
  "create_invite_codes ext now to_create use_count db =
     (let created_at = fmt_ts ext now;
          rows = concat (map (\<lambda>account. map (\<lambda>code.
            \<lparr>ic_code = code, ic_available_uses = use_count, ic_disabled = 0,
             ic_for_account = acs_account account, ic_created_by = ''admin'',
             ic_created_at = created_at\<rparr>) (acs_codes account)) to_create)
      in transaction (insert_invite_codes rows) db)"

definition invite_rows_for_account ::
  "ext \<Rightarrow> int \<Rightarrow> string \<Rightarrow> string list \<Rightarrow> bool \<Rightarrow> invite_code_row list" where
  "invite_rows_for_account ext now for_account codes disabled =
     map (\<lambda>code. \<lparr>ic_code = code, ic_available_uses = 1, ic_disabled = (if disabled then 1 else 0),
       ic_for_account = for_account, ic_created_by = for_account,
       ic_created_at = fmt_ts ext now\<rparr>) codes"

definition create_account_invite_codes ::
  "ext \<Rightarrow> int \<Rightarrow> string \<Rightarrow> string list \<Rightarrow> nat \<Rightarrow> bool \<Rightarrow> account_db \<Rightarrow>
   (account_error + code_detail list) \<times> account_db" where
  "create_account_invite_codes ext now for_account codes expected_total disabled db =
     (let rows = invite_rows_for_account ext now for_account codes disabled
      in transaction (\<lambda>db.
           and_then (insert_invite_codes rows db) (\<lambda>_ db.
             if count_where (\<lambda>r. ic_for_account r = for_account \<and> ic_created_by r \<noteq> ''admin'')
                  (invite_codes db) > int expected_total
             then (Inl DuplicateCreate, db)
             else (Inr (map (\<lambda>row. \<lparr>cd_code = ic_code row, cd_available = 1,
                      cd_disabled = (ic_disabled row = 1), cd_for_account = ic_for_account row,
                      cd_created_by = ic_created_by row, cd_created_at = ic_created_at row,
                      cd_uses = []\<rparr>) rows), db))) db)"

section \<open>Reading codes and uses\<close>

text \<open>\<open>ORDER BY "usedAt" DESC\<close>; rows of the same time stamp keep their table order.\<close>

definition uses_by_date_desc :: "string list \<Rightarrow> account_db \<Rightarrow> invite_code_use_row list" where
  "uses_by_date_desc codes db =
     rev (sort_key iu_used_at (rev (filter (\<lambda>u. iu_code u \<in> set codes) (invite_code_uses db))))"

fun collect_uses ::
  "invite_code_use_row list \<Rightarrow> (string \<rightharpoonup> code_use list) \<Rightarrow> (string \<rightharpoonup> code_use list)" where
  "collect_uses [] uses = uses"
| "collect_uses (row # rows) uses =
     (let use = \<lparr>cu_used_by = iu_used_by row, cu_used_at = iu_used_at row\<rparr>
      in collect_uses rows
           (case uses (iu_code row) of
              None \<Rightarrow> uses(iu_code row \<mapsto> [use])
            | Some matched_uses \<Rightarrow> uses(iu_code row \<mapsto> matched_uses @ [use])))"

definition get_invite_codes_uses_v2 ::
  "string list \<Rightarrow> account_db \<Rightarrow> (string \<rightharpoonup> code_use list)" where
  "get_invite_codes_uses_v2 codes db =
     (if codes = [] then Map.empty else collect_uses (uses_by_date_desc codes db) Map.empty)"

text \<open>\<open>mem::take\<close> leaves an empty vector behind for the code it was taken for.\<close>

fun code_details ::
  "invite_code_row list \<Rightarrow> (string \<rightharpoonup> code_use list) \<Rightarrow> code_detail list" where
  "code_details [] uses = []"
| "code_details (row # rows) uses =
     \<lparr>cd_code = ic_code row, cd_available = ic_available_uses row,
      cd_disabled = (ic_disabled row = 1), cd_for_account = ic_for_account row,
      cd_created_by = ic_created_by row, cd_created_at = ic_created_at row,
      cd_uses = (case uses (ic_code row) of None \<Rightarrow> [] | Some us \<Rightarrow> us)\<rparr> #
     code_details rows
       (case uses (ic_code row) of None \<Rightarrow> uses | Some _ \<Rightarrow> uses(ic_code row \<mapsto> []))"

definition get_account_invite_codes :: "string \<Rightarrow> account_db \<Rightarrow> code_detail list" where
  "get_account_invite_codes did db =
     (let res = filter (\<lambda>r. ic_for_account r = did) (invite_codes db)
      in code_details res (get_invite_codes_uses_v2 (map ic_code res) db))"

definition get_invited_by_for_accounts ::
  "string list \<Rightarrow> account_db \<Rightarrow> (string \<rightharpoonup> code_detail)" where
  "get_invited_by_for_accounts dids db =
     (if dids = [] then Map.empty
      else let used = map iu_code (filter (\<lambda>u. iu_used_by u \<in> set dids) (invite_code_uses db));
               res = filter (\<lambda>r. ic_code r \<in> set used) (invite_codes db);
               details = code_details res (get_invite_codes_uses_v2 (map ic_code res) db)
           in foldl (\<lambda>acc cur. foldl (\<lambda>acc use. acc(cu_used_by use \<mapsto> cur)) acc (cd_uses cur))
                Map.empty details)"

section \<open>Disabling\<close>

definition set_account_invites_disabled :: "string \<Rightarrow> bool \<Rightarrow> account_db \<Rightarrow> account_db" where
  "set_account_invites_disabled did disabled db =
     db\<lparr>accounts := update_where (\<lambda>r. ac_did r = did)
        (\<lambda>r. r\<lparr>ac_invites_disabled := (if disabled then 1 else 0)\<rparr>) (accounts db)\<rparr>"

definition disable_invite_codes :: "string list \<Rightarrow> string list \<Rightarrow> account_db \<Rightarrow> account_db" where
  "disable_invite_codes codes accs db =
     (let db1 = (if codes \<noteq> [] then
            db\<lparr>invite_codes := update_where (\<lambda>r. ic_code r \<in> set codes)
               (\<lambda>r. r\<lparr>ic_disabled := 1\<rparr>) (invite_codes db)\<rparr> else db)
      in if accs \<noteq> [] then
            db1\<lparr>invite_codes := update_where (\<lambda>r. ic_for_account r \<in> set accs)
               (\<lambda>r. r\<lparr>ic_disabled := 1\<rparr>) (invite_codes db1)\<rparr> else db1)"

section \<open>Lemmas\<close>

lemma find_concat_keyed:
  assumes "\<forall>i. f i \<noteq> [] \<and> (\<forall>x \<in> set (f i). fst x = i)"
  shows "map_option fst (find (\<lambda>(i, a). P i) (concat (map f xs))) = find P xs"
proof (induction xs)
  case (Cons x xs)
  obtain y ys where y: "f x = y # ys" "fst y = x"
    using assms [rule_format, of x] by (cases "f x") auto
  show ?case
  proof (cases "P x")
    case True
    with y show ?thesis by (cases y) simp
  next
    case False
    then have "find (\<lambda>(i, a). P i) (f x) = None"
      using assms [rule_format, of x] by (auto simp: find_None_iff)
    with Cons False show ?thesis by (simp add: find_append)
  qed
qed simp

lemma ensure_invite_eq:
  "ensure_invite_is_available c db =
   (case find (\<lambda>i. ic_code i = c) (invite_codes db) of
      None \<Rightarrow> Inl (InviteNotAvailable c)
    | Some invite \<Rightarrow>
        if ic_disabled invite > 0 then Inl (InviteNotAvailable c)
        else if ic_available_uses invite \<le> count_where (\<lambda>u. iu_code u = c) (invite_code_uses db)
        then Inl (InviteNotEnoughUses c) else Inr ())"
proof -
  have *: "map_option fst (find (\<lambda>(i, a). ic_code i = c) (invite_left_join_actor db)) =
        find (\<lambda>i. ic_code i = c) (invite_codes db)"
    unfolding invite_left_join_actor_def
    by (rule find_concat_keyed) (auto split: list.splits)
  show ?thesis
    unfolding ensure_invite_is_available_def
    by (cases "find (\<lambda>(i, a). ic_code i = c) (invite_left_join_actor db)")
      (auto simp: * [symmetric])
qed

text \<open>Every use is of a code that exists, and no code has more uses than it allows.\<close>

definition invite_inv :: "account_db \<Rightarrow> bool" where
  "invite_inv db \<longleftrightarrow>
     (\<forall>u \<in> set (invite_code_uses db). has_row (\<lambda>i. ic_code i = iu_code u) (invite_codes db)) \<and>
     (\<forall>i \<in> set (invite_codes db).
        count_where (\<lambda>u. iu_code u = ic_code i) (invite_code_uses db) \<le> max 0 (ic_available_uses i))"

lemma invite_inv_empty: "invite_inv empty_db"
  by (simp add: invite_inv_def empty_db_def)

text \<open>The invariant reads two tables only.\<close>

lemma invite_inv_cong:
  "invite_codes db' = invite_codes db \<Longrightarrow> invite_code_uses db' = invite_code_uses db \<Longrightarrow>
   invite_inv db' = invite_inv db"
  by (simp add: invite_inv_def)

lemma invite_inv_use:
  assumes "wf_db db" and "invite_inv db" and "ensure_invite_is_available c db = Inr ()"
    and "invite_codes db' = invite_codes db" and "invite_code_uses db' = invite_code_uses db"
  shows "invite_inv (snd (record_invite_use did (Some c) now db'))"
proof -
  have u: "uniq ic_code (invite_codes db)" using assms(1) by (simp add: wf_dbD)
  obtain i where i: "find (\<lambda>i. ic_code i = c) (invite_codes db) = Some i"
    and lt: "count_where (\<lambda>u. iu_code u = c) (invite_code_uses db) < ic_available_uses i"
    using assms(3) by (auto simp: ensure_invite_eq split: option.splits if_splits)
  have only: "j = i" if "j \<in> set (invite_codes db)" "ic_code j = c" for j
    using find_uniq [OF u that] i by simp
  show ?thesis
    using assms(2,4,5) i lt only
    by (auto simp: invite_inv_def record_invite_use_def commit_if_def has_row_iff
        dest: find_Some_set)
qed

lemma invite_inv_snoc:
  assumes "invite_inv db" and "\<not> has_row (\<lambda>i. ic_code i = ic_code row) (invite_codes db)"
  shows "invite_inv (db\<lparr>invite_codes := invite_codes db @ [row]\<rparr>)"
proof -
  have "\<not> has_row (\<lambda>u. iu_code u = ic_code row) (invite_code_uses db)"
    using assms by (fastforce simp: invite_inv_def has_row_iff)
  then have "count_where (\<lambda>u. iu_code u = ic_code row) (invite_code_uses db) = 0"
    by (simp add: count_where_0_iff)
  with assms show ?thesis by (auto simp: invite_inv_def has_row_iff)
qed

lemma insert_invite_codes_inv:
  "P db \<Longrightarrow>
   (\<And>db row. P db \<Longrightarrow> \<not> has_row (\<lambda>i. ic_code i = ic_code row) (invite_codes db) \<Longrightarrow>
      P (db\<lparr>invite_codes := invite_codes db @ [row]\<rparr>)) \<Longrightarrow>
   P (snd (insert_invite_codes rows db))"
  by (induction rows db rule: insert_invite_codes.induct)
    (auto simp: commit_if_def)

lemma insert_invite_codes_ok:
  "insert_invite_codes rows db = (Inr (), db') \<longleftrightarrow>
   distinct (map ic_code rows) \<and> (\<forall>r \<in> set rows. ic_code r \<notin> ic_code ` set (invite_codes db)) \<and>
   db' = db\<lparr>invite_codes := invite_codes db @ rows\<rparr>"
  by (induction rows db rule: insert_invite_codes.induct)
    (auto simp: commit_if_def has_row_key, metis image_eqI)

lemma transaction_inv: "P db \<Longrightarrow> P (snd (body db)) \<Longrightarrow> P (snd (transaction body db))"
  by (cases "body db"; cases "fst (body db)") (auto simp: transaction_def)

lemma transaction_failed: "transaction body db = (Inl e, db') \<Longrightarrow> db' = db"
  by (auto simp: transaction_def split: prod.splits sum.splits)

lemma transaction_ok: "transaction body db = (Inr x, db') \<longleftrightarrow> body db = (Inr x, db')"
  by (auto simp: transaction_def split: prod.splits sum.splits)

lemma create_invite_codes_inv:
  assumes "P db" and "\<And>db row. P db \<Longrightarrow> \<not> has_row (\<lambda>i. ic_code i = ic_code row) (invite_codes db) \<Longrightarrow>
      P (db\<lparr>invite_codes := invite_codes db @ [row]\<rparr>)"
  shows "P (snd (create_invite_codes ext now cs n db))"
  unfolding create_invite_codes_def Let_def
  by (rule transaction_inv, rule assms(1), rule insert_invite_codes_inv, rule assms(1), rule assms(2))

lemma create_account_invite_codes_inv:
  assumes "P db" and "\<And>db row. P db \<Longrightarrow> \<not> has_row (\<lambda>i. ic_code i = ic_code row) (invite_codes db) \<Longrightarrow>
      P (db\<lparr>invite_codes := invite_codes db @ [row]\<rparr>)"
  shows "P (snd (create_account_invite_codes ext now d cs m b db))"
proof -
  have ins: "P (snd (insert_invite_codes rows db))" for rows
    by (rule insert_invite_codes_inv, rule assms(1), rule assms(2))
  show ?thesis
    unfolding create_account_invite_codes_def Let_def
    by (rule transaction_inv, rule assms(1), rule and_then_invariant, rule ins) simp
qed

lemma wf_insert_one:
  "wf_db db \<Longrightarrow> \<not> has_row (\<lambda>i. ic_code i = ic_code row) (invite_codes db) \<Longrightarrow>
   wf_db (db\<lparr>invite_codes := invite_codes db @ [row]\<rparr>)"
  by (auto simp: has_row_key uniq_snoc wf_dbD intro!: wf_invite_codes)

lemma wf_create_codes:
  assumes "wf_db db"
  shows "wf_db (snd (create_invite_codes ext now cs n db))"
    and "wf_db (snd (create_account_invite_codes ext now d cs' m b db))"
  by (rule create_invite_codes_inv create_account_invite_codes_inv, rule assms, erule wf_insert_one,
      assumption)+

lemma invite_inv_create_codes:
  assumes "invite_inv db"
  shows "invite_inv (snd (create_invite_codes ext now cs n db))"
    and "invite_inv (snd (create_account_invite_codes ext now d cs' m b db))"
  by (rule create_invite_codes_inv create_account_invite_codes_inv, rule assms, erule invite_inv_snoc,
      assumption)+

lemma wf_record_invite_use: "wf_db db \<Longrightarrow> wf_db (snd (record_invite_use did c now db))"
  unfolding record_invite_use_def
  by (auto split: option.splits intro!: commit_if_wf wf_invite_code_uses
      simp: uniq_snoc wf_dbD not_has_row_key invite_code_use_key_def has_row_iff)

lemma wf_set_account_invites_disabled: "wf_db db \<Longrightarrow> wf_db (set_account_invites_disabled did b db)"
  by (simp add: set_account_invites_disabled_def wf_update_account)

lemma disable_invite_codes_eq:
  "disable_invite_codes codes accs db = db\<lparr>invite_codes :=
     update_where (\<lambda>r. ic_code r \<in> set codes \<or> ic_for_account r \<in> set accs)
       (\<lambda>r. r\<lparr>ic_disabled := 1\<rparr>) (invite_codes db)\<rparr>"
proof -
  have id: "update_where (\<lambda>r. False) f t = t" for f and t :: "invite_code_row list"
    by (simp add: update_where_def)
  have "update_where p f (update_where q f t) = update_where (\<lambda>r. q r \<or> p r) f t"
    if "\<forall>r. p (f r) = p r" "\<forall>r. f (f r) = f r" for p q f and t :: "invite_code_row list"
    using that by (induction t) auto
  then show ?thesis
    by (auto simp: disable_invite_codes_def Let_def id)
qed

lemma wf_disable_invite_codes: "wf_db db \<Longrightarrow> wf_db (disable_invite_codes codes accs db)"
  by (auto simp: disable_invite_codes_eq wf_dbD uniq_update intro!: wf_invite_codes)

lemma invite_inv_disable: "invite_inv db \<Longrightarrow> invite_inv (disable_invite_codes codes accs db)"
  by (auto simp: disable_invite_codes_eq invite_inv_def has_row_update set_update_where)

lemmas wf_invite_ops = wf_create_codes wf_record_invite_use wf_set_account_invites_disabled
  wf_disable_invite_codes

text \<open>What the two readers report of a code's uses.\<close>

definition uses_of :: "string \<Rightarrow> account_db \<Rightarrow> code_use list" where
  "uses_of code db = map (\<lambda>u. \<lparr>cu_used_by = iu_used_by u, cu_used_at = iu_used_at u\<rparr>)
     (rev (sort_key iu_used_at (rev (filter (\<lambda>u. iu_code u = code) (invite_code_uses db)))))"

lemma collect_uses_eq:
  "(case collect_uses rows m c of None \<Rightarrow> [] | Some us \<Rightarrow> us) =
   (case m c of None \<Rightarrow> [] | Some us \<Rightarrow> us) @
   map (\<lambda>u. \<lparr>cu_used_by = iu_used_by u, cu_used_at = iu_used_at u\<rparr>)
     (filter (\<lambda>u. iu_code u = c) rows)"
  by (induction rows m rule: collect_uses.induct) (auto simp: Let_def split: option.splits)

lemma uses_v2_eq:
  assumes "c \<in> set codes"
  shows "(case get_invite_codes_uses_v2 codes db c of None \<Rightarrow> [] | Some us \<Rightarrow> us) = uses_of c db"
proof -
  have "filter (\<lambda>u. iu_code u = c) (uses_by_date_desc codes db) =
    rev (sort_key iu_used_at (rev (filter (\<lambda>u. iu_code u = c) (invite_code_uses db))))"
    using assms unfolding uses_by_date_desc_def
    by (auto simp: rev_filter [symmetric] filter_sort intro!: arg_cong [where f = rev]
        arg_cong [where f = "sort_key iu_used_at"] filter_cong)
  moreover have "codes \<noteq> []" using assms by auto
  ultimately show ?thesis
    by (simp add: get_invite_codes_uses_v2_def collect_uses_eq uses_of_def)
qed

lemma code_details_eq:
  "uniq ic_code rows \<Longrightarrow>
   code_details rows uses = map (\<lambda>row.
     \<lparr>cd_code = ic_code row, cd_available = ic_available_uses row,
      cd_disabled = (ic_disabled row = 1), cd_for_account = ic_for_account row,
      cd_created_by = ic_created_by row, cd_created_at = ic_created_at row,
      cd_uses = (case uses (ic_code row) of None \<Rightarrow> [] | Some us \<Rightarrow> us)\<rparr>) rows"
  by (induction rows uses rule: code_details.induct) (auto split: option.splits, (metis image_eqI)+)

end
