(* ===== verification/Auth_Tokens.thy ===== *)
theory Auth_Tokens
  imports Accounts
begin

text \<open>
  The auth helper (\<open>cacos-pds-account/src/account/helpers/auth.rs\<close>): scopes, the access,
  refresh and service JWTs, and the refresh tokens stored for rotation. Signing and
  verifying are jwt-simple's, a field of the parameter record \<open>ext\<close>; durations are in seconds.
\<close>

section \<open>Scopes\<close>

datatype auth_scope = Access | Refresh | AppPass | AppPassPrivileged | SignupQueued

fun scope_as_str :: "auth_scope \<Rightarrow> string" where
  "scope_as_str Access = ''com.atproto.access''"
| "scope_as_str Refresh = ''com.atproto.refresh''"
| "scope_as_str AppPass = ''com.atproto.appPass''"
| "scope_as_str AppPassPrivileged = ''com.atproto.appPassPrivileged''"
| "scope_as_str SignupQueued = ''com.atproto.signupQueued''"

definition scope_from_str :: "string \<Rightarrow> account_error + auth_scope" where
  "scope_from_str scope =
     (if scope = ''com.atproto.access'' then Inr Access
      else if scope = ''com.atproto.refresh'' then Inr Refresh
      else if scope = ''com.atproto.appPass'' then Inr AppPass
      else if scope = ''com.atproto.appPassPrivileged'' then Inr AppPassPrivileged
      else if scope = ''com.atproto.signupQueued'' then Inr SignupQueued
      else Inl (InvalidAuthScope scope))"

section \<open>Session tokens\<close>

record create_tokens_opts =
  ct_did :: string
  ct_service_did :: string
  ct_scope :: "auth_scope option"
  ct_jti :: "string option"
  ct_expires_in :: "int option"

record refresh_grace_period_opts =
  gp_id :: string
  gp_expires_at :: string
  gp_next_id :: string

text \<open>\<open>rf_exp\<close> is in milliseconds, as \<open>Duration::as_millis\<close> reads it.\<close>

record refresh_token =
  rf_scope :: auth_scope
  rf_sub :: string
  rf_exp :: int
  rf_jti :: string

definition create_access_token ::
  "ext \<Rightarrow> int \<Rightarrow> create_tokens_opts \<Rightarrow> account_error + string" where
  "create_access_token ext now opts =
     (let scope = (case ct_scope opts of Some s \<Rightarrow> s | None \<Rightarrow> Access);
          expires_in = (case ct_expires_in opts of Some d \<Rightarrow> d | None \<Rightarrow> 2 * 60 * 60)
      in option_to_result JwtSignError (jwt_sign ext now
           \<lparr>tq_scope = scope_as_str scope, tq_valid_for = expires_in,
            tq_audience = ct_service_did opts, tq_subject = ct_did opts, tq_jwt_id = None\<rparr>))"

text \<open>\<open>raw\<close> is \<open>get_random_str()\<close>, used when no id is given.\<close>

definition create_refresh_token ::
  "ext \<Rightarrow> int \<Rightarrow> string \<Rightarrow> create_tokens_opts \<Rightarrow> account_error + string" where
  "create_refresh_token ext now raw opts =
     (let jti = (case ct_jti opts of Some j \<Rightarrow> j | None \<Rightarrow> raw);
          expires_in = (case ct_expires_in opts of Some d \<Rightarrow> d | None \<Rightarrow> 90 * 24 * 60 * 60)
      in option_to_result JwtSignError (jwt_sign ext now
           \<lparr>tq_scope = scope_as_str Refresh, tq_valid_for = expires_in,
            tq_audience = ct_service_did opts, tq_subject = ct_did opts, tq_jwt_id = Some jti\<rparr>))"

definition create_tokens ::
  "ext \<Rightarrow> int \<Rightarrow> string \<Rightarrow> create_tokens_opts \<Rightarrow> account_error + string \<times> string" where
  "create_tokens ext now raw opts =
     (case create_access_token ext now (opts\<lparr>ct_jti := None\<rparr>) of
        Inl e \<Rightarrow> Inl e
      | Inr access_jwt \<Rightarrow>
          (case create_refresh_token ext now raw (opts\<lparr>ct_scope := None\<rparr>) of
             Inl e \<Rightarrow> Inl e
           | Inr refresh_jwt \<Rightarrow> Inr (access_jwt, refresh_jwt)))"

definition decode_refresh_token ::
  "ext \<Rightarrow> int \<Rightarrow> string \<Rightarrow> account_error + refresh_token" where
  "decode_refresh_token ext now jwt =
     (case jwt_verify ext now None jwt of
        Inl e \<Rightarrow> Inl (Jwt e)
      | Inr claims \<Rightarrow>
          if cl_scope claims \<noteq> scope_as_str Refresh then Inl NotARefreshToken
          else (case scope_from_str (cl_scope claims) of
             Inl e \<Rightarrow> Inl e
           | Inr scope \<Rightarrow>
               (case cl_subject claims of
                  None \<Rightarrow> Inl (MissingRefreshClaim ''subject'')
                | Some sub \<Rightarrow>
                    (case cl_expires_at claims of
                       None \<Rightarrow> Inl (MissingRefreshClaim ''expiration'')
                     | Some exp \<Rightarrow>
                         (case cl_jwt_id claims of
                            None \<Rightarrow> Inl (MissingRefreshClaim ''jti'')
                          | Some jti \<Rightarrow> Inr \<lparr>rf_scope = scope, rf_sub = sub, rf_exp = exp,
                                            rf_jti = jti\<rparr>)))))"

section \<open>Service tokens\<close>

record service_jwt_params =
  sp_iss :: string
  sp_aud :: string
  sp_exp :: "int option"
  sp_lxm :: "string option"
  sp_jti :: "string option"

record service_jwt_header =
  sh_typ :: string
  sh_alg :: string

text \<open>
  The payload has the fields of the parameters. JSON with base64url (\<open>json_header\<close>,
  \<open>json_payload\<close>) and the signature over the text with its base64url are parameters.
\<close>

definition create_service_jwt ::
  "ext \<Rightarrow> (service_jwt_header \<Rightarrow> string option) \<Rightarrow> (service_jwt_params \<Rightarrow> string option) \<Rightarrow>
   (string \<Rightarrow> string option) \<Rightarrow> int \<Rightarrow> string \<Rightarrow> service_jwt_params \<Rightarrow> account_error + string" where
  "create_service_jwt ext json_header json_payload sign now raw params =
     (let now_secs = now div 1000000;
          exp = (case sp_exp params of Some e \<Rightarrow> e | None \<Rightarrow> now_secs + MINUTE ext div 1000);
          header = \<lparr>sh_typ = ''JWT'', sh_alg = ''ES256K''\<rparr>;
          payload = \<lparr>sp_iss = sp_iss params, sp_aud = sp_aud params, sp_exp = Some exp,
                     sp_lxm = sp_lxm params, sp_jti = Some raw\<rparr>
      in case json_header header of None \<Rightarrow> Inl JwtSignError
         | Some h \<Rightarrow>
             (case json_payload payload of None \<Rightarrow> Inl JwtSignError
              | Some p \<Rightarrow>
                  let to_sign_str = h @ ''.'' @ p
                  in case sign to_sign_str of None \<Rightarrow> Inl JwtSignError
                     | Some sig \<Rightarrow> Inr (to_sign_str @ ''.'' @ sig)))"

section \<open>Stored refresh tokens\<close>

text \<open>\<open>INSERT .. ON CONFLICT (id) DO NOTHING\<close>.\<close>

definition store_refresh_token ::
  "ext \<Rightarrow> refresh_token \<Rightarrow> string option \<Rightarrow> account_db \<Rightarrow> (account_error + unit) \<times> account_db" where
  "store_refresh_token ext payload app_password_name db =
     (if \<not> ts_in_range ext (rf_exp payload * 1000) then (Inl TimestampOutOfRange, db)
      else let row = \<lparr>rt_id = rf_jti payload, rt_did = rf_sub payload,
                      rt_expires_at = fmt_ts ext (rf_exp payload * 1000), rt_next_id = None,
                      rt_app_password_name = app_password_name\<rparr>
      in if has_row (\<lambda>r. rt_id r = rf_jti payload) (refresh_tokens db) then (Inr (), db)
         else (Inr (), db\<lparr>refresh_tokens := refresh_tokens db @ [row]\<rparr>))"

definition revoke_where :: "(refresh_token_row \<Rightarrow> bool) \<Rightarrow> account_db \<Rightarrow> bool \<times> account_db" where
  "revoke_where p db =
     (count_where p (refresh_tokens db) > 0,
      db\<lparr>refresh_tokens := delete_where p (refresh_tokens db)\<rparr>)"

definition revoke_refresh_token :: "string \<Rightarrow> account_db \<Rightarrow> bool \<times> account_db" where
  "revoke_refresh_token i = revoke_where (\<lambda>r. rt_id r = i)"

definition revoke_refresh_tokens_by_did :: "string \<Rightarrow> account_db \<Rightarrow> bool \<times> account_db" where
  "revoke_refresh_tokens_by_did did = revoke_where (\<lambda>r. rt_did r = did)"

definition revoke_app_password_refresh_token ::
  "string \<Rightarrow> string \<Rightarrow> account_db \<Rightarrow> bool \<times> account_db" where
  "revoke_app_password_refresh_token did app_pass_name =
     revoke_where (\<lambda>r. rt_did r = did \<and> rt_app_password_name r = Some app_pass_name)"

definition get_refresh_token :: "string \<Rightarrow> account_db \<Rightarrow> refresh_token_row option" where
  "get_refresh_token i db = find (\<lambda>r. rt_id r = i) (refresh_tokens db)"

definition delete_expired_refresh_tokens :: "string \<Rightarrow> string \<Rightarrow> account_db \<Rightarrow> account_db" where
  "delete_expired_refresh_tokens did now db =
     db\<lparr>refresh_tokens := delete_where (\<lambda>r. rt_did r = did \<and> rt_expires_at r \<le> now)
        (refresh_tokens db)\<rparr>"

definition add_refresh_grace_period ::
  "refresh_grace_period_opts \<Rightarrow> account_db \<Rightarrow> (account_error + unit) \<times> account_db" where
  "add_refresh_grace_period opts db =
     (let p = (\<lambda>r. rt_id r = gp_id opts \<and>
                (rt_next_id r = None \<or> rt_next_id r = Some (gp_next_id opts)))
      in if count_where p (refresh_tokens db) < 1 then (Inl ConcurrentRefresh, db)
         else (Inr (), db\<lparr>refresh_tokens := update_where p
                 (\<lambda>r. r\<lparr>rt_expires_at := gp_expires_at opts, rt_next_id := Some (gp_next_id opts)\<rparr>)
                 (refresh_tokens db)\<rparr>))"

section \<open>Lemmas\<close>

lemma scope_inj: "scope_as_str a = scope_as_str b \<longleftrightarrow> a = b"
  by (cases a; cases b) simp_all

lemma scope_roundtrip: "scope_from_str (scope_as_str a) = Inr a"
  by (cases a) (simp_all add: scope_from_str_def)

lemma scope_from_str_Inr: "scope_from_str s = Inr a \<longleftrightarrow> s = scope_as_str a"
proof
  assume "scope_from_str s = Inr a"
  then show "s = scope_as_str a" by (auto simp: scope_from_str_def split: if_splits)
next
  assume "s = scope_as_str a"
  then show "scope_from_str s = Inr a" using scope_roundtrip by simp
qed

text \<open>What a fresh pair of tokens carries.\<close>

lemma sign_verify:
  "jwt_ok ext \<Longrightarrow> jwt_sign ext now req = Some jwt \<Longrightarrow> 0 < tq_valid_for req \<Longrightarrow>
   jwt_verify ext now None jwt = Inr
     \<lparr>cl_scope = tq_scope req, cl_subject = Some (tq_subject req),
      cl_audiences = Some (AsString (tq_audience req)),
      cl_expires_at = Some ((now_secs now + tq_valid_for req) * 1000),
      cl_issued_at = Some (now_secs now * 1000), cl_jwt_id = tq_jwt_id req\<rparr>"
  unfolding jwt_ok_def by blast

lemma create_tokens_ok:
  "create_tokens ext now raw opts = Inr (access_jwt, refresh_jwt) \<longleftrightarrow>
   create_access_token ext now (opts\<lparr>ct_jti := None\<rparr>) = Inr access_jwt \<and>
   create_refresh_token ext now raw (opts\<lparr>ct_scope := None\<rparr>) = Inr refresh_jwt"
  by (auto simp: create_tokens_def split: sum.splits)

lemma decode_created:
  assumes "jwt_ok ext" and "create_tokens ext now raw opts = Inr (access_jwt, refresh_jwt)"
    and "ct_expires_in opts = None"
  shows "decode_refresh_token ext now refresh_jwt = Inr
    \<lparr>rf_scope = Refresh, rf_sub = ct_did opts,
     rf_exp = (now_secs now + 90 * 24 * 60 * 60) * 1000,
     rf_jti = (case ct_jti opts of Some j \<Rightarrow> j | None \<Rightarrow> raw)\<rparr>"
proof -
  let ?req = "\<lparr>tq_scope = scope_as_str Refresh, tq_valid_for = 90 * 24 * 60 * 60,
            tq_audience = ct_service_did opts, tq_subject = ct_did opts,
            tq_jwt_id = Some (case ct_jti opts of Some j \<Rightarrow> j | None \<Rightarrow> raw)\<rparr>"
  have "jwt_sign ext now ?req = Some refresh_jwt"
    using assms(2,3) unfolding create_tokens_ok
    by (simp add: create_refresh_token_def option_to_result_def split: option.splits)
  from sign_verify [OF assms(1) this] show ?thesis
    by (simp add: decode_refresh_token_def scope_from_str_def)
qed

lemma access_token_claims:
  assumes "jwt_ok ext" and "create_tokens ext now raw opts = Inr (access_jwt, refresh_jwt)"
    and "ct_expires_in opts = None"
  shows "jwt_verify ext now None access_jwt = Inr
    \<lparr>cl_scope = scope_as_str (case ct_scope opts of Some s \<Rightarrow> s | None \<Rightarrow> Access),
     cl_subject = Some (ct_did opts), cl_audiences = Some (AsString (ct_service_did opts)),
     cl_expires_at = Some ((now_secs now + 2 * 60 * 60) * 1000),
     cl_issued_at = Some (now_secs now * 1000), cl_jwt_id = None\<rparr>"
proof -
  let ?req = "\<lparr>tq_scope = scope_as_str (case ct_scope opts of Some s \<Rightarrow> s | None \<Rightarrow> Access),
            tq_valid_for = 2 * 60 * 60, tq_audience = ct_service_did opts,
            tq_subject = ct_did opts, tq_jwt_id = None\<rparr>"
  have "jwt_sign ext now ?req = Some access_jwt"
    using assms(2,3) unfolding create_tokens_ok
    by (simp add: create_access_token_def option_to_result_def split: option.splits)
  from sign_verify [OF assms(1) this] show ?thesis by simp
qed

text \<open>An access token is never accepted in place of a refresh token.\<close>

lemma decode_refresh_token_scope:
  "decode_refresh_token ext now jwt = Inr rt \<Longrightarrow>
   rf_scope rt = Refresh \<and>
   (\<exists>claims. jwt_verify ext now None jwt = Inr claims \<and> cl_scope claims = ''com.atproto.refresh'' \<and>
      cl_subject claims = Some (rf_sub rt) \<and> cl_jwt_id claims = Some (rf_jti rt) \<and>
      cl_expires_at claims = Some (rf_exp rt))"
  by (auto simp: decode_refresh_token_def scope_from_str_def split: sum.splits option.splits if_splits)

lemma get_refresh_token_did: "get_refresh_token i db = Some r \<Longrightarrow> rt_id r = i \<and> r \<in> set (refresh_tokens db)"
  by (auto simp: get_refresh_token_def dest: find_Some_set)

lemma get_store:
  assumes "ts_in_range ext (rf_exp p * 1000)"
  shows "get_refresh_token i (snd (store_refresh_token ext p name db)) =
    (if i = rf_jti p \<and> get_refresh_token i db = None
     then Some \<lparr>rt_id = i, rt_did = rf_sub p, rt_expires_at = fmt_ts ext (rf_exp p * 1000),
                rt_next_id = None, rt_app_password_name = name\<rparr>
     else get_refresh_token i db)"
  using assms
  by (cases "find (\<lambda>r. rt_id r = rf_jti p) (refresh_tokens db)")
    (auto simp: store_refresh_token_def get_refresh_token_def Let_def find_append has_row_find
      split: option.splits)

lemma get_revoke_where:
  "wf_db db \<Longrightarrow> get_refresh_token i (snd (revoke_where p db)) =
    (case get_refresh_token i db of None \<Rightarrow> None | Some r \<Rightarrow> if p r then None else Some r)"
  by (simp add: get_refresh_token_def revoke_where_def find_uniq_delete wf_dbD)

lemma revoked_by_did:
  "wf_db db \<Longrightarrow> get_refresh_token i (snd (revoke_refresh_tokens_by_did did db)) = Some r \<Longrightarrow> rt_did r \<noteq> did"
  by (auto simp: revoke_refresh_tokens_by_did_def get_revoke_where split: option.splits if_splits)

lemma get_grace:
  assumes "wf_db db" and "add_refresh_grace_period opts db = (Inr (), db')"
  shows "\<exists>r. get_refresh_token (gp_id opts) db = Some r \<and>
    (rt_next_id r = None \<or> rt_next_id r = Some (gp_next_id opts)) \<and>
    get_refresh_token (gp_id opts) db' = Some (r\<lparr>rt_expires_at := gp_expires_at opts,
      rt_next_id := Some (gp_next_id opts)\<rparr>)"
proof -
  let ?p = "\<lambda>r. rt_id r = gp_id opts \<and> (rt_next_id r = None \<or> rt_next_id r = Some (gp_next_id opts))"
  let ?f = "\<lambda>r. r\<lparr>rt_expires_at := gp_expires_at opts, rt_next_id := Some (gp_next_id opts)\<rparr>"
  have c: "\<not> count_where ?p (refresh_tokens db) < 1" and
    d: "db' = db\<lparr>refresh_tokens := update_where ?p ?f (refresh_tokens db)\<rparr>"
    using assms(2) by (auto simp: add_refresh_grace_period_def Let_def split: if_splits)
  from c have "count_where ?p (refresh_tokens db) \<noteq> 0" by simp
  then obtain r where r: "r \<in> set (refresh_tokens db)" "?p r"
    unfolding count_where_0_iff has_row_iff by auto
  have u: "uniq rt_id (refresh_tokens db)" using assms(1) by (simp add: wf_dbD)
  have g: "get_refresh_token (gp_id opts) db = Some r"
    using find_uniq [OF u r(1)] r(2) by (simp add: get_refresh_token_def)
  have "get_refresh_token (gp_id opts) db' = map_option (\<lambda>r. if ?p r then ?f r else r)
      (get_refresh_token (gp_id opts) db)"
    unfolding d get_refresh_token_def by (simp add: find_update_where)
  with g r show ?thesis by auto
qed

text \<open>Other tokens are not touched by the grace period of one.\<close>

lemma get_grace_other:
  "i \<noteq> gp_id opts \<Longrightarrow>
   get_refresh_token i (snd (add_refresh_grace_period opts db)) = get_refresh_token i db"
  unfolding get_refresh_token_def add_refresh_grace_period_def Let_def
  by (simp add: find_update_where)
    (cases "find (\<lambda>r. rt_id r = i) (refresh_tokens db)"; auto dest: find_Some_set)

lemma wf_store_refresh_token: "wf_db db \<Longrightarrow> wf_db (snd (store_refresh_token ext p name db))"
  by (auto simp: store_refresh_token_def Let_def uniq_snoc wf_dbD has_row_key
      intro!: wf_refresh_tokens)

lemma wf_revoke_where: "wf_db db \<Longrightarrow> wf_db (snd (revoke_where p db))"
  by (simp add: revoke_where_def wf_delete_refresh_tokens)

lemma wf_revoke:
  assumes "wf_db db"
  shows "wf_db (snd (revoke_refresh_token i db))"
    and "wf_db (snd (revoke_refresh_tokens_by_did did db))"
    and "wf_db (snd (revoke_app_password_refresh_token did name db))"
  using assms
  by (simp_all add: revoke_refresh_token_def revoke_refresh_tokens_by_did_def
      revoke_app_password_refresh_token_def wf_revoke_where)

lemma wf_delete_expired: "wf_db db \<Longrightarrow> wf_db (delete_expired_refresh_tokens did now db)"
  by (simp add: delete_expired_refresh_tokens_def wf_delete_refresh_tokens)

lemma wf_add_grace: "wf_db db \<Longrightarrow> wf_db (snd (add_refresh_grace_period opts db))"
  by (auto simp: add_refresh_grace_period_def Let_def wf_dbD uniq_update intro!: wf_refresh_tokens)

lemmas wf_auth_ops = wf_store_refresh_token wf_revoke wf_delete_expired wf_add_grace

end
