(* ===== verification/Repo_Roots.thy ===== *)
theory Repo_Roots
  imports Accounts
begin

text \<open>
  The repository root of each account (\<open>cacos-pds-account/src/account/helpers/repo.rs\<close>): the
  guard that never lets a stored revision go back. Revisions are compared as strings.
\<close>

definition update_root ::
  "ext \<Rightarrow> int \<Rightarrow> string \<Rightarrow> string \<Rightarrow> string \<Rightarrow> account_db \<Rightarrow> (account_error + unit) \<times> account_db" where
  "update_root ext now did cid new_rev db =
     (case find (\<lambda>r. rr_did r = did) (repo_roots db) of
        None \<Rightarrow> (Inr (), db\<lparr>repo_roots := repo_roots db @
          [\<lparr>rr_did = did, rr_cid = cid, rr_rev = new_rev, rr_indexed_at = fmt_ts ext now\<rparr>]\<rparr>)
      | Some existing \<Rightarrow>
          if rr_rev existing \<le> new_rev
          then (Inr (), db\<lparr>repo_roots := update_where (\<lambda>r. rr_did r = did)
                 (\<lambda>r. r\<lparr>rr_cid := cid, rr_rev := new_rev, rr_indexed_at := fmt_ts ext now\<rparr>)
                 (repo_roots db)\<rparr>)
          else (Inl (RevRegression (rr_rev existing) new_rev), db))"

definition root_of :: "string \<Rightarrow> account_db \<Rightarrow> repo_root_row option" where
  "root_of did db = find (\<lambda>r. rr_did r = did) (repo_roots db)"

lemma wf_update_root: "wf_db db \<Longrightarrow> wf_db (snd (update_root ext now did cid new_rev db))"
  by (auto simp: update_root_def wf_dbD uniq_update uniq_snoc find_None_iff
      split: option.splits intro!: wf_repo_roots)

lemma root_of_update:
  "root_of did (snd (update_root ext now did cid new_rev db)) =
   (case root_of did db of
      None \<Rightarrow> Some \<lparr>rr_did = did, rr_cid = cid, rr_rev = new_rev, rr_indexed_at = fmt_ts ext now\<rparr>
    | Some r \<Rightarrow> if rr_rev r \<le> new_rev
        then Some (r\<lparr>rr_cid := cid, rr_rev := new_rev, rr_indexed_at := fmt_ts ext now\<rparr>) else Some r)"
  unfolding root_of_def update_root_def
  by (auto simp: find_append find_update_where split: option.splits dest: find_Some_set)

lemma root_of_update_other:
  "did' \<noteq> did \<Longrightarrow> root_of did' (snd (update_root ext now did cid new_rev db)) = root_of did' db"
  unfolding root_of_def update_root_def
  by (auto simp: find_append find_update_where split: option.splits)
    (cases "find (\<lambda>r. rr_did r = did') (repo_roots db)"; auto dest: find_Some_set)+

text \<open>Any sequence of updates, those that fail included, leaves the revision where it was or later.\<close>

fun update_roots ::
  "ext \<Rightarrow> (int \<times> string \<times> string \<times> string) list \<Rightarrow> account_db \<Rightarrow> account_db" where
  "update_roots ext [] db = db"
| "update_roots ext ((now, did, cid, new_rev) # us) db =
     update_roots ext us (snd (update_root ext now did cid new_rev db))"

lemma update_roots_mono:
  "root_of did db = Some r \<Longrightarrow>
   \<exists>r'. root_of did (update_roots ext us db) = Some r' \<and> rr_rev r \<le> rr_rev r'"
proof (induction ext us db arbitrary: r rule: update_roots.induct)
  case (2 ext now d cid new_rev us db)
  have "\<exists>r1. root_of did (snd (update_root ext now d cid new_rev db)) = Some r1 \<and> rr_rev r \<le> rr_rev r1"
    using 2(2) by (cases "d = did") (simp_all add: root_of_update root_of_update_other)
  then obtain r1 where r1: "root_of did (snd (update_root ext now d cid new_rev db)) = Some r1"
    "rr_rev r \<le> rr_rev r1" by blast
  from 2(1) [OF r1(1)] r1(2) show ?case by (auto intro: order_trans)
qed simp

end
