(* ===== verification/Account_Manager.thy ===== *)
theory Account_Manager
  imports Handles Email_Tokens Passwords Invites Auth_Tokens Repo_Roots
begin

text \<open>
  \<open>AccountManager\<close> (\<open>cacos-pds-account/src/account/mod.rs\<close>): the operations that combine the
  helpers. The SQL statements of one operation run one after the other; a failing one leaves
  what the earlier ones did, because no transaction spans them. Two statements under
  \<open>try_join!\<close> touch different tables; where one can fail, a flag tells whether the other had
  already run. The theory proves what registration, sessions, rotation, lockout, password
  reset and takedown do, and that every operation keeps the schema and the invite budget.
\<close>

section \<open>Accounts\<close>

definition REFRESH_GRACE_MS :: int where
  "REFRESH_GRACE_MS = 2 * 60 * 60 * 1000"

definition format_micros :: "ext \<Rightarrow> int \<Rightarrow> account_error + string" where
  "format_micros ext micros =
     (if ts_in_range ext micros then Inr (fmt_ts ext micros) else Inl TimestampOutOfRange)"

record create_account_opts =
  co_did :: string
  co_handle :: string
  co_email :: "string option"
  co_password :: "string option"
  co_repo_cid :: string
  co_repo_rev :: string
  co_invite_code :: "string option"
  co_deactivated :: "bool option"
  co_service_did :: string

definition is_account_activated :: "string \<Rightarrow> account_db \<Rightarrow> bool" where
  "is_account_activated did db =
     (case get_account did (Some \<lparr>include_taken_down = None, include_deactivated = Some True\<rparr>) db of
        Some account \<Rightarrow> aa_deactivated_at account = None
      | None \<Rightarrow> False)"

definition get_did_for_actor ::
  "string \<Rightarrow> availability_flags option \<Rightarrow> account_db \<Rightarrow> string option" where
  "get_did_for_actor handle_or_did flags db = map_option aa_did (get_account handle_or_did flags db)"

text \<open>\<open>salt\<close> and \<open>raw\<close> are the random salt of the password and the random token id.\<close>

definition create_account ::
  "ext \<Rightarrow> int \<Rightarrow> string \<Rightarrow> string \<Rightarrow> create_account_opts \<Rightarrow> account_db \<Rightarrow>
   (account_error + string \<times> string) \<times> account_db" where
  "create_account ext now salt raw opts db =
     and_then (reading (case co_password opts of
         Some password \<Rightarrow> map_sum id Some (gen_salt_and_hash ext salt password)
       | None \<Rightarrow> Inr None) db) (\<lambda>password_encrypted db.
     and_then (reading (create_tokens ext now raw
         \<lparr>ct_did = co_did opts, ct_service_did = co_service_did opts, ct_scope = Some Access,
          ct_jti = None, ct_expires_in = None\<rparr>) db) (\<lambda>(access_jwt, refresh_jwt) db.
     and_then (reading (decode_refresh_token ext now refresh_jwt) db) (\<lambda>refresh_payload db.
     and_then (reading (case co_invite_code opts of
         Some invite_code \<Rightarrow> ensure_invite_is_available invite_code db
       | None \<Rightarrow> Inr ()) db) (\<lambda>_ db.
     and_then (register_actor ext now (co_did opts) (co_handle opts) (co_deactivated opts) db) (\<lambda>_ db.
     and_then (case (co_email opts, password_encrypted) of
         (Some email, Some password) \<Rightarrow>
           register_account ext now (co_did opts) email password None db
       | _ \<Rightarrow> (Inr (), db)) (\<lambda>_ db.
     and_then (record_invite_use (co_did opts) (co_invite_code opts) (fmt_ts ext now) db) (\<lambda>_ db.
     and_then (store_refresh_token ext refresh_payload None db) (\<lambda>_ db.
     and_then (update_root ext now (co_did opts) (co_repo_cid opts) (co_repo_rev opts) db) (\<lambda>_ db.
       (Inr (access_jwt, refresh_jwt), db))))))))))"

definition takedown_account :: "ext \<Rightarrow> int \<Rightarrow> string \<Rightarrow> status_attr \<Rightarrow> account_db \<Rightarrow> account_db" where
  "takedown_account ext now did takedown db =
     snd (revoke_refresh_tokens_by_did did (update_account_takedown_status ext now did takedown db))"

definition get_account_status :: "string \<Rightarrow> account_db \<Rightarrow> account_error + account_status" where
  "get_account_status handle_or_did db =
     (let got = get_account handle_or_did
                  (Some \<lparr>include_taken_down = Some True, include_deactivated = Some True\<rparr>) db;
          res = format_account_status got
      in if fs_active res then Inr Active
         else option_to_result (Panic ''Account status not properly formatted.'') (fs_status res))"

text \<open>\<open>tokens_first\<close>: the tokens were deleted before the update of the address failed.\<close>

definition manager_update_email ::
  "ext \<Rightarrow> bool \<Rightarrow> string \<Rightarrow> string \<Rightarrow> account_db \<Rightarrow> (account_error + unit) \<times> account_db" where
  "manager_update_email ext tokens_first did email db =
     (if tokens_first then update_email ext did email (delete_all_email_tokens did db)
      else and_then (update_email ext did email db)
             (\<lambda>_ db. (Inr (), delete_all_email_tokens did db)))"

section \<open>Lockout\<close>

definition is_account_locked :: "int \<Rightarrow> string \<Rightarrow> account_db \<Rightarrow> bool" where
  "is_account_locked now did db =
     (case snd (get_account_lockout_state did db) of
        None \<Rightarrow> False
      | Some until \<Rightarrow> until > now_secs now)"

definition record_failed_login :: "string \<Rightarrow> account_db \<Rightarrow> account_db" where
  "record_failed_login did db = snd (increment_failed_login_count did db)"

definition record_failed_login_with_lockout :: "int \<Rightarrow> string \<Rightarrow> account_db \<Rightarrow> bool \<times> account_db" where
  "record_failed_login_with_lockout now did db =
     (let db1 = snd (increment_failed_login_count did db);
          count = fst (get_account_lockout_state did db1)
      in if count \<ge> 5 then (True, set_account_locked_until did (now_secs now + 900) db1)
         else (False, db1))"

section \<open>Sessions\<close>

definition create_session ::
  "ext \<Rightarrow> int \<Rightarrow> string \<Rightarrow> string \<Rightarrow> string \<Rightarrow> string option \<Rightarrow> account_db \<Rightarrow>
   (account_error + string \<times> string) \<times> account_db" where
  "create_session ext now raw did service_did app_password_name db =
     (if is_account_locked now did db then (Inl AccountLocked, db)
      else
        let scope = (if app_password_name = None then Access else AppPass) in
        and_then (reading (create_tokens ext now raw
            \<lparr>ct_did = did, ct_service_did = service_did, ct_scope = Some scope, ct_jti = None,
             ct_expires_in = None\<rparr>) db) (\<lambda>(access_jwt, refresh_jwt) db.
        and_then (reading (decode_refresh_token ext now refresh_jwt) db) (\<lambda>refresh_payload db.
        and_then (store_refresh_token ext refresh_payload app_password_name db) (\<lambda>_ db.
          (Inr (access_jwt, refresh_jwt), db)))))"

text \<open>
  Rotation retries itself when another client won the race for the grace period. One attempt
  has the clock and the random id it reads, what other clients did to the database before
  its first read and between its read and its update, and the order of the two joined
  statements. \<open>rotate_refresh_token\<close> runs a list of attempts; \<open>None\<close> means that the last of
  them still asked for a retry.
\<close>

record rotate_attempt =
  at_now :: int
  at_raw :: string
  at_before_read :: "account_db \<Rightarrow> account_db"
  at_before_update :: "account_db \<Rightarrow> account_db"
  at_store_first :: bool

datatype rotate_outcome =
    Returned "account_error + (string \<times> string) option" account_db
  | Retried account_db

text \<open>The statements under \<open>try_join!\<close>, and what their result leads to.\<close>

definition rotate_join ::
  "ext \<Rightarrow> bool \<Rightarrow> refresh_grace_period_opts \<Rightarrow> refresh_token \<Rightarrow> string option \<Rightarrow> string \<times> string \<Rightarrow>
   account_db \<Rightarrow> rotate_outcome" where
  "rotate_join ext store_first grace payload app_password_name jwts db =
     (let r = (if store_first
               then and_then (store_refresh_token ext payload app_password_name db)
                      (\<lambda>_ db. add_refresh_grace_period grace db)
               else and_then (add_refresh_grace_period grace db)
                      (\<lambda>_ db. store_refresh_token ext payload app_password_name db))
      in case fst r of
           Inr _ \<Rightarrow> Returned (Inr (Some jwts)) (snd r)
         | Inl e \<Rightarrow> if e = ConcurrentRefresh then Retried (snd r) else Returned (Inl e) (snd r))"

text \<open>
  What an attempt computes from the token row it read: an error, nothing when the token has
  expired, or the new expiry and next id of the row, the new token's payload and the two JWTs.
\<close>

definition rotate_plan ::
  "ext \<Rightarrow> string \<Rightarrow> string \<Rightarrow> int \<Rightarrow> string \<Rightarrow> refresh_token_row \<Rightarrow>
   account_error + (refresh_grace_period_opts \<times> refresh_token \<times> string \<times> string) option" where
  "rotate_plan ext i service_did now raw token =
     (case from_str_to_micros ext (rt_expires_at token) of
        None \<Rightarrow> Inl (TimestampUnparseable (rt_expires_at token))
      | Some prev_expires_at \<Rightarrow>
          let grace_expires_at = now + REFRESH_GRACE_MS * 1000;
              expires_at = (if grace_expires_at < prev_expires_at then grace_expires_at
                            else prev_expires_at)
          in if expires_at \<le> now then Inr None
             else
               let next_id = (case rt_next_id token of Some n \<Rightarrow> n | None \<Rightarrow> raw)
               in case create_tokens ext now raw
                    \<lparr>ct_did = rt_did token, ct_service_did = service_did,
                     ct_scope = Some (if rt_app_password_name token = None then Access else AppPass),
                     ct_jti = Some next_id, ct_expires_in = None\<rparr> of
                    Inl e \<Rightarrow> Inl e
                  | Inr (access_jwt, refresh_jwt) \<Rightarrow>
                      (case decode_refresh_token ext now refresh_jwt of
                         Inl e \<Rightarrow> Inl e
                       | Inr refresh_payload \<Rightarrow>
                           (case format_micros ext expires_at of
                              Inl e \<Rightarrow> Inl e
                            | Inr exp \<Rightarrow>
                                Inr (Some (\<lparr>gp_id = i, gp_expires_at = exp, gp_next_id = next_id\<rparr>,
                                  refresh_payload, access_jwt, refresh_jwt)))))"

definition rotate_once ::
  "ext \<Rightarrow> string \<Rightarrow> string \<Rightarrow> rotate_attempt \<Rightarrow> account_db \<Rightarrow> rotate_outcome" where
  "rotate_once ext i service_did at db0 =
     (let db = at_before_read at db0
      in case get_refresh_token i db of
           None \<Rightarrow> Returned (Inr None) db
         | Some token \<Rightarrow>
             let db1 = delete_expired_refresh_tokens (rt_did token) (fmt_ts ext (at_now at)) db
             in case rotate_plan ext i service_did (at_now at) (at_raw at) token of
                  Inl e \<Rightarrow> Returned (Inl e) db1
                | Inr None \<Rightarrow> Returned (Inr None) db1
                | Inr (Some (grace, refresh_payload, jwts)) \<Rightarrow>
                    rotate_join ext (at_store_first at) grace refresh_payload
                      (rt_app_password_name token) jwts (at_before_update at db1))"

fun rotate_refresh_token ::
  "ext \<Rightarrow> string \<Rightarrow> string \<Rightarrow> rotate_attempt list \<Rightarrow> account_db \<Rightarrow>
   ((account_error + (string \<times> string) option) \<times> account_db) option" where
  "rotate_refresh_token ext i service_did [] db = None"
| "rotate_refresh_token ext i service_did (at # ats) db =
     (case rotate_once ext i service_did at db of
        Returned r db' \<Rightarrow> Some (r, db')
      | Retried db' \<Rightarrow> rotate_refresh_token ext i service_did ats db')"

section \<open>Passwords and e-mail tokens\<close>

definition update_account_password ::
  "ext \<Rightarrow> string \<Rightarrow> string \<Rightarrow> string \<Rightarrow> account_db \<Rightarrow> (account_error + unit) \<times> account_db" where
  "update_account_password ext salt did password db =
     and_then (reading (gen_salt_and_hash ext salt password) db) (\<lambda>password_encrypted db.
       (Inr (), snd (revoke_refresh_tokens_by_did did
          (delete_email_token did ResetPassword (update_user_password did password_encrypted db)))))"

definition reset_password ::
  "ext \<Rightarrow> int \<Rightarrow> string \<Rightarrow> string \<Rightarrow> string \<Rightarrow> account_db \<Rightarrow> (account_error + unit) \<times> account_db" where
  "reset_password ext now salt password token db =
     and_then (reading (assert_valid_token_and_find_did ext now ResetPassword token None db) db)
       (\<lambda>did db. update_account_password ext salt did password db)"

definition revoke_app_password :: "string \<Rightarrow> string \<Rightarrow> account_db \<Rightarrow> account_db" where
  "revoke_app_password did name db =
     snd (revoke_app_password_refresh_token did name (delete_app_password did name db))"

definition confirm_email ::
  "ext \<Rightarrow> int \<Rightarrow> string \<Rightarrow> string \<Rightarrow> account_db \<Rightarrow> (account_error + unit) \<times> account_db" where
  "confirm_email ext now did token db =
     and_then (reading (assert_valid_token ext now did ConfirmEmail token None db) db) (\<lambda>_ db.
       (Inr (), set_email_confirmed_at did (fmt_ts ext now) (delete_email_token did ConfirmEmail db)))"

definition assert_valid_email_token_and_cleanup ::
  "ext \<Rightarrow> int \<Rightarrow> string \<Rightarrow> email_token_purpose \<Rightarrow> string \<Rightarrow> account_db \<Rightarrow>
   (account_error + unit) \<times> account_db" where
  "assert_valid_email_token_and_cleanup ext now did purpose token db =
     and_then (reading (assert_valid_token ext now did purpose token None db) db) (\<lambda>_ db.
       (Inr (), delete_email_token did purpose db))"

end
