(* ===== verification/Account_Steps.thy ===== *)
theory Account_Steps
  imports Account_Manager
begin

text \<open>
  The account database as a state machine: \<open>account_step\<close> has one rule per operation of
  \<open>AccountManager\<close> (a failing operation is a step as well), \<open>account_reachable\<close> is what a
  sequence of operations reaches from the empty database, and every reachable database has
  the keys of the schema and keeps to the invite budget.
\<close>

section \<open>Operations keep the invariant\<close>

definition good :: "account_db \<Rightarrow> bool" where
  "good db \<longleftrightarrow> wf_db db \<and> invite_inv db"

named_theorems invite_frame "operations that do not touch the invite tables"

lemma goodD: "good db \<Longrightarrow> wf_db db" "good db \<Longrightarrow> invite_inv db"
  by (simp_all add: good_def)

text \<open>An operation that leaves the invite tables alone only has to keep the keys.\<close>

lemma good_frame:
  "good db \<Longrightarrow> wf_db db' \<Longrightarrow> invite_codes db' = invite_codes db \<Longrightarrow>
   invite_code_uses db' = invite_code_uses db \<Longrightarrow> good db'"
  using invite_inv_cong [of db' db] by (simp add: good_def)

lemma frame_register_actor [invite_frame]:
  "invite_codes (snd (register_actor ext now d h x db)) = invite_codes db"
  "invite_code_uses (snd (register_actor ext now d h x db)) = invite_code_uses db"
  by (simp_all add: register_actor_def commit_if_def Let_def)

lemma frame_register_account [invite_frame]:
  "invite_codes (snd (register_account ext now d e p k db)) = invite_codes db"
  "invite_code_uses (snd (register_account ext now d e p k db)) = invite_code_uses db"
  by (simp_all add: register_account_def commit_if_def Let_def)

lemma frame_status [invite_frame]:
  "invite_codes (snd (delete_account d db)) = invite_codes db"
  "invite_code_uses (snd (delete_account d db)) = invite_code_uses db"
  "invite_codes (update_account_takedown_status ext now d t db) = invite_codes db"
  "invite_code_uses (update_account_takedown_status ext now d t db) = invite_code_uses db"
  "invite_codes (deactivate_account ext now d a db) = invite_codes db"
  "invite_code_uses (deactivate_account ext now d a db) = invite_code_uses db"
  "invite_codes (activate_account d db) = invite_codes db"
  "invite_code_uses (activate_account d db) = invite_code_uses db"
  "invite_codes (mark_plc_rotation_keys_migrated d db) = invite_codes db"
  "invite_code_uses (mark_plc_rotation_keys_migrated d db) = invite_code_uses db"
  by (simp_all add: delete_account_def update_account_takedown_status_def deactivate_account_def
      activate_account_def mark_plc_rotation_keys_migrated_def Let_def)

lemma frame_address [invite_frame]:
  "invite_codes (snd (update_email ext d e db)) = invite_codes db"
  "invite_code_uses (snd (update_email ext d e db)) = invite_code_uses db"
  "invite_codes (snd (update_handle d h db)) = invite_codes db"
  "invite_code_uses (snd (update_handle d h db)) = invite_code_uses db"
  "invite_codes (set_email_confirmed_at d x db) = invite_codes db"
  "invite_code_uses (set_email_confirmed_at d x db) = invite_code_uses db"
  by (simp_all add: update_email_def update_handle_def set_email_confirmed_at_def Let_def)

lemma frame_lockout [invite_frame]:
  "invite_codes (snd (increment_failed_login_count d db)) = invite_codes db"
  "invite_code_uses (snd (increment_failed_login_count d db)) = invite_code_uses db"
  "invite_codes (set_account_locked_until d u db) = invite_codes db"
  "invite_code_uses (set_account_locked_until d u db) = invite_code_uses db"
  "invite_codes (clear_account_lockout d db) = invite_codes db"
  "invite_code_uses (clear_account_lockout d db) = invite_code_uses db"
  by (simp_all add: increment_failed_login_count_def set_account_locked_until_def
      clear_account_lockout_def Let_def)

lemma frame_tokens [invite_frame]:
  "invite_codes (snd (store_refresh_token ext p n db)) = invite_codes db"
  "invite_code_uses (snd (store_refresh_token ext p n db)) = invite_code_uses db"
  "invite_codes (snd (revoke_where q db)) = invite_codes db"
  "invite_code_uses (snd (revoke_where q db)) = invite_code_uses db"
  "invite_codes (delete_expired_refresh_tokens d t db) = invite_codes db"
  "invite_code_uses (delete_expired_refresh_tokens d t db) = invite_code_uses db"
  "invite_codes (snd (add_refresh_grace_period g db)) = invite_codes db"
  "invite_code_uses (snd (add_refresh_grace_period g db)) = invite_code_uses db"
  by (simp_all add: store_refresh_token_def revoke_where_def delete_expired_refresh_tokens_def
      add_refresh_grace_period_def Let_def)

lemma frame_revoke [invite_frame]:
  "invite_codes (snd (revoke_refresh_token i db)) = invite_codes db"
  "invite_code_uses (snd (revoke_refresh_token i db)) = invite_code_uses db"
  "invite_codes (snd (revoke_refresh_tokens_by_did d db)) = invite_codes db"
  "invite_code_uses (snd (revoke_refresh_tokens_by_did d db)) = invite_code_uses db"
  "invite_codes (snd (revoke_app_password_refresh_token d n db)) = invite_codes db"
  "invite_code_uses (snd (revoke_app_password_refresh_token d n db)) = invite_code_uses db"
  by (simp_all add: revoke_refresh_token_def revoke_refresh_tokens_by_did_def
      revoke_app_password_refresh_token_def frame_tokens)

lemma frame_email_tokens [invite_frame]:
  "invite_codes (snd (create_email_token ext now raw d p db)) = invite_codes db"
  "invite_code_uses (snd (create_email_token ext now raw d p db)) = invite_code_uses db"
  "invite_codes (delete_email_token d p db) = invite_codes db"
  "invite_code_uses (delete_email_token d p db) = invite_code_uses db"
  "invite_codes (delete_all_email_tokens d db) = invite_codes db"
  "invite_code_uses (delete_all_email_tokens d db) = invite_code_uses db"
  by (simp_all add: create_email_token_def delete_email_token_def delete_all_email_tokens_def
      Let_def split: sum.splits)

lemma frame_passwords [invite_frame]:
  "invite_codes (snd (create_app_password ext now raw d n db)) = invite_codes db"
  "invite_code_uses (snd (create_app_password ext now raw d n db)) = invite_code_uses db"
  "invite_codes (update_user_password d h db) = invite_codes db"
  "invite_code_uses (update_user_password d h db) = invite_code_uses db"
  "invite_codes (delete_app_password d n db) = invite_codes db"
  "invite_code_uses (delete_app_password d n db) = invite_code_uses db"
  by (simp_all add: create_app_password_def update_user_password_def delete_app_password_def
      Let_def split: sum.splits)

lemma frame_root [invite_frame]:
  "invite_codes (snd (update_root ext now d c v db)) = invite_codes db"
  "invite_code_uses (snd (update_root ext now d c v db)) = invite_code_uses db"
  "invite_codes (set_account_invites_disabled d b db) = invite_codes db"
  "invite_code_uses (set_account_invites_disabled d b db) = invite_code_uses db"
  by (simp_all add: update_root_def set_account_invites_disabled_def split: option.splits)

lemmas wf_ops = wf_account_ops wf_email_token_ops wf_password_ops wf_invite_ops wf_auth_ops
  wf_update_root

text \<open>The helpers that leave invites alone, all at once.\<close>

lemma good_helpers:
  assumes "good db"
  shows "good (snd (register_actor ext now d h x db))"
    "good (snd (register_account ext now d e p k db))"
    "good (snd (delete_account d db))"
    "good (update_account_takedown_status ext now d t db)"
    "good (deactivate_account ext now d a db)"
    "good (activate_account d db)"
    "good (snd (update_email ext d e db))"
    "good (snd (update_handle d h db))"
    "good (set_email_confirmed_at d x' db)"
    "good (snd (increment_failed_login_count d db))"
    "good (set_account_locked_until d u db)"
    "good (clear_account_lockout d db)"
    "good (mark_plc_rotation_keys_migrated d db)"
    "good (snd (store_refresh_token ext pl n db))"
    "good (snd (revoke_refresh_token i db))"
    "good (snd (revoke_refresh_tokens_by_did d db))"
    "good (snd (revoke_app_password_refresh_token d n' db))"
    "good (delete_expired_refresh_tokens d ts db)"
    "good (snd (add_refresh_grace_period g db))"
    "good (snd (create_email_token ext now raw d ep db))"
    "good (delete_email_token d ep db)"
    "good (delete_all_email_tokens d db)"
    "good (snd (create_app_password ext now raw d n' db))"
    "good (update_user_password d hs db)"
    "good (delete_app_password d n' db)"
    "good (snd (update_root ext now d c v db))"
    "good (set_account_invites_disabled d b db)"
  using goodD(1) [OF assms]
  by (auto intro!: good_frame [OF assms] simp: invite_frame wf_ops)

lemma good_invites:
  assumes "good db"
  shows "good (snd (create_invite_codes ext now cs n db))"
    and "good (snd (create_account_invite_codes ext now d cs' m b db))"
    and "good (disable_invite_codes codes accs db)"
  using assms by (simp_all add: good_def wf_ops invite_inv_create_codes invite_inv_disable)

lemma good_record_use:
  assumes "good db" and "ensure_invite_is_available c db0 = Inr ()"
    and "invite_codes db = invite_codes db0" and "invite_code_uses db = invite_code_uses db0"
  shows "good (snd (record_invite_use d (Some c) now db))"
proof -
  have "ensure_invite_is_available c db = Inr ()"
    using assms(2) unfolding ensure_invite_eq assms(3,4) .
  from invite_inv_use [OF goodD(1) [OF assms(1)] goodD(2) [OF assms(1)] this, of db]
  show ?thesis using goodD(1) [OF assms(1)] by (simp add: good_def wf_ops)
qed

text \<open>What the steps of a registration before the invite use keep.\<close>

definition before_use :: "account_db \<Rightarrow> account_db \<Rightarrow> bool" where
  "before_use db db' \<longleftrightarrow> good db' \<and> invite_codes db' = invite_codes db \<and>
     invite_code_uses db' = invite_code_uses db"

lemma before_use_step:
  assumes "f db1 = (r, db2)" and "before_use db db1" and "good (snd (f db1))"
    and "invite_codes (snd (f db1)) = invite_codes db1"
    and "invite_code_uses (snd (f db1)) = invite_code_uses db1"
  shows "before_use db db2"
  using assms by (simp add: before_use_def)

lemma and_thenI:
  "P (snd r) \<Longrightarrow> (\<And>x s. r = (Inr x, s) \<Longrightarrow> P (snd (k x s))) \<Longrightarrow> P (snd (and_then r k))"
  by (cases r; cases "fst r") (auto simp: and_then_def)

lemma good_registration:
  assumes g: "good db"
    and inv: "(case inv_code of None \<Rightarrow> Inr ()
      | Some invite_code \<Rightarrow> ensure_invite_is_available invite_code db) = Inr ()"
    and acc: "acc = (\<lambda>db. (case email of None \<Rightarrow> (Inr (), db) | Some email \<Rightarrow>
        (case pw of None \<Rightarrow> (Inr (), db)
         | Some password \<Rightarrow> register_account ext now d email password None db)))"
  shows "good (snd (and_then (register_actor ext now d hndl x db) (\<lambda>_ db.
      and_then (acc db) (\<lambda>_ db.
      and_then (record_invite_use d inv_code t db) (\<lambda>_ db.
      and_then (store_refresh_token ext tok None db) (\<lambda>_ db.
      and_then (update_root ext now d c v db) (\<lambda>_ db. (Inr jwts, db))))))))"
proof (intro and_thenI [where P = good])
  show "good (snd (register_actor ext now d hndl x db))"
    using g by (rule good_helpers)
next
  fix u1 db1
  assume "register_actor ext now d hndl x db = (Inr u1, db1)"
  then have b1: "before_use db db1"
    by (rule before_use_step) (simp_all add: before_use_def g good_helpers invite_frame)
  then have b2: "good (snd (acc db1)) \<and> before_use db (snd (acc db1))"
    by (auto simp: acc before_use_def good_helpers invite_frame split: option.splits)
  then show "good (snd (acc db1))" ..
  fix u2 db2
  assume "acc db1 = (Inr u2, db2)"
  with b2 have b2: "before_use db db2" by simp
  with inv show g3: "good (snd (record_invite_use d inv_code t db2))"
    by (cases inv_code)
      (auto simp: before_use_def record_invite_use_def [of _ None] intro: good_record_use)
  fix u3 db3
  assume "record_invite_use d inv_code t db2 = (Inr u3, db3)"
  with g3 have g3: "good db3" by simp
  then show g4: "good (snd (store_refresh_token ext tok None db3))" by (rule good_helpers)
  fix u4 db4
  assume "store_refresh_token ext tok None db3 = (Inr u4, db4)"
  with g4 have "good db4" by simp
  then show g5: "good (snd (update_root ext now d c v db4))"
    by (rule good_helpers)
  fix u5 db5
  assume "update_root ext now d c v db4 = (Inr u5, db5)"
  with g5 show "good (snd (Inr jwts, db5))" by simp
qed

lemma good_reading:
  "good db \<Longrightarrow> (\<And>x. r = Inr x \<Longrightarrow> good (snd (k x db))) \<Longrightarrow> good (snd (and_then (reading r db) k))"
  by (cases r) simp_all

lemma good_create_account:
  assumes g: "good db"
  shows "good (snd (create_account ext now salt raw opts db))"
  unfolding create_account_def
  by (rule good_reading [OF g], rule good_reading [OF g], simp only: split_paired_all prod.case,
      rule good_reading [OF g], rule good_reading [OF g], rule good_registration [OF g _ refl])
    (simp add: unit_eq)

lemma good_create_session:
  assumes g: "good db"
  shows "good (snd (create_session ext now raw did svc name db))"
proof (cases "is_account_locked now did db")
  case False
  have "good (snd (and_then (store_refresh_token ext p name db) (\<lambda>_ db. (Inr jwts, db))))"
    for p and jwts :: "string \<times> string"
    by (rule and_then_invariant) (simp_all add: g good_helpers)
  note store = this
  show ?thesis
    unfolding create_session_def Let_def if_not_P [OF False]
    by (rule good_reading [OF g], simp only: split_paired_all prod.case, rule good_reading [OF g],
        rule store)
qed (simp add: create_session_def g)

lemma good_rotate_join:
  assumes "good db" and "rotate_join ext b g p n jwts db = Returned r db' \<or>
    rotate_join ext b g p n jwts db = Retried db'"
  shows "good db'"
proof -
  have "good (snd (and_then (store_refresh_token ext p n db) (\<lambda>_ db. add_refresh_grace_period g db)))"
    "good (snd (and_then (add_refresh_grace_period g db) (\<lambda>_ db. store_refresh_token ext p n db)))"
    by (rule and_then_invariant; use assms(1) in \<open>simp add: good_helpers\<close>)+
  with assms(2) show ?thesis
    by (auto simp: rotate_join_def Let_def split: sum.splits if_splits)
qed

lemma rotate_once_cases:
  obtains (absent) "get_refresh_token i (at_before_read at db) = None"
      "rotate_once ext i svc at db = Returned (Inr None) (at_before_read at db)"
  | (early) token r where "get_refresh_token i (at_before_read at db) = Some token"
      "r = Inr None \<or> (\<exists>e. r = Inl e)"
      "rotate_once ext i svc at db = Returned r
        (delete_expired_refresh_tokens (rt_did token) (fmt_ts ext (at_now at)) (at_before_read at db))"
  | (joined) token grace payload jwts where "get_refresh_token i (at_before_read at db) = Some token"
      "rotate_plan ext i svc (at_now at) (at_raw at) token = Inr (Some (grace, payload, jwts))"
      "rotate_once ext i svc at db = rotate_join ext (at_store_first at) grace payload
        (rt_app_password_name token) jwts (at_before_update at
          (delete_expired_refresh_tokens (rt_did token) (fmt_ts ext (at_now at)) (at_before_read at db)))"
proof (cases "get_refresh_token i (at_before_read at db)")
  case None
  then show thesis by (intro absent) (simp_all add: rotate_once_def)
next
  case (Some token)
  show thesis
  proof (cases "rotate_plan ext i svc (at_now at) (at_raw at) token")
    case (Inl e)
    with Some show thesis by (intro early [of token "Inl e"]) (simp_all add: rotate_once_def)
  next
    case (Inr x)
    show thesis
    proof (cases x)
      case None
      with Some Inr show thesis by (intro early [of token "Inr None"]) (simp_all add: rotate_once_def)
    next
      case (Some y)
      obtain grace payload jwts where "y = (grace, payload, jwts)" by (cases y)
      with Some Inr \<open>get_refresh_token i (at_before_read at db) = Some token\<close> show thesis
        by (intro joined [of token grace payload jwts]) (simp_all add: rotate_once_def)
    qed
  qed
qed

lemma good_rotate_once:
  assumes g: "good db" and id: "\<forall>db. good db \<longrightarrow> good (at_before_read at db)"
    "\<forall>db. good db \<longrightarrow> good (at_before_update at db)"
    and r: "rotate_once ext i svc at db = Returned r db' \<or> rotate_once ext i svc at db = Retried db'"
  shows "good db'"
proof -
  have g1: "good (at_before_read at db)" using g id by blast
  then have g2: "good (delete_expired_refresh_tokens d t (at_before_read at db))" for d t
    by (rule good_helpers)
  then have g3: "good (at_before_update at (delete_expired_refresh_tokens d t (at_before_read at db)))" for d t
    using id by blast
  show ?thesis
  proof (cases rule: rotate_once_cases [of i at db ext svc])
    case absent
    with r g1 show ?thesis by simp
  next
    case (early token r1)
    with r g2 show ?thesis by auto
  next
    case (joined token grace payload jwts)
    with r good_rotate_join [OF g3] show ?thesis by metis
  qed
qed

lemma good_rotate:
  assumes "good db" and "\<forall>at \<in> set ats. \<forall>db. good db \<longrightarrow> good (at_before_read at db) \<and> good (at_before_update at db)"
    and "rotate_refresh_token ext i svc ats db = Some (r, db')"
  shows "good db'"
  using assms
proof (induction ext i svc ats db rule: rotate_refresh_token.induct)
  case (2 ext i svc at ats db)
  have calm: "\<forall>db. good db \<longrightarrow> good (at_before_read at db)" "\<forall>db. good db \<longrightarrow> good (at_before_update at db)"
    and rest: "\<forall>at \<in> set ats. \<forall>db. good db \<longrightarrow> good (at_before_read at db) \<and> good (at_before_update at db)"
    using 2(3) by simp_all
  show ?case
  proof (cases "rotate_once ext i svc at db")
    case (Returned r1 db1)
    with 2(4) have "db' = db1" by simp
    with good_rotate_once [OF 2(2) calm] Returned show ?thesis by blast
  next
    case (Retried db1)
    with good_rotate_once [OF 2(2) calm] have g: "good db1" by blast
    from 2(4) Retried have "rotate_refresh_token ext i svc ats db1 = Some (r, db')" by simp
    from 2(1) [OF Retried g rest this] show ?thesis .
  qed
qed simp

lemma good_passwords:
  assumes "good db"
  shows "good (snd (update_account_password ext salt did p db))"
    and "good (snd (reset_password ext now salt p t db))"
    and "good (revoke_app_password did name db)"
    and "good (snd (confirm_email ext now did t db))"
    and "good (snd (assert_valid_email_token_and_cleanup ext now did purpose t db))"
proof -
  have u: "good (snd (update_account_password ext salt did p db))" for did
    unfolding update_account_password_def
    by (rule good_reading [OF assms]) (simp add: good_helpers assms)
  show "good (snd (update_account_password ext salt did p db))" by (rule u)
  show "good (snd (reset_password ext now salt p t db))"
    unfolding reset_password_def by (rule good_reading [OF assms]) (rule u)
  show "good (revoke_app_password did name db)"
    by (simp add: revoke_app_password_def good_helpers assms)
  show "good (snd (confirm_email ext now did t db))"
    unfolding confirm_email_def
    by (rule good_reading [OF assms]) (simp add: good_helpers assms)
  show "good (snd (assert_valid_email_token_and_cleanup ext now did purpose t db))"
    unfolding assert_valid_email_token_and_cleanup_def
    by (rule good_reading [OF assms]) (simp add: good_helpers assms)
qed

lemma good_manager:
  assumes "good db"
  shows "good (takedown_account ext now did td db)"
    and "good (snd (manager_update_email ext b did e db))"
    and "good (snd (record_failed_login_with_lockout now did db))"
    and "good (record_failed_login did db)"
proof -
  show "good (takedown_account ext now did td db)"
    by (simp add: takedown_account_def good_helpers assms)
  show "good (snd (manager_update_email ext b did e db))"
    unfolding manager_update_email_def
    by (cases b) (simp_all add: good_helpers assms and_then_invariant)
  show "good (snd (record_failed_login_with_lockout now did db))"
    by (simp add: record_failed_login_with_lockout_def Let_def good_helpers assms)
  show "good (record_failed_login did db)"
    by (simp add: record_failed_login_def good_helpers assms)
qed

section \<open>The state machine\<close>

inductive account_step :: "ext \<Rightarrow> account_db \<Rightarrow> account_db \<Rightarrow> bool" for ext where
  step_create_account: "account_step ext db (snd (create_account ext now salt raw opts db))"
| step_delete_account: "account_step ext db (snd (delete_account did db))"
| step_takedown: "account_step ext db (takedown_account ext now did td db)"
| step_update_handle: "account_step ext db (snd (update_handle did handle db))"
| step_deactivate: "account_step ext db (deactivate_account ext now did after db)"
| step_activate: "account_step ext db (activate_account did db)"
| step_update_email: "account_step ext db (snd (manager_update_email ext b did email db))"
| step_create_email_token: "account_step ext db (snd (create_email_token ext now raw did purpose db))"
| step_create_session: "account_step ext db (snd (create_session ext now raw did svc name db))"
| step_rotate: "\<forall>at \<in> set ats. at_before_read at = id \<and> at_before_update at = id \<Longrightarrow>
    rotate_refresh_token ext i svc ats db = Some (r, db') \<Longrightarrow> account_step ext db db'"
| step_revoke_refresh_token: "account_step ext db (snd (revoke_refresh_token i db))"
| step_create_invite_codes: "account_step ext db (snd (create_invite_codes ext now cs n db))"
| step_create_account_invite_codes:
    "account_step ext db (snd (create_account_invite_codes ext now did codes m b db))"
| step_set_invites_disabled: "account_step ext db (set_account_invites_disabled did b db)"
| step_disable_invite_codes: "account_step ext db (disable_invite_codes codes accs db)"
| step_create_app_password: "account_step ext db (snd (create_app_password ext now raw did name db))"
| step_lock_account: "account_step ext db (set_account_locked_until did until db)"
| step_record_failed: "account_step ext db (record_failed_login did db)"
| step_record_lockout: "account_step ext db (snd (record_failed_login_with_lockout now did db))"
| step_clear_failed: "account_step ext db (clear_account_lockout did db)"
| step_reset_password: "account_step ext db (snd (reset_password ext now salt password token db))"
| step_update_password: "account_step ext db (snd (update_account_password ext salt did password db))"
| step_revoke_app_password: "account_step ext db (revoke_app_password did name db)"
| step_confirm_email: "account_step ext db (snd (confirm_email ext now did token db))"
| step_cleanup: "account_step ext db
    (snd (assert_valid_email_token_and_cleanup ext now did purpose token db))"
| step_update_root: "account_step ext db (snd (update_root ext now did cid v db))"
| step_mark_plc: "account_step ext db (mark_plc_rotation_keys_migrated did db)"

inductive account_reachable :: "ext \<Rightarrow> account_db \<Rightarrow> bool" for ext where
  reach_empty: "account_reachable ext empty_db"
| reach_step: "account_reachable ext db \<Longrightarrow> account_step ext db db' \<Longrightarrow> account_reachable ext db'"

lemma good_step: "account_step ext db db' \<Longrightarrow> good db \<Longrightarrow> good db'"
proof (induction rule: account_step.induct)
  case (step_rotate ats i svc db r db')
  then have "\<forall>at \<in> set ats. \<forall>db. good db \<longrightarrow> good (at_before_read at db) \<and> good (at_before_update at db)"
    by simp
  from good_rotate [OF step_rotate(3) this step_rotate(2)] show ?case .
qed (simp_all add: good_create_account good_create_session good_helpers good_invites good_passwords
    good_manager)

lemma good_empty: "good empty_db"
  by (simp add: good_def wf_empty_db invite_inv_empty)

lemma good_reachable: "account_reachable ext db \<Longrightarrow> good db"
  by (induction rule: account_reachable.induct) (auto intro: good_step good_empty)

end
