(* ===== verification/Account_Registration.thy ===== *)
theory Account_Registration
  imports Account_Steps
begin

text \<open>
  What registration, deletion, takedown and the changes of handle and address do, on every
  branch: the properties of \<open>create_account\<close>, \<open>delete_account\<close>, \<open>takedown_account\<close>,
  \<open>update_handle\<close> and \<open>update_email\<close>, and the invariant of the account database.
\<close>

section \<open>Registration\<close>

definition new_actor :: "ext \<Rightarrow> int \<Rightarrow> string \<Rightarrow> string \<Rightarrow> bool option \<Rightarrow> actor_row" where
  "new_actor ext now did handle deactivated =
     \<lparr>a_did = did, a_handle = Some handle, a_created_at = fmt_ts ext now, a_takedown_ref = None,
      a_deactivated_at = (if deactivated = Some True then Some (fmt_ts ext now) else None),
      a_delete_after = None, a_plc_rotation_keys_migrated = 0\<rparr>"

definition new_account :: "ext \<Rightarrow> int \<Rightarrow> string \<Rightarrow> string \<Rightarrow> string \<Rightarrow> string option \<Rightarrow> account_row" where
  "new_account ext now did email password recovery_key =
     \<lparr>ac_did = did, ac_email = email, ac_recovery_key = recovery_key,
      ac_password = password, ac_created_at = fmt_ts ext now, ac_invites_disabled = 0,
      ac_email_confirmed_at = None, ac_invite_note = None, ac_failed_login_count = 0,
      ac_locked_until = None\<rparr>"

lemma new_row_did [simp]:
  "a_did (new_actor ext now did h x) = did" "ac_did (new_account ext now did e p k) = did"
  by (simp_all add: new_actor_def new_account_def)

definition handle_taken :: "string \<Rightarrow> account_db \<Rightarrow> bool" where
  "handle_taken handle db = has_row (\<lambda>r. handle_key r = Some (ascii_lower handle)) (actors db)"

definition email_taken :: "string \<Rightarrow> account_db \<Rightarrow> bool" where
  "email_taken email db = has_row (\<lambda>r. email_key r = ascii_lower email) (accounts db)"

lemma register_actor_eq:
  "register_actor ext now did handle x db =
   (if actor_of did db \<noteq> None then (Inl UserAlreadyExistsError, db)
    else if handle_taken handle db then (Inl (Database (UniqueViolation ''actor_handle_lower_idx'')), db)
    else (Inr (), db\<lparr>actors := actors db @ [new_actor ext now did handle x]\<rparr>))"
  by (simp add: register_actor_def commit_if_def Let_def new_actor_def handle_taken_def actor_of_def
      handle_key_def has_row_find)

lemma register_account_eq:
  "register_account ext now did email pw k db =
   (if account_of did db \<noteq> None then (Inl UserAlreadyExistsError, db)
    else if email_taken email db then (Inl (Database (UniqueViolation ''account_email_lower_idx'')), db)
    else (Inr (), db\<lparr>accounts := accounts db @ [new_account ext now did email pw k]\<rparr>))"
  by (simp add: register_account_def commit_if_def Let_def new_account_def email_taken_def
      account_of_def email_key_def has_row_find)

lemma of_snoc:
  "find (\<lambda>r. a_did r = d) (t @ [a]) =
     (case find (\<lambda>r. a_did r = d) t of None \<Rightarrow> if a_did a = d then Some a else None | Some x \<Rightarrow> Some x)"
  "find (\<lambda>r. ac_did r = d) (u @ [c]) =
     (case find (\<lambda>r. ac_did r = d) u of None \<Rightarrow> if ac_did c = d then Some c else None | Some x \<Rightarrow> Some x)"
  by (auto simp: find_append split: option.splits)

lemmas rows_of = actor_of_def account_of_def of_snoc

lemma of_use_root_token:
  "actor_of d (snd (record_invite_use d' c t db)) = actor_of d db"
  "account_of d (snd (record_invite_use d' c t db)) = account_of d db"
  "actor_of d (snd (store_refresh_token ext p n db)) = actor_of d db"
  "account_of d (snd (store_refresh_token ext p n db)) = account_of d db"
  "actor_of d (snd (update_root ext now d' cid v db)) = actor_of d db"
  "account_of d (snd (update_root ext now d' cid v db)) = account_of d db"
  by (simp_all add: record_invite_use_def commit_if_def store_refresh_token_def update_root_def Let_def
      actor_of_def account_of_def split: option.splits)

text \<open>A successful registration, step by step.\<close>

lemma create_account_InrE:
  assumes "create_account ext now salt raw opts db = (Inr (a, r), db')"
  obtains pw tok db1 db2 db3 where
    "(case co_password opts of Some p \<Rightarrow> map_sum id Some (gen_salt_and_hash ext salt p)
      | None \<Rightarrow> Inr None) = Inr pw"
    "create_tokens ext now raw \<lparr>ct_did = co_did opts, ct_service_did = co_service_did opts,
      ct_scope = Some Access, ct_jti = None, ct_expires_in = None\<rparr> = Inr (a, r)"
    "decode_refresh_token ext now r = Inr tok"
    "(case co_invite_code opts of Some c \<Rightarrow> ensure_invite_is_available c db | None \<Rightarrow> Inr ()) = Inr ()"
    "actor_of (co_did opts) db = None" "\<not> handle_taken (co_handle opts) db"
    "db1 = db\<lparr>actors := actors db @
       [new_actor ext now (co_did opts) (co_handle opts) (co_deactivated opts)]\<rparr>"
    "(case (co_email opts, pw) of
        (Some e, Some p) \<Rightarrow> register_account ext now (co_did opts) e p None db1
      | _ \<Rightarrow> (Inr (), db1)) = (Inr (), db2)"
    "record_invite_use (co_did opts) (co_invite_code opts) (fmt_ts ext now) db2 = (Inr (), db3)"
    "ts_in_range ext (rf_exp tok * 1000)"
    "update_root ext now (co_did opts) (co_repo_cid opts) (co_repo_rev opts)
       (snd (store_refresh_token ext tok None db3)) = (Inr (), db')"
proof -
  obtain pw tok db1 db2 db3 db4 where *:
    "(case co_password opts of Some p \<Rightarrow> map_sum id Some (gen_salt_and_hash ext salt p)
      | None \<Rightarrow> Inr None) = Inr pw"
    "create_tokens ext now raw \<lparr>ct_did = co_did opts, ct_service_did = co_service_did opts,
      ct_scope = Some Access, ct_jti = None, ct_expires_in = None\<rparr> = Inr (a, r)"
    "decode_refresh_token ext now r = Inr tok"
    "(case co_invite_code opts of Some c \<Rightarrow> ensure_invite_is_available c db | None \<Rightarrow> Inr ()) = Inr ()"
    "register_actor ext now (co_did opts) (co_handle opts) (co_deactivated opts) db = (Inr (), db1)"
    "(case (co_email opts, pw) of
        (Some e, Some p) \<Rightarrow> register_account ext now (co_did opts) e p None db1
      | _ \<Rightarrow> (Inr (), db1)) = (Inr (), db2)"
    "record_invite_use (co_did opts) (co_invite_code opts) (fmt_ts ext now) db2 = (Inr (), db3)"
    "store_refresh_token ext tok None db3 = (Inr (), db4)"
    "update_root ext now (co_did opts) (co_repo_cid opts) (co_repo_rev opts) db4 = (Inr (), db')"
    using assms unfolding create_account_def and_then_Inr_iff reading_simps
    by (auto simp: and_then_Inr_iff split: prod.splits)
  from *(5) have a: "actor_of (co_did opts) db = None" "\<not> handle_taken (co_handle opts) db"
    "db1 = db\<lparr>actors := actors db @ [new_actor ext now (co_did opts) (co_handle opts) (co_deactivated opts)]\<rparr>"
    by (simp_all add: register_actor_eq split: if_splits)
  from *(8) have s: "ts_in_range ext (rf_exp tok * 1000)"
    by (simp add: store_refresh_token_def split: if_splits)
  from *(8) have d4: "db4 = snd (store_refresh_token ext tok None db3)" by simp
  show thesis by (rule that [OF *(1-4) a *(6,7) s *(9) [unfolded d4]])
qed

text \<open>The status of a DID depends on its actor row only.\<close>

lemma get_account_status_eq:
  assumes "wf_db db" and "starts_with did ''did:''"
  shows "get_account_status did db =
    (case actor_of did db of None \<Rightarrow> Inr Deleted
     | Some a \<Rightarrow> if a_takedown_ref a \<noteq> None then Inr Takendown
                else if a_deactivated_at a \<noteq> None then Inr Deactivated else Inr Active)"
  using assms
  by (auto simp: get_account_status_def get_account_did availability_conditions_def
      format_account_status_def actor_account_from_row_def Let_def split: option.splits)

lemma create_account_rows:
  assumes "create_account ext now salt raw opts db = (Inr (a, r), db')"
  shows "actor_of (co_did opts) db' =
      Some (new_actor ext now (co_did opts) (co_handle opts) (co_deactivated opts))"
    and "d \<noteq> co_did opts \<Longrightarrow> actor_of d db' = actor_of d db"
    and "d \<noteq> co_did opts \<Longrightarrow> account_of d db' = account_of d db"
    and "co_email opts = Some e \<Longrightarrow> co_password opts = Some p \<Longrightarrow>
      \<exists>h. gen_salt_and_hash ext salt p = Inr h \<and>
        account_of (co_did opts) db' = Some (new_account ext now (co_did opts) e h None)"
proof -
  from assms show "actor_of (co_did opts) db' =
      Some (new_actor ext now (co_did opts) (co_handle opts) (co_deactivated opts))"
    and "d \<noteq> co_did opts \<Longrightarrow> actor_of d db' = actor_of d db"
    and "d \<noteq> co_did opts \<Longrightarrow> account_of d db' = account_of d db"
    and "co_email opts = Some e \<Longrightarrow> co_password opts = Some p \<Longrightarrow>
      \<exists>h. gen_salt_and_hash ext salt p = Inr h \<and>
        account_of (co_did opts) db' = Some (new_account ext now (co_did opts) e h None)"
  proof (atomize (full), elim create_account_InrE, goal_cases)
    case (1 pw tok db1 db2 db3)
    have d': "actor_of x db' = actor_of x db2" "account_of x db' = account_of x db2" for x
      using of_use_root_token [where d = x] 1(9) 1(11) by (metis snd_conv)+
    have d2: "actor_of x db2 = actor_of x db1" "x \<noteq> co_did opts \<Longrightarrow> account_of x db2 = account_of x db" for x
      using 1(7,8) by (auto simp: register_account_eq rows_of split: option.splits if_splits)
    have d1: "actor_of x db1 = (if x = co_did opts then
        Some (new_actor ext now (co_did opts) (co_handle opts) (co_deactivated opts)) else actor_of x db)" for x
      using 1(5,7) by (auto simp: rows_of split: option.splits)
    have "\<exists>h. gen_salt_and_hash ext salt p = Inr h \<and>
        account_of (co_did opts) db2 = Some (new_account ext now (co_did opts) e h None)"
      if ep: "co_email opts = Some e" "co_password opts = Some p"
    proof -
      obtain h where h: "gen_salt_and_hash ext salt p = Inr h" "pw = Some h"
        using 1(1) ep(2) by (cases "gen_salt_and_hash ext salt p") auto
      with 1(8) ep have "account_of (co_did opts) db1 = None"
        "db2 = db1\<lparr>accounts := accounts db1 @ [new_account ext now (co_did opts) e h None]\<rparr>"
        by (auto simp: register_account_eq split: if_splits)
      with h(1) show ?thesis by (auto simp: rows_of)
    qed
    with d' d2 d1 show ?case by auto
  qed
qed

text \<open>Which tokens a registration asks for.\<close>

definition registration_tokens :: "create_account_opts \<Rightarrow> create_tokens_opts" where
  "registration_tokens opts = \<lparr>ct_did = co_did opts, ct_service_did = co_service_did opts,
     ct_scope = Some Access, ct_jti = None, ct_expires_in = None\<rparr>"

lemma is_ok_and_then: "is_ok (fst (and_then r k)) \<longleftrightarrow> is_ok (fst r) \<and> is_ok (fst (k (projr (fst r)) (snd r)))"
  by (cases r; cases "fst r") (auto simp: and_then_def)

lemma is_ok_stages:
  "is_ok (fst (store_refresh_token ext tok n db)) \<longleftrightarrow> ts_in_range ext (rf_exp tok * 1000)"
  "is_ok (fst (update_root ext now d cid v db)) \<longleftrightarrow>
     (case root_of d db of None \<Rightarrow> True | Some r \<Rightarrow> rr_rev r \<le> v)"
  "is_ok (fst (record_invite_use d c t db)) \<longleftrightarrow>
     (case c of None \<Rightarrow> True
      | Some c \<Rightarrow> \<not> has_row (\<lambda>u. invite_code_use_key u = (c, d)) (invite_code_uses db))"
  "is_ok (fst (register_account ext now d e p k db)) \<longleftrightarrow>
     account_of d db = None \<and> \<not> email_taken e db"
  "is_ok (fst (register_actor ext now d h x db)) \<longleftrightarrow>
     actor_of d db = None \<and> \<not> handle_taken h db"
  by (simp_all add: store_refresh_token_def update_root_def record_invite_use_def commit_if_def
      register_account_eq register_actor_eq root_of_def Let_def split: option.splits)

lemma root_of_stages:
  "root_of d (snd (store_refresh_token ext tok n db)) = root_of d db"
  "root_of d (snd (record_invite_use d' c t db)) = root_of d db"
  "root_of d (snd (register_account ext now d' e p k db)) = root_of d db"
  "root_of d (snd (register_actor ext now d' h x db)) = root_of d db"
  by (simp_all add: store_refresh_token_def record_invite_use_def commit_if_def
      register_account_eq register_actor_eq root_of_def Let_def split: option.splits)

lemma account_stages:
  "account_of d (snd (register_actor ext now d' h x db)) = account_of d db"
  "email_taken e (snd (register_actor ext now d' h x db)) = email_taken e db"
  by (simp_all add: register_actor_eq email_taken_def)

lemma is_ok_unit: "is_ok x \<longleftrightarrow> x = Inr ()"
  by (cases x) simp_all

lemma create_account_ok_iff:
  assumes "jwt_ok ext"
  shows "is_ok (fst (create_account ext now salt raw opts db)) \<longleftrightarrow>
    (case co_password opts of None \<Rightarrow> True | Some p \<Rightarrow> is_ok (gen_salt_and_hash ext salt p)) \<and>
    is_ok (create_tokens ext now raw (registration_tokens opts)) \<and>
    ts_in_range ext ((now_secs now + 90 * 24 * 60 * 60) * 1000 * 1000) \<and>
    (case co_invite_code opts of None \<Rightarrow> True | Some c \<Rightarrow> ensure_invite_is_available c db = Inr () \<and>
       \<not> has_row (\<lambda>u. invite_code_use_key u = (c, co_did opts)) (invite_code_uses db)) \<and>
    actor_of (co_did opts) db = None \<and> \<not> handle_taken (co_handle opts) db \<and>
    (case (co_email opts, co_password opts) of
       (Some e, Some p) \<Rightarrow> account_of (co_did opts) db = None \<and> \<not> email_taken e db | _ \<Rightarrow> True) \<and>
    (case root_of (co_did opts) db of None \<Rightarrow> True | Some r \<Rightarrow> rr_rev r \<le> co_repo_rev opts)"
  (is "?L = ?R")
proof (cases "create_tokens ext now raw (registration_tokens opts)")
  case (Inl e)
  then show ?thesis
    by (simp add: create_account_def registration_tokens_def is_ok_and_then)
next
  case (Inr jwts)
  obtain a r where jwts: "jwts = (a, r)" by (cases jwts)
  obtain tok where tok: "decode_refresh_token ext now r = Inr tok"
    "rf_exp tok = (now_secs now + 90 * 24 * 60 * 60) * 1000"
    using decode_created [OF assms Inr [unfolded jwts]] by (simp add: registration_tokens_def)
  show ?thesis
    using Inr tok unfolding registration_tokens_def jwts
    by (cases "co_invite_code opts"; cases "co_email opts"; cases "co_password opts";
        cases "gen_salt_and_hash ext salt (the (co_password opts))")
      (auto simp: create_account_def is_ok_and_then is_ok_stages root_of_stages account_stages
        invite_frame is_ok_unit [of "ensure_invite_is_available _ _"] split: option.splits)
qed

text \<open>C2: Registration succeeds exactly when every check of the code passes: the password can be hashed,
  the tokens can be signed and their expiry formatted, the invite code (if any) is available
  and not yet used by this DID, the DID has no actor, the handle is free ignoring case,
  the DID has no account and the address is free ignoring case (when both an address and a
  password are given), and a repository root already stored is not ahead.\<close>

theorem create_account_succeeds_iff:
  assumes "jwt_ok ext"
  shows "is_ok (fst (create_account ext now salt raw opts db)) \<longleftrightarrow>
    (case co_password opts of None \<Rightarrow> True | Some p \<Rightarrow> is_ok (gen_salt_and_hash ext salt p)) \<and>
    is_ok (create_tokens ext now raw (registration_tokens opts)) \<and>
    ts_in_range ext ((now_secs now + 90 * 24 * 60 * 60) * 1000 * 1000) \<and>
    (case co_invite_code opts of None \<Rightarrow> True | Some c \<Rightarrow> ensure_invite_is_available c db = Inr () \<and>
       \<not> has_row (\<lambda>u. invite_code_use_key u = (c, co_did opts)) (invite_code_uses db)) \<and>
    actor_of (co_did opts) db = None \<and> \<not> handle_taken (co_handle opts) db \<and>
    (case (co_email opts, co_password opts) of
       (Some e, Some p) \<Rightarrow> account_of (co_did opts) db = None \<and> \<not> email_taken e db | _ \<Rightarrow> True) \<and>
    (case root_of (co_did opts) db of None \<Rightarrow> True | Some r \<Rightarrow> rr_rev r \<le> co_repo_rev opts)"
  using assms by (rule create_account_ok_iff)

text \<open>C3: A successful registration of a DID with an address and a password (in any reachable database)
  leaves the actor with its handle, the account with its address, and status Active (Deactivated when it was asked for);
  exactly the given password verifies; the returned refresh token is stored under its
  id; and no other DID's rows change.\<close>

theorem create_account_registers:
  assumes "account_reachable ext db" and "passwords_ok ext" and "jwt_ok ext"
    and "starts_with (co_did opts) ''did:''"
    and "co_email opts = Some e" and "co_password opts = Some p"
    and "create_account ext now salt raw opts db = (Inr (a, r), db')"
  shows "\<exists>acc tok. get_account (co_did opts) (Some \<lparr>include_taken_down = None, include_deactivated = Some True\<rparr>) db' = Some acc \<and>
      aa_handle acc = Some (co_handle opts) \<and> aa_email acc = Some e \<and>
      get_account_status (co_did opts) db' =
        Inr (if co_deactivated opts = Some True then Deactivated else Active) \<and>
      (\<forall>q. verify_account_password ext (co_did opts) q db' = Inr (q = p)) \<and>
      decode_refresh_token ext now r = Inr tok \<and> rf_jti tok = raw \<and> rf_sub tok = co_did opts \<and>
      get_refresh_token raw db' \<noteq> None \<and> root_of (co_did opts) db' \<noteq> None \<and>
      (\<forall>d. d \<noteq> co_did opts \<longrightarrow> actor_of d db' = actor_of d db \<and> account_of d db' = account_of d db)"
proof -
  have "account_reachable ext db'"
    using reach_step [OF assms(1) step_create_account [of ext db now salt raw opts]] assms(7) by simp
  then have wf: "wf_db db'" by (simp add: good_reachable goodD)
  note rows = create_account_rows [OF assms(7)]
  obtain h where h: "gen_salt_and_hash ext salt p = Inr h"
    "account_of (co_did opts) db' = Some (new_account ext now (co_did opts) e h None)"
    using rows(4) [OF assms(5,6)] by blast
  obtain tok db3 where tok: "create_tokens ext now raw \<lparr>ct_did = co_did opts,
      ct_service_did = co_service_did opts, ct_scope = Some Access, ct_jti = None,
      ct_expires_in = None\<rparr> = Inr (a, r)"
    "decode_refresh_token ext now r = Inr tok" "ts_in_range ext (rf_exp tok * 1000)"
    "update_root ext now (co_did opts) (co_repo_cid opts) (co_repo_rev opts)
       (snd (store_refresh_token ext tok None db3)) = (Inr (), db')"
    using create_account_InrE [OF assms(7)] by metis
  have j: "rf_jti tok = raw" "rf_sub tok = co_did opts"
    using decode_created [OF assms(3) tok(1)] tok(2) by auto
  have "get_refresh_token raw (snd (store_refresh_token ext tok None db3)) \<noteq> None"
    using get_store [OF tok(3), of raw] j by simp
  then have g: "get_refresh_token raw db' \<noteq> None"
    using tok(4) by (auto simp: update_root_def get_refresh_token_def split: option.splits if_splits)
  have rt: "root_of (co_did opts) db' \<noteq> None"
    using root_of_update [of "co_did opts" ext now "co_repo_cid opts" "co_repo_rev opts"
        "snd (store_refresh_token ext tok None db3)"] tok(4)
    by (auto split: option.splits if_splits)
  show ?thesis
    using rows(1-3) h j g rt tok(2) assms(2,4) wf
    by (auto simp: get_account_did get_account_status_eq availability_conditions_def new_actor_def
        new_account_def actor_account_from_row_def verify_account_password_eq verify_hash)
qed


definition demo_opts :: create_account_opts where
  "demo_opts = \<lparr>co_did = ''did:plc:alice'', co_handle = ''alice.test'', co_email = Some ''a@x.org'',
     co_password = Some ''secret'', co_repo_cid = ''cid'', co_repo_rev = ''rev1'',
     co_invite_code = None, co_deactivated = None, co_service_did = ''did:web:pds''\<rparr>"

lemma demo_opts_simps:
  "co_did demo_opts = ''did:plc:alice''" "co_handle demo_opts = ''alice.test''"
  "co_email demo_opts = Some ''a@x.org''" "co_password demo_opts = Some ''secret''"
  "co_repo_rev demo_opts = ''rev1''" "co_repo_cid demo_opts = ''cid''"
  "co_invite_code demo_opts = None" "co_deactivated demo_opts = None"
  "co_service_did demo_opts = ''did:web:pds''"
  by (simp_all add: demo_opts_def)

lemma demo_did: "starts_with (co_did demo_opts) ''did:''"
  by (simp add: demo_opts_def starts_with_def)

lemma demo_create_tokens:
  "is_ok (create_tokens demo_ext 5000000 ''jti1'' (registration_tokens demo_opts))"
  by (simp add: create_tokens_def create_access_token_def create_refresh_token_def registration_tokens_def
      demo_opts_def demo_ext_def demo_sign_def)

lemma demo_registration:
  "\<exists>a r db. create_account demo_ext 5000000 ''salt'' ''jti1'' demo_opts empty_db = (Inr (a, r), db)"
proof -
  have "is_ok (fst (create_account demo_ext 5000000 ''salt'' ''jti1'' demo_opts empty_db))"
    unfolding create_account_ok_iff [OF demo_jwt]
    using demo_create_tokens
    by (simp add: demo_opts_simps demo_ext_def gen_salt_and_hash_def hash_with_salt_def now_secs_def
        empty_db_def actor_of_def account_of_def root_of_def handle_taken_def email_taken_def)
  then show ?thesis
    by (cases "create_account demo_ext 5000000 ''salt'' ''jti1'' demo_opts empty_db") (auto simp: is_ok_iff)
qed

lemma create_account_succeeds_iff_witness:
  "is_ok (fst (create_account demo_ext 5000000 ''salt'' ''jti1'' demo_opts empty_db)) \<and>
   \<not> handle_taken (co_handle demo_opts) empty_db"
  using create_account_succeeds_iff [OF demo_jwt, of 5000000 "''salt''" "''jti1''" demo_opts empty_db]
    demo_registration by auto

lemma create_account_registers_witness:
  "\<exists>a r db acc. create_account demo_ext 5000000 ''salt'' ''jti1'' demo_opts empty_db = (Inr (a, r), db) \<and>
     get_account ''did:plc:alice'' (Some \<lparr>include_taken_down = None, include_deactivated = Some True\<rparr>) db =
       Some acc \<and> aa_handle acc = Some ''alice.test'' \<and>
     verify_account_password demo_ext ''did:plc:alice'' ''secret'' db = Inr True"
proof -
  obtain a r db where *: "create_account demo_ext 5000000 ''salt'' ''jti1'' demo_opts empty_db = (Inr (a, r), db)"
    using demo_registration by blast
  show ?thesis
    using create_account_registers [OF reach_empty demo_passwords demo_jwt demo_did
        demo_opts_simps(3,4) *] *
    by (auto simp: demo_opts_simps)
qed

section \<open>What a failed registration leaves behind\<close>

lemma actor_kept_stages:
  assumes "actor_of d db = Some x"
  shows "actor_of d (snd (register_account ext now d' e p k db)) = Some x"
    and "actor_of d (snd (record_invite_use d' c t db)) = Some x"
    and "actor_of d (snd (store_refresh_token ext tok n db)) = Some x"
    and "actor_of d (snd (update_root ext now d' cid v db)) = Some x"
  using assms by (simp_all add: register_account_eq of_use_root_token)

lemma create_account_InlE:
  assumes "create_account ext now salt raw opts db = (Inl e, db')" and "db' \<noteq> db"
  shows "actor_of (co_did opts) db = None \<and> actor_of (co_did opts) db' =
    Some (new_actor ext now (co_did opts) (co_handle opts) (co_deactivated opts))"
proof -
  let ?d = "co_did opts" and ?new = "new_actor ext now (co_did opts) (co_handle opts) (co_deactivated opts)"
  let ?P = "\<lambda>s. s = db \<or> actor_of ?d db = None \<and> actor_of ?d s = Some ?new"
  let ?Q = "\<lambda>s. actor_of ?d db = None \<and> actor_of ?d s = Some ?new"
  have reg: "?P (snd (register_actor ext now ?d (co_handle opts) (co_deactivated opts) db))"
    "register_actor ext now ?d (co_handle opts) (co_deactivated opts) db = (Inr x, db1) \<Longrightarrow> ?Q db1" for x db1
    by (auto simp: register_actor_eq rows_of split: if_splits)
  have tail: "?Q (snd (and_then (case co_email opts of None \<Rightarrow> (Inr (), s)
       | Some email \<Rightarrow> (case pw of None \<Rightarrow> (Inr (), s)
         | Some password \<Rightarrow> register_account ext now ?d email password None s)) (\<lambda>_ db.
     and_then (record_invite_use ?d (co_invite_code opts) (fmt_ts ext now) db) (\<lambda>_ db.
     and_then (store_refresh_token ext tok None db) (\<lambda>_ db.
     and_then (update_root ext now ?d (co_repo_cid opts) (co_repo_rev opts) db) (\<lambda>_ db.
       (Inr jwts, db)))))))" if "?Q s" for s pw tok and jwts :: "string \<times> string"
    by (intro and_then_invariant [where P = ?Q])
      (use that in \<open>auto simp: actor_kept_stages split: option.splits\<close>)
  have read: "(\<And>x. r = Inr x \<Longrightarrow> ?P (snd (k x db))) \<Longrightarrow> ?P (snd (and_then (reading r db) k))"
    for r :: "account_error + 'x" and k :: "'x \<Rightarrow> account_db \<Rightarrow> (account_error + 'y) \<times> account_db"
    by (cases r) simp_all
  have rest: "?P (snd (and_then (register_actor ext now ?d (co_handle opts) (co_deactivated opts) db)
      (\<lambda>_ db. k db)))" if "\<And>s. ?Q s \<Longrightarrow> ?Q (snd (k s))"
    for k :: "account_db \<Rightarrow> (account_error + string \<times> string) \<times> account_db"
    using reg that
    by (cases "register_actor ext now ?d (co_handle opts) (co_deactivated opts) db";
        cases "fst (register_actor ext now ?d (co_handle opts) (co_deactivated opts) db)") auto
  have "?P (snd (create_account ext now salt raw opts db))"
    unfolding create_account_def
    by (rule read, rule read, simp only: split_paired_all prod.case, rule read, rule read, rule rest,
        rule tail)
  with assms show ?thesis by auto
qed


text \<open>The case of an address that is taken.\<close>

lemma create_account_email_conflict:
  assumes "jwt_ok ext" and "is_ok (create_tokens ext now raw (registration_tokens opts))"
    and "co_email opts = Some e" and "co_password opts = Some p"
    and "is_ok (gen_salt_and_hash ext salt p)" and "co_invite_code opts = None"
    and "actor_of (co_did opts) db = None" and "\<not> handle_taken (co_handle opts) db"
    and "account_of (co_did opts) db = None" and "email_taken e db"
  shows "create_account ext now salt raw opts db =
    (Inl (Database (UniqueViolation ''account_email_lower_idx'')),
     db\<lparr>actors := actors db @ [new_actor ext now (co_did opts) (co_handle opts) (co_deactivated opts)]\<rparr>)"
proof -
  obtain a r where t: "create_tokens ext now raw (registration_tokens opts) = Inr (a, r)"
    using assms(2) by (auto simp: is_ok_iff)
  obtain tok where tok: "decode_refresh_token ext now r = Inr tok"
    using decode_created [OF assms(1) t] by (simp add: registration_tokens_def)
  obtain h where "gen_salt_and_hash ext salt p = Inr h" using assms(5) by (auto simp: is_ok_iff)
  with t tok assms(3-10) show ?thesis
    by (simp add: create_account_def registration_tokens_def register_actor_eq register_account_eq
        account_of_def email_taken_def)
qed

text \<open>Two DIDs with addresses that differ in case only: the second registration fails half-way.\<close>

definition demo_opts2 :: create_account_opts where
  "demo_opts2 = demo_opts\<lparr>co_did := ''did:plc:bob'', co_handle := ''bob.test'',
     co_email := Some ''A@x.org''\<rparr>"

lemma demo_lower: "ascii_lower ''A@x.org'' = ascii_lower ''a@x.org''"
  "ascii_lower ''alice.test'' \<noteq> ascii_lower ''bob.test''"
  by code_simp+

lemma create_account_actors:
  assumes "create_account ext now salt raw opts db = (Inr (a, r), db')"
  shows "actors db' = actors db @ [new_actor ext now (co_did opts) (co_handle opts) (co_deactivated opts)]"
  using assms
proof (elim create_account_InrE, goal_cases)
  case (1 pw tok db1 db2 db3)
  have "actors db2 = actors db1"
    using 1(8) by (auto simp: register_account_eq split: option.splits if_splits)
  moreover have "actors db3 = actors db2"
    using 1(9) by (auto simp: record_invite_use_def commit_if_def split: option.splits if_splits)
  moreover have "actors db' = actors db3"
    using 1(11) by (auto simp: update_root_def store_refresh_token_def Let_def split: option.splits if_splits)
  ultimately show ?case using 1(7) by simp
qed


section \<open>The invariant of the account database\<close>

text \<open>C1: In every database that operations of the account manager reach from the empty one, the primary
  keys, unique indexes and foreign keys of the schema hold, every recorded invite use is of an
  existing code, and no code has been used more often than it allows.\<close>

theorem account_db_invariant:
  assumes "account_reachable ext db"
  shows "wf_db db \<and>
    (\<forall>u \<in> set (invite_code_uses db). \<exists>i \<in> set (invite_codes db). ic_code i = iu_code u) \<and>
    (\<forall>i \<in> set (invite_codes db).
       count_where (\<lambda>u. iu_code u = ic_code i) (invite_code_uses db) \<le> max 0 (ic_available_uses i))"
  using good_reachable [OF assms] by (simp add: good_def invite_inv_def has_row_iff)

lemma account_db_invariant_witness:
  "\<exists>a r db. create_account demo_ext 5000000 ''salt'' ''jti1'' demo_opts empty_db = (Inr (a, r), db) \<and> wf_db db"
proof -
  obtain a r db where *: "create_account demo_ext 5000000 ''salt'' ''jti1'' demo_opts empty_db = (Inr (a, r), db)"
    using demo_registration by blast
  have "account_reachable demo_ext db"
    using reach_step [OF reach_empty step_create_account [of demo_ext empty_db 5000000 "''salt''" "''jti1''" demo_opts]]
      * by simp
  from account_db_invariant [OF this] * show ?thesis by blast
qed

text \<open>The budget is kept by whole operations only: when two registrations with different DIDs have both
  checked the last use of a code before either records it, both records succeed and the code
  is used more often than it allows.\<close>

theorem concurrent_invite_overuse:
  assumes "ensure_invite_is_available c db = Inr ()"
    and "find (\<lambda>i. ic_code i = c) (invite_codes db) = Some i"
    and "ic_available_uses i = count_where (\<lambda>u. iu_code u = c) (invite_code_uses db) + 1"
    and "d1 \<noteq> d2" and "\<not> has_row (\<lambda>u. iu_used_by u = d1 \<or> iu_used_by u = d2) (invite_code_uses db)"
  shows "\<exists>db1 db2. record_invite_use d1 (Some c) t1 db = (Inr (), db1) \<and>
    record_invite_use d2 (Some c) t2 db1 = (Inr (), db2) \<and> invite_codes db2 = invite_codes db \<and>
    ic_available_uses i < count_where (\<lambda>u. iu_code u = c) (invite_code_uses db2)"
proof -
  have "\<not> has_row (\<lambda>u. invite_code_use_key u = (c, d1)) (invite_code_uses db)"
    "\<not> has_row (\<lambda>u. invite_code_use_key u = (c, d2))
       (invite_code_uses db @ [\<lparr>iu_code = c, iu_used_by = d1, iu_used_at = t1\<rparr>])"
    using assms(4,5) by (auto simp: has_row_iff invite_code_use_key_def)
  then show ?thesis using assms(3) by (simp add: record_invite_use_def commit_if_def)
qed

lemma concurrent_invite_overuse_witness:
  "\<exists>db1 db2. record_invite_use ''did:a'' (Some ''code'') ''t'' (empty_db\<lparr>invite_codes :=
      [\<lparr>ic_code = ''code'', ic_available_uses = 1, ic_disabled = 0, ic_for_account = ''admin'',
        ic_created_by = ''admin'', ic_created_at = ''t''\<rparr>]\<rparr>) = (Inr (), db1) \<and>
     record_invite_use ''did:b'' (Some ''code'') ''t'' db1 = (Inr (), db2) \<and>
     1 < count_where (\<lambda>u. iu_code u = ''code'') (invite_code_uses db2)"
proof -
  let ?i = "\<lparr>ic_code = ''code'', ic_available_uses = 1, ic_disabled = 0, ic_for_account = ''admin'',
    ic_created_by = ''admin'', ic_created_at = ''t''\<rparr>"
  have "ensure_invite_is_available ''code'' (empty_db\<lparr>invite_codes := [?i]\<rparr>) = Inr ()"
    by (simp add: ensure_invite_eq empty_db_def)
  from concurrent_invite_overuse [OF this, of ?i "''did:a''" "''did:b''" "''t''" "''t''"]
  show ?thesis by (auto simp: empty_db_def)
qed

section \<open>Deletion and takedown\<close>



lemma wf_takedown: "wf_db db \<Longrightarrow> wf_db (takedown_account ext now did td db)"
  by (simp add: takedown_account_def wf_revoke wf_update_takedown)

lemma actor_of_takedown:
  "actor_of did (takedown_account ext now did td db) =
   map_option (\<lambda>r. r\<lparr>a_takedown_ref := if sa_applied td
     then (case sa_ref td of Some r \<Rightarrow> Some r | None \<Rightarrow> Some (fmt_ts ext now)) else None\<rparr>) (actor_of did db)"
  unfolding takedown_account_def update_account_takedown_status_def Let_def
    revoke_refresh_tokens_by_did_def revoke_where_def
  by (simp add: actor_of_update)

text \<open>A takedown hides the account from ordinary lookups, reports it as taken down, and
  leaves it no refresh token; lifting the takedown gives back the status it had before.\<close>

theorem takedown_account_effect:
  assumes "wf_db db" and "starts_with did ''did:''" and "actor_of did db = Some a"
    and "a_takedown_ref a = None" and "sa_applied td" and "\<not> sa_applied lift"
  shows "get_account_status did (takedown_account ext now did td db) = Inr Takendown \<and>
    get_account did None (takedown_account ext now did td db) = None \<and>
    filter (\<lambda>r. rt_did r = did) (refresh_tokens (takedown_account ext now did td db)) = [] \<and>
    get_account_status did (takedown_account ext now2 did lift (takedown_account ext now did td db)) =
      get_account_status did db"
proof -
  note wf1 = wf_takedown [OF assms(1), of ext now did td]
  note wf2 = wf_takedown [OF wf1, of ext now2 did lift]
  have t: "filter (\<lambda>r. rt_did r = did) (refresh_tokens (takedown_account ext now did td db)) = []"
    by (simp add: takedown_account_def revoke_refresh_tokens_by_did_def revoke_where_def delete_where_def
        filter_empty_conv)
  show ?thesis
    using assms(3-6) t
    by (auto simp: get_account_status_eq [OF _ assms(2)] get_account_did [OF _ assms(2)] assms(1) wf1 wf2
        actor_of_takedown availability_conditions_def split: option.splits)
qed

lemma takedown_account_effect_witness:
  "\<exists>db. get_account_status ''did:plc:alice'' db = Inr Active \<and>
     get_account_status ''did:plc:alice''
       (takedown_account demo_ext 7000000 ''did:plc:alice'' \<lparr>sa_applied = True, sa_ref = None\<rparr> db) = Inr Takendown"
proof -
  obtain a r db where *: "create_account demo_ext 5000000 ''salt'' ''jti1'' demo_opts empty_db = (Inr (a, r), db)"
    using demo_registration by blast
  have "good db" using good_create_account [OF good_empty, of demo_ext 5000000 "''salt''" "''jti1''" demo_opts] * by simp
  then have wf: "wf_db db" by (rule goodD)
  note act = create_account_rows(1) [OF *, unfolded demo_opts_simps]
  have did: "starts_with ''did:plc:alice'' ''did:''" by (simp add: starts_with_def)
  show ?thesis
    using takedown_account_effect [OF wf did act, of "\<lparr>sa_applied = True, sa_ref = None\<rparr>"
        "\<lparr>sa_applied = False, sa_ref = None\<rparr>" demo_ext 7000000 8000000] act
    by (intro exI [of _ db]) (simp add: get_account_status_eq [OF wf did] new_actor_def)
qed

section \<open>Handle and address\<close>

lemma uniq_some_upd_iff:
  assumes "uniq k t" and "uniq_some h t" and "a \<in> set t" and "\<forall>r. k (f r) = k r" and "h (f a) = Some x"
  shows "uniq_some h (update_where (\<lambda>r. k r = k a) f t) \<longleftrightarrow> (\<forall>r \<in> set t. k r \<noteq> k a \<longrightarrow> h r \<noteq> Some x)"
  using assms(1-3)
proof (induction t)
  case (Cons r t)
  show ?case
  proof (cases "r = a")
    case True
    with Cons.prems have "k a \<notin> k ` set t" by simp
    then have ne: "\<forall>r \<in> set t. k r \<noteq> k a" by (auto simp: image_iff)
    then have "update_where (\<lambda>r. k r = k a) f t = t" by (rule update_where_id)
    then have "uniq_some h (update_where (\<lambda>r. k r = k a) f (r # t)) \<longleftrightarrow> Some x \<notin> h ` set t"
      using True Cons.prems(2) assms(5) by simp
    also have "\<dots> \<longleftrightarrow> (\<forall>r' \<in> set (r # t). k r' \<noteq> k a \<longrightarrow> h r' \<noteq> Some x)"
      using True ne by (auto simp: image_iff eq_commute [of "Some x"])
    finally show ?thesis .
  next
    case False
    with Cons.prems have a: "a \<in> set t" by simp
    with Cons.prems have ne: "k r \<noteq> k a" by (metis image_eqI uniq_Cons)
    have im: "h r \<in> h ` set (update_where (\<lambda>r. k r = k a) f t) \<longleftrightarrow>
        h r = Some x \<or> (\<exists>r' \<in> set t. k r' \<noteq> k a \<and> h r' = h r)"
    proof -
      have "h (f r') = Some x" if "r' \<in> set t" "k r' = k a" for r'
        using that uniq_eqI [of k t r' a] a Cons.prems(1) assms(5) by simp
      then have "(\<lambda>r. h (if k r = k a then f r else r)) ` set t =
          (\<lambda>r. if k r = k a then Some x else h r) ` set t"
        by (intro image_cong) auto
      also have "\<dots> = insert (Some x) (h ` {r' \<in> set t. k r' \<noteq> k a})"
        using a by (auto simp: image_iff split: if_splits)
      finally have "(\<lambda>r. h (if k r = k a then f r else r)) ` set t =
          insert (Some x) (h ` {r' \<in> set t. k r' \<noteq> k a})" .
      then show ?thesis by (auto simp: image_update eq_commute [of "h r"])
    qed
    have IH: "uniq_some h (update_where (\<lambda>r. k r = k a) f t) \<longleftrightarrow> (\<forall>r \<in> set t. k r \<noteq> k a \<longrightarrow> h r \<noteq> Some x)"
      using Cons.IH Cons.prems a by simp
    from Cons.prems(2) have "h r = None \<or> (\<forall>r' \<in> set t. h r' \<noteq> h r)" by (auto simp: image_iff)
    with ne im IH show ?thesis by auto
  qed
qed simp

text \<open>A change of handle succeeds exactly when the DID has an actor, no other actor has the handle
  ignoring case, and no actor at all (not even this one) has it exactly as written; then the actor is
  found under the new handle and nothing else of it changes. In every other case the database is unchanged.\<close>

theorem update_handle_spec:
  assumes "wf_db db"
  shows "update_handle did handle db =
    (case actor_of did db of
       None \<Rightarrow> (Inl UserAlreadyExistsError, db)
     | Some a \<Rightarrow>
         if has_row (\<lambda>r. a_handle r = Some handle) (actors db) then (Inl UserAlreadyExistsError, db)
         else if has_row (\<lambda>r. a_did r \<noteq> did \<and> handle_key r = Some (ascii_lower handle)) (actors db)
         then (Inl (Database (UniqueViolation ''actor_handle_lower_idx'')), db)
         else (Inr (), db\<lparr>actors := update_where (\<lambda>r. a_did r = did) (\<lambda>r. r\<lparr>a_handle := Some handle\<rparr>) (actors db)\<rparr>))"
proof -
  have u: "uniq a_did (actors db)" and h: "uniq_some handle_key (actors db)"
    using assms by (simp_all add: schema_defs)
  show ?thesis
  proof (cases "has_row (\<lambda>r. a_handle r = Some handle) (actors db)")
    case True
    have none: "update_where (\<lambda>r. False) f t = t" "count_where (\<lambda>r. False) t = 0" for f and t :: "actor_row list"
      by (simp_all add: update_where_def count_where_def)
    show ?thesis using True h by (simp add: update_handle_def none split: option.splits)
  next
    case False
    show ?thesis
    proof (cases "actor_of did db")
      case None
      then have n: "\<not> has_row (\<lambda>r. a_did r = did) (actors db)" by (simp add: actor_of_def not_has_row_find)
      then have "update_where (\<lambda>r. a_did r = did) f (actors db) = actors db" for f
        by (auto simp: update_where_def has_row_iff intro!: map_idI)
      moreover have "count_where (\<lambda>r. a_did r = did) (actors db) = 0" using n by (simp add: count_where_0_iff)
      ultimately show ?thesis using None False h by (simp add: update_handle_def)
    next
      case (Some a)
      note a = actor_of_did [OF Some]
      have "has_row (\<lambda>r. a_did r = did) (actors db)" using a by (auto simp: has_row_iff)
      then have "count_where (\<lambda>r. a_did r = did) (actors db) \<noteq> 0" by (simp add: count_where_0_iff)
      then have c: "\<not> count_where (\<lambda>r. a_did r = did) (actors db) < 1"
        using count_where_nonneg [of "\<lambda>r. a_did r = did" "actors db"] by linarith
      have "uniq_some handle_key (update_where (\<lambda>r. a_did r = did) (\<lambda>r. r\<lparr>a_handle := Some handle\<rparr>) (actors db)) \<longleftrightarrow>
          \<not> has_row (\<lambda>r. a_did r \<noteq> did \<and> handle_key r = Some (ascii_lower handle)) (actors db)"
        using uniq_some_upd_iff [OF u h, of a "\<lambda>r. r\<lparr>a_handle := Some handle\<rparr>" "ascii_lower handle"] a
        by (auto simp: handle_key_def has_row_iff)
      with False Some c show ?thesis by (simp add: update_handle_def)
    qed
  qed
qed

lemma update_handle_spec_witness:
  "fst (update_handle ''did:plc:alice'' ''alice.test''
     (empty_db\<lparr>actors := [new_actor demo_ext 5000000 ''did:plc:alice'' ''alice.test'' None]\<rparr>)) =
   Inl UserAlreadyExistsError"
proof -
  let ?db = "empty_db\<lparr>actors := [new_actor demo_ext 5000000 ''did:plc:alice'' ''alice.test'' None]\<rparr>"
  have "wf_db ?db" by (simp add: schema_defs empty_db_def)
  from update_handle_spec [OF this, of "''did:plc:alice''" "''alice.test''"]
  show ?thesis by (simp add: actor_of_def new_actor_def)
qed

lemma find_by_email:
  assumes "wf_db db" and "actor_of did db = Some a" and "account_of did db = Some c"
    and "availability_conditions flags a"
    and "email_key c = ascii_lower (to_lowercase ext q)"
  shows "get_account_by_email ext q flags db =
    (if ac_email c = to_lowercase ext q then Some (actor_account_from_row (a, Some c)) else None)"
proof -
  have u: "uniq a_did (actors db)" and e: "uniq email_key (accounts db)"
    using assms(1) by (simp_all add: schema_defs)
  let ?p = "\<lambda>x. map_option ac_email (account_of (a_did x) db) = Some (to_lowercase ext q) \<and>
      availability_conditions flags x"
  note a = actor_of_did [OF assms(2)] and c = account_of_did [OF assms(3)]
  have only: "x = a" if x: "x \<in> set (actors db)" "?p x" for x
  proof -
    obtain c' where c': "account_of (a_did x) db = Some c'" "ac_email c' = to_lowercase ext q"
      using x(2) by auto
    with assms(5) have "email_key c' = email_key c" by (simp add: email_key_def)
    with uniq_eqI [OF e _ _ this] account_of_did [OF c'(1)] c have "a_did x = did" by auto
    with uniq_eqI [OF u x(1), of a] a show ?thesis by simp
  qed
  have "find ?p (actors db) = (if ?p a then Some a else None)"
  proof (cases "find ?p (actors db)")
    case None
    with a show ?thesis by (auto simp: find_None_iff)
  next
    case (Some x)
    with find_Some_set [OF Some] only [of x] show ?thesis by auto
  qed
  then show ?thesis
    using a assms(3,4)
    by (auto simp: get_account_by_email_def join_eq [OF assms(1)] find_map case_prod_beta)
qed

text \<open>An account with an address that was registered as it was typed (registration stores it verbatim)
  is found by this address only if it was typed in lower case: the lookup lower-cases the query
  and compares it with the stored text.\<close>

theorem find_by_stored_email:
  assumes "wf_db db" and "actor_of did db = Some a" and "account_of did db = Some c"
    and "availability_conditions flags a"
    and "to_lowercase ext (ac_email c) = ascii_lower (ac_email c)"
  shows "map_option aa_did (get_account_by_email ext (ac_email c) flags db) =
    (if ac_email c = ascii_lower (ac_email c) then Some did else None)"
proof -
  have "ascii_lower (ascii_lower x) = ascii_lower x" for x
    by (auto simp: ascii_lower_def ascii_lower_char_def Let_def of_char_of)
  then have "email_key c = ascii_lower (to_lowercase ext (ac_email c))"
    using assms(5) by (simp add: email_key_def)
  from find_by_email [OF assms(1-4) this] assms(5) actor_of_did [OF assms(2)] show ?thesis
    by (simp add: actor_account_from_row_def)
qed

lemma find_by_stored_email_witness:
  "map_option aa_did (get_account_by_email demo_ext ''A@x.org'' None
     (empty_db\<lparr>actors := [new_actor demo_ext 5000000 ''did:plc:bob'' ''bob.test'' None],
        accounts := [new_account demo_ext 5000000 ''did:plc:bob'' ''A@x.org'' ''h'' None]\<rparr>)) = None"
proof -
  let ?db = "empty_db\<lparr>actors := [new_actor demo_ext 5000000 ''did:plc:bob'' ''bob.test'' None],
        accounts := [new_account demo_ext 5000000 ''did:plc:bob'' ''A@x.org'' ''h'' None]\<rparr>"
  have wf: "wf_db ?db" by (simp add: schema_defs empty_db_def)
  have ne: "ascii_lower ''A@x.org'' \<noteq> ''A@x.org''" by code_simp
  have "map_option aa_did (get_account_by_email demo_ext
      (ac_email (new_account demo_ext 5000000 ''did:plc:bob'' ''A@x.org'' ''h'' None)) None ?db) = None"
    using find_by_stored_email [OF wf, of "''did:plc:bob''" "new_actor demo_ext 5000000 ''did:plc:bob'' ''bob.test'' None"
        "new_account demo_ext 5000000 ''did:plc:bob'' ''A@x.org'' ''h'' None" None demo_ext] ne
    by (auto simp: actor_of_def account_of_def new_actor_def new_account_def availability_conditions_def demo_ext_def)
  then show ?thesis by (simp add: new_account_def)
qed

lemma uniq_upd_iff:
  assumes "uniq k t" and "uniq h t" and "a \<in> set t" and "\<forall>r. k (f r) = k r"
  shows "uniq h (update_where (\<lambda>r. k r = k a) f t) \<longleftrightarrow> (\<forall>r \<in> set t. k r \<noteq> k a \<longrightarrow> h r \<noteq> h (f a))"
  using uniq_some_upd_iff [of k t "\<lambda>r. Some (h r)" a f "h (f a)"] assms by (simp add: uniq_some_total)

definition taken_by_other :: "string \<Rightarrow> string \<Rightarrow> account_db \<Rightarrow> bool" where
  "taken_by_other did email db =
     has_row (\<lambda>r. ac_did r \<noteq> did \<and> email_key r = ascii_lower email) (accounts db)"

text \<open>A change of address to one no other account has (ignoring case) stores it in lower case, unconfirmed,
  deletes the e-mail tokens of the DID and makes the account found by that address; when another
  account has it, the call fails, and the tokens are gone or not, by the order in which the
  two joined statements ran.\<close>

theorem update_email_spec:
  assumes "wf_db db" and "account_of did db = Some c" and "actor_of did db = Some a"
    and "availability_conditions flags a"
  shows "case manager_update_email ext tokens_first did email db of (res, db') \<Rightarrow>
    (res = (if taken_by_other did (to_lowercase ext email) db then Inl UserAlreadyExistsError else Inr ())) \<and>
    (taken_by_other did (to_lowercase ext email) db \<longrightarrow> db' = (if tokens_first then delete_all_email_tokens did db else db)) \<and>
    (\<not> taken_by_other did (to_lowercase ext email) db \<longrightarrow>
       account_of did db' = Some (c\<lparr>ac_email := to_lowercase ext email, ac_email_confirmed_at := None\<rparr>) \<and>
       filter (\<lambda>r. et_did r = did) (email_tokens db') = [] \<and>
       map_option aa_did (get_account_by_email ext email flags db') = Some did)"
proof -
  let ?taken = "taken_by_other did (to_lowercase ext email) db"
  have k: "uniq ac_did (accounts db)" "uniq email_key (accounts db)"
    using assms(1) by (simp_all add: schema_defs)
  note c = account_of_did [OF assms(2)]
  let ?f = "\<lambda>r. r\<lparr>ac_email := to_lowercase ext email, ac_email_confirmed_at := None\<rparr>"
  let ?t = "update_where (\<lambda>r. ac_did r = did) ?f (accounts db)"
  have u: "uniq email_key ?t \<longleftrightarrow> \<not> ?taken"
    using uniq_upd_iff [OF k, of c ?f] c by (auto simp: taken_by_other_def has_row_iff email_key_def)
  let ?db = "delete_all_email_tokens did (db\<lparr>accounts := ?t\<rparr>)"
  have eq: "manager_update_email ext tokens_first did email db =
      (if ?taken then (Inl UserAlreadyExistsError, if tokens_first then delete_all_email_tokens did db else db)
       else (Inr (), ?db))"
    by (cases ?taken)
      (simp_all add: manager_update_email_def update_email_def Let_def u delete_all_email_tokens_def)
  have "filter (\<lambda>r. et_did r = did) (email_tokens ?db) = []"
    by (simp add: delete_all_email_tokens_def delete_where_def filter_empty_conv)
  moreover have ac: "account_of did ?db = Some (?f c)"
    using assms(2) by (simp add: delete_all_email_tokens_def account_of_update)
  moreover have "map_option aa_did (get_account_by_email ext email flags ?db) = Some did" if "\<not> ?taken"
  proof -
    have "wf_db ?db"
      using that u wf_update_email [OF assms(1), of ext did email] wf_delete_all_email_tokens
      by (simp add: update_email_def Let_def)
    moreover have "actor_of did ?db = Some a"
      using assms(3) by (simp add: delete_all_email_tokens_def)
    ultimately have "get_account_by_email ext email flags ?db =
        Some (actor_account_from_row (a, Some (?f c)))"
      using find_by_email [OF _ _ ac assms(4), of ext email] by (simp add: email_key_def)
    then show ?thesis using actor_of_did [OF assms(3)] by (simp add: actor_account_from_row_def)
  qed
  ultimately show ?thesis by (simp add: eq)
qed

lemma update_email_spec_witness:
  "fst (manager_update_email demo_ext True ''did:plc:bob'' ''B@x.org''
     (empty_db\<lparr>actors := [new_actor demo_ext 5000000 ''did:plc:bob'' ''bob.test'' None],
        accounts := [new_account demo_ext 5000000 ''did:plc:bob'' ''A@x.org'' ''h'' None]\<rparr>)) = Inr ()"
proof -
  let ?a = "new_actor demo_ext 5000000 ''did:plc:bob'' ''bob.test'' None"
  let ?c = "new_account demo_ext 5000000 ''did:plc:bob'' ''A@x.org'' ''h'' None"
  let ?db = "empty_db\<lparr>actors := [?a], accounts := [?c]\<rparr>"
  have "wf_db ?db" by (simp add: schema_defs empty_db_def)
  moreover have "account_of ''did:plc:bob'' ?db = Some ?c" "actor_of ''did:plc:bob'' ?db = Some ?a"
    by (simp_all add: account_of_def actor_of_def)
  moreover have "availability_conditions None ?a" by (simp add: availability_conditions_def new_actor_def)
  ultimately show ?thesis
    using update_email_spec [of ?db "''did:plc:bob''" ?c ?a None demo_ext "''B@x.org''" True]
    by (simp add: case_prod_beta taken_by_other_def new_account_def)
qed

end
