(* ===== verification/Account_Sessions.thy ===== *)
theory Account_Sessions
  imports Account_Registration
begin

text \<open>
  Properties of the authentication side of the account manager: rotation of refresh tokens under
  concurrent clients, the lockout policy against an abstract counter, password reset, app
  passwords, e-mail tokens, the reports of invite codes and the guard on repository roots.
\<close>

section \<open>Rotation\<close>

text \<open>
  What other clients may do to the row of a token in between: remove it or set its next id,
  but not change a next id that is set, nor bring a removed row back. Grace periods,
  revocations and the removal of expired tokens are of this kind (\<open>calm_ops\<close>).
\<close>

definition calm :: "string \<Rightarrow> (account_db \<Rightarrow> account_db) \<Rightarrow> bool" where
  "calm i f \<longleftrightarrow> (\<forall>db. wf_db db \<longrightarrow> wf_db (f db) \<and>
     (get_refresh_token i db = None \<longrightarrow> get_refresh_token i (f db) = None) \<and>
     (\<forall>r r' n. get_refresh_token i db = Some r \<longrightarrow> rt_next_id r = Some n \<longrightarrow>
        get_refresh_token i (f db) = Some r' \<longrightarrow> rt_next_id r' = Some n))"

lemma calmD:
  assumes "calm i f" and "wf_db db"
  shows "wf_db (f db)" and "get_refresh_token i db = None \<Longrightarrow> get_refresh_token i (f db) = None"
    and "get_refresh_token i db = Some r \<Longrightarrow> rt_next_id r = Some n \<Longrightarrow>
      get_refresh_token i (f db) = Some r' \<Longrightarrow> rt_next_id r' = Some n"
  using assms unfolding calm_def by blast+

lemma calm_id: "calm i (\<lambda>db. db)" "calm i id"
  by (simp_all add: calm_def)

lemma get_grace_next:
  assumes "wf_db db"
  shows "get_refresh_token i (snd (add_refresh_grace_period g db)) =
    map_option (\<lambda>r. if rt_id r = gp_id g \<and> (rt_next_id r = None \<or> rt_next_id r = Some (gp_next_id g))
      then r\<lparr>rt_expires_at := gp_expires_at g, rt_next_id := Some (gp_next_id g)\<rparr> else r)
     (get_refresh_token i db)"
proof -
  let ?p = "\<lambda>r. rt_id r = gp_id g \<and> (rt_next_id r = None \<or> rt_next_id r = Some (gp_next_id g))"
  show ?thesis
  proof (cases "count_where ?p (refresh_tokens db) < 1")
    case True
    then have "count_where ?p (refresh_tokens db) = 0"
      using count_where_nonneg [of ?p "refresh_tokens db"] by linarith
    then have "\<not> has_row ?p (refresh_tokens db)" by (simp add: count_where_0_iff)
    then have "map_option (\<lambda>r. if ?p r then r\<lparr>rt_expires_at := gp_expires_at g,
        rt_next_id := Some (gp_next_id g)\<rparr> else r) (get_refresh_token i db) = get_refresh_token i db"
      by (cases "get_refresh_token i db") (auto simp: has_row_iff dest!: get_refresh_token_did)
    with True show ?thesis by (simp add: add_refresh_grace_period_def)
  next
    case False
    then show ?thesis
      by (simp add: add_refresh_grace_period_def get_refresh_token_def find_update_where)
  qed
qed

lemma calm_ops:
  "calm i (\<lambda>db. snd (add_refresh_grace_period g db))"
  "calm i (\<lambda>db. snd (revoke_where p db))"
  "calm i (\<lambda>db. delete_expired_refresh_tokens d t db)"
proof -
  show "calm i (\<lambda>db. snd (add_refresh_grace_period g db))"
    by (auto simp: calm_def get_grace_next wf_add_grace split: if_splits)
  show "calm i (\<lambda>db. snd (revoke_where p db))"
    by (auto simp: calm_def get_revoke_where wf_revoke_where split: option.splits if_splits)
  have "calm i (\<lambda>db. snd (revoke_where p db))" for p
    by (auto simp: calm_def get_revoke_where wf_revoke_where split: option.splits if_splits)
  from this [of "\<lambda>r. rt_did r = d \<and> rt_expires_at r \<le> t"]
  show "calm i (\<lambda>db. delete_expired_refresh_tokens d t db)"
    by (simp add: revoke_where_def delete_expired_refresh_tokens_def)
qed

text \<open>The joined statements, on what they do to the row of the rotated token.\<close>

lemma rotate_plan_prev:
  "rotate_plan ext i svc now raw token = Inr (Some x) \<Longrightarrow>
   \<exists>prev. from_str_to_micros ext (rt_expires_at token) = Some prev"
  by (auto simp: rotate_plan_def split: option.splits)

lemma rotate_plan_Some:
  assumes "rotate_plan ext i svc now raw token = Inr (Some (g, p, jwts))"
    and "from_str_to_micros ext (rt_expires_at token) = Some prev"
  defines "e \<equiv> (if now + REFRESH_GRACE_MS * 1000 < prev then now + REFRESH_GRACE_MS * 1000 else prev)"
  shows "gp_id g = i" and "gp_next_id g = (case rt_next_id token of Some n \<Rightarrow> n | None \<Rightarrow> raw)"
    and "decode_refresh_token ext now (snd jwts) = Inr p"
    and "create_tokens ext now raw
       \<lparr>ct_did = rt_did token, ct_service_did = svc,
        ct_scope = Some (if rt_app_password_name token = None then Access else AppPass),
        ct_jti = Some (gp_next_id g), ct_expires_in = None\<rparr> = Inr jwts"
    and "now < e" and "ts_in_range ext e" and "gp_expires_at g = fmt_ts ext e"
proof -
  show "gp_id g = i" and "gp_next_id g = (case rt_next_id token of Some n \<Rightarrow> n | None \<Rightarrow> raw)"
    and "decode_refresh_token ext now (snd jwts) = Inr p"
    and "create_tokens ext now raw
       \<lparr>ct_did = rt_did token, ct_service_did = svc,
        ct_scope = Some (if rt_app_password_name token = None then Access else AppPass),
        ct_jti = Some (gp_next_id g), ct_expires_in = None\<rparr> = Inr jwts"
    and "now < e" and "ts_in_range ext e" and "gp_expires_at g = fmt_ts ext e"
    using assms(1,2) unfolding e_def
    by (cases "now + REFRESH_GRACE_MS * 1000 < prev";
        auto simp: rotate_plan_def Let_def format_micros_def split: if_splits sum.splits prod.splits)+
qed

lemma add_grace_fst:
  assumes "wf_db db"
  shows "fst (add_refresh_grace_period g db) =
    (case get_refresh_token (gp_id g) db of None \<Rightarrow> Inl ConcurrentRefresh
     | Some r \<Rightarrow> if rt_next_id r = None \<or> rt_next_id r = Some (gp_next_id g) then Inr ()
                else Inl ConcurrentRefresh)"
proof -
  let ?p = "\<lambda>r. rt_id r = gp_id g \<and> (rt_next_id r = None \<or> rt_next_id r = Some (gp_next_id g))"
  have u: "uniq rt_id (refresh_tokens db)" using assms by (simp add: wf_dbD)
  have "count_where ?p (refresh_tokens db) < 1 \<longleftrightarrow> find ?p (refresh_tokens db) = None"
    using count_where_nonneg [of ?p "refresh_tokens db"] count_where_0_iff [of ?p "refresh_tokens db"]
    unfolding not_has_row_find by linarith
  then show ?thesis
    by (auto simp: add_refresh_grace_period_def Let_def get_refresh_token_def
        find_uniq_conj [OF u, of "gp_id g" "\<lambda>r. rt_next_id r = None \<or> rt_next_id r = Some (gp_next_id g)"]
        split: option.splits if_splits)
qed

lemma add_grace_lost: "fst (add_refresh_grace_period g db) = Inl e \<Longrightarrow> e = ConcurrentRefresh \<and> snd (add_refresh_grace_period g db) = db"
  by (auto simp: add_refresh_grace_period_def Let_def split: if_splits)

lemma store_fst: "fst (store_refresh_token ext p n db) =
    (if ts_in_range ext (rf_exp p * 1000) then Inr () else Inl TimestampOutOfRange)"
  by (simp add: store_refresh_token_def Let_def)

text \<open>The rotated row once both statements have run.\<close>

definition rotated_row :: "refresh_grace_period_opts \<Rightarrow> account_db \<Rightarrow> bool" where
  "rotated_row g db \<longleftrightarrow> (\<exists>row. get_refresh_token (gp_id g) db = Some row \<and>
     rt_expires_at row = gp_expires_at g \<and> rt_next_id row = Some (gp_next_id g))"

lemma add_grace_ok:
  assumes "wf_db db" and "fst (add_refresh_grace_period g db) = Inr ()"
  shows "rotated_row g (snd (add_refresh_grace_period g db)) \<and>
    (\<forall>j. get_refresh_token j db \<noteq> None \<longrightarrow> get_refresh_token j (snd (add_refresh_grace_period g db)) \<noteq> None)"
proof -
  obtain r where r: "get_refresh_token (gp_id g) db = Some r"
    "rt_next_id r = None \<or> rt_next_id r = Some (gp_next_id g)"
    using assms by (auto simp: add_grace_fst split: option.splits if_splits)
  have "rt_id r = gp_id g" using get_refresh_token_did [OF r(1)] by simp
  with r have "get_refresh_token (gp_id g) (snd (add_refresh_grace_period g db)) =
      Some (r\<lparr>rt_expires_at := gp_expires_at g, rt_next_id := Some (gp_next_id g)\<rparr>)"
    using get_grace_next [OF assms(1), of "gp_id g" g] by simp
  then have "rotated_row g (snd (add_refresh_grace_period g db))" by (auto simp: rotated_row_def)
  then show ?thesis by (simp add: get_grace_next [OF assms(1)])
qed

lemma store_keeps:
  assumes "ts_in_range ext (rf_exp p * 1000)"
  shows "rotated_row g db \<Longrightarrow> rotated_row g (snd (store_refresh_token ext p n db))"
    and "get_refresh_token (rf_jti p) (snd (store_refresh_token ext p n db)) \<noteq> None"
  using assms by (auto simp: rotated_row_def get_store)

lemma rotate_join_eq:
  "rotate_join ext b g p n jwts db =
   (let s = (if b then snd (store_refresh_token ext p n db) else db)
    in if b \<and> \<not> ts_in_range ext (rf_exp p * 1000) then Returned (Inl TimestampOutOfRange) db
       else if \<not> is_ok (fst (add_refresh_grace_period g s)) then Retried s
       else let s' = snd (add_refresh_grace_period g s)
            in if b then Returned (Inr (Some jwts)) s'
               else if ts_in_range ext (rf_exp p * 1000)
               then Returned (Inr (Some jwts)) (snd (store_refresh_token ext p n s'))
               else Returned (Inl TimestampOutOfRange) s')"
proof -
  have st: "store_refresh_token ext p n x = (Inr (), S) \<Longrightarrow> ts_in_range ext (rf_exp p * 1000)"
    "store_refresh_token ext p n x = (Inl e, S) \<Longrightarrow>
      \<not> ts_in_range ext (rf_exp p * 1000) \<and> e = TimestampOutOfRange \<and> S = x" for x S e
    by (auto simp: store_refresh_token_def Let_def split: if_splits)
  have ad: "add_refresh_grace_period g x = (Inl e, S) \<Longrightarrow> e = ConcurrentRefresh \<and> S = x" for x S e
    by (auto simp: add_refresh_grace_period_def Let_def split: if_splits)
  show ?thesis
  proof (cases b)
    case True
    obtain r S where S: "store_refresh_token ext p n db = (r, S)" by fastforce
    obtain q A where A: "add_refresh_grace_period g S = (q, A)" by fastforce
    show ?thesis
      using True S A st [of db] ad [of S]
      by (cases r; cases q) (auto simp: rotate_join_def Let_def)
  next
    case False
    obtain q A where A: "add_refresh_grace_period g db = (q, A)" by fastforce
    obtain r S where S: "store_refresh_token ext p n A = (r, S)" by fastforce
    show ?thesis
      using False S A st [of A] ad [of db]
      by (cases r; cases q) (auto simp: rotate_join_def Let_def)
  qed
qed

lemma rotate_join_ok:
  assumes "wf_db db" and "rotate_join ext b g p n jwts db = Returned (Inr x) db'"
  shows "x = Some jwts \<and> wf_db db' \<and> rotated_row g db' \<and> get_refresh_token (rf_jti p) db' \<noteq> None"
proof -
  let ?add = "add_refresh_grace_period g" and ?store = "store_refresh_token ext p n"
  have wfs: "wf_db (snd (?store db))" using assms(1) by (rule wf_store_refresh_token)
  show ?thesis
  proof (cases b)
    case True
    with assms(2) have r: "ts_in_range ext (rf_exp p * 1000)" "is_ok (fst (?add (snd (?store db))))"
      "x = Some jwts" "db' = snd (?add (snd (?store db)))"
      by (auto simp: rotate_join_eq Let_def split: if_splits)
    with add_grace_ok [OF wfs] store_keeps(2) [OF r(1)] show ?thesis
      by (auto simp: is_ok_unit wf_add_grace wfs)
  next
    case False
    with assms(2) have r: "ts_in_range ext (rf_exp p * 1000)" "is_ok (fst (?add db))"
      "x = Some jwts" "db' = snd (?store (snd (?add db)))"
      by (auto simp: rotate_join_eq Let_def split: if_splits)
    with add_grace_ok [OF assms(1)] store_keeps [OF r(1)] show ?thesis
      by (auto simp: is_ok_unit wf_store_refresh_token wf_add_grace assms(1))
  qed
qed

lemma rotate_join_lost:
  assumes "wf_db db" and "rotate_join ext b g p n jwts db = Retried db'"
  shows "wf_db db' \<and>
    (get_refresh_token (gp_id g) db' = None \<or>
     (\<exists>row m. get_refresh_token (gp_id g) db = Some row \<and> get_refresh_token (gp_id g) db' = Some row \<and>
        rt_next_id row = Some m \<and> m \<noteq> gp_next_id g))"
proof -
  let ?s = "if b then snd (store_refresh_token ext p n db) else db"
  have wfs: "wf_db ?s" using assms(1) by (simp add: wf_store_refresh_token)
  have r: "db' = ?s" "\<not> is_ok (fst (add_refresh_grace_period g ?s))" "b \<Longrightarrow> ts_in_range ext (rf_exp p * 1000)"
    using assms(2) by (auto simp: rotate_join_eq Let_def split: if_splits)
  from r(2) have "get_refresh_token (gp_id g) ?s = None \<or>
     (\<exists>row m. get_refresh_token (gp_id g) ?s = Some row \<and> rt_next_id row = Some m \<and> m \<noteq> gp_next_id g)"
    unfolding add_grace_fst [OF wfs] by (auto split: option.splits if_splits)
  then show ?thesis
    using wfs r(1,3) by (cases b) (auto simp: get_store split: if_splits)
qed

text \<open>
  A lost race leaves the row absent or with a next id; and it cannot be lost with a next id that was
  already there when the attempt began.
\<close>

lemma calm_next:
  assumes "calm i f" and "wf_db db" and "get_refresh_token i (f db) = Some r'"
  shows "\<exists>r. get_refresh_token i db = Some r \<and> (\<forall>n. rt_next_id r = Some n \<longrightarrow> rt_next_id r' = Some n)"
proof (cases "get_refresh_token i db")
  case None
  with calmD(2) [OF assms(1,2)] assms(3) show ?thesis by simp
next
  case (Some r)
  with calmD(3) [OF assms(1,2) Some _ assms(3)] show ?thesis by blast
qed

lemma rotate_once_Retried:
  assumes wf: "wf_db db" and calm: "calm i (at_before_read at)" "calm i (at_before_update at)"
    and lost: "rotate_once ext i svc at db = Retried db'"
  shows "wf_db db' \<and> (\<exists>r. get_refresh_token i db = Some r \<and>
    (get_refresh_token i db' = None \<or>
     (rt_next_id r = None \<and> (\<exists>row m. get_refresh_token i db' = Some row \<and> rt_next_id row = Some m))))"
proof (cases rule: rotate_once_cases [of i at db ext svc])
  case (joined token grace payload jwts)
  let ?f = "\<lambda>db. at_before_update at (delete_expired_refresh_tokens (rt_did token) (fmt_ts ext (at_now at)) db)"
  have wf1: "wf_db (at_before_read at db)" using calmD(1) [OF calm(1) wf] .
  have wf2: "wf_db (delete_expired_refresh_tokens d t (at_before_read at db))" for d t
    using wf1 by (rule wf_delete_expired)
  have wf3: "wf_db (?f (at_before_read at db))" using calmD(1) [OF calm(2) wf2] .
  obtain prev where "from_str_to_micros ext (rt_expires_at token) = Some prev"
    using rotate_plan_prev [OF joined(2)] by blast
  note plan = rotate_plan_Some(1,2) [OF joined(2) this]
  have j: "wf_db db'" "get_refresh_token i db' = None \<or>
     (\<exists>row m. get_refresh_token i (?f (at_before_read at db)) = Some row \<and> get_refresh_token i db' = Some row \<and>
        rt_next_id row = Some m \<and> m \<noteq> gp_next_id grace)"
    using rotate_join_lost [OF wf3 lost [unfolded joined(3)]] plan(1) by auto
  obtain r where r: "get_refresh_token i db = Some r"
    "\<forall>n. rt_next_id r = Some n \<longrightarrow> rt_next_id token = Some n"
    using calm_next [OF calm(1) wf joined(1)] by blast
  have "rt_next_id r = None" if g: "get_refresh_token i (?f (at_before_read at db)) = Some row"
    "rt_next_id row = Some m" "m \<noteq> gp_next_id grace" for row m
  proof (rule ccontr)
    assume "rt_next_id r \<noteq> None"
    then obtain n where n: "rt_next_id r = Some n" by blast
    with r(2) have t: "rt_next_id token = Some n" by simp
    obtain r2 where r2: "get_refresh_token i (delete_expired_refresh_tokens (rt_did token)
        (fmt_ts ext (at_now at)) (at_before_read at db)) = Some r2"
      "\<forall>n. rt_next_id r2 = Some n \<longrightarrow> rt_next_id row = Some n"
      using calm_next [OF calm(2) wf2 g(1)] by blast
    obtain r1 where "get_refresh_token i (at_before_read at db) = Some r1"
      "\<forall>n. rt_next_id r1 = Some n \<longrightarrow> rt_next_id r2 = Some n"
      using calm_next [OF calm_ops(3) wf1 r2(1)] by blast
    with joined(1) t r2(2) have "rt_next_id row = Some n" by simp
    with g plan(2) t show False by simp
  qed
  with j r(1) show ?thesis by blast
qed (use lost in simp_all)

lemma rotate_once_absent:
  assumes "wf_db db" and "calm i (at_before_read at)" and "get_refresh_token i db = None"
  shows "rotate_once ext i svc at db = Returned (Inr None) (at_before_read at db)"
  using calmD(2) [OF assms(2,1,3)] by (simp add: rotate_once_def)

text \<open>C5: Rotation always returns: when all that other clients do to the row of the token is to remove it or to
  set a next id that was not set, at most three attempts are made, whatever the interleaving.\<close>

theorem rotate_returns:
  assumes "wf_db db" and "\<forall>at \<in> {at1, at2, at3}. calm i (at_before_read at) \<and> calm i (at_before_update at)"
  shows "\<exists>r db'. rotate_refresh_token ext i svc (at1 # at2 # at3 # rest) db = Some (r, db')"
proof (cases "rotate_once ext i svc at1 db")
  case (Retried db1)
  have calm: "calm i (at_before_read at1)" "calm i (at_before_update at1)" "calm i (at_before_read at2)"
    "calm i (at_before_update at2)" "calm i (at_before_read at3)"
    using assms(2) by simp_all
  from rotate_once_Retried [OF assms(1) calm(1,2) Retried] have d1: "wf_db db1"
    "get_refresh_token i db1 = None \<or> (\<exists>row m. get_refresh_token i db1 = Some row \<and> rt_next_id row = Some m)"
    by blast+
  show ?thesis
  proof (cases "rotate_once ext i svc at2 db1")
    case R2: (Retried db2)
    from rotate_once_Retried [OF d1(1) calm(3,4) R2] d1(2) have d2: "wf_db db2" "get_refresh_token i db2 = None"
      by auto
    from rotate_once_absent [OF d2(1) calm(5) d2(2)] Retried R2 show ?thesis by simp
  qed (simp add: Retried)
qed simp

text \<open>C6: A successful rotation, also under interference, leaves the old token with the id of the new one as its
  next id and with at most two hours to live, and the returned refresh token carries exactly that
  next id, which is stored; if the old token had been rotated before, it is the id given out then.\<close>

theorem rotate_success:
  assumes "timestamps_ok ext" and "wf_db db"
    and "\<forall>at \<in> set ats. calm i (at_before_read at) \<and> calm i (at_before_update at)"
    and "rotate_refresh_token ext i svc ats db = Some (Inr (Some (access_jwt, refresh_jwt)), db')"
    and "jwt_ok ext"
  shows "\<exists>at \<in> set ats. \<exists>tok row e. decode_refresh_token ext (at_now at) refresh_jwt = Inr tok \<and>
    get_refresh_token i db' = Some row \<and> rt_next_id row = Some (rf_jti tok) \<and>
    from_str_to_micros ext (rt_expires_at row) = Some e \<and>
    e \<le> at_now at + 2 * 60 * 60 * 1000000 \<and> get_refresh_token (rf_jti tok) db' \<noteq> None \<and>
    (\<forall>r n. get_refresh_token i db = Some r \<longrightarrow> rt_next_id r = Some n \<longrightarrow> rf_jti tok = n)"
  using assms(2-4)
proof (induction ats arbitrary: db)
  case (Cons at ats)
  show ?case
  proof (cases "rotate_once ext i svc at db")
    case (Retried db1)
    have calm: "calm i (at_before_read at)" "calm i (at_before_update at)"
      and rest: "\<forall>at \<in> set ats. calm i (at_before_read at) \<and> calm i (at_before_update at)"
      using Cons.prems(2) by simp_all
    have wf1: "wf_db db1" and next1: "\<exists>r. get_refresh_token i db = Some r \<and>
        (get_refresh_token i db1 = None \<or> rt_next_id r = None)"
      using rotate_once_Retried [OF Cons.prems(1) calm Retried] by blast+
    have ok: "rotate_refresh_token ext i svc ats db1 = Some (Inr (Some (access_jwt, refresh_jwt)), db')"
      using Cons.prems(3) Retried by simp
    have "get_refresh_token i db1 \<noteq> None"
    proof
      assume none: "get_refresh_token i db1 = None"
      show False
      proof (cases ats)
        case (Cons at2 ats2)
        with rest have "calm i (at_before_read at2)" by simp
        from rotate_once_absent [OF wf1 this none] ok Cons show False by simp
      qed (use ok in simp)
    qed
    with next1 have new: "\<forall>r n. get_refresh_token i db = Some r \<longrightarrow> rt_next_id r = Some n \<longrightarrow> P n" for P
      by auto
    from Cons.IH [OF wf1 rest ok] obtain at1 tok row e where
      "at1 \<in> set ats" "decode_refresh_token ext (at_now at1) refresh_jwt = Inr tok"
      "get_refresh_token i db' = Some row" "rt_next_id row = Some (rf_jti tok)"
      "from_str_to_micros ext (rt_expires_at row) = Some e"
      "e \<le> at_now at1 + 2 * 60 * 60 * 1000000" "get_refresh_token (rf_jti tok) db' \<noteq> None"
      by blast
    with new [of "\<lambda>n. rf_jti tok = n"] show ?thesis by (intro bexI [of _ at1] exI) auto
  next
    case (Returned r1 db1)
    with Cons.prems(3) have r: "rotate_once ext i svc at db = Returned (Inr (Some (access_jwt, refresh_jwt))) db'"
      by simp
    show ?thesis
    proof (cases rule: rotate_once_cases [of i at db ext svc])
      case (joined token grace payload jwts)
      obtain prev where prev: "from_str_to_micros ext (rt_expires_at token) = Some prev"
        using rotate_plan_prev [OF joined(2)] by blast
      note plan = rotate_plan_Some [OF joined(2) prev]
      have wf1: "wf_db (at_before_update at (delete_expired_refresh_tokens (rt_did token)
          (fmt_ts ext (at_now at)) (at_before_read at db)))"
      proof -
        have c: "calm i (at_before_read at)" "calm i (at_before_update at)" using Cons.prems(2) by simp_all
        show ?thesis by (rule calmD(1) [OF c(2) wf_delete_expired [OF calmD(1) [OF c(1) Cons.prems(1)]]])
      qed
      have "rotate_join ext (at_store_first at) grace payload (rt_app_password_name token) jwts
          (at_before_update at (delete_expired_refresh_tokens (rt_did token)
          (fmt_ts ext (at_now at)) (at_before_read at db))) =
        Returned (Inr (Some (access_jwt, refresh_jwt))) db'"
        using r joined(3) by simp
      from rotate_join_ok [OF wf1 this]
      have j: "jwts = (access_jwt, refresh_jwt)" "rotated_row grace db'" "get_refresh_token (rf_jti payload) db' \<noteq> None"
        by auto
      have n: "rf_jti payload = gp_next_id grace"
        using decode_created [OF assms(5) plan(4) [unfolded j(1)]] plan(3) j(1) by (cases payload) auto
      let ?e = "if at_now at + REFRESH_GRACE_MS * 1000 < prev then at_now at + REFRESH_GRACE_MS * 1000 else prev"
      have "from_str_to_micros ext (gp_expires_at grace) = Some (?e div 1000 * 1000)"
        using timestamps_parse [OF assms(1) plan(6)] plan(7) by simp
      moreover have "?e div 1000 * 1000 \<le> at_now at + 2 * 60 * 60 * 1000000"
      proof -
        have "?e div 1000 * 1000 \<le> ?e" by linarith
        also have "?e \<le> at_now at + 2 * 60 * 60 * 1000000" by (simp add: REFRESH_GRACE_MS_def)
        finally show ?thesis .
      qed
      moreover have "rf_jti payload = m" if "get_refresh_token i db = Some r" "rt_next_id r = Some m" for r m
      proof -
        have "calm i (at_before_read at)" using Cons.prems(2) by simp
        from calm_next [OF this Cons.prems(1) joined(1)] that have "rt_next_id token = Some m" by auto
        with plan(2) n show ?thesis by simp
      qed
      ultimately show ?thesis
        using j plan(1,3) n by (intro bexI [of _ at]) (auto simp: rotated_row_def)
    qed (use r in auto)
  qed
qed simp

text \<open>Without interference a token that has not expired is rotated at the first attempt.\<close>

definition alone :: "int \<Rightarrow> string \<Rightarrow> rotate_attempt" where
  "alone now raw = \<lparr>at_now = now, at_raw = raw, at_before_read = (\<lambda>db. db),
     at_before_update = (\<lambda>db. db), at_store_first = False\<rparr>"

lemma rotate_alone:
  assumes "timestamps_ok ext" and "jwt_ok ext" and "wf_db db"
    and "get_refresh_token i db = Some token" and "rt_expires_at token = fmt_ts ext exp"
    and "ts_in_range ext exp" and "ts_in_range ext now" and "now div 1000 < exp div 1000"
    and "now + REFRESH_GRACE_MS * 1000 < exp div 1000 * 1000"
    and "ts_in_range ext (now + REFRESH_GRACE_MS * 1000)"
    and "ts_in_range ext ((now_secs now + 90 * 24 * 60 * 60) * 1000 * 1000)"
    and "is_ok (create_tokens ext now raw \<lparr>ct_did = rt_did token, ct_service_did = svc,
      ct_scope = Some (if rt_app_password_name token = None then Access else AppPass),
      ct_jti = Some (case rt_next_id token of Some n \<Rightarrow> n | None \<Rightarrow> raw), ct_expires_in = None\<rparr>)"
  shows "\<exists>a r db'. rotate_refresh_token ext i svc [alone now raw] db = Some (Inr (Some (a, r)), db')"
proof -
  let ?next = "case rt_next_id token of Some n \<Rightarrow> n | None \<Rightarrow> raw"
  let ?sc = "if rt_app_password_name token = None then Access else AppPass"
  from assms(12) obtain a r where t: "create_tokens ext now raw \<lparr>ct_did = rt_did token, ct_service_did = svc,
      ct_scope = Some ?sc, ct_jti = Some ?next, ct_expires_in = None\<rparr> = Inr (a, r)"
    by (auto simp: is_ok_iff)
  obtain tok where tok: "decode_refresh_token ext now r = Inr tok"
    "rf_exp tok = (now_secs now + 90 * 24 * 60 * 60) * 1000"
    using decode_created [OF assms(2) t] by simp
  let ?g = "\<lparr>gp_id = i, gp_expires_at = fmt_ts ext (now + REFRESH_GRACE_MS * 1000), gp_next_id = ?next\<rparr>"
  have plan: "rotate_plan ext i svc now raw token = Inr (Some (?g, tok, a, r))"
    using t tok timestamps_parse [OF assms(1,6)] assms(5,9,10)
    by (simp add: rotate_plan_def Let_def format_micros_def REFRESH_GRACE_MS_def)
  let ?db1 = "delete_expired_refresh_tokens (rt_did token) (fmt_ts ext now) db"
  have "\<not> rt_expires_at token \<le> fmt_ts ext now"
    using timestamps_le [OF assms(1,6,7)] assms(5,8) by simp
  then have g1: "get_refresh_token i ?db1 = Some token"
    using get_revoke_where [OF assms(3), of i "\<lambda>x. rt_did x = rt_did token \<and> rt_expires_at x \<le> fmt_ts ext now"]
      assms(4) by (simp add: revoke_where_def delete_expired_refresh_tokens_def)
  have "is_ok (fst (add_refresh_grace_period ?g ?db1))"
    using add_grace_fst [OF wf_delete_expired [OF assms(3)], of ?g "rt_did token" "fmt_ts ext now"] g1
    by (simp split: option.splits)
  then have "\<exists>db'. rotate_join ext False ?g tok (rt_app_password_name token) (a, r) ?db1 =
      Returned (Inr (Some (a, r))) db'"
    using assms(11) tok(2) by (simp add: rotate_join_eq Let_def)
  then show ?thesis
    using assms(4) plan by (auto simp: rotate_once_def alone_def)
qed

definition demo_token :: refresh_token_row where
  "demo_token = \<lparr>rt_id = ''old'', rt_did = ''did:plc:alice'', rt_expires_at = fmt_ts demo_ext (10 ^ 15),
     rt_next_id = None, rt_app_password_name = None\<rparr>"

lemma demo_token_rotates:
  "\<exists>a r db'. rotate_refresh_token demo_ext ''old'' ''did:web:pds'' [alone 5000000 ''new'']
     (empty_db\<lparr>refresh_tokens := [demo_token]\<rparr>) = Some (Inr (Some (a, r)), db')"
proof (rule rotate_alone [OF demo_timestamps demo_jwt, where exp = "10 ^ 15"])
  show "wf_db (empty_db\<lparr>refresh_tokens := [demo_token]\<rparr>)" by (simp add: schema_defs empty_db_def)
  show "get_refresh_token ''old'' (empty_db\<lparr>refresh_tokens := [demo_token]\<rparr>) = Some demo_token"
    by (simp add: get_refresh_token_def demo_token_def)
  show "rt_expires_at demo_token = fmt_ts demo_ext (10 ^ 15)" by (simp add: demo_token_def)
  show "is_ok (create_tokens demo_ext 5000000 ''new'' \<lparr>ct_did = rt_did demo_token,
      ct_service_did = ''did:web:pds'',
      ct_scope = Some (if rt_app_password_name demo_token = None then Access else AppPass),
      ct_jti = Some (case rt_next_id demo_token of Some n \<Rightarrow> n | None \<Rightarrow> ''new''), ct_expires_in = None\<rparr>)"
    by (simp add: create_tokens_def create_access_token_def create_refresh_token_def demo_token_def
        demo_ext_def demo_sign_def)
qed (simp_all add: demo_ext_def REFRESH_GRACE_MS_def now_secs_def)

text \<open>A rival that takes the grace period first, and one that revokes the token.\<close>

definition rival :: rotate_attempt where
  "rival = (alone 5000000 ''new'')\<lparr>at_before_update := (\<lambda>db. snd (add_refresh_grace_period
     \<lparr>gp_id = ''old'', gp_expires_at = fmt_ts demo_ext (10 ^ 15), gp_next_id = ''rival''\<rparr> db))\<rparr>"

definition revoker :: rotate_attempt where
  "revoker = (alone 5000000 ''new'')\<lparr>at_before_update := (\<lambda>db. snd (revoke_where (\<lambda>r. rt_id r = ''old'') db))\<rparr>"

lemma rotate_returns_witness:
  "\<exists>r db'. rotate_refresh_token demo_ext ''old'' ''did:web:pds'' [rival, revoker, alone 6000000 ''n'']
     (empty_db\<lparr>refresh_tokens := [demo_token]\<rparr>) = Some (r, db')"
proof (rule rotate_returns)
  show "wf_db (empty_db\<lparr>refresh_tokens := [demo_token]\<rparr>)" by (simp add: schema_defs empty_db_def)
  show "\<forall>at \<in> {rival, revoker, alone 6000000 ''n''}.
      calm ''old'' (at_before_read at) \<and> calm ''old'' (at_before_update at)"
    by (simp add: rival_def revoker_def alone_def calm_id calm_ops)
qed

lemma rotate_success_witness:
  "\<exists>a r db' row. rotate_refresh_token demo_ext ''old'' ''did:web:pds'' [alone 5000000 ''new'']
     (empty_db\<lparr>refresh_tokens := [demo_token]\<rparr>) = Some (Inr (Some (a, r)), db') \<and>
     get_refresh_token ''old'' db' = Some row \<and> rt_next_id row \<noteq> None"
proof -
  obtain a r db' where *: "rotate_refresh_token demo_ext ''old'' ''did:web:pds'' [alone 5000000 ''new'']
     (empty_db\<lparr>refresh_tokens := [demo_token]\<rparr>) = Some (Inr (Some (a, r)), db')"
    using demo_token_rotates by blast
  have wf: "wf_db (empty_db\<lparr>refresh_tokens := [demo_token]\<rparr>)" by (simp add: schema_defs empty_db_def)
  have calm: "\<forall>at \<in> set [alone 5000000 ''new'']. calm ''old'' (at_before_read at) \<and> calm ''old'' (at_before_update at)"
    by (simp add: alone_def calm_id)
  from rotate_success [OF demo_timestamps wf calm * demo_jwt] * show ?thesis by auto
qed

section \<open>Lockout\<close>

text \<open>
  The policy on its own: a counter of failures and a deadline in seconds. The locale states that a
  store implements it; its lemma says when the account is locked after a run of failures.
\<close>

fun policy_fail :: "int \<Rightarrow> int \<times> int option \<Rightarrow> int \<times> int option" where
  "policy_fail secs (count, until) = (count + 1, if count + 1 \<ge> 5 then Some (secs + 900) else until)"

locale lockout_store =
  fixes fail :: "'t \<Rightarrow> 's \<Rightarrow> 's" and secs :: "'t \<Rightarrow> int" and view :: "'s \<Rightarrow> (int \<times> int option) option"
  assumes view_fail: "view (fail t s) = map_option (policy_fail (secs t)) (view s)"
begin

lemma view_failures:
  "view (fold fail ts s) = map_option (fold (\<lambda>t. policy_fail (secs t)) ts) (view s)"
  by (induction ts arbitrary: s) (simp_all add: view_fail option.map_comp comp_def option.map_id)

lemma policy_failures:
  "fold (\<lambda>t. policy_fail (secs t)) ts (c, u) =
   (c + int (length ts), if ts \<noteq> [] \<and> c + int (length ts) \<ge> 5 then Some (secs (last ts) + 900)
      else if ts = [] then u else fold (\<lambda>_ u. u) ts u)"
proof (induction ts rule: rev_induct)
  case (snoc t ts)
  have "fold (\<lambda>_ u. u) ts u = u" for ts :: "'t list" by (induction ts) auto
  with snoc show ?case by auto
qed simp

lemma locked_after_failures:
  assumes "view s = Some (0, None)"
  shows "view (fold fail ts s) = Some (int (length ts),
    if length ts \<ge> 5 then Some (secs (last ts) + 900) else None)"
proof -
  have "fold (\<lambda>_ u. u) ts u = u" for u :: "int option" by (induction ts) auto
  then show ?thesis
    using assms by (auto simp: view_failures policy_failures)
qed

text \<open>The count never goes down by itself: past the threshold every failure locks anew.\<close>

lemma relocked:
  "view s = Some (c, u) \<Longrightarrow> 4 \<le> c \<Longrightarrow> view (fail t s) = Some (c + 1, Some (secs t + 900))"
  by (simp add: view_fail)

end

definition lockout_view :: "string \<Rightarrow> account_db \<Rightarrow> (int \<times> int option) option" where
  "lockout_view did db = map_option (\<lambda>r. (ac_failed_login_count r, ac_locked_until r)) (account_of did db)"

lemma lockout_view_fail:
  "lockout_view did (snd (record_failed_login_with_lockout now did db)) =
   map_option (policy_fail (now_secs now)) (lockout_view did db)"
proof -
  let ?inc = "\<lambda>r. r\<lparr>ac_failed_login_count := ac_failed_login_count r + 1\<rparr>"
  have i: "account_of did (snd (increment_failed_login_count did db)) = map_option ?inc (account_of did db)"
    by (simp add: increment_failed_login_count_def Let_def account_of_update)
  have l: "account_of did (set_account_locked_until did u s) =
      map_option (\<lambda>r. r\<lparr>ac_locked_until := Some u\<rparr>) (account_of did s)" for u s
    by (simp add: set_account_locked_until_def account_of_update)
  show ?thesis
    by (cases "account_of did db")
      (simp_all add: lockout_view_def record_failed_login_with_lockout_def Let_def
        get_account_lockout_state_eq i l)
qed

interpretation lockout: lockout_store
  "\<lambda>now db. snd (record_failed_login_with_lockout now did db)" now_secs "lockout_view did" for did
  by unfold_locales (rule lockout_view_fail)

lemma is_account_locked_view:
  "is_account_locked now did db \<longleftrightarrow>
   (case lockout_view did db of Some (_, Some until) \<Rightarrow> until > now_secs now | _ \<Rightarrow> False)"
  by (auto simp: is_account_locked_def get_account_lockout_state_eq lockout_view_def split: option.splits)

text \<open>A run of failed logins at the given times.\<close>

definition failed_logins :: "string \<Rightarrow> int list \<Rightarrow> account_db \<Rightarrow> account_db" where
  "failed_logins did ts = fold (\<lambda>t db. snd (record_failed_login_with_lockout t did db)) ts"

text \<open>C7: From a clean state, an account is locked exactly when at least five failed logins were recorded, for 900
  seconds from the last of them, and while it is locked no session is created.\<close>

theorem lockout_policy:
  assumes "account_of did db = Some c" and "ac_failed_login_count c = 0" and "ac_locked_until c = None"
  shows "is_account_locked now did (failed_logins did ts db) = (5 \<le> length ts \<and> now_secs now < now_secs (last ts) + 900) \<and>
    (5 \<le> length ts \<and> now_secs now < now_secs (last ts) + 900 \<longrightarrow>
      create_session ext now raw did svc name (failed_logins did ts db) =
        (Inl AccountLocked, failed_logins did ts db))"
proof -
  have v: "lockout_view did db = Some (0, None)" using assms(1-3) by (simp add: lockout_view_def)
  have 1: "is_account_locked now did (failed_logins did ts db) \<longleftrightarrow>
      5 \<le> length ts \<and> now_secs now < now_secs (last ts) + 900"
    unfolding failed_logins_def is_account_locked_view lockout.locked_after_failures [OF v] by simp
  then show ?thesis by (simp add: create_session_def)
qed

lemma lockout_policy_witness:
  "is_account_locked 60000000 ''did:a'' (failed_logins ''did:a'' [1000000, 2000000, 3000000, 4000000, 5000000]
     (empty_db\<lparr>accounts := [new_account demo_ext 0 ''did:a'' ''a@x.org'' ''h'' None]\<rparr>))"
  using lockout_policy [of "''did:a''" "empty_db\<lparr>accounts := [new_account demo_ext 0 ''did:a'' ''a@x.org'' ''h'' None]\<rparr>"
      "new_account demo_ext 0 ''did:a'' ''a@x.org'' ''h'' None" 60000000 "[1000000, 2000000, 3000000, 4000000, 5000000]"]
  by (simp add: account_of_def new_account_def now_secs_def)

text \<open>The failure counter does not decay: once four failures are on record, a single failure
  locks the account, however long ago the others were.\<close>

theorem lockout_never_decays:
  assumes "account_of did db = Some c" and "4 \<le> ac_failed_login_count c"
  shows "fst (record_failed_login_with_lockout now did db) \<and>
    is_account_locked now did (snd (record_failed_login_with_lockout now did db))"
proof -
  have v: "lockout_view did db = Some (ac_failed_login_count c, ac_locked_until c)"
    using assms(1) by (simp add: lockout_view_def)
  have "fst (record_failed_login_with_lockout now did db)"
    using assms by (simp add: record_failed_login_with_lockout_def increment_failed_login_count_def Let_def
        get_account_lockout_state_eq account_of_update)
  with lockout.relocked [OF v assms(2), of now] show ?thesis by (simp add: is_account_locked_view)
qed

lemma lockout_never_decays_witness:
  "fst (record_failed_login_with_lockout (10 ^ 15) ''did:a'' (empty_db\<lparr>accounts :=
     [(new_account demo_ext 0 ''did:a'' ''a@x.org'' ''h'' None)\<lparr>ac_failed_login_count := 5\<rparr>]\<rparr>))"
  using lockout_never_decays [of "''did:a''" "empty_db\<lparr>accounts :=
     [(new_account demo_ext 0 ''did:a'' ''a@x.org'' ''h'' None)\<lparr>ac_failed_login_count := 5\<rparr>]\<rparr>"
     "(new_account demo_ext 0 ''did:a'' ''a@x.org'' ''h'' None)\<lparr>ac_failed_login_count := 5\<rparr>"]
  by (simp add: account_of_def new_account_def)

section \<open>Passwords\<close>

lemma update_account_password_Inr:
  "update_account_password ext salt did p db = (Inr (), db') \<longleftrightarrow>
   (\<exists>h. gen_salt_and_hash ext salt p = Inr h \<and>
     db' = snd (revoke_refresh_tokens_by_did did
       (delete_email_token did ResetPassword (update_user_password did h db))))"
  by (cases "gen_salt_and_hash ext salt p") (auto simp: update_account_password_def)

lemma reset_token_row:
  assumes "assert_valid_token_and_find_did ext now ResetPassword t len db = Inr did" and "wf_db db"
  shows "find (\<lambda>r. et_purpose r = ''reset_password'' \<and> et_token r = to_uppercase ext t)
    (delete_where (\<lambda>r. et_did r = did \<and> et_purpose r = ''reset_password'') (email_tokens db)) = None"
proof -
  have u: "uniq email_token_value_key (email_tokens db)" using assms(2) by (simp add: schema_defs)
  obtain r where r: "r \<in> set (email_tokens db)" "et_purpose r = ''reset_password''" "et_did r = did"
    "et_token r = to_uppercase ext t"
    using find_did_ok_row [OF assms(1)] by auto
  have "x = r" if "x \<in> set (email_tokens db)" "et_purpose x = ''reset_password''"
    "et_token x = to_uppercase ext t" for x
    using uniq_eqI [OF u that(1) r(1)] that r by (simp add: email_token_value_key_def)
  then have "\<not> (et_purpose x = ''reset_password'' \<and> et_token x = to_uppercase ext t)"
    if "x \<in> set (delete_where (\<lambda>r. et_did r = did \<and> et_purpose r = ''reset_password'') (email_tokens db))" for x
    using that r(2,3) by auto
  then show ?thesis unfolding find_None_iff by blast
qed

text \<open>C8: A successful password reset sets exactly the new password for the account the token was issued to, ends
  its sessions, uses the token up (it is invalid at any later time) and changes no other account's password.\<close>

theorem reset_password_effect:
  assumes "passwords_ok ext" and "wf_db db"
    and "reset_password ext now salt p t db = (Inr (), db')"
  shows "\<exists>did. assert_valid_token_and_find_did ext now ResetPassword t None db = Inr did \<and>
    (account_of did db \<noteq> None \<longrightarrow> (\<forall>q. verify_account_password ext did q db' = Inr (q = p))) \<and>
    (\<forall>d q. d \<noteq> did \<longrightarrow> verify_account_password ext d q db' = verify_account_password ext d q db) \<and>
    filter (\<lambda>r. rt_did r = did) (refresh_tokens db') = [] \<and>
    (\<forall>now2 len. assert_valid_token_and_find_did ext now2 ResetPassword t len db' = Inl TokenInvalid)"
proof -
  obtain did where d: "assert_valid_token_and_find_did ext now ResetPassword t None db = Inr did"
    "update_account_password ext salt did p db = (Inr (), db')"
    using assms(3) by (auto simp: reset_password_def and_then_Inr_iff)
  obtain h where h: "gen_salt_and_hash ext salt p = Inr h"
    "db' = snd (revoke_refresh_tokens_by_did did
       (delete_email_token did ResetPassword (update_user_password did h db)))"
    using d(2) unfolding update_account_password_Inr by blast
  have et: "email_tokens db' =
      delete_where (\<lambda>r. et_did r = did \<and> et_purpose r = ''reset_password'') (email_tokens db)"
    by (simp add: h(2) revoke_refresh_tokens_by_did_def revoke_where_def delete_email_token_def
        update_user_password_def)
  have acc: "accounts db' = accounts (update_user_password did h db)"
    by (simp add: h(2) revoke_refresh_tokens_by_did_def revoke_where_def delete_email_token_def)
  then have same: "account_of x db' = account_of x (update_user_password did h db)" for x
    by (simp add: account_of_def)
  have pw: "verify_account_password ext did q db' = Inr (q = p)" if "account_of did db = Some c" for q c
    using verify_after_update [OF assms(1) h(1) that, of q] same by (simp add: verify_account_password_eq)
  have other: "verify_account_password ext x q db' = verify_account_password ext x q db" if "x \<noteq> did" for x q
    using that same by (simp add: verify_account_password_eq update_user_password_def account_of_update_other)
  have rt: "filter (\<lambda>r. rt_did r = did) (refresh_tokens db') = []"
    by (simp add: h(2) revoke_refresh_tokens_by_did_def revoke_where_def delete_where_def filter_empty_conv)
  have "assert_valid_token_and_find_did ext now2 ResetPassword t len db' = Inl TokenInvalid" for now2 len
    using reset_token_row [OF d(1) assms(2)] by (simp add: assert_valid_token_and_find_did_def et)
  with d(1) pw other rt show ?thesis by auto
qed

definition demo_reset_db :: account_db where
  "demo_reset_db = empty_db\<lparr>accounts := [new_account demo_ext 0 ''did:a'' ''a@x.org'' ''old'' None],
     email_tokens := [\<lparr>et_purpose = ''reset_password'', et_did = ''did:a'', et_token = ''ABCDE-FGHIJ'',
       et_requested_at = fmt_ts demo_ext 5000000\<rparr>]\<rparr>"

lemma reset_password_effect_witness:
  "\<exists>db'. reset_password demo_ext 6000000 ''salt'' ''new pass'' ''abcde-fghij'' demo_reset_db = (Inr (), db') \<and>
     verify_account_password demo_ext ''did:a'' ''new pass'' db' = Inr True"
proof -
  have up: "to_uppercase demo_ext ''abcde-fghij'' = ''ABCDE-FGHIJ''"
    unfolding demo_ext_def ext.simps by code_simp
  have pur: "purpose_as_str ResetPassword = ''reset_password''" by simp
  let ?row = "\<lparr>et_purpose = ''reset_password'', et_did = ''did:a'', et_token = ''ABCDE-FGHIJ'',
       et_requested_at = fmt_ts demo_ext 5000000\<rparr>"
  have utc: "from_str_to_utc demo_ext (fmt_ts demo_ext 5000000) = Some 5000000"
    using timestamps_parse_utc [OF demo_timestamps, of 5000000] by (simp add: demo_ext_def)
  have d: "assert_valid_token_and_find_did demo_ext 6000000 ResetPassword ''abcde-fghij'' None demo_reset_db = Inr ''did:a''"
    using email_token_from_row_ok [of ?row ResetPassword] utc
    by (simp add: assert_valid_token_and_find_did_def demo_reset_db_def up check_expiry_def)
      (simp add: demo_ext_def now_secs_def)
  have wf: "wf_db demo_reset_db" by (simp add: schema_defs empty_db_def demo_reset_db_def)
  obtain db' where r: "reset_password demo_ext 6000000 ''salt'' ''new pass'' ''abcde-fghij'' demo_reset_db = (Inr (), db')"
    using d by (auto simp: reset_password_def update_account_password_def gen_salt_and_hash_def
        hash_with_salt_def demo_ext_def)
  have "account_of ''did:a'' demo_reset_db \<noteq> None"
    by (simp add: account_of_def demo_reset_db_def)
  with reset_password_effect [OF demo_passwords wf r] d r show ?thesis by auto
qed

section \<open>App passwords\<close>

text \<open>A new app password verifies under its name (when no other app password of the DID has its hash);
  revoking it makes it fail and ends the sessions made with it, and only those of the DID's sessions.\<close>

theorem app_password_lifecycle:
  assumes "create_app_password ext now raw did name db = (Inr out, db')"
    and "\<not> has_row (\<lambda>r. ap_did r = did \<and> hash_app_password ext did (cao_password out) = Inr (ap_password r)) (app_passwords db)"
  shows "verify_app_password ext did (cao_password out) db' = Inr (Some name) \<and>
    verify_app_password ext did (cao_password out) (revoke_app_password did name db') = Inr None \<and>
    filter (\<lambda>r. rt_did r = did) (refresh_tokens (revoke_app_password did name db')) =
      filter (\<lambda>r. rt_did r = did \<and> rt_app_password_name r \<noteq> Some name) (refresh_tokens db)"
proof -
  obtain h where h: "hash_app_password ext did (app_password_text ext raw) = Inr h"
    "cao_password out = app_password_text ext raw"
    "db' = db\<lparr>app_passwords := app_passwords db @ [\<lparr>ap_did = did, ap_name = name, ap_password = h,
      ap_created_at = fmt_ts ext now, ap_privileged = 0\<rparr>]\<rparr>"
    using assms(1) by (auto simp: create_app_password_def Let_def split: if_splits sum.splits)
  have none: "find (\<lambda>r. ap_did r = did \<and> ap_password r = h) (app_passwords db) = None"
    using assms(2) h(1,2) by (auto simp: has_row_iff find_None_iff)
  have "find (\<lambda>r. ap_did r = did \<and> ap_password r = h)
      (delete_where (\<lambda>r. ap_did r = did \<and> ap_name r = name) (app_passwords db)) = None"
    using none by (auto simp: find_None_iff)
  then show ?thesis
    using h none
    by (auto simp: verify_app_password_def find_append revoke_app_password_def delete_app_password_def
        revoke_app_password_refresh_token_def revoke_where_def delete_where_def
        intro!: filter_cong)
qed

lemma app_password_lifecycle_witness:
  "\<exists>out db'. create_app_password demo_ext 0 ''ABCDEFGH12345678'' ''did:a'' ''phone'' empty_db = (Inr out, db') \<and>
     cao_password out = ''abcd-efgh-1234-5678'' \<and>
     verify_app_password demo_ext ''did:a'' ''abcd-efgh-1234-5678'' db' = Inr (Some ''phone'')"
proof -
  have t: "app_password_text demo_ext ''ABCDEFGH12345678'' = ''abcd-efgh-1234-5678''"
    unfolding demo_ext_def app_password_text_def ext.simps by code_simp
  have l: "length (to_lowercase demo_ext (take 16 ''ABCDEFGH12345678'')) = 16"
    by (simp add: demo_ext_def ascii_lower_def)
  obtain h where h: "hash_app_password demo_ext ''did:a'' ''abcd-efgh-1234-5678'' = Inr h"
    by (simp add: hash_app_password_def hash_with_salt_def demo_ext_def)
  obtain out db' where *: "create_app_password demo_ext 0 ''ABCDEFGH12345678'' ''did:a'' ''phone'' empty_db = (Inr out, db')"
    "cao_password out = ''abcd-efgh-1234-5678''"
    using t l h by (simp add: create_app_password_def Let_def empty_db_def)
  have "\<not> has_row (\<lambda>r. ap_did r = ''did:a'' \<and> hash_app_password demo_ext ''did:a'' (cao_password out) =
      Inr (ap_password r)) (app_passwords empty_db)" by (simp add: empty_db_def)
  from app_password_lifecycle [OF *(1) this] * show ?thesis by auto
qed

section \<open>E-mail tokens\<close>

text \<open>
  A run of requests and uses of e-mail tokens, for any DIDs and purposes: a request replaces the
  token, a use (with its clock and expiry) is checked and a valid token is deleted. How often
  a token of one DID and purpose is accepted along the run:
\<close>

type_synonym email_token_op =
  "(int \<times> int option, string \<times> email_token_purpose, int \<times> string) token_op"

definition email_token_accepted ::
  "ext \<Rightarrow> string \<times> email_token_purpose \<Rightarrow> email_token_op list \<Rightarrow> account_db \<Rightarrow> nat" where
  "email_token_accepted ext =
     accepted (\<lambda>(did, p) (now, raw) db. snd (create_email_token ext now raw did p db))
       (\<lambda>(now, len) (did, p) (t, s) db. is_ok (assert_valid_token ext now did p s len db))
       (\<lambda>(did, p) db. delete_email_token did p db)"



section \<open>Invite codes and repository roots\<close>

text \<open>The report of an account's invite codes lists each of its codes once, in table order, with exactly the
  recorded uses of that code, latest first.\<close>

theorem account_invite_codes_report:
  assumes "wf_db db"
  shows "get_account_invite_codes did db = map (\<lambda>row.
     \<lparr>cd_code = ic_code row, cd_available = ic_available_uses row,
      cd_disabled = (ic_disabled row = 1), cd_for_account = ic_for_account row,
      cd_created_by = ic_created_by row, cd_created_at = ic_created_at row,
      cd_uses = uses_of (ic_code row) db\<rparr>) (filter (\<lambda>r. ic_for_account r = did) (invite_codes db))"
proof -
  have u: "uniq ic_code (filter (\<lambda>r. ic_for_account r = did) (invite_codes db))"
    using assms by (simp add: uniq_filter wf_dbD)
  show ?thesis
    unfolding get_account_invite_codes_def Let_def code_details_eq [OF u]
    by (rule map_cong [OF refl]) (simp add: uses_v2_eq)
qed

definition demo_codes_db :: account_db where
  "demo_codes_db = empty_db\<lparr>invite_codes :=
     [\<lparr>ic_code = ''c1'', ic_available_uses = 2, ic_disabled = 0, ic_for_account = ''did:a'',
        ic_created_by = ''did:a'', ic_created_at = ''t''\<rparr>],
     invite_code_uses := [\<lparr>iu_code = ''c1'', iu_used_by = ''did:b'', iu_used_at = ''1''\<rparr>,
        \<lparr>iu_code = ''c1'', iu_used_by = ''did:c'', iu_used_at = ''2''\<rparr>]\<rparr>"

lemma demo_codes_rows:
  "filter (\<lambda>r. ic_for_account r = ''did:a'') (invite_codes demo_codes_db) =
   [\<lparr>ic_code = ''c1'', ic_available_uses = 2, ic_disabled = 0, ic_for_account = ''did:a'',
     ic_created_by = ''did:a'', ic_created_at = ''t''\<rparr>]"
  by (simp add: demo_codes_db_def empty_db_def)

lemma account_invite_codes_report_witness:
  "map (\<lambda>d. map cu_used_by (cd_uses d)) (get_account_invite_codes ''did:a'' demo_codes_db) =
   [[''did:c'', ''did:b'']]"
proof -
  have "wf_db demo_codes_db" by (simp add: schema_defs empty_db_def demo_codes_db_def invite_code_use_key_def)
  note * = account_invite_codes_report [OF this, of "''did:a''"]
  have "map (\<lambda>d. map cu_used_by (cd_uses d)) (get_account_invite_codes ''did:a'' demo_codes_db) =
      [map cu_used_by (uses_of ''c1'' demo_codes_db)]"
    unfolding * by (simp add: demo_codes_rows)
  also have "map cu_used_by (uses_of ''c1'' demo_codes_db) = [''did:c'', ''did:b'']" by code_simp
  finally show ?thesis .
qed

text \<open>No sequence of root updates, of any accounts and including rejected ones, ever takes the stored revision of
  a repository back, and an accepted update stores exactly its commit and revision.\<close>

theorem repo_root_never_regresses:
  assumes "root_of did db = Some r"
  shows "\<exists>r'. root_of did (update_roots ext us db) = Some r' \<and> rr_rev r \<le> rr_rev r' \<and>
    (case update_root ext now did cid v (update_roots ext us db) of
       (Inr _, db') \<Rightarrow> map_option (\<lambda>x. (rr_cid x, rr_rev x)) (root_of did db') = Some (cid, v)
     | (Inl e, db') \<Rightarrow> e = RevRegression (rr_rev r') v \<and> v < rr_rev r' \<and> db' = update_roots ext us db)"
proof -
  obtain r' where r': "root_of did (update_roots ext us db) = Some r'" "rr_rev r \<le> rr_rev r'"
    using update_roots_mono [OF assms] by blast
  note * = root_of_update [of did ext now cid v "update_roots ext us db"]
  show ?thesis
  proof (cases "rr_rev r' \<le> v")
    case True
    with r' * show ?thesis
      by (auto simp: update_root_def root_of_def split: option.splits)
  next
    case False
    with r' show ?thesis by (auto simp: update_root_def root_of_def)
  qed
qed

definition demo_root_db :: account_db where
  "demo_root_db = empty_db\<lparr>repo_roots :=
     [\<lparr>rr_did = ''did:a'', rr_cid = ''c1'', rr_rev = ''r2'', rr_indexed_at = ''t''\<rparr>]\<rparr>"

lemma repo_root_never_regresses_witness:
  "\<exists>r'. root_of ''did:a'' (update_roots demo_ext [(0, ''did:a'', ''c2'', ''r1''), (0, ''did:a'', ''c3'', ''r3'')]
     demo_root_db) = Some r' \<and> ''r2'' \<le> rr_rev r'"
proof -
  have "root_of ''did:a'' demo_root_db =
      Some \<lparr>rr_did = ''did:a'', rr_cid = ''c1'', rr_rev = ''r2'', rr_indexed_at = ''t''\<rparr>"
    by (simp add: root_of_def demo_root_db_def)
  from repo_root_never_regresses [OF this, of demo_ext "[(0, ''did:a'', ''c2'', ''r1''), (0, ''did:a'', ''c3'', ''r3'')]" "''r''" "''c''" "0"]
  show ?thesis by auto
qed

end
