(* ===== verification/OAuth_Store.thy ===== *)
theory OAuth_Store
  imports Account_Sessions
begin

text \<open>
  The OAuth store (\<open>cacos-pds-account/src/account/oauth_store.rs\<close>), the implementation of
  rsky-oauth's \<open>OAuthStore\<close> and \<open>ReplayStore\<close> traits over the account database, and the consent
  nonces (\<open>cacos-pds-core/src/db/consent_state.rs\<close>). Client authentication and request
  parameters are values of rsky-oauth: their types are type variables and their JSON codec
  is a record of parameters. Seconds are \<open>u64\<close>, here \<open>64 word\<close>, stored as signed numbers; fresh
  surrogate keys (\<open>DbId::new\<close>) are arguments. One locale states what the OAuth server relies
  on when it rotates refresh tokens, another what replay protection needs; both are
  interpreted on the model.
\<close>

section \<open>Data\<close>

record ('ca, 'p) codec =
  enc_auth :: "'ca \<Rightarrow> string option"
  dec_auth :: "string \<Rightarrow> 'ca option"
  enc_params :: "'p \<Rightarrow> string option"
  dec_params :: "string \<Rightarrow> 'p option"
  params_scope :: "'p \<Rightarrow> string"
  enc_scopes :: "string list \<Rightarrow> string"
  dec_scopes :: "string \<Rightarrow> string list option option"
  offset_in_range :: "int \<Rightarrow> bool"
  db_id_from_str :: "string \<Rightarrow> string option"

text \<open>
  Decoding gives back what was encoded. \<open>dec_scopes\<close> is \<open>None\<close> on text that is no JSON and
  \<open>Some None\<close> when there is no array of scopes in it.
\<close>

definition codec_ok :: "('ca, 'p) codec \<Rightarrow> bool" where
  "codec_ok cd \<longleftrightarrow>
     (\<forall>x s. enc_auth cd x = Some s \<longrightarrow> dec_auth cd s = Some x) \<and>
     (\<forall>x s. enc_params cd x = Some s \<longrightarrow> dec_params cd s = Some x) \<and>
     (\<forall>xs. dec_scopes cd (enc_scopes cd xs) = Some (Some xs))"

record ('ca, 'p) request_data =
  rd_client_id :: string
  rd_client_auth :: 'ca
  rd_parameters :: 'p
  rd_expires_at :: "64 word"
  rd_device_id :: "string option"
  rd_did :: "string option"
  rd_code :: "string option"

record ('ca, 'p) token_data =
  td_created_at :: "64 word"
  td_updated_at :: "64 word"
  td_expires_at :: "64 word"
  td_client_id :: string
  td_client_auth :: 'ca
  td_device_id :: "string option"
  td_did :: string
  td_parameters :: 'p
  td_code :: "string option"

record ('ca, 'p) token_info =
  ti_token_id :: string
  ti_data :: "('ca, 'p) token_data"
  ti_current_refresh_token :: "string option"

record device_data =
  dd_session_id :: string
  dd_user_agent :: "string option"
  dd_ip_address :: string
  dd_last_seen_at :: "64 word"

record account_info =
  ai_did :: string
  ai_handle :: "string option"
  ai_email :: "string option"
  ai_deactivated :: bool

datatype store_error =
    UnknownRequest string
  | UnknownToken string
  | UnknownDevice string
  | RefreshTokenInUse
  | NewRefreshTokenInUse
  | JsonError
  | StoreDb db_err
  | StoreAccount account_error
  | StorePanic

definition secs_to_offset :: "('ca, 'p) codec \<Rightarrow> 64 word \<Rightarrow> store_error + int" where
  "secs_to_offset cd secs = (if offset_in_range cd (sint secs) then Inr (sint secs) else Inl StorePanic)"

definition offset_to_secs :: "int \<Rightarrow> 64 word" where
  "offset_to_secs i = word_of_int (max 0 i)"

definition actor_to_account_info :: "actor_account \<Rightarrow> account_info" where
  "actor_to_account_info actor = \<lparr>ai_did = aa_did actor, ai_handle = aa_handle actor,
     ai_email = aa_email actor, ai_deactivated = (aa_deactivated_at actor \<noteq> None)\<rparr>"

definition device_id_from_external :: "string \<Rightarrow> account_db \<Rightarrow> string option" where
  "device_id_from_external device_id db = map_option dv_id (find (\<lambda>r. dv_device_id r = device_id) (devices db))"

definition resolve_device :: "string option \<Rightarrow> account_db \<Rightarrow> string option" where
  "resolve_device d db = (case d of Some external \<Rightarrow> device_id_from_external external db | None \<Rightarrow> None)"

definition row_to_request_data ::
  "('ca, 'p) codec \<Rightarrow> authorization_request_row \<Rightarrow> store_error + ('ca, 'p) request_data" where
  "row_to_request_data cd row =
     (case dec_auth cd (ar_client_auth row) of
        None \<Rightarrow> Inl JsonError
      | Some ca \<Rightarrow>
          (case dec_params cd (ar_parameters row) of
             None \<Rightarrow> Inl JsonError
           | Some p \<Rightarrow> Inr \<lparr>rd_client_id = ar_client_id row, rd_client_auth = ca, rd_parameters = p,
                rd_expires_at = offset_to_secs (ar_expires_at row),
                rd_device_id = ar_external_device_id row, rd_did = ar_did row, rd_code = ar_code row\<rparr>))"

definition row_to_token_data ::
  "('ca, 'p) codec \<Rightarrow> token_row \<Rightarrow> store_error + ('ca, 'p) token_data" where
  "row_to_token_data cd row =
     (case dec_auth cd (tk_client_auth row) of
        None \<Rightarrow> Inl JsonError
      | Some ca \<Rightarrow>
          (case dec_params cd (tk_parameters row) of
             None \<Rightarrow> Inl JsonError
           | Some p \<Rightarrow> Inr \<lparr>td_created_at = offset_to_secs (tk_created_at row),
                td_updated_at = offset_to_secs (tk_updated_at row),
                td_expires_at = offset_to_secs (tk_expires_at row), td_client_id = tk_client_id row,
                td_client_auth = ca, td_device_id = tk_external_device_id row, td_did = tk_did row,
                td_parameters = p, td_code = tk_code row\<rparr>))"

definition row_to_device_data :: "device_row \<Rightarrow> device_data" where
  "row_to_device_data row = \<lparr>dd_session_id = dv_session_id row, dd_user_agent = dv_user_agent row,
     dd_ip_address = dv_ip_address row, dd_last_seen_at = offset_to_secs (dv_last_seen_at row)\<rparr>"

section \<open>Authorization requests\<close>

text \<open>What both writers compute from the request data: the encoded texts and the expiry.\<close>

definition encode_request ::
  "('ca, 'p) codec \<Rightarrow> ('ca, 'p) request_data \<Rightarrow> store_error + string \<times> string \<times> int" where
  "encode_request cd data =
     (case enc_auth cd (rd_client_auth data) of
        None \<Rightarrow> Inl JsonError
      | Some client_auth \<Rightarrow>
          (case enc_params cd (rd_parameters data) of
             None \<Rightarrow> Inl JsonError
           | Some parameters \<Rightarrow>
               (case secs_to_offset cd (rd_expires_at data) of
                  Inl e \<Rightarrow> Inl e
                | Inr expires \<Rightarrow> Inr (client_auth, parameters, expires))))"

definition put_requests ::
  "authorization_request_row list \<Rightarrow> account_db \<Rightarrow> (store_error + unit) \<times> account_db" where
  "put_requests t db =
     (if request_keys t then (Inr (), db\<lparr>authorization_requests := t\<rparr>)
      else (Inl (StoreDb (UniqueViolation ''authorization_request'')), db))"

definition create_request ::
  "('ca, 'p) codec \<Rightarrow> string \<Rightarrow> string \<Rightarrow> ('ca, 'p) request_data \<Rightarrow> account_db \<Rightarrow>
   (store_error + unit) \<times> account_db" where
  "create_request cd new_id i data db =
     (case encode_request cd data of
        Inl e \<Rightarrow> (Inl e, db)
      | Inr (client_auth, parameters, expires) \<Rightarrow>
          put_requests (authorization_requests db @
            [\<lparr>ar_id = new_id, ar_request_id = i, ar_did = rd_did data,
              ar_device_id = resolve_device (rd_device_id data) db,
              ar_external_device_id = rd_device_id data, ar_client_id = rd_client_id data,
              ar_client_auth = client_auth, ar_parameters = parameters, ar_expires_at = expires,
              ar_code = rd_code data\<rparr>]) db)"

definition read_request ::
  "('ca, 'p) codec \<Rightarrow> string \<Rightarrow> account_db \<Rightarrow> store_error + ('ca, 'p) request_data option" where
  "read_request cd i db =
     (let row = (case find (\<lambda>r. ar_request_id r = i) (authorization_requests db) of
                   Some r \<Rightarrow> Some r
                 | None \<Rightarrow>
                     (case db_id_from_str cd i of
                        Some dbid \<Rightarrow> find (\<lambda>r. ar_id r = dbid) (authorization_requests db)
                      | None \<Rightarrow> None))
      in case row of
           None \<Rightarrow> Inr None
         | Some r \<Rightarrow> map_sum id Some (row_to_request_data cd r))"

definition update_request ::
  "('ca, 'p) codec \<Rightarrow> string \<Rightarrow> ('ca, 'p) request_data \<Rightarrow> account_db \<Rightarrow>
   (store_error + unit) \<times> account_db" where
  "update_request cd i data db =
     (case find (\<lambda>r. ar_request_id r = i) (authorization_requests db) of
        None \<Rightarrow> (Inl (UnknownRequest i), db)
      | Some row \<Rightarrow>
          (case encode_request cd data of
             Inl e \<Rightarrow> (Inl e, db)
           | Inr (client_auth, parameters, expires) \<Rightarrow>
               put_requests (update_where (\<lambda>r. ar_id r = ar_id row)
                 (\<lambda>r. r\<lparr>ar_did := rd_did data, ar_device_id := resolve_device (rd_device_id data) db,
                   ar_external_device_id := rd_device_id data, ar_client_auth := client_auth,
                   ar_parameters := parameters, ar_expires_at := expires, ar_code := rd_code data\<rparr>)
                 (authorization_requests db)) db))"

definition delete_request :: "string \<Rightarrow> account_db \<Rightarrow> (store_error + unit) \<times> account_db" where
  "delete_request i db =
     (if count_where (\<lambda>r. ar_request_id r = i) (authorization_requests db) = 0
      then (Inl (UnknownRequest i), db)
      else (Inr (), db\<lparr>authorization_requests :=
              delete_where (\<lambda>r. ar_request_id r = i) (authorization_requests db)\<rparr>))"

definition consume_request_code ::
  "('ca, 'p) codec \<Rightarrow> string \<Rightarrow> account_db \<Rightarrow>
   (store_error + (string \<times> ('ca, 'p) request_data) option) \<times> account_db" where
  "consume_request_code cd code db =
     (let deleted = filter (\<lambda>r. ar_code r = Some code) (authorization_requests db);
          db' = db\<lparr>authorization_requests :=
                  delete_where (\<lambda>r. ar_code r = Some code) (authorization_requests db)\<rparr>
      in case deleted of
           [] \<Rightarrow> (Inr None, db')
         | row # _ \<Rightarrow>
             (case row_to_request_data cd row of
                Inl e \<Rightarrow> (Inl e, db')
              | Inr data \<Rightarrow> (Inr (Some (ar_request_id row, data)), db')))"

section \<open>Tokens\<close>

text \<open>A transaction of the store: a failure inside it rolls everything back.\<close>

definition store_tx ::
  "(account_db \<Rightarrow> (store_error + 'a) \<times> account_db) \<Rightarrow> account_db \<Rightarrow> (store_error + 'a) \<times> account_db" where
  "store_tx body db = (case body db of (Inl e, _) \<Rightarrow> (Inl e, db) | (Inr x, db') \<Rightarrow> (Inr x, db'))"

definition put_tokens :: "token_row list \<Rightarrow> account_db \<Rightarrow> (store_error + unit) \<times> account_db" where
  "put_tokens t db =
     (if token_keys t then (Inr (), db\<lparr>tokens := t\<rparr>) else (Inl (StoreDb (UniqueViolation ''token'')), db))"

definition refresh_token_used :: "string \<Rightarrow> account_db \<Rightarrow> bool" where
  "refresh_token_used rt db = (count_where (\<lambda>r. ur_refresh_token r = rt) (used_refresh_tokens db) > 0)"

definition encode_token ::
  "('ca, 'p) codec \<Rightarrow> ('ca, 'p) token_data \<Rightarrow> store_error + int \<times> int \<times> int \<times> string \<times> string" where
  "encode_token cd data =
     (case (secs_to_offset cd (td_created_at data), secs_to_offset cd (td_updated_at data),
            secs_to_offset cd (td_expires_at data)) of
        (Inr c, Inr u, Inr x) \<Rightarrow>
          (case enc_auth cd (td_client_auth data) of
             None \<Rightarrow> Inl JsonError
           | Some ca \<Rightarrow>
               (case enc_params cd (td_parameters data) of
                  None \<Rightarrow> Inl JsonError
                | Some p \<Rightarrow> Inr (c, u, x, ca, p)))
      | _ \<Rightarrow> Inl StorePanic)"

definition create_token ::
  "('ca, 'p) codec \<Rightarrow> string \<Rightarrow> string \<Rightarrow> ('ca, 'p) token_data \<Rightarrow> string option \<Rightarrow> account_db \<Rightarrow>
   (store_error + unit) \<times> account_db" where
  "create_token cd new_id token_id data refresh_token =
     store_tx (\<lambda>db.
       if (case refresh_token of Some rt \<Rightarrow> refresh_token_used rt db | None \<Rightarrow> False)
       then (Inl RefreshTokenInUse, db)
       else (case encode_token cd data of
          Inl e \<Rightarrow> (Inl e, db)
        | Inr (c, u, x, ca, p) \<Rightarrow>
            put_tokens (tokens db @
              [\<lparr>tk_id = new_id, tk_did = td_did data, tk_token_id = token_id, tk_created_at = c,
                tk_updated_at = u, tk_expires_at = x, tk_client_id = td_client_id data,
                tk_client_auth = ca, tk_device_id = resolve_device (td_device_id data) db,
                tk_external_device_id = td_device_id data, tk_parameters = p, tk_details = None,
                tk_code = td_code data, tk_current_refresh_token = refresh_token,
                tk_scope = Some (params_scope cd (td_parameters data))\<rparr>]) db))"

definition token_info_of :: "('ca, 'p) codec \<Rightarrow> token_row \<Rightarrow> store_error + ('ca, 'p) token_info" where
  "token_info_of cd row =
     map_sum id (\<lambda>data. \<lparr>ti_token_id = tk_token_id row, ti_data = data,
        ti_current_refresh_token = tk_current_refresh_token row\<rparr>) (row_to_token_data cd row)"

definition found_token ::
  "('ca, 'p) codec \<Rightarrow> token_row option \<Rightarrow> store_error + ('ca, 'p) token_info option" where
  "found_token cd row = (case row of None \<Rightarrow> Inr None | Some r \<Rightarrow> map_sum id Some (token_info_of cd r))"

definition read_token ::
  "('ca, 'p) codec \<Rightarrow> string \<Rightarrow> account_db \<Rightarrow> store_error + ('ca, 'p) token_info option" where
  "read_token cd token_id db = found_token cd (find (\<lambda>r. tk_token_id r = token_id) (tokens db))"

definition token_row_by_refresh :: "string \<Rightarrow> account_db \<Rightarrow> token_row option" where
  "token_row_by_refresh rt db =
     (case find (\<lambda>r. ur_refresh_token r = rt) (used_refresh_tokens db) of
        Some used \<Rightarrow> find (\<lambda>r. tk_id r = ur_token_id used) (tokens db)
      | None \<Rightarrow> find (\<lambda>r. tk_current_refresh_token r = Some rt) (tokens db))"

definition find_token_by_refresh_token ::
  "('ca, 'p) codec \<Rightarrow> string \<Rightarrow> account_db \<Rightarrow> store_error + ('ca, 'p) token_info option" where
  "find_token_by_refresh_token cd rt db = found_token cd (token_row_by_refresh rt db)"

definition find_token_by_code ::
  "('ca, 'p) codec \<Rightarrow> string \<Rightarrow> account_db \<Rightarrow> store_error + ('ca, 'p) token_info option" where
  "find_token_by_code cd code db = found_token cd (find (\<lambda>r. tk_code r = Some code) (tokens db))"

definition mark_used ::
  "string option \<Rightarrow> string \<Rightarrow> account_db \<Rightarrow> (store_error + unit) \<times> account_db" where
  "mark_used current pk db =
     (case current of
        None \<Rightarrow> (Inr (), db)
      | Some rt \<Rightarrow>
          if refresh_token_used rt db then (Inl (StoreDb (UniqueViolation ''used_refresh_token'')), db)
          else (Inr (), db\<lparr>used_refresh_tokens := used_refresh_tokens db @
                  [\<lparr>ur_refresh_token = rt, ur_token_id = pk\<rparr>]\<rparr>))"

definition rotate_token ::
  "('ca, 'p) codec \<Rightarrow> string \<Rightarrow> string \<Rightarrow> string \<Rightarrow> 64 word \<Rightarrow> 64 word \<Rightarrow> account_db \<Rightarrow>
   (store_error + unit) \<times> account_db" where
  "rotate_token cd token_id new_token_id new_refresh_token updated_at expires_at =
     store_tx (\<lambda>db.
       case find (\<lambda>r. tk_token_id r = token_id) (tokens db) of
         None \<Rightarrow> (Inl (UnknownToken token_id), db)
       | Some row \<Rightarrow>
           and_then (mark_used (tk_current_refresh_token row) (tk_id row) db) (\<lambda>_ db.
             if refresh_token_used new_refresh_token db then (Inl NewRefreshTokenInUse, db)
             else (case (secs_to_offset cd updated_at, secs_to_offset cd expires_at) of
                (Inr u, Inr x) \<Rightarrow>
                  put_tokens (update_where (\<lambda>r. tk_id r = tk_id row)
                    (\<lambda>r. r\<lparr>tk_token_id := new_token_id, tk_current_refresh_token := Some new_refresh_token,
                      tk_updated_at := u, tk_expires_at := x\<rparr>) (tokens db)) db
              | _ \<Rightarrow> (Inl StorePanic, db))))"

text \<open>Deleting a token row cascades to its used refresh tokens.\<close>

definition delete_token :: "string \<Rightarrow> account_db \<Rightarrow> (store_error + unit) \<times> account_db" where
  "delete_token token_id db =
     (if count_where (\<lambda>r. tk_token_id r = token_id) (tokens db) = 0 then (Inl (UnknownToken token_id), db)
      else let gone = map tk_id (filter (\<lambda>r. tk_token_id r = token_id) (tokens db))
      in (Inr (), db\<lparr>tokens := delete_where (\<lambda>r. tk_token_id r = token_id) (tokens db),
            used_refresh_tokens := delete_where (\<lambda>r. ur_token_id r \<in> set gone) (used_refresh_tokens db)\<rparr>))"

end
