(* ===== verification/OAuth_Devices.thy ===== *)
theory OAuth_Devices
  imports OAuth_Store
begin

text \<open>
  The rest of the OAuth store (\<open>cacos-pds-account/src/account/oauth_store.rs\<close>): signing an account
  in with the lockout policy, devices and the accounts seen on them, authorized clients, the
  DPoP replay table; and the consent nonces (\<open>cacos-pds-core/src/db/consent_state.rs\<close>).
\<close>

section \<open>Signing in\<close>

definition signin_flags :: "availability_flags option" where
  "signin_flags = Some \<lparr>include_taken_down = None, include_deactivated = Some True\<rparr>"

definition find_identifier :: "ext \<Rightarrow> string \<Rightarrow> account_db \<Rightarrow> actor_account option" where
  "find_identifier ext identifier db =
     (let identifier_lc = ascii_lower identifier
      in if CHR ''@'' \<in> set identifier_lc then get_account_by_email ext identifier_lc signin_flags db
         else get_account identifier_lc signin_flags db)"

definition authenticate_account ::
  "ext \<Rightarrow> int \<Rightarrow> string \<Rightarrow> string \<Rightarrow> account_db \<Rightarrow> (store_error + account_info option) \<times> account_db" where
  "authenticate_account ext now identifier password_str db =
     (case find_identifier ext identifier db of
        None \<Rightarrow> (Inr None, db)
      | Some actor \<Rightarrow>
          if is_account_locked now (aa_did actor) db then (Inr None, db)
          else (case verify_account_password ext (aa_did actor) password_str db of
             Inl e \<Rightarrow> (Inl (StoreAccount e), db)
           | Inr valid \<Rightarrow>
               if valid then (Inr (Some (actor_to_account_info actor)), clear_account_lockout (aa_did actor) db)
               else
                 let db1 = record_failed_login (aa_did actor) db;
                     count = fst (get_account_lockout_state (aa_did actor) db1)
                 in (Inr None, if count \<ge> 5
                       then set_account_locked_until (aa_did actor) (now_secs now + 900) db1 else db1)))"

definition store_get_account :: "string \<Rightarrow> account_db \<Rightarrow> account_info option" where
  "store_get_account did db = map_option actor_to_account_info (get_account did signin_flags db)"

section \<open>Devices\<close>

definition put_devices :: "device_row list \<Rightarrow> account_db \<Rightarrow> (store_error + unit) \<times> account_db" where
  "put_devices t db =
     (if device_keys t then (Inr (), db\<lparr>devices := t\<rparr>) else (Inl (StoreDb (UniqueViolation ''device'')), db))"

definition create_device ::
  "('ca, 'p) codec \<Rightarrow> string \<Rightarrow> string \<Rightarrow> device_data \<Rightarrow> account_db \<Rightarrow> (store_error + unit) \<times> account_db" where
  "create_device cd new_id device_id data db =
     (case secs_to_offset cd (dd_last_seen_at data) of
        Inl e \<Rightarrow> (Inl e, db)
      | Inr seen \<Rightarrow> put_devices (devices db @
          [\<lparr>dv_id = new_id, dv_device_id = device_id, dv_session_id = dd_session_id data,
            dv_user_agent = dd_user_agent data, dv_ip_address = dd_ip_address data,
            dv_last_seen_at = seen\<rparr>]) db)"

definition read_device :: "string \<Rightarrow> account_db \<Rightarrow> device_data option" where
  "read_device device_id db = map_option row_to_device_data (find (\<lambda>r. dv_device_id r = device_id) (devices db))"

definition update_device ::
  "('ca, 'p) codec \<Rightarrow> string \<Rightarrow> device_data \<Rightarrow> account_db \<Rightarrow> (store_error + unit) \<times> account_db" where
  "update_device cd device_id data db =
     (case find (\<lambda>r. dv_device_id r = device_id) (devices db) of
        None \<Rightarrow> (Inl (UnknownDevice device_id), db)
      | Some row \<Rightarrow>
          (case secs_to_offset cd (dd_last_seen_at data) of
             Inl e \<Rightarrow> (Inl e, db)
           | Inr seen \<Rightarrow> put_devices (update_where (\<lambda>r. dv_id r = dv_id row)
               (\<lambda>r. r\<lparr>dv_session_id := dd_session_id data, dv_user_agent := dd_user_agent data,
                 dv_ip_address := dd_ip_address data, dv_last_seen_at := seen\<rparr>) (devices db)) db))"

text \<open>
  The INSERT fails when the pair exists or a foreign key does not; in either case the code
  updates the row, which does nothing when there is none.
\<close>

definition upsert_device_account ::
  "int \<Rightarrow> string \<Rightarrow> string \<Rightarrow> account_db \<Rightarrow> (store_error + unit) \<times> account_db" where
  "upsert_device_account now device_id did db =
     (case device_id_from_external device_id db of
        None \<Rightarrow> (Inl (UnknownDevice device_id), db)
      | Some dev \<Rightarrow>
          let secs = now_secs now in
          if has_row (\<lambda>r. account_device_key r = (dev, did)) (account_devices db) \<or>
             \<not> has_row (\<lambda>r. ac_did r = did) (accounts db)
          then (Inr (), db\<lparr>account_devices := update_where (\<lambda>r. ad_did r = did \<and> ad_device_id r = dev)
                  (\<lambda>r. r\<lparr>ad_updated_at := secs\<rparr>) (account_devices db)\<rparr>)
          else (Inr (), db\<lparr>account_devices := account_devices db @
                  [\<lparr>ad_did = did, ad_device_id = dev, ad_created_at = secs, ad_updated_at = secs\<rparr>]\<rparr>))"

definition get_device_account :: "string \<Rightarrow> string \<Rightarrow> account_db \<Rightarrow> account_info option" where
  "get_device_account device_id did db =
     (case device_id_from_external device_id db of
        None \<Rightarrow> None
      | Some dev \<Rightarrow>
          (case find (\<lambda>r. ad_device_id r = dev \<and> ad_did r = did) (account_devices db) of
             Some _ \<Rightarrow> store_get_account did db
           | None \<Rightarrow> None))"

definition list_device_accounts :: "string \<Rightarrow> account_db \<Rightarrow> account_info list" where
  "list_device_accounts device_id db =
     (case device_id_from_external device_id db of
        None \<Rightarrow> []
      | Some dev \<Rightarrow> List.map_filter (\<lambda>r. store_get_account (ad_did r) db)
          (filter (\<lambda>r. ad_device_id r = dev) (account_devices db)))"

definition remove_device_account :: "string \<Rightarrow> string \<Rightarrow> account_db \<Rightarrow> account_db" where
  "remove_device_account device_id did db =
     (case device_id_from_external device_id db of
        None \<Rightarrow> db
      | Some dev \<Rightarrow> db\<lparr>account_devices :=
          delete_where (\<lambda>r. ad_device_id r = dev \<and> ad_did r = did) (account_devices db)\<rparr>)"

section \<open>Authorized clients\<close>

text \<open>
  The upsert fails only when the account does not exist; the fallback UPDATE then changes
  nothing, since a row of a missing account cannot exist.
\<close>

definition set_authorized_client ::
  "('ca, 'p) codec \<Rightarrow> int \<Rightarrow> string \<Rightarrow> string \<Rightarrow> string \<Rightarrow> account_db \<Rightarrow> account_db" where
  "set_authorized_client cd now did client_id scope db =
     (let data = enc_scopes cd (split_ws scope);
          secs = now_secs now;
          update = update_where (\<lambda>r. acl_did r = did \<and> acl_client_id r = client_id)
                     (\<lambda>r. r\<lparr>acl_updated_at := secs, acl_data := data\<rparr>) (authorized_clients db)
      in if has_row (\<lambda>r. authorized_client_key r = (did, client_id)) (authorized_clients db)
         then db\<lparr>authorized_clients := update\<rparr>
         else if has_row (\<lambda>r. ac_did r = did) (accounts db)
         then db\<lparr>authorized_clients := authorized_clients db @
                [\<lparr>acl_did = did, acl_client_id = client_id, acl_created_at = secs,
                  acl_updated_at = secs, acl_data = data\<rparr>]\<rparr>
         else db\<lparr>authorized_clients := update\<rparr>)"

definition get_authorized_client_scope ::
  "('ca, 'p) codec \<Rightarrow> string \<Rightarrow> string \<Rightarrow> account_db \<Rightarrow> store_error + string option" where
  "get_authorized_client_scope cd did client_id db =
     (case find (\<lambda>r. acl_did r = did \<and> acl_client_id r = client_id) (authorized_clients db) of
        None \<Rightarrow> Inr None
      | Some row \<Rightarrow>
          (case dec_scopes cd (acl_data row) of
             None \<Rightarrow> Inl JsonError
           | Some arr \<Rightarrow> Inr (Some (case arr of Some xs \<Rightarrow> join_with '' '' xs | None \<Rightarrow> []))))"

section \<open>DPoP replay\<close>

definition prune_expired :: "64 word \<Rightarrow> account_db \<Rightarrow> nat \<times> account_db" where
  "prune_expired now db =
     (length (filter (\<lambda>r. dr_expires_at r < sint now) (dpop_replays db)),
      db\<lparr>dpop_replays := delete_where (\<lambda>r. dr_expires_at r < sint now) (dpop_replays db)\<rparr>)"

definition consume_jti :: "string \<Rightarrow> 64 word \<Rightarrow> account_db \<Rightarrow> bool \<times> account_db" where
  "consume_jti jti exp db =
     (if has_row (\<lambda>r. dr_jti r = jti) (dpop_replays db) then (False, db)
      else (True, db\<lparr>dpop_replays := dpop_replays db @ [\<lparr>dr_jti = jti, dr_expires_at = sint exp\<rparr>]\<rparr>))"

section \<open>Consent nonces\<close>

definition NONCE_TTL_MICROS :: int where
  "NONCE_TTL_MICROS = 300 * 1000000"

text \<open>\<open>micros_to_str\<close> is rsky-common's \<open>from_micros_to_str\<close>.\<close>

definition consent_expires_at :: "ext \<Rightarrow> (int \<Rightarrow> string) \<Rightarrow> string \<Rightarrow> string" where
  "consent_expires_at ext micros_to_str now_str =
     (case from_str_to_micros ext now_str of
        Some micros \<Rightarrow> micros_to_str (micros + NONCE_TTL_MICROS)
      | None \<Rightarrow> now_str)"

definition consent_create ::
  "ext \<Rightarrow> (int \<Rightarrow> string) \<Rightarrow> int \<Rightarrow> string \<Rightarrow> string \<Rightarrow> account_db \<Rightarrow> (store_error + string) \<times> account_db" where
  "consent_create ext mts now fresh request_id db =
     (let t = consent_states db @ [\<lparr>cs_request_id = request_id, cs_state = fresh,
                cs_expires_at = consent_expires_at ext mts (fmt_ts ext now)\<rparr>]
      in if consent_keys t then (Inr fresh, db\<lparr>consent_states := t\<rparr>)
         else (Inl (StoreDb (UniqueViolation ''consent_state'')), db))"

definition consent_rotate ::
  "ext \<Rightarrow> (int \<Rightarrow> string) \<Rightarrow> int \<Rightarrow> string \<Rightarrow> string \<Rightarrow> string \<Rightarrow> account_db \<Rightarrow>
   (store_error + string) \<times> account_db" where
  "consent_rotate ext mts now fresh request_id supplied db =
     (let now_str = fmt_ts ext now;
          p = (\<lambda>r. cs_request_id r = request_id \<and> cs_state r = supplied \<and> now_str < cs_expires_at r);
          t = update_where p (\<lambda>r. r\<lparr>cs_state := fresh,
                cs_expires_at := consent_expires_at ext mts now_str\<rparr>) (consent_states db)
      in if \<not> consent_keys t then (Inl (StoreDb (UniqueViolation ''consent_state'')), db)
         else if count_where p (consent_states db) = 0 then (Inl (UnknownRequest ''invalid or expired state''), db)
         else (Inr fresh, db\<lparr>consent_states := t\<rparr>))"

definition consent_delete :: "string \<Rightarrow> account_db \<Rightarrow> account_db" where
  "consent_delete request_id db =
     db\<lparr>consent_states := delete_where (\<lambda>r. cs_request_id r = request_id) (consent_states db)\<rparr>"

end
