(* ===== verification/OAuth_Steps.thy ===== *)
theory OAuth_Steps
  imports OAuth_Devices
begin

text \<open>
  The account database with both of its clients: \<open>store_step\<close> has one rule per operation of the
  OAuth store, of the replay store and of the consent nonces, \<open>pds_step\<close> joins it with the
  account manager's \<open>account_step\<close>, and \<open>pds_reachable\<close> is what any sequence of both reaches
  from the empty database. Every reachable database has the keys of the schema, keeps to
  the invite budget and never has a refresh token that is current and used at once
  (\<open>store_inv\<close>).
\<close>

section \<open>What account operations leave alone\<close>

definition oauth_part :: "account_db \<Rightarrow> authorization_request_row list \<times> device_row list \<times>
  token_row list \<times> used_refresh_token_row list \<times> consent_state_row list \<times> dpop_replay_row list" where
  "oauth_part db = (authorization_requests db, devices db, tokens db, used_refresh_tokens db,
     consent_states db, dpop_replays db)"

named_theorems oauth_frame "operations that do not touch the OAuth tables"

lemma oauth_frame_actors [oauth_frame]:
  "oauth_part (snd (register_actor ext now d h x db)) = oauth_part db"
  "oauth_part (snd (register_account ext now d e p k db)) = oauth_part db"
  "oauth_part (snd (delete_account d db)) = oauth_part db"
  "oauth_part (update_account_takedown_status ext now d t db) = oauth_part db"
  "oauth_part (deactivate_account ext now d a db) = oauth_part db"
  "oauth_part (activate_account d db) = oauth_part db"
  "oauth_part (mark_plc_rotation_keys_migrated d db) = oauth_part db"
  "oauth_part (snd (update_email ext d e db)) = oauth_part db"
  "oauth_part (snd (update_handle d h db)) = oauth_part db"
  "oauth_part (set_email_confirmed_at d m db) = oauth_part db"
  "oauth_part (snd (increment_failed_login_count d db)) = oauth_part db"
  "oauth_part (set_account_locked_until d u db) = oauth_part db"
  "oauth_part (clear_account_lockout d db) = oauth_part db"
  by (simp_all add: oauth_part_def register_actor_def register_account_def commit_if_def Let_def
      delete_account_def update_account_takedown_status_def deactivate_account_def
      activate_account_def mark_plc_rotation_keys_migrated_def update_email_def update_handle_def
      set_email_confirmed_at_def increment_failed_login_count_def set_account_locked_until_def
      clear_account_lockout_def)

lemma oauth_frame_tokens [oauth_frame]:
  "oauth_part (snd (store_refresh_token ext p n db)) = oauth_part db"
  "oauth_part (delete_expired_refresh_tokens d t db) = oauth_part db"
  "oauth_part (snd (add_refresh_grace_period g db)) = oauth_part db"
  "oauth_part (snd (revoke_refresh_token i db)) = oauth_part db"
  "oauth_part (snd (revoke_refresh_tokens_by_did d db)) = oauth_part db"
  "oauth_part (snd (revoke_app_password_refresh_token d nm db)) = oauth_part db"
  "oauth_part (snd (create_email_token ext now raw d ep db)) = oauth_part db"
  "oauth_part (delete_email_token d ep db) = oauth_part db"
  "oauth_part (delete_all_email_tokens d db) = oauth_part db"
  by (simp_all add: oauth_part_def store_refresh_token_def delete_expired_refresh_tokens_def
      add_refresh_grace_period_def revoke_refresh_token_def revoke_refresh_tokens_by_did_def
      revoke_app_password_refresh_token_def revoke_where_def create_email_token_def
      delete_email_token_def delete_all_email_tokens_def Let_def split: sum.splits)

lemma oauth_frame_rest [oauth_frame]:
  "oauth_part (snd (create_app_password ext now raw d nm db)) = oauth_part db"
  "oauth_part (update_user_password d hs db) = oauth_part db"
  "oauth_part (delete_app_password d nm db) = oauth_part db"
  "oauth_part (snd (update_root ext now d c v db)) = oauth_part db"
  "oauth_part (set_account_invites_disabled d b db) = oauth_part db"
  "oauth_part (snd (record_invite_use d ic t db)) = oauth_part db"
  "oauth_part (disable_invite_codes codes accs db) = oauth_part db"
  by (simp_all add: oauth_part_def create_app_password_def update_user_password_def
      delete_app_password_def update_root_def set_account_invites_disabled_def record_invite_use_def
      disable_invite_codes_def commit_if_def Let_def split: sum.splits option.splits)

lemma oauth_frame_invites [oauth_frame]:
  "oauth_part (snd (create_invite_codes ext now cs n db)) = oauth_part db"
  "oauth_part (snd (create_account_invite_codes ext now d cs' m b db)) = oauth_part db"
  by (rule create_invite_codes_inv [where P = "\<lambda>s. oauth_part s = oauth_part db"]
      create_account_invite_codes_inv [where P = "\<lambda>s. oauth_part s = oauth_part db"];
      simp add: oauth_part_def)+

text \<open>The manager's operations are built from the helpers by \<open>and_then\<close>.\<close>

lemma part_and_then:
  "oauth_part (snd r) = v \<Longrightarrow> (\<And>x s. oauth_part s = v \<Longrightarrow> oauth_part (snd (k x s)) = v) \<Longrightarrow>
   oauth_part (snd (and_then r k)) = v"
  by (rule and_then_invariant [where P = "\<lambda>s. oauth_part s = v"]) simp_all

lemma part_returns: "oauth_part s = v \<Longrightarrow> oauth_part (snd (r, s)) = v"
  by simp

lemma oauth_frame_registration:
  "oauth_part (snd (create_account ext now salt raw opts db)) = oauth_part db"
  unfolding create_account_def
  by (intro part_and_then)
    (auto simp: oauth_frame intro!: part_and_then split: option.splits prod.splits)

lemma oauth_frame_session:
  "oauth_part (snd (create_session ext now raw did svc name db)) = oauth_part db"
  unfolding create_session_def
  by (auto simp: oauth_frame intro!: part_and_then split: option.splits prod.splits)

lemma oauth_frame_rotate_join:
  "rotate_join ext b g p n jwts db = Returned r db' \<or> rotate_join ext b g p n jwts db = Retried db' \<Longrightarrow>
   oauth_part db' = oauth_part db"
proof -
  assume *: "rotate_join ext b g p n jwts db = Returned r db' \<or> rotate_join ext b g p n jwts db = Retried db'"
  have "oauth_part (snd (and_then (store_refresh_token ext p n db) (\<lambda>_ db. add_refresh_grace_period g db)))
      = oauth_part db"
    "oauth_part (snd (and_then (add_refresh_grace_period g db) (\<lambda>_ db. store_refresh_token ext p n db)))
      = oauth_part db"
    by (rule part_and_then; simp add: oauth_frame)+
  with * show ?thesis
    by (auto simp: rotate_join_def Let_def split: sum.splits if_splits)
qed

lemma oauth_frame_rotate_once:
  assumes "at_before_read at = id" "at_before_update at = id"
    and "rotate_once ext i svc at db = Returned r db' \<or> rotate_once ext i svc at db = Retried db'"
  shows "oauth_part db' = oauth_part db"
proof (cases rule: rotate_once_cases [of i at db ext svc])
  case (joined token grace payload jwts)
  with assms(3) oauth_frame_rotate_join show ?thesis
    unfolding assms(1,2) by (metis oauth_frame_tokens(2) id_apply)
qed (use assms in \<open>auto simp: oauth_frame\<close>)

lemma oauth_frame_rotate:
  "\<forall>at \<in> set ats. at_before_read at = id \<and> at_before_update at = id \<Longrightarrow>
   rotate_refresh_token ext i svc ats db = Some (r, db') \<Longrightarrow> oauth_part db' = oauth_part db"
proof (induction ext i svc ats db rule: rotate_refresh_token.induct)
  case (2 ext i svc at ats db)
  have id: "at_before_read at = id" "at_before_update at = id" using 2(2) by (simp_all add: id_def)
  show ?case
  proof (cases "rotate_once ext i svc at db")
    case (Returned r1 db1)
    with 2(3) have "db' = db1" by simp
    with Returned oauth_frame_rotate_once [OF id] show ?thesis by blast
  next
    case (Retried db1)
    with oauth_frame_rotate_once [OF id] have "oauth_part db1 = oauth_part db" by blast
    with 2(1) [OF Retried] 2(2,3) Retried show ?thesis by simp
  qed
qed simp

lemma oauth_frame_manager [oauth_frame]:
  "oauth_part (snd (update_account_password ext salt did p db)) = oauth_part db"
  "oauth_part (snd (reset_password ext now salt p t db)) = oauth_part db"
  "oauth_part (revoke_app_password did name db) = oauth_part db"
  "oauth_part (snd (confirm_email ext now did t db)) = oauth_part db"
  "oauth_part (snd (assert_valid_email_token_and_cleanup ext now did purpose t db)) = oauth_part db"
  "oauth_part (takedown_account ext now did td db) = oauth_part db"
  "oauth_part (snd (manager_update_email ext b did e db)) = oauth_part db"
  "oauth_part (snd (record_failed_login_with_lockout now did db)) = oauth_part db"
  "oauth_part (record_failed_login did db) = oauth_part db"
  by (auto simp: update_account_password_def reset_password_def revoke_app_password_def confirm_email_def
      assert_valid_email_token_and_cleanup_def takedown_account_def manager_update_email_def
      record_failed_login_with_lockout_def record_failed_login_def Let_def oauth_frame
      intro!: part_and_then)

lemma account_step_oauth_part: "account_step ext db db' \<Longrightarrow> oauth_part db' = oauth_part db"
  by (induction rule: account_step.induct)
    (simp_all add: oauth_frame oauth_frame_registration oauth_frame_session oauth_frame_rotate)

section \<open>Operations of the store keep the keys\<close>

lemma wf_consent_states: "wf_db db \<Longrightarrow> consent_keys t \<Longrightarrow> wf_db (db\<lparr>consent_states := t\<rparr>)"
  by (simp add: wf_db_def foreign_keys_def)

lemma request_keys_delete: "request_keys t \<Longrightarrow> request_keys (delete_where p t)"
  by (simp add: request_keys_def uniq_delete uniq_some_delete)

lemma consent_keys_delete: "consent_keys t \<Longrightarrow> consent_keys (delete_where p t)"
  by (simp add: consent_keys_def uniq_delete)

lemma wf_put_requests: "wf_db db \<Longrightarrow> wf_db (snd (put_requests t db))"
  by (simp add: put_requests_def wf_authorization_requests)

lemma wf_requests:
  assumes "wf_db db"
  shows "wf_db (snd (create_request cd n i data db))"
    and "wf_db (snd (update_request cd i data db))"
    and "wf_db (snd (delete_request i db))"
    and "wf_db (snd (consume_request_code cd code db))"
  using assms
  by (auto simp: create_request_def update_request_def delete_request_def consume_request_code_def
      Let_def wf_put_requests request_keys_delete wf_dbD split: sum.splits option.splits list.splits
      intro!: wf_authorization_requests)

lemma store_tx_inv: "P db \<Longrightarrow> P (snd (body db)) \<Longrightarrow> P (snd (store_tx body db))"
  by (cases "body db"; cases "fst (body db)") (auto simp: store_tx_def)

lemma foreign_keys_dbD:
  assumes "wf_db db"
  shows "ad_did ` set (account_devices db) \<subseteq> ac_did ` set (accounts db)"
    "ad_device_id ` set (account_devices db) \<subseteq> dv_id ` set (devices db)"
    "acl_did ` set (authorized_clients db) \<subseteq> ac_did ` set (accounts db)"
    "ur_token_id ` set (used_refresh_tokens db) \<subseteq> tk_id ` set (tokens db)"
  using assms by (simp_all add: wf_db_def foreign_keys_def)

lemma refresh_token_used_iff:
  "refresh_token_used rt db \<longleftrightarrow> rt \<in> ur_refresh_token ` set (used_refresh_tokens db)"
proof -
  have "0 < count_where p t \<longleftrightarrow> has_row p t" for p and t :: "used_refresh_token_row list"
    using count_where_0_iff [of p t] count_where_nonneg [of p t] by linarith
  then show ?thesis by (simp add: refresh_token_used_def has_row_key)
qed

lemma mark_used_cases:
  obtains "current = None" "mark_used current pk db = (Inr (), db)"
  | rt where "current = Some rt" "refresh_token_used rt db"
      "mark_used current pk db = (Inl (StoreDb (UniqueViolation ''used_refresh_token'')), db)"
  | rt where "current = Some rt" "\<not> refresh_token_used rt db"
      "mark_used current pk db = (Inr (), db\<lparr>used_refresh_tokens := used_refresh_tokens db @
         [\<lparr>ur_refresh_token = rt, ur_token_id = pk\<rparr>]\<rparr>)"
  by (cases current) (auto simp: mark_used_def)

text \<open>A rotation that succeeds, all its statements at once.\<close>

lemma rotate_token_Inr:
  "rotate_token cd tid ntid nrt u x db = (Inr (), db') \<longleftrightarrow>
   (\<exists>row su sx t. find (\<lambda>r. tk_token_id r = tid) (tokens db) = Some row \<and>
      secs_to_offset cd u = Inr su \<and> secs_to_offset cd x = Inr sx \<and>
      (\<forall>rt. tk_current_refresh_token row = Some rt \<longrightarrow> \<not> refresh_token_used rt db) \<and>
      \<not> refresh_token_used nrt db \<and> tk_current_refresh_token row \<noteq> Some nrt \<and>
      t = update_where (\<lambda>r. tk_id r = tk_id row)
        (\<lambda>r. r\<lparr>tk_token_id := ntid, tk_current_refresh_token := Some nrt,
           tk_updated_at := su, tk_expires_at := sx\<rparr>) (tokens db) \<and> token_keys t \<and>
      db' = db\<lparr>used_refresh_tokens := used_refresh_tokens db @
         (case tk_current_refresh_token row of None \<Rightarrow> []
          | Some rt \<Rightarrow> [\<lparr>ur_refresh_token = rt, ur_token_id = tk_id row\<rparr>]), tokens := t\<rparr>)"
proof (cases "find (\<lambda>r. tk_token_id r = tid) (tokens db)")
  case None
  then show ?thesis by (auto simp: rotate_token_def store_tx_def)
next
  case (Some row)
  have used: "refresh_token_used nrt (db\<lparr>used_refresh_tokens := used_refresh_tokens db @
      [\<lparr>ur_refresh_token = rt, ur_token_id = tk_id row\<rparr>]\<rparr>) \<longleftrightarrow> rt = nrt \<or> refresh_token_used nrt db" for rt
    by (auto simp: refresh_token_used_iff)
  show ?thesis
    by (rule mark_used_cases [of "tk_current_refresh_token row" "tk_id row" db])
      (auto simp: rotate_token_def store_tx_def Some used put_tokens_def split: sum.splits)
qed

lemma create_token_Inr:
  "create_token cd n tid data rt db = (Inr (), db') \<longleftrightarrow>
   (\<exists>c u x ca p row. encode_token cd data = Inr (c, u, x, ca, p) \<and>
      (\<forall>r. rt = Some r \<longrightarrow> \<not> refresh_token_used r db) \<and>
      row = \<lparr>tk_id = n, tk_did = td_did data, tk_token_id = tid, tk_created_at = c,
         tk_updated_at = u, tk_expires_at = x, tk_client_id = td_client_id data,
         tk_client_auth = ca, tk_device_id = resolve_device (td_device_id data) db,
         tk_external_device_id = td_device_id data, tk_parameters = p, tk_details = None,
         tk_code = td_code data, tk_current_refresh_token = rt,
         tk_scope = Some (params_scope cd (td_parameters data))\<rparr> \<and>
      token_keys (tokens db @ [row]) \<and> db' = db\<lparr>tokens := tokens db @ [row]\<rparr>)"
  by (cases rt) (auto simp: create_token_def store_tx_def put_tokens_def split: sum.splits if_splits)

lemma create_token_failed: "create_token cd n tid data rt db = (Inl e, db') \<Longrightarrow> db' = db"
  and rotate_token_failed: "rotate_token cd tid ntid nrt u x db = (Inl e, db') \<Longrightarrow> db' = db"
  by (auto simp: create_token_def rotate_token_def store_tx_def split: prod.splits sum.splits)

lemma delete_token_failed: "delete_token tid db = (Inl e, db') \<Longrightarrow> db' = db"
  by (auto simp: delete_token_def Let_def split: if_splits)

lemma wf_create_token:
  assumes "wf_db db"
  shows "wf_db (snd (create_token cd n tid data rt db))"
proof (cases "create_token cd n tid data rt db")
  case (Pair r db')
  show ?thesis
  proof (cases r)
    case (Inl e)
    with Pair create_token_failed [of cd n tid data rt db e db'] assms show ?thesis by simp
  next
    case (Inr v)
    with Pair have "create_token cd n tid data rt db = (Inr (), db')" by simp
    then have "wf_db db'"
      unfolding create_token_Inr using assms by (auto intro!: wf_tokens)
    with Pair show ?thesis by simp
  qed
qed

lemma wf_rotate_token:
  assumes wf: "wf_db db"
  shows "wf_db (snd (rotate_token cd tid ntid nrt u x db))"
proof (cases "rotate_token cd tid ntid nrt u x db")
  case (Pair r db')
  show ?thesis
  proof (cases r)
    case (Inl e)
    with Pair rotate_token_failed [of cd tid ntid nrt u x db e db'] assms show ?thesis by simp
  next
    case (Inr v)
    with Pair have "rotate_token cd tid ntid nrt u x db = (Inr (), db')" by simp
    then obtain row su sx t where r: "find (\<lambda>r. tk_token_id r = tid) (tokens db) = Some row"
      "\<forall>rt. tk_current_refresh_token row = Some rt \<longrightarrow> \<not> refresh_token_used rt db"
      "t = update_where (\<lambda>r. tk_id r = tk_id row)
        (\<lambda>r. r\<lparr>tk_token_id := ntid, tk_current_refresh_token := Some nrt,
           tk_updated_at := su, tk_expires_at := sx\<rparr>) (tokens db)" "token_keys t"
      "db' = db\<lparr>used_refresh_tokens := used_refresh_tokens db @
         (case tk_current_refresh_token row of None \<Rightarrow> []
          | Some rt \<Rightarrow> [\<lparr>ur_refresh_token = rt, ur_token_id = tk_id row\<rparr>]), tokens := t\<rparr>"
      unfolding rotate_token_Inr by blast
    let ?used = "used_refresh_tokens db @ (case tk_current_refresh_token row of None \<Rightarrow> []
          | Some rt \<Rightarrow> [\<lparr>ur_refresh_token = rt, ur_token_id = tk_id row\<rparr>])"
    have "row \<in> set (tokens db)" using r(1) by (rule find_Some_set [THEN conjunct1])
    then have "wf_db (db\<lparr>used_refresh_tokens := ?used\<rparr>)"
      using wf r(2) foreign_keys_dbD(4) [OF wf]
      by (intro wf_used_refresh_tokens)
        (auto simp: uniq_snoc wf_dbD refresh_token_used_iff split: option.splits)
    moreover have "tk_id ` set t = tk_id ` set (tokens db)"
      unfolding r(3) by (rule image_update_where) simp
    ultimately have "wf_db (db\<lparr>used_refresh_tokens := ?used, tokens := t\<rparr>)"
      using r(4) by (intro wf_tokens) simp_all
    then show ?thesis using Pair r(5) by simp
  qed
qed

lemma token_keys_delete: "token_keys t \<Longrightarrow> token_keys (delete_where p t)"
  by (simp add: token_keys_def uniq_delete uniq_some_delete)

lemma wf_delete_token:
  assumes wf: "wf_db db"
  shows "wf_db (snd (delete_token tid db))"
proof -
  let ?gone = "tk_id ` {r \<in> set (tokens db). tk_token_id r = tid}"
  let ?used = "delete_where (\<lambda>r. ur_token_id r \<in> ?gone) (used_refresh_tokens db)"
  have k: "token_keys (tokens db)" "uniq ur_refresh_token (used_refresh_tokens db)"
    using wf by (simp_all add: wf_dbD)
  have "ur_token_id ` set ?used \<subseteq> tk_id ` set (delete_where (\<lambda>r. tk_token_id r = tid) (tokens db))"
  proof
    fix i
    assume "i \<in> ur_token_id ` set ?used"
    with foreign_keys_dbD(4) [OF wf] have "i \<in> tk_id ` set (tokens db)" "i \<notin> ?gone" by auto
    then show "i \<in> tk_id ` set (delete_where (\<lambda>r. tk_token_id r = tid) (tokens db))" by auto
  qed
  with wf k have "wf_db (db\<lparr>tokens := delete_where (\<lambda>r. tk_token_id r = tid) (tokens db),
      used_refresh_tokens := ?used\<rparr>)"
    by (simp add: wf_db_def foreign_keys_def token_keys_delete uniq_delete)
  then show ?thesis using wf by (simp add: delete_token_def)
qed

lemma wf_devices_ops:
  assumes wf: "wf_db db"
  shows "wf_db (snd (create_device cd n i data db))"
    and "wf_db (snd (update_device cd i data db))"
proof -
  have "wf_db (snd (put_devices t db))" if "dv_id ` set (devices db) \<subseteq> dv_id ` set t" for t
    using that wf by (simp add: put_devices_def wf_devices)
  then show "wf_db (snd (create_device cd n i data db))" "wf_db (snd (update_device cd i data db))"
    using wf
    by (auto simp: create_device_def update_device_def image_update_where
        split: sum.splits option.splits intro!: \<open>\<And>t. _ \<Longrightarrow> wf_db (snd (put_devices t db))\<close>)
qed

lemma wf_account_devices_update:
  assumes wf: "wf_db db" and "\<forall>r. ad_did (f r) = ad_did r \<and> ad_device_id (f r) = ad_device_id r"
  shows "wf_db (db\<lparr>account_devices := update_where p f (account_devices db)\<rparr>)"
  using assms foreign_keys_dbD [OF wf]
  by (intro wf_account_devices uniq_update)
    (simp_all add: wf_dbD account_device_key_def image_update_where)

lemma wf_authorized_clients_update:
  assumes wf: "wf_db db" and "\<forall>r. acl_did (f r) = acl_did r \<and> acl_client_id (f r) = acl_client_id r"
  shows "wf_db (db\<lparr>authorized_clients := update_where p f (authorized_clients db)\<rparr>)"
  using assms foreign_keys_dbD [OF wf]
  by (intro wf_authorized_clients uniq_update)
    (simp_all add: wf_dbD authorized_client_key_def image_update_where)

lemma device_id_from_external_set:
  "device_id_from_external i db = Some dev \<Longrightarrow> dev \<in> dv_id ` set (devices db)"
  by (auto simp: device_id_from_external_def dest!: find_Some_set)

lemma wf_upsert_device_account:
  assumes wf: "wf_db db"
  shows "wf_db (snd (upsert_device_account now i did db))"
proof (cases "device_id_from_external i db")
  case (Some dev)
  show ?thesis
  proof (cases "has_row (\<lambda>r. account_device_key r = (dev, did)) (account_devices db) \<or>
             \<not> has_row (\<lambda>r. ac_did r = did) (accounts db)")
    case True
    with Some wf_account_devices_update [OF wf] show ?thesis
      by (simp add: upsert_device_account_def)
  next
    case False
    with wf foreign_keys_dbD [OF wf] device_id_from_external_set [OF Some]
    have "wf_db (db\<lparr>account_devices := account_devices db @
        [\<lparr>ad_did = did, ad_device_id = dev, ad_created_at = now_secs now, ad_updated_at = now_secs now\<rparr>]\<rparr>)"
      by (intro wf_account_devices)
        (auto simp: uniq_snoc wf_dbD account_device_key_def has_row_iff)
    with Some False show ?thesis by (simp add: upsert_device_account_def Let_def)
  qed
qed (simp add: upsert_device_account_def wf)

lemma wf_remove_device_account: "wf_db db \<Longrightarrow> wf_db (remove_device_account i did db)"
  using foreign_keys_dbD [of db]
  by (auto simp: remove_device_account_def uniq_delete wf_dbD split: option.splits
      intro!: wf_account_devices)

lemma wf_set_authorized_client:
  assumes wf: "wf_db db"
  shows "wf_db (set_authorized_client cd now did client scope db)"
proof -
  have "wf_db (db\<lparr>authorized_clients := authorized_clients db @ [row]\<rparr>)"
    if "acl_did row = did" "acl_client_id row = client"
      "\<not> has_row (\<lambda>r. authorized_client_key r = (did, client)) (authorized_clients db)"
      "has_row (\<lambda>r. ac_did r = did) (accounts db)" for row
    using that wf foreign_keys_dbD [OF wf]
    by (intro wf_authorized_clients)
      (auto simp: uniq_snoc wf_dbD authorized_client_key_def has_row_iff intro: rev_image_eqI)
  then show ?thesis
    by (simp add: set_authorized_client_def Let_def wf_authorized_clients_update wf)
qed

lemma wf_replay_ops:
  assumes "wf_db db"
  shows "wf_db (snd (prune_expired now db))" and "wf_db (snd (consume_jti jti exp db))"
  using assms
  by (auto simp: prune_expired_def consume_jti_def uniq_delete uniq_snoc wf_dbD has_row_iff
      intro!: wf_dpop_replays)

lemma wf_consent_ops:
  assumes "wf_db db"
  shows "wf_db (snd (consent_create ext mts now fresh i db))"
    and "wf_db (snd (consent_rotate ext mts now fresh i supplied db))"
    and "wf_db (consent_delete i db)"
proof -
  have "consent_keys (consent_states db)" using assms by (simp add: wf_db_def)
  with assms show "wf_db (snd (consent_create ext mts now fresh i db))"
    "wf_db (snd (consent_rotate ext mts now fresh i supplied db))" "wf_db (consent_delete i db)"
    by (auto simp: consent_create_def consent_rotate_def consent_delete_def Let_def
        consent_keys_delete intro!: wf_consent_states)
qed

section \<open>The state machine\<close>

inductive store_step :: "ext \<Rightarrow> ('ca, 'p) codec \<Rightarrow> account_db \<Rightarrow> account_db \<Rightarrow> bool" for ext cd where
  step_create_request: "store_step ext cd db (snd (create_request cd n i data db))"
| step_update_request: "store_step ext cd db (snd (update_request cd i data db))"
| step_delete_request: "store_step ext cd db (snd (delete_request i db))"
| step_consume_code: "store_step ext cd db (snd (consume_request_code cd code db))"
| step_create_token: "store_step ext cd db (snd (create_token cd n tid tdata rt db))"
| step_rotate_token: "store_step ext cd db (snd (rotate_token cd tid ntid nrt u x db))"
| step_delete_token: "store_step ext cd db (snd (delete_token tid db))"
| step_authenticate: "store_step ext cd db (snd (authenticate_account ext now i pw db))"
| step_create_device: "store_step ext cd db (snd (create_device cd n i ddata db))"
| step_update_device: "store_step ext cd db (snd (update_device cd i ddata db))"
| step_upsert_device_account: "store_step ext cd db (snd (upsert_device_account now i did db))"
| step_remove_device_account: "store_step ext cd db (remove_device_account i did db)"
| step_set_client: "store_step ext cd db (set_authorized_client cd now did client scope db)"
| step_prune: "store_step ext cd db (snd (prune_expired secs db))"
| step_consume_jti: "store_step ext cd db (snd (consume_jti jti exp db))"
| step_consent_create: "store_step ext cd db (snd (consent_create ext mts now fresh i db))"
| step_consent_rotate: "store_step ext cd db (snd (consent_rotate ext mts now fresh i s db))"
| step_consent_delete: "store_step ext cd db (consent_delete i db)"

definition pds_step :: "ext \<Rightarrow> ('ca, 'p) codec \<Rightarrow> account_db \<Rightarrow> account_db \<Rightarrow> bool" where
  "pds_step ext cd db db' \<longleftrightarrow> account_step ext db db' \<or> store_step ext cd db db'"

definition pds_reachable :: "ext \<Rightarrow> ('ca, 'p) codec \<Rightarrow> account_db \<Rightarrow> bool" where
  "pds_reachable ext cd db = (pds_step ext cd)\<^sup>*\<^sup>* empty_db db"

definition refresh_disjoint :: "account_db \<Rightarrow> bool" where
  "refresh_disjoint db \<longleftrightarrow> (\<forall>r \<in> set (tokens db). \<forall>rt.
     tk_current_refresh_token r = Some rt \<longrightarrow> \<not> refresh_token_used rt db)"

definition store_inv :: "account_db \<Rightarrow> bool" where
  "store_inv db \<longleftrightarrow> good db \<and> refresh_disjoint db"

lemma store_invD: "store_inv db \<Longrightarrow> good db" "store_inv db \<Longrightarrow> refresh_disjoint db"
  "store_inv db \<Longrightarrow> wf_db db"
  by (simp_all add: store_inv_def good_def)

text \<open>The invite tables belong to the account manager; few operations touch the tokens.\<close>

definition rest_part where
  "rest_part db = (invite_codes db, invite_code_uses db, tokens db, used_refresh_tokens db)"

named_theorems rest_frame "operations of the store that touch neither invites nor tokens"

lemma rest_frame_requests [rest_frame]:
  "rest_part (snd (create_request cd n i data db)) = rest_part db"
  "rest_part (snd (update_request cd i data db)) = rest_part db"
  "rest_part (snd (delete_request i db)) = rest_part db"
  "rest_part (snd (consume_request_code cd code db)) = rest_part db"
  by (auto simp: rest_part_def create_request_def update_request_def put_requests_def
      delete_request_def consume_request_code_def Let_def
      split: option.splits sum.splits list.splits)

lemma rest_frame_devices [rest_frame]:
  "rest_part (snd (create_device cd n i ddata db)) = rest_part db"
  "rest_part (snd (update_device cd i ddata db)) = rest_part db"
  "rest_part (snd (upsert_device_account now i did db)) = rest_part db"
  "rest_part (remove_device_account i did db) = rest_part db"
  "rest_part (set_authorized_client cd now did client scope db) = rest_part db"
  by (auto simp: rest_part_def create_device_def update_device_def put_devices_def
      upsert_device_account_def remove_device_account_def set_authorized_client_def Let_def
      split: option.splits sum.splits)

lemma rest_frame_replay [rest_frame]:
  "rest_part (snd (prune_expired secs db)) = rest_part db"
  "rest_part (snd (consume_jti jti exp db)) = rest_part db"
  "rest_part (snd (consent_create ext mts now fresh i db)) = rest_part db"
  "rest_part (snd (consent_rotate ext mts now fresh i s db)) = rest_part db"
  "rest_part (consent_delete i db) = rest_part db"
  by (simp_all add: rest_part_def prune_expired_def consume_jti_def consent_create_def
      consent_rotate_def consent_delete_def Let_def)

lemma rest_frame_authenticate [rest_frame]:
  "rest_part (snd (authenticate_account ext now i pw db)) = rest_part db"
proof -
  have "rest_part (record_failed_login did db) = rest_part db"
    "rest_part (clear_account_lockout did db) = rest_part db"
    "rest_part (set_account_locked_until did u db) = rest_part db" for did u db
    by (simp_all add: rest_part_def record_failed_login_def increment_failed_login_count_def
        clear_account_lockout_def set_account_locked_until_def Let_def)
  then show ?thesis
    by (simp add: authenticate_account_def Let_def split: option.splits sum.splits)
qed

lemma invites_token_ops:
  "create_token cd n tid data rt db = (Inr (), db') \<Longrightarrow>
   invite_codes db' = invite_codes db \<and> invite_code_uses db' = invite_code_uses db"
  "rotate_token cd tid ntid nrt u x db = (Inr (), db') \<Longrightarrow>
   invite_codes db' = invite_codes db \<and> invite_code_uses db' = invite_code_uses db"
  "delete_token tid db = (Inr (), db') \<Longrightarrow>
   invite_codes db' = invite_codes db \<and> invite_code_uses db' = invite_code_uses db"
  by (auto simp: create_token_Inr rotate_token_Inr delete_token_def Let_def split: if_splits)

lemma store_step_cases:
  assumes "store_step ext cd db db'"
  obtains "rest_part db' = rest_part db"
  | n tid data rt where "create_token cd n tid data rt db = (Inr (), db')"
  | tid ntid nrt u x where "rotate_token cd tid ntid nrt u x db = (Inr (), db')"
  | tid where "delete_token tid db = (Inr (), db')"
  using assms
proof (induction rule: store_step.induct)
  case (step_create_token db n tid data rt)
  then show ?case
    by (cases "create_token cd n tid data rt db"; cases "fst (create_token cd n tid data rt db)")
      (auto dest: create_token_failed)
next
  case (step_rotate_token db tid ntid nrt u x)
  then show ?case
    by (cases "rotate_token cd tid ntid nrt u x db"; cases "fst (rotate_token cd tid ntid nrt u x db)")
      (auto dest: rotate_token_failed)
next
  case (step_delete_token db tid)
  then show ?case
    by (cases "delete_token tid db"; cases "fst (delete_token tid db)")
      (auto dest: delete_token_failed)
qed (simp_all add: rest_frame)

lemma store_step_invites:
  assumes "store_step ext cd db db'"
  shows "invite_codes db' = invite_codes db \<and> invite_code_uses db' = invite_code_uses db"
  using assms by (cases rule: store_step_cases) (auto simp: rest_part_def dest: invites_token_ops)

lemma good_authenticate: "good db \<Longrightarrow> good (snd (authenticate_account ext now i pw db))"
  by (auto simp: authenticate_account_def Let_def good_manager good_helpers
      split: option.splits sum.splits)

lemma good_store_step:
  assumes "store_step ext cd db db'" and "good db"
  shows "good db'"
proof -
  have "wf_db db \<Longrightarrow> wf_db db'"
    using assms
  proof (induction rule: store_step.induct)
    case (step_authenticate db now i pw)
    then show ?case using goodD(1) [OF good_authenticate] by blast
  qed (rule wf_requests wf_create_token wf_rotate_token wf_delete_token wf_devices_ops
        wf_upsert_device_account wf_remove_device_account wf_set_authorized_client wf_replay_ops
        wf_consent_ops, assumption)+
  with goodD(1) [OF assms(2)] have "wf_db db'" by blast
  with store_step_invites [OF assms(1)] show ?thesis by (intro good_frame [OF assms(2)]) auto
qed

lemma refresh_disjoint_store_step:
  assumes step: "store_step ext cd db db'" and wf: "wf_db db" and inv: "refresh_disjoint db"
  shows "refresh_disjoint db'"
  using step
proof (cases rule: store_step_cases)
  case 1
  with inv show ?thesis by (simp add: refresh_disjoint_def refresh_token_used_def rest_part_def)
next
  case (2 n tid data rt)
  then show ?thesis
    using inv unfolding create_token_Inr by (auto simp: refresh_disjoint_def refresh_token_used_def)
next
  case (3 tid ntid nrt u x)
  then obtain row su sx t where r: "find (\<lambda>r. tk_token_id r = tid) (tokens db) = Some row"
    "\<not> refresh_token_used nrt db" "tk_current_refresh_token row \<noteq> Some nrt"
    "t = update_where (\<lambda>r. tk_id r = tk_id row)
      (\<lambda>r. r\<lparr>tk_token_id := ntid, tk_current_refresh_token := Some nrt,
         tk_updated_at := su, tk_expires_at := sx\<rparr>) (tokens db)"
    "db' = db\<lparr>used_refresh_tokens := used_refresh_tokens db @
       (case tk_current_refresh_token row of None \<Rightarrow> []
        | Some rt \<Rightarrow> [\<lparr>ur_refresh_token = rt, ur_token_id = tk_id row\<rparr>]), tokens := t\<rparr>"
    unfolding rotate_token_Inr by blast
  have row: "row \<in> set (tokens db)" using r(1) by (rule find_Some_set [THEN conjunct1])
  have used': "refresh_token_used rt db' \<longleftrightarrow>
      refresh_token_used rt db \<or> tk_current_refresh_token row = Some rt" for rt
    by (auto simp: r(5) refresh_token_used_iff split: option.splits)
  have u: "uniq_some tk_current_refresh_token (tokens db)"
    using wf by (simp add: wf_db_def token_keys_def)
  show ?thesis
    unfolding refresh_disjoint_def used'
  proof (intro ballI allI impI)
    fix q rt
    assume q: "q \<in> set (tokens db')" and c: "tk_current_refresh_token q = Some rt"
    then obtain q0 where q0: "q0 \<in> set (tokens db)"
      "q = (if tk_id q0 = tk_id row then q0\<lparr>tk_token_id := ntid, tk_current_refresh_token := Some nrt,
         tk_updated_at := su, tk_expires_at := sx\<rparr> else q0)"
      by (auto simp: r(4,5) set_update_where)
    show "\<not> (refresh_token_used rt db \<or> tk_current_refresh_token row = Some rt)"
    proof (cases "tk_id q0 = tk_id row")
      case True
      with q0 c r(2,3) show ?thesis by simp
    next
      case False
      with q0 c have "tk_current_refresh_token q0 = Some rt" by simp
      moreover from False have "q0 \<noteq> row" by blast
      ultimately show ?thesis
        using inv q0(1) uniq_some_eqI [OF u q0(1) row, of rt] by (auto simp: refresh_disjoint_def)
    qed
  qed
next
  case (4 tid)
  have "refresh_token_used rt db' \<Longrightarrow> refresh_token_used rt db" for rt
    using 4 by (auto simp: delete_token_def Let_def refresh_token_used_iff split: if_splits)
  moreover have "set (tokens db') \<subseteq> set (tokens db)"
    using 4 by (auto simp: delete_token_def Let_def split: if_splits)
  ultimately show ?thesis using inv unfolding refresh_disjoint_def by blast
qed

lemma store_inv_step: "pds_step ext cd db db' \<Longrightarrow> store_inv db \<Longrightarrow> store_inv db'"
proof -
  assume step: "pds_step ext cd db db'" and inv: "store_inv db"
  from step consider "account_step ext db db'" | "store_step ext cd db db'" by (auto simp: pds_step_def)
  then show "store_inv db'"
  proof cases
    case 1
    from account_step_oauth_part [OF 1]
    have "tokens db' = tokens db" "used_refresh_tokens db' = used_refresh_tokens db"
      by (simp_all add: oauth_part_def)
    with inv good_step [OF 1] show ?thesis
      by (simp add: store_inv_def refresh_disjoint_def refresh_token_used_def)
  next
    case 2
    with inv show ?thesis
      by (simp add: store_inv_def good_store_step refresh_disjoint_store_step goodD)
  qed
qed

lemma store_inv_empty: "store_inv empty_db"
  using good_empty by (simp add: store_inv_def refresh_disjoint_def empty_db_def)

lemma store_inv_steps: "(pds_step ext cd)\<^sup>*\<^sup>* db db' \<Longrightarrow> store_inv db \<Longrightarrow> store_inv db'"
  by (induction rule: rtranclp_induct) (auto intro: store_inv_step)

lemma store_inv_reachable: "pds_reachable ext cd db \<Longrightarrow> store_inv db"
  unfolding pds_reachable_def using store_inv_empty by (rule store_inv_steps [rotated])

end
