(* ===== verification/OAuth_Rotation.thy ===== *)
theory OAuth_Rotation
  imports OAuth_Steps
begin

text \<open>
  Refresh tokens and authorization codes of the OAuth store along any run of the whole account
  database. A locale states what the OAuth server relies on when it detects the replay of a
  refresh token; it is interpreted on \<open>pds_step\<close>. Authorization codes are another instance of
  the one-time tokens of theory Email_Tokens.
\<close>

section \<open>Families of refresh tokens\<close>

text \<open>
  A refresh token belongs to a token row (\<open>owner\<close>); it is retired when it is not the row's
  current one. As long as the row is alive, a retired token stays retired and still leads
  to its row, which is how its replay is noticed.
\<close>

locale refresh_family =
  fixes step :: "'s \<Rightarrow> 's \<Rightarrow> bool" and inv :: "'s \<Rightarrow> bool"
    and owner :: "'r \<Rightarrow> 's \<Rightarrow> 'k option" and current :: "'k \<Rightarrow> 's \<Rightarrow> 'r option"
    and alive :: "'k \<Rightarrow> 's \<Rightarrow> bool"
  assumes inv_step: "inv s \<Longrightarrow> step s s' \<Longrightarrow> inv s'"
    and retired_step: "inv s \<Longrightarrow> step s s' \<Longrightarrow> alive k s' \<Longrightarrow> owner r s = Some k \<Longrightarrow>
      current k s \<noteq> Some r \<Longrightarrow> owner r s' = Some k \<and> current k s' \<noteq> Some r"
begin

lemma retired_for_good:
  assumes "(\<lambda>s s'. step s s' \<and> alive k s')\<^sup>*\<^sup>* s s'" and "inv s"
    and "owner r s = Some k" and "current k s \<noteq> Some r"
  shows "inv s' \<and> owner r s' = Some k \<and> current k s' \<noteq> Some r"
  using assms by (induction rule: rtranclp_induct) (auto dest: inv_step retired_step)

end

definition refresh_owner :: "string \<Rightarrow> account_db \<Rightarrow> string option" where
  "refresh_owner rt db = map_option tk_id (token_row_by_refresh rt db)"

definition current_refresh :: "string \<Rightarrow> account_db \<Rightarrow> string option" where
  "current_refresh pk db = (case find (\<lambda>r. tk_id r = pk) (tokens db) of
     Some r \<Rightarrow> tk_current_refresh_token r | None \<Rightarrow> None)"

definition token_alive :: "string \<Rightarrow> account_db \<Rightarrow> bool" where
  "token_alive pk db = has_row (\<lambda>r. tk_id r = pk) (tokens db)"

definition used_pairs :: "account_db \<Rightarrow> (string \<times> string) set" where
  "used_pairs db = (\<lambda>u. (ur_refresh_token u, ur_token_id u)) ` set (used_refresh_tokens db)"

lemma wf_token_keys:
  assumes "wf_db db"
  shows "uniq tk_id (tokens db)" "uniq tk_token_id (tokens db)"
    "uniq_some tk_current_refresh_token (tokens db)"
  using assms by (simp_all add: wf_db_def token_keys_def)

lemma retired_iff:
  assumes inv: "store_inv db"
  shows "refresh_owner rt db = Some k \<and> current_refresh k db \<noteq> Some rt \<longleftrightarrow> (rt, k) \<in> used_pairs db"
proof
  assume "refresh_owner rt db = Some k \<and> current_refresh k db \<noteq> Some rt"
  then obtain row where row: "token_row_by_refresh rt db = Some row" "tk_id row = k"
    and c: "current_refresh k db \<noteq> Some rt" by (auto simp: refresh_owner_def)
  show "(rt, k) \<in> used_pairs db"
  proof (cases "find (\<lambda>r. ur_refresh_token r = rt) (used_refresh_tokens db)")
    case None
    with row(1) have f: "find (\<lambda>r. tk_current_refresh_token r = Some rt) (tokens db) = Some row"
      by (simp add: token_row_by_refresh_def)
    then have "row \<in> set (tokens db)" "tk_current_refresh_token row = Some rt"
      by (auto dest: find_Some_set)
    with c row(2) find_uniq [OF wf_token_keys(1) [OF store_invD(3) [OF inv]]]
    show ?thesis by (auto simp: current_refresh_def)
  next
    case (Some u)
    with row find_Some_set [OF Some] show ?thesis
      by (auto simp: token_row_by_refresh_def used_pairs_def dest!: find_Some_set)
  qed
next
  assume "(rt, k) \<in> used_pairs db"
  then obtain u where u: "u \<in> set (used_refresh_tokens db)" "ur_refresh_token u = rt" "ur_token_id u = k"
    by (auto simp: used_pairs_def)
  have wf: "wf_db db" using inv by (rule store_invD)
  have f: "find (\<lambda>r. ur_refresh_token r = rt) (used_refresh_tokens db) = Some u"
    using u wf by (intro find_uniq) (simp_all add: wf_dbD)
  obtain row where row: "row \<in> set (tokens db)" "tk_id row = k"
    using foreign_keys_dbD(4) [OF wf] u by auto
  then have g: "find (\<lambda>r. tk_id r = k) (tokens db) = Some row"
    using find_uniq [OF wf_token_keys(1) [OF wf]] by simp
  have "refresh_token_used rt db" using u by (auto simp: refresh_token_used_iff)
  then have "tk_current_refresh_token row \<noteq> Some rt"
    using store_invD(2) [OF inv] row(1) by (auto simp: refresh_disjoint_def)
  with f g u(3) row(2) show "refresh_owner rt db = Some k \<and> current_refresh k db \<noteq> Some rt"
    by (simp add: refresh_owner_def token_row_by_refresh_def current_refresh_def)
qed

lemma used_pairs_step:
  assumes "pds_step ext cd db db'" and wf: "wf_db db" and alive: "token_alive k db'"
    and used: "(rt, k) \<in> used_pairs db"
  shows "(rt, k) \<in> used_pairs db'"
proof -
  consider "used_refresh_tokens db' = used_refresh_tokens db"
    | us where "used_refresh_tokens db' = used_refresh_tokens db @ us"
    | tid where "delete_token tid db = (Inr (), db')"
  proof -
    from assms(1) consider "account_step ext db db'" | "store_step ext cd db db'"
      by (auto simp: pds_step_def)
    then show thesis
    proof cases
      case 1
      from account_step_oauth_part [OF 1] that show thesis by (simp add: oauth_part_def)
    next
      case 2
      then show thesis
        by (cases rule: store_step_cases)
          (auto simp: rest_part_def create_token_Inr rotate_token_Inr intro: that)
    qed
  qed
  then show ?thesis
  proof cases
    case (3 tid)
    then have db': "tokens db' = delete_where (\<lambda>r. tk_token_id r = tid) (tokens db)"
      "used_refresh_tokens db' = delete_where (\<lambda>r. ur_token_id r \<in>
        tk_id ` {r \<in> set (tokens db). tk_token_id r = tid}) (used_refresh_tokens db)"
      by (auto simp: delete_token_def Let_def split: if_splits)
    have "k \<notin> tk_id ` {r \<in> set (tokens db). tk_token_id r = tid}"
    proof
      assume "k \<in> tk_id ` {r \<in> set (tokens db). tk_token_id r = tid}"
      then obtain r where r: "r \<in> set (tokens db)" "tk_token_id r = tid" "tk_id r = k" by auto
      from alive obtain q where q: "q \<in> set (tokens db)" "tk_token_id q \<noteq> tid" "tk_id q = k"
        by (auto simp: token_alive_def has_row_iff db')
      with r uniq_eqI [OF wf_token_keys(1) [OF wf], of r q] show False by auto
    qed
    with used show ?thesis by (auto simp: used_pairs_def db')
  qed (use used in \<open>auto simp: used_pairs_def\<close>)
qed

interpretation pds_family: refresh_family
  "pds_step ext cd" store_inv refresh_owner current_refresh token_alive for ext cd
proof (unfold_locales, goal_cases)
  case (1 s s')
  then show ?case using store_inv_step by blast
next
  case (2 s s' k r)
  then have "(r, k) \<in> used_pairs s" using retired_iff [of s] by blast
  with 2 have "(r, k) \<in> used_pairs s'" by (blast intro: used_pairs_step store_invD(3))
  moreover have "store_inv s'" using 2(1,2) store_inv_step by blast
  ultimately show ?case using retired_iff by blast
qed

text \<open>Deleting the token of a family takes every refresh token of it away.\<close>

lemma delete_family:
  assumes inv: "store_inv db" and row: "token_row_by_refresh rt db = Some row"
    and del: "delete_token (tk_token_id row) db = (Inr (), db')"
  shows "token_row_by_refresh rt db' = None"
proof -
  have wf: "wf_db db" using inv by (rule store_invD)
  have db': "tokens db' = delete_where (\<lambda>r. tk_token_id r = tk_token_id row) (tokens db)"
      "used_refresh_tokens db' = delete_where (\<lambda>r. ur_token_id r \<in>
        tk_id ` {r \<in> set (tokens db). tk_token_id r = tk_token_id row}) (used_refresh_tokens db)"
    using del by (auto simp: delete_token_def Let_def split: if_splits)
  show ?thesis
  proof (cases "find (\<lambda>r. ur_refresh_token r = rt) (used_refresh_tokens db)")
    case None
    then have u: "find (\<lambda>r. ur_refresh_token r = rt) (used_refresh_tokens db') = None"
      by (auto simp: db' find_None_iff)
    from None row have "find (\<lambda>r. tk_current_refresh_token r = Some rt) (tokens db) = Some row"
      by (simp add: token_row_by_refresh_def)
    then have r: "row \<in> set (tokens db)" "tk_current_refresh_token row = Some rt"
      by (auto dest: find_Some_set)
    have "tk_current_refresh_token q \<noteq> Some rt" if "q \<in> set (tokens db')" for q
    proof
      assume "tk_current_refresh_token q = Some rt"
      with that r uniq_some_eqI [OF wf_token_keys(3) [OF wf], of row q rt] have "q = row"
        by (simp add: db')
      with that show False by (simp add: db')
    qed
    then have "find (\<lambda>r. tk_current_refresh_token r = Some rt) (tokens db') = None"
      unfolding find_None_iff by blast
    with u show ?thesis by (simp add: token_row_by_refresh_def)
  next
    case (Some u)
    note u = find_Some_set [OF Some]
    from Some row have r: "row \<in> set (tokens db)" "tk_id row = ur_token_id u"
      by (auto simp: token_row_by_refresh_def dest: find_Some_set)
    have "ur_refresh_token q \<noteq> rt" if "q \<in> set (used_refresh_tokens db')" for q
    proof
      assume "ur_refresh_token q = rt"
      with that u uniq_eqI [of ur_refresh_token "used_refresh_tokens db" q u] wf have "q = u"
        by (simp add: db' wf_dbD)
      with that r show False by (auto simp: db' image_iff)
    qed
    then have f: "find (\<lambda>r. ur_refresh_token r = rt) (used_refresh_tokens db') = None"
      unfolding find_None_iff by blast
    have "refresh_token_used rt db" using u by (auto simp: refresh_token_used_iff)
    then have "find (\<lambda>r. tk_current_refresh_token r = Some rt) (tokens db') = None"
      using store_invD(2) [OF inv] by (auto simp: db' find_None_iff refresh_disjoint_def)
    with f show ?thesis by (simp add: token_row_by_refresh_def)
  qed
qed

text \<open>Right after a rotation the old token is retired and the new one current, both in the same row.\<close>

lemma rotate_token_family:
  assumes inv: "store_inv db" and row: "find (\<lambda>r. tk_token_id r = tid) (tokens db) = Some row"
    and rot: "rotate_token cd tid ntid nrt u x db = (Inr (), db1)"
  shows "store_inv db1 \<and> refresh_owner nrt db1 = Some (tk_id row) \<and>
    current_refresh (tk_id row) db1 = Some nrt \<and>
    (\<forall>rt. tk_current_refresh_token row = Some rt \<longrightarrow> (rt, tk_id row) \<in> used_pairs db1)"
proof -
  have wf: "wf_db db" using inv by (rule store_invD)
  have "store_step undefined cd db (snd (rotate_token cd tid ntid nrt u x db))" by (rule step_rotate_token)
  then have inv1: "store_inv db1" using store_inv_step [of undefined cd db db1] inv rot
    by (simp add: pds_step_def)
  from rot row obtain su sx where db1: "tokens db1 = update_where (\<lambda>r. tk_id r = tk_id row)
      (\<lambda>r. r\<lparr>tk_token_id := ntid, tk_current_refresh_token := Some nrt,
         tk_updated_at := su, tk_expires_at := sx\<rparr>) (tokens db)"
    "used_refresh_tokens db1 = used_refresh_tokens db @ (case tk_current_refresh_token row of None \<Rightarrow> []
      | Some rt \<Rightarrow> [\<lparr>ur_refresh_token = rt, ur_token_id = tk_id row\<rparr>])"
    unfolding rotate_token_Inr by auto
  let ?row1 = "row\<lparr>tk_token_id := ntid, tk_current_refresh_token := Some nrt,
         tk_updated_at := su, tk_expires_at := sx\<rparr>"
  have r: "row \<in> set (tokens db)" using row by (rule find_Some_set [THEN conjunct1])
  then have r1: "?row1 \<in> set (tokens db1)" by (auto simp: db1 set_update_where image_iff)
  have wf1: "wf_db db1" using inv1 by (rule store_invD)
  have g: "find (\<lambda>r. tk_id r = tk_id row) (tokens db1) = Some ?row1"
    using find_uniq [OF wf_token_keys(1) [OF wf1] r1] by simp
  have c: "current_refresh (tk_id row) db1 = Some nrt" by (simp add: current_refresh_def g)
  have p: "\<forall>rt. tk_current_refresh_token row = Some rt \<longrightarrow> (rt, tk_id row) \<in> used_pairs db1"
    by (auto simp: used_pairs_def db1)
  have "\<not> refresh_token_used nrt db1"
    using store_invD(2) [OF inv1] r1 by (auto simp: refresh_disjoint_def)
  then have "find (\<lambda>r. ur_refresh_token r = nrt) (used_refresh_tokens db1) = None"
    by (auto simp: refresh_token_used_iff find_None_iff image_iff)
  moreover have "find (\<lambda>r. tk_current_refresh_token r = Some nrt) (tokens db1) = Some ?row1"
  proof -
    obtain q where q: "find (\<lambda>r. tk_current_refresh_token r = Some nrt) (tokens db1) = Some q"
      using r1 by (cases "find (\<lambda>r. tk_current_refresh_token r = Some nrt) (tokens db1)")
        (auto simp: find_None_iff)
    with find_Some_set [OF q] uniq_some_eqI [OF wf_token_keys(3) [OF wf1] r1, of q nrt] show ?thesis by simp
  qed
  ultimately have "refresh_owner nrt db1 = Some (tk_id row)"
    by (simp add: refresh_owner_def token_row_by_refresh_def)
  with inv1 c p show ?thesis by blast
qed

section \<open>A codec for examples\<close>

text \<open>Text is its own encoding; a list of scopes is written with an escape before each byte.\<close>

fun demo_dec_scopes :: "string \<Rightarrow> string \<Rightarrow> string list option" where
  "demo_dec_scopes acc [] = (if acc = [] then Some [] else None)"
| "demo_dec_scopes acc [c] = (if c = CHR ''0'' then Some [acc] else None)"
| "demo_dec_scopes acc (c # d # s) =
     (if c = CHR ''0'' then map_option (Cons acc) (demo_dec_scopes [] (d # s))
      else demo_dec_scopes (acc @ [d]) s)"

definition demo_enc_scopes :: "string list \<Rightarrow> string" where
  "demo_enc_scopes xs = concat (map (\<lambda>x. concat (map (\<lambda>c. [CHR ''1'', c]) x) @ ''0'') xs)"

definition demo_codec :: "(string, string) codec" where
  "demo_codec = \<lparr>enc_auth = Some, dec_auth = Some, enc_params = Some, dec_params = Some,
     params_scope = (\<lambda>p. p), enc_scopes = demo_enc_scopes,
     dec_scopes = (\<lambda>s. Some (demo_dec_scopes [] s)), offset_in_range = (\<lambda>t. \<bar>t\<bar> < 10 ^ 11),
     db_id_from_str = (\<lambda>s. None)\<rparr>"

lemma demo_dec_one: "demo_dec_scopes acc (concat (map (\<lambda>c. [CHR ''1'', c]) x) @ s) = demo_dec_scopes (acc @ x) s"
  by (induction x arbitrary: acc) simp_all

lemma demo_dec_enc: "demo_dec_scopes [] (demo_enc_scopes xs) = Some xs"
proof (induction xs)
  case (Cons x xs)
  have "demo_dec_scopes x (CHR ''0'' # demo_enc_scopes xs) = Some (x # xs)"
    using Cons by (cases "demo_enc_scopes xs")
      (auto simp: demo_enc_scopes_def split: list.splits)
  then show ?case by (simp add: demo_enc_scopes_def demo_dec_one)
qed (simp add: demo_enc_scopes_def)

lemma demo_codec_ok: "codec_ok demo_codec"
  by (simp add: codec_ok_def demo_codec_def demo_dec_enc)

definition demo_token_data :: "(string, string) token_data" where
  "demo_token_data = \<lparr>td_created_at = 100, td_updated_at = 100, td_expires_at = 3700,
     td_client_id = ''https://app/'', td_client_auth = ''none'', td_device_id = None,
     td_did = ''did:plc:alice'', td_parameters = ''atproto'', td_code = Some ''code1''\<rparr>"

definition demo_token_row :: token_row where
  "demo_token_row = \<lparr>tk_id = ''k1'', tk_did = ''did:plc:alice'', tk_token_id = ''tok1'',
     tk_created_at = 100, tk_updated_at = 100, tk_expires_at = 3700, tk_client_id = ''https://app/'',
     tk_client_auth = ''none'', tk_device_id = None, tk_external_device_id = None,
     tk_parameters = ''atproto'', tk_details = None, tk_code = Some ''code1'',
     tk_current_refresh_token = Some ''r1'', tk_scope = Some ''atproto''\<rparr>"

definition demo_token_db :: account_db where
  "demo_token_db = empty_db\<lparr>tokens := [demo_token_row]\<rparr>"

lemma secs_to_offset_demo: "\<bar>sint s\<bar> < 10 ^ 11 \<Longrightarrow> secs_to_offset demo_codec s = Inr (sint s)"
  by (simp add: secs_to_offset_def demo_codec_def)

lemma demo_create_token:
  "create_token demo_codec ''k1'' ''tok1'' demo_token_data (Some ''r1'') empty_db = (Inr (), demo_token_db)"
proof -
  have "encode_token demo_codec demo_token_data = Inr (100, 100, 3700, ''none'', ''atproto'')"
    by (simp add: encode_token_def demo_token_data_def secs_to_offset_demo) (simp add: demo_codec_def)
  then show ?thesis
    unfolding create_token_Inr
    by (simp add: demo_token_data_def demo_token_db_def demo_token_row_def empty_db_def resolve_device_def
        refresh_token_used_def token_keys_def) (simp add: demo_codec_def)
qed

lemma demo_token_reachable: "pds_reachable demo_ext demo_codec demo_token_db"
proof -
  have "store_step demo_ext demo_codec empty_db demo_token_db"
    using step_create_token [of demo_ext demo_codec empty_db "''k1''" "''tok1''" demo_token_data "Some ''r1''"]
    by (simp add: demo_create_token)
  then show ?thesis by (simp add: pds_reachable_def pds_step_def r_into_rtranclp)
qed

section \<open>Replay\<close>

text \<open>C12: No refresh token of the OAuth store is ever current and used at once, and every token row,
  device, request and replay entry keeps its keys, along any sequence of account and OAuth operations.\<close>

theorem oauth_database_invariant:
  assumes "pds_reachable ext cd db"
  shows "wf_db db \<and> invite_inv db \<and> (\<forall>r \<in> set (tokens db). \<forall>rt. tk_current_refresh_token r = Some rt \<longrightarrow>
    \<not> refresh_token_used rt db \<and> token_row_by_refresh rt db = Some r)"
proof -
  have inv: "store_inv db" using assms by (rule store_inv_reachable)
  have "token_row_by_refresh rt db = Some r"
    if r: "r \<in> set (tokens db)" "tk_current_refresh_token r = Some rt" "\<not> refresh_token_used rt db" for r rt
  proof -
    have "find (\<lambda>r. ur_refresh_token r = rt) (used_refresh_tokens db) = None"
      using r(3) by (auto simp: refresh_token_used_iff find_None_iff image_iff)
    moreover obtain q where q: "find (\<lambda>r. tk_current_refresh_token r = Some rt) (tokens db) = Some q"
      using r by (cases "find (\<lambda>r. tk_current_refresh_token r = Some rt) (tokens db)") (auto simp: find_None_iff)
    moreover have "q = r"
      using find_Some_set [OF q] uniq_some_eqI [OF wf_token_keys(3) [OF store_invD(3) [OF inv]] r(1), of q rt] r(2)
      by simp
    ultimately show ?thesis by (simp add: token_row_by_refresh_def)
  qed
  with inv show ?thesis by (auto simp: store_inv_def good_def refresh_disjoint_def)
qed

lemma oauth_database_invariant_witness:
  "wf_db demo_token_db \<and> token_row_by_refresh ''r1'' demo_token_db = Some demo_token_row"
  using oauth_database_invariant [OF demo_token_reachable]
  by (simp add: demo_token_db_def demo_token_row_def)

text \<open>C13: Once a refresh token has been rotated away it never becomes current again: as long as its token row
  exists, whatever other operations run, presenting it finds that row with another current token
  (a replay), and deleting the row then makes it unknown.\<close>

theorem refresh_replay_detected:
  assumes "pds_reachable ext cd db"
    and "find (\<lambda>r. tk_token_id r = tid) (tokens db) = Some row"
    and "tk_current_refresh_token row = Some rt"
    and "rotate_token cd tid ntid nrt u x db = (Inr (), db1)"
    and "(\<lambda>s s'. pds_step ext cd s s' \<and> token_alive (tk_id row) s')\<^sup>*\<^sup>* db1 db2"
  shows "map_option tk_id (token_row_by_refresh nrt db1) = Some (tk_id row) \<and>
    (\<exists>row2. token_row_by_refresh rt db2 = Some row2 \<and> tk_id row2 = tk_id row \<and>
      tk_current_refresh_token row2 \<noteq> Some rt \<and>
      (\<forall>db3. delete_token (tk_token_id row2) db2 = (Inr (), db3) \<longrightarrow> token_row_by_refresh rt db3 = None))"
proof -
  have inv: "store_inv db" using assms(1) by (rule store_inv_reachable)
  note rot = rotate_token_family [OF inv assms(2,4)]
  from rot assms(3) have "(rt, tk_id row) \<in> used_pairs db1" by blast
  then have ret: "refresh_owner rt db1 = Some (tk_id row)" "current_refresh (tk_id row) db1 \<noteq> Some rt"
    using retired_iff rot by blast+
  have 2: "store_inv db2 \<and> refresh_owner rt db2 = Some (tk_id row) \<and> current_refresh (tk_id row) db2 \<noteq> Some rt"
    using pds_family.retired_for_good [OF assms(5) _ ret] rot by blast
  then obtain row2 where row2: "token_row_by_refresh rt db2 = Some row2" "tk_id row2 = tk_id row"
    by (auto simp: refresh_owner_def)
  have "row2 \<in> set (tokens db2)"
    using row2(1) by (auto simp: token_row_by_refresh_def split: option.splits dest: find_Some_set)
  then have "find (\<lambda>r. tk_id r = tk_id row) (tokens db2) = Some row2"
    using 2 row2(2) by (intro find_uniq [OF wf_token_keys(1)]) (simp_all add: store_invD)
  with 2 have "tk_current_refresh_token row2 \<noteq> Some rt" by (simp add: current_refresh_def)
  moreover have "token_row_by_refresh rt db3 = None" if "delete_token (tk_token_id row2) db2 = (Inr (), db3)" for db3
    using delete_family [OF _ row2(1) that] 2 by blast
  ultimately show ?thesis using rot row2 by (auto simp: refresh_owner_def)
qed


definition demo_rotated_db :: account_db where
  "demo_rotated_db = demo_token_db\<lparr>
     tokens := [demo_token_row\<lparr>tk_token_id := ''tok2'', tk_current_refresh_token := Some ''r2'',
       tk_updated_at := 200, tk_expires_at := 3800\<rparr>],
     used_refresh_tokens := [\<lparr>ur_refresh_token = ''r1'', ur_token_id = ''k1''\<rparr>]\<rparr>"

lemma demo_rotate_token:
  "rotate_token demo_codec ''tok1'' ''tok2'' ''r2'' 200 3800 demo_token_db = (Inr (), demo_rotated_db)"
  unfolding rotate_token_Inr
  by (simp add: demo_token_db_def demo_rotated_db_def demo_token_row_def empty_db_def
      secs_to_offset_demo refresh_token_used_def token_keys_def)

text \<open>The replay of r1 after the rotation and an account operation is noticed and ends the family.\<close>

lemma refresh_replay_detected_witness:
  "\<exists>row2. token_row_by_refresh ''r1'' (mark_plc_rotation_keys_migrated ''did:plc:alice'' demo_rotated_db) =
     Some row2 \<and> tk_current_refresh_token row2 \<noteq> Some ''r1''"
proof -
  let ?db2 = "mark_plc_rotation_keys_migrated ''did:plc:alice'' demo_rotated_db"
  have t: "find (\<lambda>r. tk_token_id r = ''tok1'') (tokens demo_token_db) = Some demo_token_row"
    "tk_current_refresh_token demo_token_row = Some ''r1''"
    by (simp_all add: demo_token_db_def demo_token_row_def)
  have "pds_step demo_ext demo_codec demo_rotated_db ?db2"
    by (simp add: pds_step_def step_mark_plc)
  moreover have "token_alive (tk_id demo_token_row) ?db2"
    by (simp add: token_alive_def mark_plc_rotation_keys_migrated_def demo_rotated_db_def)
  ultimately have "(\<lambda>s s'. pds_step demo_ext demo_codec s s' \<and> token_alive (tk_id demo_token_row) s')\<^sup>*\<^sup>*
      demo_rotated_db ?db2" by (simp add: r_into_rtranclp)
  from refresh_replay_detected [OF demo_token_reachable t demo_rotate_token this] show ?thesis by blast
qed

end
