(* ===== verification/OAuth_Facts.thy ===== *)
theory OAuth_Facts
  imports OAuth_Rotation
begin

text \<open>
  Properties of the rest of the OAuth store: authorization codes are used once, signing in keeps
  to the lockout policy, a DPoP proof is accepted once until its entry is pruned, the scope
  of an authorized client is kept, consent nonces are replaced on use and expire.
\<close>

section \<open>Authorization codes\<close>

text \<open>
  A request (new, or updated) carries a code; presenting a code removes the row, whether or not
  the row then decodes. A code is accepted when the operation finds a row.
\<close>

type_synonym ('ca, 'p) request_write = "(string \<times> string \<times> ('ca, 'p) request_data) + (string \<times> ('ca, 'p) request_data)"

definition write_request ::
  "('ca, 'p) codec \<Rightarrow> string option \<Rightarrow> ('ca, 'p) request_write \<Rightarrow> account_db \<Rightarrow> account_db" where
  "write_request cd code w db =
     snd (case w of Inl (n, i, data) \<Rightarrow> create_request cd n i (data\<lparr>rd_code := code\<rparr>) db
          | Inr (i, data) \<Rightarrow> update_request cd i (data\<lparr>rd_code := code\<rparr>) db)"

definition code_found ::
  "('ca, 'p) codec \<Rightarrow> string option \<Rightarrow> account_db \<Rightarrow> bool" where
  "code_found cd code db = (case code of None \<Rightarrow> False
     | Some c \<Rightarrow> fst (consume_request_code cd c db) \<noteq> Inr None)"

definition use_code :: "('ca, 'p) codec \<Rightarrow> string option \<Rightarrow> account_db \<Rightarrow> account_db" where
  "use_code cd code db = (case code of None \<Rightarrow> db | Some c \<Rightarrow> snd (consume_request_code cd c db))"

lemma code_found_iff:
  "code_found cd (Some c) db \<longleftrightarrow> has_row (\<lambda>r. ar_code r = Some c) (authorization_requests db)"
proof -
  have "filter (\<lambda>r. ar_code r = Some c) t = [] \<longleftrightarrow> \<not> has_row (\<lambda>r. ar_code r = Some c) t"
    for t :: "authorization_request_row list" by (auto simp: has_row_iff filter_empty_conv)
  from this [of "authorization_requests db"] show ?thesis
    by (cases "filter (\<lambda>r. ar_code r = Some c) (authorization_requests db)")
      (simp_all add: code_found_def consume_request_code_def Let_def split: sum.splits)
qed

lemma use_code_requests:
  "authorization_requests (use_code cd (Some c) db) =
   delete_where (\<lambda>r. ar_code r = Some c) (authorization_requests db)"
  by (simp add: use_code_def consume_request_code_def Let_def split: list.splits sum.splits)

lemma write_request_codes:
  assumes "has_row (\<lambda>r. ar_code r = Some c) (authorization_requests (write_request cd code w db))"
    and "code \<noteq> Some c"
  shows "has_row (\<lambda>r. ar_code r = Some c) (authorization_requests db)"
proof (cases w)
  case (Inl x)
  obtain n i data where "x = (n, i, data)" by (cases x)
  with Inl assms show ?thesis
    by (auto simp: write_request_def create_request_def put_requests_def has_row_iff
        split: sum.splits if_splits)
next
  case (Inr x)
  obtain i data where "x = (i, data)" by (cases x)
  with Inr assms show ?thesis
    by (auto simp: write_request_def update_request_def put_requests_def has_row_iff set_update_where
        split: sum.splits option.splits if_splits)
qed

interpretation auth_code: one_time_token
  "write_request cd" "\<lambda>(_ :: unit) code (_ :: ('ca, 'p) request_write) db. code_found cd code db"
  "use_code cd" wf_db for cd :: "('ca, 'p) codec"
proof (unfold_locales, goal_cases)
  case (1 s k t)
  then show ?case by (auto simp: write_request_def wf_requests split: sum.splits)
next
  case (2 s k)
  then show ?case by (auto simp: use_code_def wf_requests split: option.splits)
next
  case (3 s c k t)
  then show ?case
    by (cases k) (auto simp: code_found_iff use_code_requests has_row_iff code_found_def [of _ None])
next
  case (4 s c k t k')
  then show ?case
    by (cases k; cases k')
      (auto simp: code_found_iff use_code_requests has_row_iff code_found_def [of _ None] use_code_def [of _ None])
next
  case (5 s k k' c t u)
  then show ?case
    using write_request_codes [of _ cd k' u s] by (cases k) (auto simp: code_found_iff code_found_def [of _ None])
qed

definition code_uses ::
  "('ca, 'p) codec \<Rightarrow> string \<Rightarrow> (unit, string option, ('ca, 'p) request_write) token_op list \<Rightarrow> account_db \<Rightarrow> nat" where
  "code_uses cd code = accepted (write_request cd) (\<lambda>_ code _ db. code_found cd code db) (use_code cd) (Some code)"

text \<open>C14: Along any run of creating and updating authorization requests and presenting codes, a code is
  accepted at most as often as it was written into a request (plus once if it was there before).\<close>

theorem authorization_code_single_use:
  fixes cd :: "('ca, 'p) codec"
  assumes "wf_db db"
  shows "code_uses cd code ops db \<le>
    (if has_row (\<lambda>r. ar_code r = Some code) (authorization_requests db) then 1 else 0) + issued (Some code) ops"
proof -
  have "auth_code.dead TYPE('ca) TYPE('p) cd (Some code) db \<longleftrightarrow> \<not> has_row (\<lambda>r. ar_code r = Some code) (authorization_requests db)"
    by (simp add: auth_code.dead_def code_found_iff)
  with auth_code.accepted_bound [OF assms, of cd "Some code" ops] show ?thesis
    by (auto simp: code_uses_def split: if_splits)
qed

definition demo_request :: "(string, string) request_data" where
  "demo_request = \<lparr>rd_client_id = ''https://app/'', rd_client_auth = ''none'', rd_parameters = ''atproto'',
     rd_expires_at = 600, rd_device_id = None, rd_did = Some ''did:plc:alice'', rd_code = None\<rparr>"

lemma authorization_code_single_use_witness:
  "code_uses demo_codec ''code1''
     [Issue None (Inl (''k1'', ''req1'', demo_request)), Issue (Some ''code1'') (Inr (''req1'', demo_request)),
      Consume () (Some ''code1'') (Inr (''req1'', demo_request)),
      Consume () (Some ''code1'') (Inr (''req1'', demo_request))] empty_db \<le> 1"
  using authorization_code_single_use [OF wf_empty_db, of demo_codec "''code1''"
      "[Issue None (Inl (''k1'', ''req1'', demo_request)), Issue (Some ''code1'') (Inr (''req1'', demo_request)),
      Consume () (Some ''code1'') (Inr (''req1'', demo_request)),
      Consume () (Some ''code1'') (Inr (''req1'', demo_request))]"]
  by (simp add: empty_db_def issued_def)


section \<open>Signing in\<close>

lemma lockout_view_clear:
  "lockout_view did (clear_account_lockout did db) = map_option (\<lambda>_. (0, None)) (lockout_view did db)"
  by (cases "account_of did db") (simp_all add: lockout_view_def clear_account_lockout_def account_of_update)

lemma record_failed_then_lock:
  "(let db1 = record_failed_login did db; count = fst (get_account_lockout_state did db1)
    in if count \<ge> 5 then set_account_locked_until did (now_secs now + 900) db1 else db1) =
   snd (record_failed_login_with_lockout now did db)"
  by (simp add: record_failed_login_def record_failed_login_with_lockout_def Let_def
      increment_failed_login_count_def)

text \<open>C15: Signing in to the OAuth server as an account that exists: while the account is locked nothing is looked at
  and nothing changes, even for the right password; otherwise the right password signs in and clears
  the failures and a wrong one counts towards the five-failures, 900-second policy.\<close>

theorem authenticate_account_policy:
  assumes "find_identifier ext i db = Some actor"
    and "verify_account_password ext (aa_did actor) pw db = Inr valid"
    and "lockout_view (aa_did actor) db = Some (count, until)"
  shows "fst (authenticate_account ext now i pw db) =
      Inr (if valid \<and> \<not> is_account_locked now (aa_did actor) db then Some (actor_to_account_info actor) else None) \<and>
    lockout_view (aa_did actor) (snd (authenticate_account ext now i pw db)) =
      Some (if is_account_locked now (aa_did actor) db then (count, until)
            else if valid then (0, None) else policy_fail (now_secs now) (count, until)) \<and>
    (is_account_locked now (aa_did actor) db \<longrightarrow> snd (authenticate_account ext now i pw db) = db)"
proof -
  have eq: "authenticate_account ext now i pw db =
    (if is_account_locked now (aa_did actor) db then (Inr None, db)
     else if valid then (Inr (Some (actor_to_account_info actor)), clear_account_lockout (aa_did actor) db)
     else (Inr None, snd (record_failed_login_with_lockout now (aa_did actor) db)))"
    using assms(1,2) record_failed_then_lock [of "aa_did actor" db now]
    by (simp add: authenticate_account_def Let_def)
  show ?thesis
    using assms(3) by (simp add: eq lockout_view_clear lockout_view_fail)
qed


definition demo_signin_db :: account_db where
  "demo_signin_db = empty_db\<lparr>
     actors := [new_actor demo_ext 0 ''did:a'' ''a.x.org'' None],
     accounts := [new_account demo_ext 0 ''did:a'' ''a@x.org'' ''s|pw'' None]\<rparr>"

lemma authenticate_account_policy_witness:
  "lockout_view ''did:a'' (snd (authenticate_account demo_ext 5000000 ''DID:a'' ''guess'' demo_signin_db)) = Some (1, None) \<and>
   is_ok (fst (authenticate_account demo_ext 5000000 ''DID:a'' ''pw'' demo_signin_db))"
proof -
  have lower: "ascii_lower ''DID:a'' = ''did:a''" by code_simp
  have sw: "starts_with ''did:a'' ''did:''" by code_simp
  have v: "lockout_view ''did:a'' demo_signin_db = Some (0, None)"
    by (simp add: lockout_view_def account_of_def demo_signin_db_def new_account_def)
  obtain actor where a: "find_identifier demo_ext ''DID:a'' demo_signin_db = Some actor" "aa_did actor = ''did:a''"
    by (simp add: find_identifier_def lower get_account_def sw signin_flags_def demo_signin_db_def
        actor_left_join_account_def availability_conditions_def actor_account_from_row_def
        new_account_def new_actor_def empty_db_def)
  have p: "verify_account_password demo_ext ''did:a'' q demo_signin_db = Inr (q = ''pw'')" for q
    by (simp add: verify_account_password_def verify_def demo_signin_db_def new_account_def demo_ext_def eq_commute)
  have l: "\<not> is_account_locked 5000000 ''did:a'' demo_signin_db" by (simp add: is_account_locked_view v)
  note * = authenticate_account_policy [of demo_ext "''DID:a''" demo_signin_db actor _ _ 0 None 5000000]
  show ?thesis
    using * [of "''guess''" False] * [of "''pw''" True] a p v l by simp
qed

section \<open>DPoP proofs\<close>

text \<open>
  A store that remembers what it has accepted until it is pruned. \<open>seen\<close> is the expiry it keeps
  for a proof, \<open>stored\<close> how it writes one down, \<open>keeps t v\<close> that pruning at \<open>t\<close> keeps an entry.
\<close>

datatype ('j, 'e, 't) replay_op = Present 'j 'e | Prune 't

fun replay_accepts ::
  "('j \<Rightarrow> 'e \<Rightarrow> 's \<Rightarrow> bool \<times> 's) \<Rightarrow> ('t \<Rightarrow> 's \<Rightarrow> 's) \<Rightarrow> 'j \<Rightarrow> ('j, 'e, 't) replay_op list \<Rightarrow> 's \<Rightarrow> nat" where
  "replay_accepts consume prune j [] s = 0"
| "replay_accepts consume prune j (Present j' e # ops) s =
     (if j' = j \<and> fst (consume j' e s) then 1 else 0) +
     replay_accepts consume prune j ops (snd (consume j' e s))"
| "replay_accepts consume prune j (Prune t # ops) s = replay_accepts consume prune j ops (prune t s)"

locale replay_guard =
  fixes consume :: "'j \<Rightarrow> 'e \<Rightarrow> 's \<Rightarrow> bool \<times> 's" and prune :: "'t \<Rightarrow> 's \<Rightarrow> 's"
    and seen :: "'j \<Rightarrow> 's \<Rightarrow> 'v option" and stored :: "'e \<Rightarrow> 'v" and keeps :: "'t \<Rightarrow> 'v \<Rightarrow> bool"
    and inv :: "'s \<Rightarrow> bool"
  assumes inv_consume: "inv s \<Longrightarrow> inv (snd (consume j e s))"
    and inv_prune: "inv s \<Longrightarrow> inv (prune t s)"
    and consume_new: "inv s \<Longrightarrow> seen j s = None \<Longrightarrow>
      fst (consume j e s) \<and> seen j (snd (consume j e s)) = Some (stored e)"
    and consume_seen: "inv s \<Longrightarrow> seen j s = Some v \<Longrightarrow> consume j e s = (False, s)"
    and consume_other: "inv s \<Longrightarrow> j \<noteq> j' \<Longrightarrow> seen j (snd (consume j' e s)) = seen j s"
    and prune_seen: "inv s \<Longrightarrow> seen j (prune t s) =
      (case seen j s of Some v \<Rightarrow> if keeps t v then Some v else None | None \<Rightarrow> None)"
begin

lemma accepts_once:
  assumes "inv s" and "\<forall>t e. Prune t \<in> set ops \<longrightarrow> Present j e \<in> set ops \<longrightarrow> keeps t (stored e)"
    and "\<forall>t v. Prune t \<in> set ops \<longrightarrow> seen j s = Some v \<longrightarrow> keeps t v"
  shows "replay_accepts consume prune j ops s \<le> (if seen j s = None then 1 else 0)"
  using assms
proof (induction ops arbitrary: s)
  case (Cons x ops)
  show ?case
  proof (cases x)
    case (Present j' e)
    have IH: "replay_accepts consume prune j ops (snd (consume j' e s)) \<le>
        (if seen j (snd (consume j' e s)) = None then 1 else 0)"
    proof (rule Cons.IH)
      show "inv (snd (consume j' e s))" using Cons.prems(1) by (rule inv_consume)
      show "\<forall>t e. Prune t \<in> set ops \<longrightarrow> Present j e \<in> set ops \<longrightarrow> keeps t (stored e)"
        using Cons.prems(2) by simp
      show "\<forall>t v. Prune t \<in> set ops \<longrightarrow> seen j (snd (consume j' e s)) = Some v \<longrightarrow> keeps t v"
      proof (cases "j' = j")
        case True
        show ?thesis
        proof (cases "seen j s")
          case None
          with True Present Cons.prems consume_new [of s j e] show ?thesis by auto
        next
          case (Some v)
          with True Present Cons.prems consume_seen [of s j v e] show ?thesis by auto
        qed
      next
        case False
        with Present Cons.prems consume_other [of s j j' e] show ?thesis by auto
      qed
    qed
    show ?thesis
    proof (cases "j' = j")
      case True
      show ?thesis
      proof (cases "seen j s")
        case None
        with True Present IH consume_new [of s j e] Cons.prems(1) show ?thesis by simp
      next
        case (Some v)
        with True Present IH consume_seen [of s j v e] Cons.prems(1) show ?thesis by simp
      qed
    next
      case False
      with Present IH consume_other [of s j j' e] Cons.prems(1) show ?thesis by simp
    qed
  next
    case (Prune t)
    have "replay_accepts consume prune j ops (prune t s) \<le> (if seen j (prune t s) = None then 1 else 0)"
      using Prune Cons.prems by (intro Cons.IH) (auto simp: inv_prune prune_seen split: option.splits if_splits)
    with Prune Cons.prems prune_seen [of s j t] show ?thesis by (auto split: option.splits)
  qed
qed simp

end

definition jti_seen :: "string \<Rightarrow> account_db \<Rightarrow> int option" where
  "jti_seen jti db = map_option dr_expires_at (find (\<lambda>r. dr_jti r = jti) (dpop_replays db))"

lemma jti_seen_None: "jti_seen jti db = None \<longleftrightarrow> \<not> has_row (\<lambda>r. dr_jti r = jti) (dpop_replays db)"
  by (simp add: jti_seen_def not_has_row_find)

interpretation dpop: replay_guard consume_jti "\<lambda>now db. snd (prune_expired now db)" jti_seen sint
  "\<lambda>now v. \<not> v < sint now" wf_db
proof (unfold_locales, goal_cases)
  case (1 s j e)
  then show ?case by (rule wf_replay_ops)
next
  case (6 s j t)
  then have "uniq dr_jti (dpop_replays s)" by (simp add: wf_dbD)
  from find_uniq_delete [OF this, of j "\<lambda>r. dr_expires_at r < sint t"] show ?case
    by (auto simp: jti_seen_def prune_expired_def split: option.splits)
next
  case (4 s j v e)
  then show ?case by (auto simp: consume_jti_def jti_seen_def has_row_find split: option.splits)
qed (auto simp: wf_replay_ops consume_jti_def jti_seen_def has_row_find find_append split: option.splits)

definition dpop_accepts :: "string \<Rightarrow> (string, 64 word, 64 word) replay_op list \<Rightarrow> account_db \<Rightarrow> nat" where
  "dpop_accepts = replay_accepts consume_jti (\<lambda>now db. snd (prune_expired now db))"

lemma sint_cases:
  fixes w :: "64 word"
  shows "sint w = (if unat w < 2 ^ 63 then uint w else uint w - 2 ^ 64)"
proof -
  have u: "uint w < 2 ^ 64" "0 \<le> uint w" using uint_bounded [of w] by simp_all
  have "sint w = (uint w + 2 ^ 63) mod 2 ^ 64 - 2 ^ 63"
    by (simp add: sint_uint signed_take_bit_eq_take_bit_shift take_bit_eq_mod)
  moreover have "(uint w + 2 ^ 63) mod 2 ^ 64 = uint w + 2 ^ 63" if "uint w < 2 ^ 63"
    using that u by (intro mod_pos_pos_trivial) simp_all
  moreover have "(uint w + 2 ^ 63) mod 2 ^ 64 = uint w - 2 ^ 63" if "\<not> uint w < 2 ^ 63"
  proof -
    have "(uint w + 2 ^ 63) mod 2 ^ 64 = (uint w - 2 ^ 63 + 2 ^ 64) mod 2 ^ 64"
      by (rule arg_cong [where f = "\<lambda>x. x mod 2 ^ 64"]) simp
    also have "\<dots> = (uint w - 2 ^ 63) mod 2 ^ 64" by (rule mod_add_self2)
    also have "\<dots> = uint w - 2 ^ 63" using that u by (intro mod_pos_pos_trivial) simp_all
    finally show ?thesis .
  qed
  moreover have "uint w < 2 ^ 63 \<longleftrightarrow> unat w < 2 ^ 63"
    using nat_less_iff [OF uint_ge_0, of w "2 ^ 63"] by simp
  ultimately show ?thesis by auto
qed

text \<open>C16: A DPoP proof whose expiry is below 2^63 seconds is accepted at most once by any run that presents
  proofs in any order and prunes only at times up to its expiry, and not at all if it was seen before.\<close>

theorem dpop_proof_once:
  assumes "wf_db db"
    and "\<forall>now exp. Prune now \<in> set ops \<longrightarrow> Present jti exp \<in> set ops \<longrightarrow> unat exp < 2 ^ 63 \<and> now \<le> exp"
    and "\<forall>now v. Prune now \<in> set ops \<longrightarrow> jti_seen jti db = Some v \<longrightarrow> sint now \<le> v"
  shows "dpop_accepts jti ops db \<le> (if has_row (\<lambda>r. dr_jti r = jti) (dpop_replays db) then 0 else 1)"
proof -
  have "\<not> sint exp < sint now" if "Prune now \<in> set ops" "Present jti exp \<in> set ops" for now exp
  proof -
    from assms(2) that have e: "unat exp < 2 ^ 63" "now \<le> exp" by blast+
    then have "unat now < 2 ^ 63" by (simp add: word_le_nat_alt)
    with e show ?thesis by (simp add: sint_cases word_le_def)
  qed
  then have "dpop_accepts jti ops db \<le> (if jti_seen jti db = None then 1 else 0)"
    unfolding dpop_accepts_def using assms(3) by (intro dpop.accepts_once [OF assms(1)]) force+
  then show ?thesis by (simp add: jti_seen_None split: if_splits)
qed


lemma dpop_proof_once_witness:
  "dpop_accepts ''j1'' [Present ''j1'' 1000, Prune 900, Present ''j2'' 50, Present ''j1'' 1000, Prune 1000,
     Present ''j1'' 1000] empty_db \<le> 1"
  using dpop_proof_once [OF wf_empty_db, of "[Present ''j1'' 1000, Prune 900, Present ''j2'' 50,
      Present ''j1'' 1000, Prune 1000, Present ''j1'' 1000]" "''j1''"]
  by (simp add: jti_seen_def empty_db_def word_le_nat_alt)

text \<open>The expiry is stored as a signed number. At the boundary of 2^63 it becomes negative: such a proof, as
  well as one that has expired, is accepted again right after any pruning.\<close>

theorem dpop_expiry_wraps:
  assumes "wf_db db" and "\<not> has_row (\<lambda>r. dr_jti r = jti) (dpop_replays db)" and "unat now < 2 ^ 63"
  shows "dpop_accepts jti [Present jti exp, Prune now, Present jti exp] db =
    (if 2 ^ 63 \<le> unat exp \<or> unat exp < unat now then 2 else 1)"
proof -
  let ?db1 = "snd (consume_jti jti exp db)"
  let ?db2 = "snd (prune_expired now ?db1)"
  have n: "jti_seen jti db = None" using assms(2) by (simp add: jti_seen_None)
  have 1: "fst (consume_jti jti exp db)" "jti_seen jti ?db1 = Some (sint exp)"
    using dpop.consume_new [OF assms(1) n] by blast+
  have wf: "wf_db ?db1" "wf_db ?db2" using assms(1) by (simp_all add: wf_replay_ops)
  have 2: "jti_seen jti ?db2 = (if sint exp < sint now then None else Some (sint exp))"
    using dpop.prune_seen [OF wf(1), of jti now] 1(2) by simp
  have 3: "fst (consume_jti jti exp ?db2) \<longleftrightarrow> sint exp < sint now"
    using dpop.consume_new [OF wf(2), of jti exp] dpop.consume_seen [OF wf(2), of jti _ exp] 2
    by (auto split: if_splits)
  have "sint exp < sint now \<longleftrightarrow> 2 ^ 63 \<le> unat exp \<or> unat exp < unat now"
  proof (cases "unat exp < 2 ^ 63")
    case True
    with assms(3) have "sint exp = uint exp" "sint now = uint now" by (simp_all add: sint_cases)
    with True show ?thesis by (simp add: word_less_nat_alt [symmetric] word_less_def not_le)
  next
    case False
    then have "sint exp = uint exp - 2 ^ 64" "sint now = uint now"
      using assms(3) by (simp_all add: sint_cases)
    moreover have "uint exp < 2 ^ 64" using uint_bounded [of exp] by simp
    ultimately have "sint exp < sint now" using uint_ge_0 [of now] by linarith
    with False show ?thesis by simp
  qed
  with 1 3 show ?thesis by (simp add: dpop_accepts_def)
qed

lemma dpop_expiry_wraps_witness:
  "dpop_accepts ''j1'' [Present ''j1'' (2 ^ 63), Prune 900, Present ''j1'' (2 ^ 63)] empty_db = 2"
  using dpop_expiry_wraps [OF wf_empty_db, of "''j1''" 900 "2 ^ 63"]
  by (simp add: empty_db_def)

section \<open>Authorized clients\<close>

text \<open>The scope granted to a client is read back with single spaces between its words (which no further
  grant or reading changes), other grants stay as they are; for an account that does not exist the
  operation reports success and grants nothing.\<close>

theorem authorized_client_scope:
  assumes "codec_ok cd" and "wf_db db"
  shows "if has_row (\<lambda>r. ac_did r = did) (accounts db)
    then get_authorized_client_scope cd did client (set_authorized_client cd now did client scope db) =
           Inr (Some (join_with '' '' (split_ws scope))) \<and>
         split_ws (join_with '' '' (split_ws scope)) = split_ws scope \<and>
         (\<forall>did2 client2. (did2, client2) \<noteq> (did, client) \<longrightarrow>
            get_authorized_client_scope cd did2 client2 (set_authorized_client cd now did client scope db) =
            get_authorized_client_scope cd did2 client2 db)
    else set_authorized_client cd now did client scope db = db"
proof -
  let ?t = "authorized_clients db"
  let ?p = "\<lambda>r. acl_did r = did \<and> acl_client_id r = client"
  let ?f = "\<lambda>r. r\<lparr>acl_updated_at := now_secs now, acl_data := enc_scopes cd (split_ws scope)\<rparr>"
  let ?row = "\<lparr>acl_did = did, acl_client_id = client, acl_created_at = now_secs now,
      acl_updated_at = now_secs now, acl_data = enc_scopes cd (split_ws scope)\<rparr>"
  have k: "has_row (\<lambda>r. authorized_client_key r = (did, client)) ?t = has_row ?p ?t"
    by (simp add: authorized_client_key_def)
  have dec: "dec_scopes cd (enc_scopes cd xs) = Some (Some xs)" for xs
    using assms(1) by (simp add: codec_ok_def)
  show ?thesis
  proof (cases "has_row (\<lambda>r. ac_did r = did) (accounts db)")
    case True
    obtain t where t: "set_authorized_client cd now did client scope db = db\<lparr>authorized_clients := t\<rparr>"
      "t = (if has_row ?p ?t then update_where ?p ?f ?t else ?t @ [?row])"
      using True by (simp add: set_authorized_client_def Let_def k)
    have new: "\<exists>r. find ?p t = Some r \<and> acl_data r = enc_scopes cd (split_ws scope)"
    proof (cases "has_row ?p ?t")
      case True
      then obtain r where r: "find ?p ?t = Some r" by (auto simp: has_row_find)
      have "find ?p (update_where ?p ?f ?t) = map_option (\<lambda>r. if ?p r then ?f r else r) (find ?p ?t)"
        by (rule find_update_where) simp
      with r True t(2) find_Some_set [OF r] show ?thesis by simp
    next
      case False
      then have "find ?p ?t = None" by (simp add: not_has_row_find)
      with False t(2) show ?thesis by (simp add: find_append)
    qed
    have other: "find (\<lambda>r. acl_did r = d \<and> acl_client_id r = c) t =
        find (\<lambda>r. acl_did r = d \<and> acl_client_id r = c) ?t" if "(d, c) \<noteq> (did, client)" for d c
    proof (cases "has_row ?p ?t")
      case True
      have "find (\<lambda>r. acl_did r = d \<and> acl_client_id r = c) (update_where ?p ?f ?t) =
          map_option (\<lambda>r. if ?p r then ?f r else r) (find (\<lambda>r. acl_did r = d \<and> acl_client_id r = c) ?t)"
        by (rule find_update_where) simp
      also have "\<dots> = find (\<lambda>r. acl_did r = d \<and> acl_client_id r = c) ?t"
        using that by (cases "find (\<lambda>r. acl_did r = d \<and> acl_client_id r = c) ?t") (auto dest: find_Some_set)
      finally show ?thesis using True t(2) by simp
    next
      case False
      with that t(2) show ?thesis by (auto simp: find_append split: option.splits)
    qed
    have "split_ws (join_with '' '' (split_ws scope)) = split_ws scope"
      using split_ws_words split_ws_no_ws by (intro split_ws_join) blast
    with True new other show ?thesis by (auto simp: get_authorized_client_scope_def t(1) dec)
  next
    case False
    have "\<not> has_row ?p ?t"
    proof
      assume "has_row ?p ?t"
      then obtain r where "r \<in> set ?t" "acl_did r = did" by (auto simp: has_row_iff)
      with foreign_keys_dbD(3) [OF assms(2)] have "did \<in> ac_did ` set (accounts db)" by blast
      with False show False by (auto simp: has_row_iff)
    qed
    with False show ?thesis
      by (simp add: set_authorized_client_def Let_def k)
        (simp add: update_where_id has_row_iff)
  qed
qed

lemma authorized_client_scope_witness:
  "get_authorized_client_scope demo_codec ''did:a'' ''app''
     (set_authorized_client demo_codec 0 ''did:a'' ''app'' '' atproto   repo:*'' demo_signin_db) =
   Inr (Some ''atproto repo:*'')"
proof -
  have "wf_db demo_signin_db"
    by (simp add: schema_defs demo_signin_db_def empty_db_def handle_key_def)
  note * = authorized_client_scope [OF demo_codec_ok this, of "''did:a''" "''app''" 0 "'' atproto   repo:*''"]
  have "join_with '' '' (split_ws '' atproto   repo:*'') = ''atproto repo:*''" by code_simp
  with * show ?thesis by (simp add: demo_signin_db_def new_account_def)
qed


section \<open>Consent nonces\<close>

lemma consent_rotate_ok_iff:
  assumes "consent_keys (consent_states db)" and "fresh \<notin> cs_state ` set (consent_states db)"
  shows "is_ok (fst (consent_rotate ext mts now fresh i s db)) \<longleftrightarrow>
    has_row (\<lambda>r. cs_request_id r = i \<and> cs_state r = s \<and> fmt_ts ext now < cs_expires_at r) (consent_states db)"
proof -
  let ?p = "\<lambda>r. cs_request_id r = i \<and> cs_state r = s \<and> fmt_ts ext now < cs_expires_at r"
  let ?f = "\<lambda>r. r\<lparr>cs_state := fresh, cs_expires_at := consent_expires_at ext mts (fmt_ts ext now)\<rparr>"
  have keys: "consent_keys (update_where ?p ?f t)"
    if "consent_keys t" "fresh \<notin> cs_state ` set t" for t
    using that
  proof (induction t)
    case (Cons r t)
    have IH: "consent_keys (update_where ?p ?f t)"
      using Cons by (auto simp: consent_keys_def)
    have none: "\<not> ?p q" if "q \<in> set t" "?p r" for q
      using Cons.prems(1) that by (auto simp: consent_keys_def image_iff)
    have same: "update_where ?p ?f t = t" if "?p r"
      using none that by (intro update_where_id) blast
    have "cs_request_id ` set (update_where ?p ?f t) = cs_request_id ` set t"
      by (rule image_update_where) simp
    moreover have "cs_state ` set (update_where ?p ?f t) \<subseteq> insert fresh (cs_state ` set t)"
      by (auto simp: set_update_where)
    ultimately show ?case
      using IH Cons.prems same by (auto simp: consent_keys_def)
  qed (simp add: consent_keys_def)
  from keys [OF assms] show ?thesis
    by (auto simp: consent_rotate_def Let_def count_where_0_iff)
qed

lemma consent_new_nonce:
  assumes "consent_keys (consent_states db)"
    and "consent_create ext mts t fresh i db = (Inr n, db') \<or>
      (\<exists>s0. consent_rotate ext mts t fresh i s0 db = (Inr n, db'))"
  shows "n = fresh \<and> consent_keys (consent_states db') \<and> (\<exists>r \<in> set (consent_states db').
    cs_request_id r = i \<and> cs_state r = n \<and> cs_expires_at r = consent_expires_at ext mts (fmt_ts ext t))"
  using assms(2)
proof
  assume "consent_create ext mts t fresh i db = (Inr n, db')"
  then show ?thesis by (auto simp: consent_create_def Let_def split: if_splits)
next
  assume "\<exists>s0. consent_rotate ext mts t fresh i s0 db = (Inr n, db')"
  then obtain s0 where s0: "consent_rotate ext mts t fresh i s0 db = (Inr n, db')" ..
  let ?p = "\<lambda>r. cs_request_id r = i \<and> cs_state r = s0 \<and> fmt_ts ext t < cs_expires_at r"
  let ?f = "\<lambda>r. r\<lparr>cs_state := fresh, cs_expires_at := consent_expires_at ext mts (fmt_ts ext t)\<rparr>"
  from s0 have r: "n = fresh" "consent_states db' = update_where ?p ?f (consent_states db)"
    "consent_keys (consent_states db')" "has_row ?p (consent_states db)"
    by (auto simp: consent_rotate_def Let_def count_where_0_iff split: if_splits)
  from r(4) obtain q where "q \<in> set (consent_states db)" "?p q" unfolding has_row_iff by blast
  then have "?f q \<in> set (consent_states db')" "cs_request_id q = i"
    unfolding r(2) set_update_where by (auto intro!: rev_image_eqI [of q])
  with r(1,3) show ?thesis by (intro conjI bexI [of _ "?f q"]) simp_all
qed

text \<open>The nonce that creating or rotating a consent state returns is the only one its request accepts, for 300
  seconds from then; so a nonce that was used is refused from then on.\<close>

theorem consent_nonce_window:
  assumes "timestamps_ok ext" and "\<forall>m. ts_in_range ext m \<longrightarrow> mts m = fmt_ts ext m"
    and "wf_db db"
    and "consent_create ext mts t fresh i db = (Inr n, db') \<or>
      (\<exists>s0. consent_rotate ext mts t fresh i s0 db = (Inr n, db'))"
    and "ts_in_range ext t" and "ts_in_range ext (t div 1000 * 1000 + 300000000)" and "ts_in_range ext now"
    and "fresh2 \<notin> cs_state ` set (consent_states db')"
  shows "is_ok (fst (consent_rotate ext mts now fresh2 i s db')) =
    (s = n \<and> now div 1000 < t div 1000 + 300000)"
proof -
  have keys: "consent_keys (consent_states db)" using assms(3) by (simp add: wf_db_def)
  obtain r where r: "consent_keys (consent_states db')" "r \<in> set (consent_states db')"
    "cs_request_id r = i" "cs_state r = n" "cs_expires_at r = consent_expires_at ext mts (fmt_ts ext t)"
    using consent_new_nonce [OF keys assms(4)] by blast
  let ?e = "t div 1000 * 1000 + 300000000"
  have exp: "cs_expires_at r = fmt_ts ext ?e"
    using r(5) timestamps_parse [OF assms(1,5)] assms(2,6) by (simp add: consent_expires_at_def NONCE_TTL_MICROS_def)
  have ms: "?e div 1000 = t div 1000 + 300000" by simp
  have "q = r" if "q \<in> set (consent_states db')" "cs_request_id q = i" for q
    using that r(1,2,3) uniq_eqI [of cs_request_id "consent_states db'" q r] by (simp add: consent_keys_def)
  then have "has_row (\<lambda>q. cs_request_id q = i \<and> cs_state q = s \<and> fmt_ts ext now < cs_expires_at q)
      (consent_states db') \<longleftrightarrow> s = n \<and> fmt_ts ext now < fmt_ts ext ?e"
    using r(2,3,4) exp unfolding has_row_iff by metis
  also have "fmt_ts ext now < fmt_ts ext ?e \<longleftrightarrow> now div 1000 < t div 1000 + 300000"
    unfolding ms [symmetric] not_le [symmetric] using timestamps_le [OF assms(1,6,7)] by simp
  finally show ?thesis unfolding consent_rotate_ok_iff [OF r(1) assms(8)] .
qed

lemma consent_nonce_window_witness:
  "\<exists>db'. consent_create demo_ext (fmt_ts demo_ext) 0 ''n1'' ''req1'' empty_db = (Inr ''n1'', db') \<and>
     is_ok (fst (consent_rotate demo_ext (fmt_ts demo_ext) 299999000 ''n2'' ''req1'' ''n1'' db')) \<and>
     \<not> is_ok (fst (consent_rotate demo_ext (fmt_ts demo_ext) 300000000 ''n2'' ''req1'' ''n1'' db'))"
proof -
  obtain db' where db': "consent_create demo_ext (fmt_ts demo_ext) 0 ''n1'' ''req1'' empty_db = (Inr ''n1'', db')"
    "cs_state ` set (consent_states db') = {''n1''}"
    by (simp add: consent_create_def Let_def empty_db_def consent_keys_def)
  have "is_ok (fst (consent_rotate demo_ext (fmt_ts demo_ext) now ''n2'' ''req1'' ''n1'' db')) =
      (''n1'' = ''n1'' \<and> now div 1000 < 0 div 1000 + 300000)" if "ts_in_range demo_ext now" for now
    using that db'
    by (intro consent_nonce_window [OF demo_timestamps _ wf_empty_db, where fresh = "''n1''"])
      (auto simp: demo_ext_def)
  from this [of 299999000] this [of 300000000] db'(1) show ?thesis by (auto simp: demo_ext_def)
qed

end
