(* ===== verification/Rust_Text.thy ===== *)
theory Rust_Text
  imports Prelude
begin

text \<open>
  The parts of Rust's \<open>str\<close> that need UTF-8: white space, validity of bytes, character
  boundaries, and splitting a string once. Strings are lists of bytes (theory Prelude).
\<close>

section \<open>White space\<close>

text \<open>The UTF-8 encodings of the characters with the Unicode property White\_Space.\<close>

definition white_space :: "string list" where
  "white_space =
     [[CHR 0x09], [CHR 0x0A], [CHR 0x0B], [CHR 0x0C], [CHR 0x0D], [CHR 0x20],
      [CHR 0xC2, CHR 0x85], [CHR 0xC2, CHR 0xA0], [CHR 0xE1, CHR 0x9A, CHR 0x80],
      [CHR 0xE2, CHR 0x80, CHR 0x80], [CHR 0xE2, CHR 0x80, CHR 0x81],
      [CHR 0xE2, CHR 0x80, CHR 0x82], [CHR 0xE2, CHR 0x80, CHR 0x83],
      [CHR 0xE2, CHR 0x80, CHR 0x84], [CHR 0xE2, CHR 0x80, CHR 0x85],
      [CHR 0xE2, CHR 0x80, CHR 0x86], [CHR 0xE2, CHR 0x80, CHR 0x87],
      [CHR 0xE2, CHR 0x80, CHR 0x88], [CHR 0xE2, CHR 0x80, CHR 0x89],
      [CHR 0xE2, CHR 0x80, CHR 0x8A], [CHR 0xE2, CHR 0x80, CHR 0xA8],
      [CHR 0xE2, CHR 0x80, CHR 0xA9], [CHR 0xE2, CHR 0x80, CHR 0xAF],
      [CHR 0xE2, CHR 0x81, CHR 0x9F], [CHR 0xE3, CHR 0x80, CHR 0x80]]"

lemma white_space_nonempty: "[] \<notin> set white_space"
  by (simp add: white_space_def)

definition ws_at :: "string \<Rightarrow> string option" where
  "ws_at s = find (starts_with s) white_space"

lemma ws_at_Some: "ws_at s = Some w \<Longrightarrow> w \<noteq> [] \<and> starts_with s w"
  using white_space_nonempty by (auto simp: ws_at_def dest!: find_Some_set)

lemma ws_at_shorter: "ws_at s = Some w \<Longrightarrow> length (drop (length w) s) < length s"
  by (auto dest!: ws_at_Some simp: starts_with_iff)

text \<open>\<open>str::split_whitespace\<close>; \<open>acc\<close> is the word being read.\<close>

function split_whitespace :: "string \<Rightarrow> string \<Rightarrow> string list" where
  "split_whitespace acc s =
     (case s of
        [] \<Rightarrow> if acc = [] then [] else [acc]
      | c # cs \<Rightarrow>
          (case ws_at s of
             None \<Rightarrow> split_whitespace (acc @ [c]) cs
           | Some w \<Rightarrow> (if acc = [] then [] else [acc]) @ split_whitespace [] (drop (length w) s)))"
  by pat_completeness auto
termination
  by (relation "measure (\<lambda>(acc, s). length s)") (auto dest: ws_at_shorter)

declare split_whitespace.simps [simp del]

function trim_start :: "string \<Rightarrow> string" where
  "trim_start s = (case ws_at s of None \<Rightarrow> s | Some w \<Rightarrow> trim_start (drop (length w) s))"
  by pat_completeness auto
termination
  by (relation "measure length") (auto dest: ws_at_shorter)

declare trim_start.simps [simp del]

function trim_end :: "string \<Rightarrow> string" where
  "trim_end s = (case find (ends_with s) white_space of
     None \<Rightarrow> s | Some w \<Rightarrow> trim_end (take (length s - length w) s))"
  by pat_completeness auto
termination
proof (relation "measure length")
  fix s w
  assume "find (ends_with s) white_space = Some w"
  then have "w \<in> set white_space" "ends_with s w" by (auto dest: find_Some_set)
  with white_space_nonempty have "w \<noteq> []" "length w \<le> length s" by (auto simp: ends_with_def)
  then show "(take (length s - length w) s, s) \<in> measure length" by (cases w) auto
qed simp

declare trim_end.simps [simp del]

definition trim :: "string \<Rightarrow> string" where
  "trim s = trim_end (trim_start s)"

lemma split_whitespace_word:
  assumes "\<forall>c \<in> set w. \<forall>x \<in> set white_space. c \<noteq> hd x"
  shows "split_whitespace acc (w @ s) = split_whitespace (acc @ w) s"
  using assms
proof (induction w arbitrary: acc)
  case (Cons c w)
  have "ws_at (c # w @ s) = None"
    using Cons.prems white_space_nonempty
    by (auto simp: ws_at_def find_None_iff starts_with_iff) (metis hd_append2 list.sel(1))
  then have "split_whitespace acc (c # w @ s) = split_whitespace (acc @ [c]) (w @ s)"
    by (subst split_whitespace.simps) simp
  with Cons show ?case by simp
qed simp

section \<open>Bytes and characters\<close>

definition byte :: "char \<Rightarrow> nat" where
  "byte c = of_char c"

definition continuation :: "nat \<Rightarrow> bool" where
  "continuation b = (128 \<le> b \<and> b < 192)"

definition is_char_boundary :: "string \<Rightarrow> nat \<Rightarrow> bool" where
  "is_char_boundary s n = (n = length s \<or> n < length s \<and> \<not> continuation (byte (s ! n)))"

text \<open>\<open>str::from_utf8\<close> accepts exactly the well-formed sequences (no overlong forms, no surrogates).\<close>

fun valid_utf8 :: "nat list \<Rightarrow> bool" where
  "valid_utf8 [] = True"
| "valid_utf8 (a # s) =
     (if a < 128 then valid_utf8 s
      else (case s of
        b # s2 \<Rightarrow>
          if 194 \<le> a \<and> a < 224 \<and> continuation b then valid_utf8 s2
          else (case s2 of
            c # s3 \<Rightarrow>
              if 224 \<le> a \<and> a < 240 \<and> continuation b \<and> continuation c \<and>
                 (a = 224 \<longrightarrow> 160 \<le> b) \<and> (a = 237 \<longrightarrow> b < 160) then valid_utf8 s3
              else (case s3 of
                d # s4 \<Rightarrow> 240 \<le> a \<and> a < 245 \<and> continuation b \<and> continuation c \<and> continuation d \<and>
                  (a = 240 \<longrightarrow> 144 \<le> b) \<and> (a = 244 \<longrightarrow> b < 144) \<and> valid_utf8 s4
              | [] \<Rightarrow> False)
          | [] \<Rightarrow> False)
      | [] \<Rightarrow> False))"

lemma valid_utf8_ascii: "\<forall>a \<in> set s. a < 128 \<Longrightarrow> valid_utf8 s"
  by (induction s) auto

text \<open>\<open>str::split_once\<close> on one character.\<close>

fun split_once :: "char \<Rightarrow> string \<Rightarrow> (string \<times> string) option" where
  "split_once d [] = None"
| "split_once d (c # cs) = (if c = d then Some ([], cs) else map_option (\<lambda>(a, b). (c # a, b)) (split_once d cs))"

lemma split_once_append: "d \<notin> set a \<Longrightarrow> split_once d (a @ d # b) = Some (a, b)"
  by (induction a) auto

lemma split_once_Some: "split_once d s = Some (a, b) \<longleftrightarrow> s = a @ d # b \<and> d \<notin> set a"
proof
  show "split_once d s = Some (a, b) \<Longrightarrow> s = a @ d # b \<and> d \<notin> set a"
    by (induction s arbitrary: a) (auto split: if_splits)
qed (auto simp: split_once_append)

definition strip_prefix :: "string \<Rightarrow> string \<Rightarrow> string option" where
  "strip_prefix p s = (if starts_with s p then Some (drop (length p) s) else None)"

definition strip_suffix :: "string \<Rightarrow> string \<Rightarrow> string option" where
  "strip_suffix p s = (if ends_with s p then Some (take (length s - length p) s) else None)"

definition eq_ignore_ascii_case :: "string \<Rightarrow> string \<Rightarrow> bool" where
  "eq_ignore_ascii_case a b = (ascii_lower a = ascii_lower b)"

end
