(* ===== verification/Auth_Verifier.thy ===== *)
theory Auth_Verifier
  imports Account_Sessions Rust_Text
begin

text \<open>
  Who a request comes from (\<open>cacos-pds-account/src/auth/verifier/\<close>): reading the Authorization
  header, verifying access, refresh, DPoP-bound, service and admin credentials, the checks of
  the account's status, and the admin tokens of the environment
  (\<open>account/helpers/admin_tokens.rs\<close>). Header values are strings of bytes. The OAuth provider
  of rsky-oauth, base64, JSON, SHA-256 and the resolver of signing keys are parameters; the
  provider may change the database (it consumes DPoP proofs).
\<close>

section \<open>Admin tokens\<close>

datatype admin_scope = InviteAdmin | AccountAdmin | TakedownAdmin | Wildcard

fun admin_scope_as_str :: "admin_scope \<Rightarrow> string" where
  "admin_scope_as_str InviteAdmin = ''InviteAdmin''"
| "admin_scope_as_str AccountAdmin = ''AccountAdmin''"
| "admin_scope_as_str TakedownAdmin = ''TakedownAdmin''"
| "admin_scope_as_str Wildcard = ''Wildcard''"

type_synonym admin_scope_set = "admin_scope list"

definition wildcard :: admin_scope_set where
  "wildcard = [Wildcard]"

definition scope_of_token :: "string \<Rightarrow> admin_scope option" where
  "scope_of_token token =
     (let trimmed = trim token in
      if trimmed = [] then None
      else let t = ascii_lower trimmed in
        if t = ''inviteadmin'' then Some InviteAdmin
        else if t = ''accountadmin'' then Some AccountAdmin
        else if t = ''takedownadmin'' then Some TakedownAdmin
        else if t = ''wildcard'' \<or> t = ''*'' then Some Wildcard
        else None)"

definition from_env_value :: "string \<Rightarrow> admin_scope_set" where
  "from_env_value raw = List.map_filter scope_of_token (split_on (CHR '','') raw)"

definition scopes_contain :: "admin_scope_set \<Rightarrow> admin_scope \<Rightarrow> bool" where
  "scopes_contain scopes scope = list_ex (\<lambda>s. s = scope \<or> s = Wildcard) scopes"

record admin_token_entry =
  te_name :: string
  te_scopes :: admin_scope_set
  te_secret :: string

type_synonym admin_token_registry = "admin_token_entry list"

text \<open>The environment as the list of its variables, in the order of \<open>env::vars\<close>.\<close>

type_synonym environment = "(string \<times> string) list"

definition env_var :: "environment \<Rightarrow> string \<Rightarrow> string option" where
  "env_var env key = map_of env key"

definition nonempty_var :: "environment \<Rightarrow> string \<Rightarrow> string option" where
  "nonempty_var env key = (case env_var env key of Some s \<Rightarrow> if s = [] then None else Some s | None \<Rightarrow> None)"

definition token_name :: "string \<Rightarrow> string option" where
  "token_name key =
     (case strip_prefix ''PDS_ADMIN_TOKEN_'' key of None \<Rightarrow> None
      | Some suffix \<Rightarrow> strip_suffix ''_SECRET'' suffix)"

fun named_entries :: "environment \<Rightarrow> string list \<Rightarrow> string list \<Rightarrow> admin_token_entry list" where
  "named_entries env seen [] = []"
| "named_entries env seen (key # keys) =
     (case token_name key of
        None \<Rightarrow> named_entries env seen keys
      | Some name \<Rightarrow>
          if name = [] \<or> name \<in> set seen then named_entries env seen keys
          else (case nonempty_var env key of
             None \<Rightarrow> named_entries env (name # seen) keys
           | Some secret \<Rightarrow>
               \<lparr>te_name = (case nonempty_var env (''PDS_ADMIN_TOKEN_'' @ name @ ''_NAME'') of
                  Some d \<Rightarrow> d | None \<Rightarrow> name),
                te_scopes = (case nonempty_var env (''PDS_ADMIN_TOKEN_'' @ name @ ''_SCOPES'') of
                  Some raw \<Rightarrow> from_env_value raw | None \<Rightarrow> wildcard),
                te_secret = secret\<rparr> # named_entries env (name # seen) keys))"

definition admin_password_from_env :: "environment \<Rightarrow> string option" where
  "admin_password_from_env env =
     (case env_var env ''PDS_ADMIN_PASSWORD'' of Some p \<Rightarrow> Some p | None \<Rightarrow> env_var env ''PDS_ADMIN_PASS'')"

definition registry_from_env :: "environment \<Rightarrow> admin_token_registry" where
  "registry_from_env env =
     (let entries = named_entries env [] (map fst env) in
      if entries \<noteq> [] then entries
      else (case admin_password_from_env env of
         Some secret \<Rightarrow> if secret = [] then []
           else [\<lparr>te_name = ''admin'', te_scopes = wildcard, te_secret = secret\<rparr>]
       | None \<Rightarrow> []))"

definition registry_lookup :: "admin_token_registry \<Rightarrow> string \<Rightarrow> string \<Rightarrow> admin_scope_set option" where
  "registry_lookup registry name presented_secret =
     map_option te_scopes (find (\<lambda>e. te_name e = name \<and> te_secret e = presented_secret) registry)"

definition cached_admin_token_registry ::
  "environment \<Rightarrow> admin_token_registry option \<Rightarrow> admin_token_registry \<times> admin_token_registry option" where
  "cached_admin_token_registry env slot =
     (case slot of Some r \<Rightarrow> (r, slot) | None \<Rightarrow> (registry_from_env env, Some (registry_from_env env)))"

definition reset_admin_token_registry :: "admin_token_registry option \<Rightarrow> admin_token_registry option" where
  "reset_admin_token_registry slot = None"

section \<open>Credentials\<close>

record credentials =
  cr_type :: string
  cr_did :: "string option"
  cr_scope :: "auth_scope option"
  cr_audience :: "string option"
  cr_token_id :: "string option"
  cr_aud :: "string option"
  cr_iss :: "string option"
  cr_is_privileged :: "bool option"
  cr_admin_scopes :: "admin_scope_set option"

record access_output =
  ao_credentials :: "credentials option"
  ao_artifacts :: "string option"

record jwt_payload =
  jp_scope :: auth_scope
  jp_sub :: "string option"
  jp_aud :: "audiences option"
  jp_exp :: "int option"
  jp_iat :: "int option"
  jp_jti :: "string option"

record validated_bearer =
  vb_did :: string
  vb_scope :: auth_scope
  vb_token :: string
  vb_payload :: jwt_payload
  vb_audience :: "string option"

record validate_access_token_opts =
  check_takedown :: "bool option"
  check_deactivated :: "bool option"

record basic_auth =
  ba_username :: string
  ba_password :: string

datatype service_jwt_error =
    JwtExpired | WrongAudience | UntrustedIssuer | SignatureUnverifiable string | SignatureMismatch
  | PoorlyFormatted | UndecodableSegment | KeyResolution string

text \<open>The errors that reach \<open>AuthError\<close> through \<open>anyhow\<close>; \<open>Unwrapped\<close> is a panic.\<close>

datatype auth_cause =
    JwtFailure jwt_error | ClaimFailure account_error | ServiceFailure service_jwt_error
  | Message string | Unwrapped string

datatype auth_error =
    ExpiredToken
  | BadJwt auth_cause
  | BadJwtAudience string
  | UntrustedIss string
  | AuthRequired string
  | AccountNotFound string
  | AccountTakedown string
  | AccountDeactivated string
  | InternalServerError string
  | AuthPanic string

section \<open>Headers\<close>

definition BEARER :: string where "BEARER = ''Bearer ''"
definition BASIC :: string where "BASIC = ''Basic ''"
definition DPOP :: string where "DPOP = ''DPoP ''"

definition is_bearer_token :: "string option \<Rightarrow> bool" where
  "is_bearer_token auth_header = (case auth_header of None \<Rightarrow> False | Some h \<Rightarrow> starts_with h BEARER)"

definition is_basic_token :: "string option \<Rightarrow> bool" where
  "is_basic_token auth_header = (case auth_header of None \<Rightarrow> False | Some h \<Rightarrow> starts_with h BASIC)"

definition bearer_token_from_req :: "string option \<Rightarrow> string option" where
  "bearer_token_from_req auth_header =
     (case auth_header of
        None \<Rightarrow> None
      | Some h \<Rightarrow> if starts_with h BEARER then Some (drop (length BEARER) h) else None)"

text \<open>The slice of the first five bytes panics inside a character.\<close>

definition dpop_token_from_req :: "string option \<Rightarrow> auth_error + string option" where
  "dpop_token_from_req auth_header =
     (case auth_header of
        None \<Rightarrow> Inr None
      | Some h \<Rightarrow>
          if length DPOP < length h then
            if \<not> is_char_boundary h (length DPOP) then Inl (AuthPanic ''byte index is not a char boundary'')
            else if eq_ignore_ascii_case (take (length DPOP) h) DPOP then Inr (Some (drop (length DPOP) h))
            else Inr None
          else Inr None)"

definition parse_basic_auth :: "(string \<Rightarrow> string option) \<Rightarrow> string \<Rightarrow> basic_auth option" where
  "parse_basic_auth base64_decode token =
     (case split_whitespace [] token of
        [scheme, b64] \<Rightarrow>
          if scheme \<noteq> ''Basic'' then None
          else (case base64_decode b64 of
             None \<Rightarrow> None
           | Some decoded \<Rightarrow>
               if \<not> valid_utf8 (map byte decoded) then None
               else (case split_once (CHR '':'') decoded of
                  None \<Rightarrow> None
                | Some (username, password) \<Rightarrow> Some \<lparr>ba_username = username, ba_password = password\<rparr>))
      | _ \<Rightarrow> None)"

section \<open>Account status\<close>

text \<open>The account as (deactivatedAt, takedownRef).\<close>

definition check_account_status ::
  "(string option \<times> string option) option \<Rightarrow> bool \<Rightarrow> bool \<Rightarrow> auth_error + unit" where
  "check_account_status account takedown deactivated =
     (if \<not> takedown \<and> \<not> deactivated then Inr ()
      else (case account of
         None \<Rightarrow> Inl (AccountNotFound ''Account not found'')
       | Some (deactivated_at, takedown_ref) \<Rightarrow>
           if takedown \<and> takedown_ref \<noteq> None then Inl (AccountTakedown ''Account has been taken down'')
           else if deactivated \<and> deactivated_at \<noteq> None then Inl (AccountDeactivated ''Account is deactivated'')
           else Inr ()))"

definition is_user_or_admin :: "access_output \<Rightarrow> string \<Rightarrow> bool" where
  "is_user_or_admin auth did =
     (case ao_credentials auth of
        Some c \<Rightarrow> cr_type c = ''admin_token'' \<or> cr_did c = Some did
      | None \<Rightarrow> False)"

section \<open>Session tokens\<close>

definition verify_jwt :: "ext \<Rightarrow> int \<Rightarrow> string \<Rightarrow> verification_options option \<Rightarrow> auth_cause + jwt_payload" where
  "verify_jwt ext now jwt opts =
     (case jwt_verify ext now opts jwt of
        Inl e \<Rightarrow> Inl (JwtFailure e)
      | Inr claims \<Rightarrow>
          (case scope_from_str (cl_scope claims) of
             Inl e \<Rightarrow> Inl (ClaimFailure e)
           | Inr scope \<Rightarrow> Inr \<lparr>jp_scope = scope, jp_sub = cl_subject claims, jp_aud = cl_audiences claims,
               jp_exp = cl_expires_at claims, jp_iat = cl_issued_at claims, jp_jti = cl_jwt_id claims\<rparr>))"

definition is_expired_jwt :: "auth_cause \<Rightarrow> bool" where
  "is_expired_jwt e = (e = JwtFailure TokenHasExpired)"

definition validate_bearer_token ::
  "ext \<Rightarrow> int \<Rightarrow> string \<Rightarrow> auth_scope list \<Rightarrow> verification_options option \<Rightarrow> auth_cause + validated_bearer" where
  "validate_bearer_token ext now token scopes opts =
     (case verify_jwt ext now token opts of
        Inl e \<Rightarrow> Inl e
      | Inr payload \<Rightarrow>
          (case (jp_sub payload, jp_aud payload) of
             (Some sub, Some aud) \<Rightarrow>
               if \<not> starts_with sub ''did:'' then Inl (Message ''Malformed token'')
               else (case aud of
                  AsString aud \<Rightarrow>
                    if \<not> starts_with aud ''did:'' then Inl (Message ''Malformed token'')
                    else if scopes \<noteq> [] \<and> jp_scope payload \<notin> set scopes then Inl (Message ''Bad token scope'')
                    else Inr \<lparr>vb_did = sub, vb_scope = jp_scope payload, vb_token = token,
                      vb_payload = payload, vb_audience = Some aud\<rparr>
                | AsSet _ \<Rightarrow> Inl (Message ''Malformed token''))
           | _ \<Rightarrow> Inl (Unwrapped ''called Option::unwrap() on a None value'')))"

text \<open>How the validators turn a failure into an \<open>AuthError\<close>.\<close>

definition bearer_failure :: "auth_cause \<Rightarrow> auth_error" where
  "bearer_failure e =
     (case e of Unwrapped m \<Rightarrow> AuthPanic m
      | _ \<Rightarrow> if is_expired_jwt e then ExpiredToken else BadJwt e)"

definition audience_opts :: "string \<Rightarrow> verification_options" where
  "audience_opts service_did = \<lparr>vo_allowed_audiences = Some [service_did], vo_max_validity = None\<rparr>"

definition access_credentials :: "string \<Rightarrow> auth_scope \<Rightarrow> string option \<Rightarrow> bool option \<Rightarrow> credentials" where
  "access_credentials did scope audience privileged =
     \<lparr>cr_type = ''access'', cr_did = Some did, cr_scope = Some scope, cr_audience = audience,
      cr_token_id = None, cr_aud = None, cr_iss = None, cr_is_privileged = privileged,
      cr_admin_scopes = None\<rparr>"

definition validate_bearer_access_token ::
  "ext \<Rightarrow> int \<Rightarrow> string option \<Rightarrow> auth_scope list \<Rightarrow> string \<Rightarrow> auth_cause + access_output" where
  "validate_bearer_access_token ext now auth_header scopes service_did =
     (case validate_bearer_token ext now
             (case bearer_token_from_req auth_header of Some t \<Rightarrow> t | None \<Rightarrow> []) scopes
             (Some (audience_opts service_did)) of
        Inl e \<Rightarrow> Inl e
      | Inr b \<Rightarrow> Inr \<lparr>ao_credentials = Some (access_credentials (vb_did b) (vb_scope b) (vb_audience b)
            (Some (vb_scope b \<in> {Access, AppPassPrivileged}))), ao_artifacts = Some (vb_token b)\<rparr>)"

text \<open>\<open>INFINITY\<close> is the largest \<open>u64\<close>.\<close>

definition INFINITY :: nat where
  "INFINITY = 2 ^ 64 - 1"

definition validate_refresh_token ::
  "ext \<Rightarrow> int \<Rightarrow> string \<Rightarrow> string option \<Rightarrow> auth_error + validated_bearer" where
  "validate_refresh_token ext now service_did auth_header =
     (case bearer_token_from_req auth_header of
        None \<Rightarrow> Inl (AuthRequired ''AuthMissing'')
      | Some token \<Rightarrow>
          (case validate_bearer_token ext now token [Refresh]
             (Some \<lparr>vo_allowed_audiences = Some [service_did], vo_max_validity = Some INFINITY\<rparr>) of
             Inr bearer \<Rightarrow> Inr bearer
           | Inl e \<Rightarrow> Inl (bearer_failure e)))"

section \<open>Dependencies and OAuth access tokens\<close>

record dpop_context =
  dc_method :: string
  dc_uri :: string
  dc_dpop_headers :: "string list"

record verified_access =
  va_did :: string
  va_scopes :: "string list"
  va_token_id :: string

text \<open>
  What bootstrap registers. The provider gets the token, the request and the time, and answers
  with the verified token or the description of its error; the account manager's state is
  the database, so only its registration is kept.
\<close>

type_synonym oauth_provider =
  "string \<Rightarrow> dpop_context \<Rightarrow> 64 word \<Rightarrow> account_db \<Rightarrow> (string + verified_access) \<times> account_db"

type_synonym key_resolver = "string \<Rightarrow> bool \<Rightarrow> string + string"

record auth_registry =
  OAUTH_PROVIDER :: "oauth_provider option"
  ACCOUNT_MANAGER :: bool
  SIGNING_KEY_RESOLVER :: "key_resolver option"
  SERVICE_DID :: "string option"

definition register_auth_dependencies :: "oauth_provider option \<Rightarrow> auth_registry \<Rightarrow> auth_registry" where
  "register_auth_dependencies provider reg =
     (case provider of Some p \<Rightarrow> reg\<lparr>OAUTH_PROVIDER := Some p, ACCOUNT_MANAGER := True\<rparr>
      | None \<Rightarrow> reg\<lparr>ACCOUNT_MANAGER := True\<rparr>)"

text \<open>\<open>OnceLock::set\<close> keeps the first value.\<close>

definition register_service_did :: "string \<Rightarrow> auth_registry \<Rightarrow> auth_registry" where
  "register_service_did did reg =
     (if SERVICE_DID reg = None then reg\<lparr>SERVICE_DID := Some did\<rparr> else reg)"

definition service_did_from_registry :: "auth_registry \<Rightarrow> string" where
  "service_did_from_registry reg = (case SERVICE_DID reg of Some d \<Rightarrow> d | None \<Rightarrow> [])"

definition register_signing_key_resolver :: "key_resolver \<Rightarrow> auth_registry \<Rightarrow> bool \<times> auth_registry" where
  "register_signing_key_resolver resolver reg =
     (if SIGNING_KEY_RESOLVER reg = None then (True, reg\<lparr>SIGNING_KEY_RESOLVER := Some resolver\<rparr>)
      else (False, reg))"

definition verifier_now_secs :: "int \<Rightarrow> 64 word" where
  "verifier_now_secs now = word_of_int (now div 1000000)"

definition oauth_scopes_to_auth_scope :: "string list \<Rightarrow> auth_cause + auth_scope" where
  "oauth_scopes_to_auth_scope scopes =
     (if ''atproto'' \<notin> set scopes then Inl (Message ''Bad token scope'')
      else if ''transition:chat.bsky'' \<in> set scopes then Inr AppPassPrivileged
      else if ''transition:generic'' \<in> set scopes then Inr AppPass
      else Inl (Message ''Bad token scope''))"

definition fetch_account_status ::
  "auth_registry \<Rightarrow> string \<Rightarrow> account_db \<Rightarrow> auth_error + (string option \<times> string option) option" where
  "fetch_account_status reg did db =
     (if \<not> ACCOUNT_MANAGER reg then Inl (InternalServerError ''AccountManager is not registered'')
      else (case get_account did (Some \<lparr>include_taken_down = Some True, include_deactivated = Some True\<rparr>) db of
         Some found \<Rightarrow> Inr (Some (aa_deactivated_at found, aa_takedown_ref found))
       | None \<Rightarrow> Inl (AccountNotFound ''Account not found'')))"

text \<open>The end both access-token validators share: which checks are asked for, and their outcome.\<close>

definition check_access_opts ::
  "auth_registry \<Rightarrow> validate_access_token_opts option \<Rightarrow> string \<Rightarrow> account_db \<Rightarrow> auth_error + unit" where
  "check_access_opts reg opts did db =
     (let o' = (case opts of Some x \<Rightarrow> x | None \<Rightarrow> \<lparr>check_takedown = Some False, check_deactivated = Some False\<rparr>);
          takedown = (check_takedown o' = Some True);
          deactivated = (check_deactivated o' = Some True)
      in case (if takedown \<or> deactivated then fetch_account_status reg did db else Inr None) of
           Inl e \<Rightarrow> Inl e
         | Inr status \<Rightarrow> check_account_status status takedown deactivated)"

definition validate_dpop_access_token ::
  "auth_registry \<Rightarrow> dpop_context option \<Rightarrow> int \<Rightarrow> string \<Rightarrow> auth_scope list \<Rightarrow>
   validate_access_token_opts option \<Rightarrow> account_db \<Rightarrow> (auth_error + access_output) \<times> account_db" where
  "validate_dpop_access_token reg ctx now token scopes opts db =
     (case OAUTH_PROVIDER reg of
        None \<Rightarrow> (Inl (InternalServerError ''OAuth provider is not configured''), db)
      | Some provider \<Rightarrow>
          (case ctx of
             None \<Rightarrow> (Inl (BadJwt (Message ''DPoP-bound access tokens require request context (set_dpop_request_context)'')), db)
           | Some c \<Rightarrow>
               (case provider token c (verifier_now_secs now) db of
                  (Inl description, db) \<Rightarrow> (Inl (BadJwt (Message description)), db)
                | (Inr verified, db) \<Rightarrow>
                    (case oauth_scopes_to_auth_scope (va_scopes verified) of
                       Inl e \<Rightarrow> (Inl (BadJwt e), db)
                     | Inr scope \<Rightarrow>
                         if scopes \<noteq> [] \<and> scope \<notin> set scopes then (Inl (BadJwt (Message ''Bad token scope'')), db)
                         else (case check_access_opts reg opts (va_did verified) db of
                            Inl e \<Rightarrow> (Inl e, db)
                          | Inr _ \<Rightarrow> (Inr \<lparr>ao_credentials = Some
                              \<lparr>cr_type = ''oauth'', cr_did = Some (va_did verified), cr_scope = Some scope,
                               cr_audience = Some (service_did_from_registry reg),
                               cr_token_id = Some (va_token_id verified), cr_aud = None, cr_iss = None,
                               cr_is_privileged = None, cr_admin_scopes = None\<rparr>,
                              ao_artifacts = Some token\<rparr>, db))))))"

definition validate_access_token ::
  "ext \<Rightarrow> auth_registry \<Rightarrow> dpop_context option \<Rightarrow> int \<Rightarrow> string option \<Rightarrow> auth_scope list \<Rightarrow>
   validate_access_token_opts option \<Rightarrow> account_db \<Rightarrow> (auth_error + access_output) \<times> account_db" where
  "validate_access_token ext reg ctx now auth_header scopes opts db =
     (case dpop_token_from_req auth_header of
        Inl e \<Rightarrow> (Inl e, db)
      | Inr (Some token) \<Rightarrow> validate_dpop_access_token reg ctx now token scopes opts db
      | Inr None \<Rightarrow>
          (case bearer_token_from_req auth_header of
             None \<Rightarrow> (Inl (AuthRequired ''AuthMissing''), db)
           | Some token \<Rightarrow>
               (case validate_bearer_token ext now token scopes
                       (Some (audience_opts (service_did_from_registry reg))) of
                  Inl e \<Rightarrow> (Inl (bearer_failure e), db)
                | Inr b \<Rightarrow>
                    (case check_access_opts reg opts (vb_did b) db of
                       Inl e \<Rightarrow> (Inl e, db)
                     | Inr _ \<Rightarrow> (Inr \<lparr>ao_credentials = Some (access_credentials (vb_did b) (vb_scope b) (vb_audience b) None),
                                   ao_artifacts = Some (vb_token b)\<rparr>, db)))))"

section \<open>Admin tokens of a request\<close>

definition verify_admin_token ::
  "(string \<Rightarrow> string option) \<Rightarrow> environment \<Rightarrow> string option \<Rightarrow> auth_error + access_output" where
  "verify_admin_token base64_decode env auth_header =
     (case parse_basic_auth base64_decode (case auth_header of Some h \<Rightarrow> h | None \<Rightarrow> []) of
        None \<Rightarrow> Inl (AuthRequired ''AuthMissing'')
      | Some parsed \<Rightarrow>
          (case registry_lookup (registry_from_env env) (ba_username parsed) (ba_password parsed) of
             None \<Rightarrow> Inl (AuthRequired ''BadAuth'')
           | Some scopes \<Rightarrow> Inr \<lparr>ao_credentials = Some
               \<lparr>cr_type = ''admin_token'', cr_did = None, cr_scope = None, cr_audience = None,
                cr_token_id = None, cr_aud = None, cr_iss = None, cr_is_privileged = None,
                cr_admin_scopes = Some scopes\<rparr>, ao_artifacts = None\<rparr>))"

section \<open>Service tokens\<close>

record service_crypto =
  base64url_decode :: "string \<Rightarrow> string option"
  payload_from_json :: "string \<Rightarrow> (string \<times> string \<times> 64 word) option" \<comment> \<open>iss, aud, exp\<close>
  sha256 :: "string \<Rightarrow> string"
  verify_signature_digest :: "string \<Rightarrow> string \<Rightarrow> string \<Rightarrow> string + bool" \<comment> \<open>key, digest, signature\<close>

record service_jwt_opts =
  so_aud :: "string option"
  so_iss :: "string list option"

text \<open>Resolution with the trust check in front of it.\<close>

definition trusted_signing_key ::
  "service_jwt_opts \<Rightarrow> key_resolver \<Rightarrow> string \<Rightarrow> bool \<Rightarrow> service_jwt_error + string" where
  "trusted_signing_key opts resolver iss force_refresh =
     (if (case so_iss opts of Some isss \<Rightarrow> iss \<notin> set isss | None \<Rightarrow> False) then Inl UntrustedIssuer
      else map_sum KeyResolution id (resolver iss force_refresh))"

definition check_signature ::
  "service_crypto \<Rightarrow> (string \<Rightarrow> bool \<Rightarrow> service_jwt_error + string) \<Rightarrow> string \<Rightarrow> string \<Rightarrow> string \<Rightarrow>
   service_jwt_error + bool" where
  "check_signature sv get_key iss digest sig_bytes =
     (case get_key iss False of
        Inl e \<Rightarrow> Inl e
      | Inr signing_key \<Rightarrow>
          (case verify_signature_digest sv signing_key digest sig_bytes of
             Inl e \<Rightarrow> Inl (SignatureUnverifiable e)
           | Inr True \<Rightarrow> Inr True
           | Inr False \<Rightarrow>
               (case get_key iss True of
                  Inl e \<Rightarrow> Inl e
                | Inr fresh_signing_key \<Rightarrow>
                    if fresh_signing_key \<noteq> signing_key
                    then map_sum SignatureUnverifiable id
                           (verify_signature_digest sv fresh_signing_key digest sig_bytes)
                    else Inr False)))"

text \<open>The result is the issuer, the audience and the expiry.\<close>

definition verify_service_jwt_token ::
  "service_crypto \<Rightarrow> int \<Rightarrow> string \<Rightarrow> string option \<Rightarrow> (string \<Rightarrow> bool \<Rightarrow> service_jwt_error + string) \<Rightarrow>
   service_jwt_error + string \<times> string \<times> 64 word" where
  "verify_service_jwt_token sv now jwt_str own_did get_key =
     (case split_on (CHR ''.'') jwt_str of
        [p0, p1, sig] \<Rightarrow>
          (case Option.bind (base64url_decode sv p1) (payload_from_json sv) of
             None \<Rightarrow> Inl UndecodableSegment
           | Some (iss, aud, exp) \<Rightarrow>
               if verifier_now_secs now > exp then Inl JwtExpired
               else if (case own_did of Some did \<Rightarrow> aud \<noteq> did | None \<Rightarrow> False) then Inl WrongAudience
               else (case base64url_decode sv sig of
                  None \<Rightarrow> Inl UndecodableSegment
                | Some sig_bytes \<Rightarrow>
                    (case check_signature sv get_key iss (sha256 sv (p0 @ ''.'' @ p1)) sig_bytes of
                       Inl e \<Rightarrow> Inl e
                     | Inr valid \<Rightarrow> if valid then Inr (iss, aud, exp) else Inl SignatureMismatch)))
      | _ \<Rightarrow> Inl PoorlyFormatted)"

definition verify_service_jwt ::
  "service_crypto \<Rightarrow> int \<Rightarrow> string \<Rightarrow> service_jwt_opts \<Rightarrow> key_resolver \<Rightarrow> service_jwt_error + string \<times> string" where
  "verify_service_jwt sv now jwt opts resolver =
     map_sum id (\<lambda>(iss, aud, _). (iss, aud))
       (verify_service_jwt_token sv now jwt (so_aud opts) (trusted_signing_key opts resolver))"

definition verify_user_did_token ::
  "service_crypto \<Rightarrow> auth_registry \<Rightarrow> int \<Rightarrow> string option \<Rightarrow> auth_error + access_output" where
  "verify_user_did_token sv reg now auth_header =
     (case bearer_token_from_req auth_header of
        None \<Rightarrow> Inl (AuthRequired ''AuthMissing'')
      | Some token \<Rightarrow>
          (case SIGNING_KEY_RESOLVER reg of
             None \<Rightarrow> Inl (InternalServerError ''signing key resolver is not registered'')
           | Some resolver \<Rightarrow>
               (case verify_service_jwt sv now token
                       \<lparr>so_aud = Some (service_did_from_registry reg), so_iss = None\<rparr> resolver of
                  Inl e \<Rightarrow> Inl (BadJwt (ServiceFailure e))
                | Inr (iss, aud) \<Rightarrow> Inr \<lparr>ao_credentials = Some
                    \<lparr>cr_type = ''user_did'', cr_did = None, cr_scope = None, cr_audience = None,
                     cr_token_id = None, cr_aud = Some aud, cr_iss = Some iss, cr_is_privileged = None,
                     cr_admin_scopes = None\<rparr>, ao_artifacts = None\<rparr>)))"

end
