(* ===== verification/Auth_Extractors.thy ===== *)
theory Auth_Extractors
  imports Auth_Verifier
begin

text \<open>
  What the handlers see: the errors of the XRPC interface with their status and body
  (\<open>cacos-pds-server/src/xrpc/error.rs\<close>) and the extractors that turn a request into verified
  credentials or an error (\<open>xrpc/auth_extractors.rs\<close>). Reading a header value as text is the
  http crate's and a parameter. Setting and clearing the DPoP context around a
  validation is the argument \<open>ctx\<close> of \<open>validate_access_token\<close>: nothing is awaited between
  setting and reading it.
\<close>

section \<open>Errors of the interface\<close>

datatype api_error =
    RuntimeError | InvalidLogin | AccountTakendown | InvalidRequest string | ApiExpiredToken | InvalidToken
  | RecordNotFound | ApiInvalidHandle | InvalidEmail | InvalidPassword | InvalidInviteCode
  | HandleNotAvailable | EmailNotAvailable | UnsupportedDomain | UnresolvableDid | IncompatibleDidDoc
  | WellKnownNotFound | ApiAccountNotFound | BlobNotFound | BadRequest string string
  | AuthRequiredError string | UpstreamResponse nat string string | RateLimitExceeded

record error_body =
  eb_error :: string
  eb_message :: string

definition body_of :: "string \<Rightarrow> string \<Rightarrow> error_body" where
  "body_of e m = \<lparr>eb_error = e, eb_message = m\<rparr>"

text \<open>\<open>StatusCode::from_u16\<close> accepts 100 to 999.\<close>

fun api_error_body :: "api_error \<Rightarrow> nat \<times> error_body" where
  "api_error_body RuntimeError = (500, body_of ''InternalServerError'' ''Something went wrong'')"
| "api_error_body InvalidLogin = (400, body_of ''InvalidLogin'' ''Invalid identifier or password'')"
| "api_error_body AccountTakendown = (400, body_of ''AccountTakendown'' ''Account has been taken down'')"
| "api_error_body (InvalidRequest message) = (400, body_of ''InvalidRequest'' message)"
| "api_error_body ApiExpiredToken = (400, body_of ''ExpiredToken'' ''Token is expired'')"
| "api_error_body InvalidToken = (400, body_of ''InvalidToken'' ''Token is invalid'')"
| "api_error_body ApiInvalidHandle = (400, body_of ''InvalidHandle'' ''Handle is invalid'')"
| "api_error_body InvalidEmail = (400, body_of ''InvalidEmail'' ''Invalid email'')"
| "api_error_body InvalidPassword = (400, body_of ''InvalidPassword'' ''Invalid Password'')"
| "api_error_body InvalidInviteCode = (400, body_of ''InvalidInviteCode'' ''Invalid invite code'')"
| "api_error_body HandleNotAvailable = (400, body_of ''HandleNotAvailable'' ''Handle not available'')"
| "api_error_body EmailNotAvailable = (400, body_of ''EmailNotAvailable'' ''Email not available'')"
| "api_error_body UnsupportedDomain = (400, body_of ''UnsupportedDomain'' ''Unsupported domain'')"
| "api_error_body UnresolvableDid = (400, body_of ''UnresolvableDid'' ''Unresolved Did'')"
| "api_error_body IncompatibleDidDoc = (400, body_of ''IncompatibleDidDoc'' ''IncompatibleDidDoc'')"
| "api_error_body ApiAccountNotFound = (400, body_of ''AccountNotFound'' ''Account could not be found'')"
| "api_error_body BlobNotFound = (400, body_of ''BlobNotFound'' ''Blob could not be found'')"
| "api_error_body WellKnownNotFound = (404, body_of ''WellKnownNotFound'' ''User not found'')"
| "api_error_body (BadRequest error message) = (400, body_of error message)"
| "api_error_body (AuthRequiredError message) = (401, body_of ''AuthRequiredError'' message)"
| "api_error_body (UpstreamResponse status error message) =
     (if 100 \<le> status \<and> status \<le> 999 then status else 502, body_of error message)"
| "api_error_body RateLimitExceeded = (429, body_of ''RateLimitExceeded'' ''account temporarily locked'')"
| "api_error_body RecordNotFound = (404, body_of ''RecordNotFound'' ''Record could not be found'')"

section \<open>Requests\<close>

record request =
  rq_method :: string
  rq_uri :: string
  rq_authorization :: "string option" \<comment> \<open>the first value\<close>
  rq_dpop :: "string list"

text \<open>
  \<open>hs_to_str\<close> is \<open>HeaderValue::to_str\<close>, \<open>hs_display\<close> the text of an \<open>AuthError\<close> that becomes an
  invalid request.
\<close>

record header_env =
  hs_to_str :: "string \<Rightarrow> string option"
  hs_display :: "auth_error \<Rightarrow> string"
  hs_base64 :: "string \<Rightarrow> string option"

definition auth_error_to_api_error :: "header_env \<Rightarrow> auth_error \<Rightarrow> api_error" where
  "auth_error_to_api_error hs e =
     (case e of
        ExpiredToken \<Rightarrow> ApiExpiredToken
      | AuthRequired message \<Rightarrow> AuthRequiredError message
      | other \<Rightarrow> InvalidRequest (hs_display hs other))"

definition auth_header :: "header_env \<Rightarrow> request \<Rightarrow> string option" where
  "auth_header hs req = Option.bind (rq_authorization req) (hs_to_str hs)"

definition validate_access ::
  "ext \<Rightarrow> header_env \<Rightarrow> auth_registry \<Rightarrow> int \<Rightarrow> request \<Rightarrow> auth_scope list \<Rightarrow> validate_access_token_opts option \<Rightarrow>
   account_db \<Rightarrow> (auth_error + access_output) \<times> account_db" where
  "validate_access ext hs reg now req scopes opts =
     validate_access_token ext reg
       (Some \<lparr>dc_method = rq_method req, dc_uri = rq_uri req,
              dc_dpop_headers = List.map_filter (hs_to_str hs) (rq_dpop req)\<rparr>)
       now (auth_header hs req) scopes opts"

section \<open>Extractors\<close>

type_synonym extractor = "request \<Rightarrow> account_db \<Rightarrow> (api_error + access_output) \<times> account_db"

definition access_extractor ::
  "auth_scope list \<Rightarrow> validate_access_token_opts option \<Rightarrow> ext \<Rightarrow> header_env \<Rightarrow> auth_registry \<Rightarrow> int \<Rightarrow> extractor" where
  "access_extractor scopes opts ext hs reg now req db =
     apfst (map_sum (auth_error_to_api_error hs) id) (validate_access ext hs reg now req scopes opts db)"

definition access_standard :: "ext \<Rightarrow> header_env \<Rightarrow> auth_registry \<Rightarrow> int \<Rightarrow> extractor" where
  "access_standard = access_extractor [Access, AppPass, AppPassPrivileged] None"

definition access_full :: "ext \<Rightarrow> header_env \<Rightarrow> auth_registry \<Rightarrow> int \<Rightarrow> extractor" where
  "access_full = access_extractor [Access] None"

definition access_privileged :: "ext \<Rightarrow> header_env \<Rightarrow> auth_registry \<Rightarrow> int \<Rightarrow> extractor" where
  "access_privileged = access_extractor [Access, AppPassPrivileged] None"

definition access_standard_include_checks :: "ext \<Rightarrow> header_env \<Rightarrow> auth_registry \<Rightarrow> int \<Rightarrow> extractor" where
  "access_standard_include_checks = access_extractor [Access, AppPass, AppPassPrivileged]
     (Some \<lparr>check_takedown = Some True, check_deactivated = Some True\<rparr>)"

definition access_standard_check_takedown :: "ext \<Rightarrow> header_env \<Rightarrow> auth_registry \<Rightarrow> int \<Rightarrow> extractor" where
  "access_standard_check_takedown = access_extractor [Access, AppPass, AppPassPrivileged]
     (Some \<lparr>check_takedown = Some True, check_deactivated = None\<rparr>)"

definition access_full_import :: "ext \<Rightarrow> header_env \<Rightarrow> auth_registry \<Rightarrow> int \<Rightarrow> extractor" where
  "access_full_import = access_extractor [Access]
     (Some \<lparr>check_takedown = Some True, check_deactivated = Some False\<rparr>)"

definition access_standard_signup_queued :: "ext \<Rightarrow> header_env \<Rightarrow> auth_registry \<Rightarrow> int \<Rightarrow> extractor" where
  "access_standard_signup_queued = access_extractor [Access, AppPass, AppPassPrivileged, SignupQueued] None"

definition refresh_extractor :: "ext \<Rightarrow> header_env \<Rightarrow> auth_registry \<Rightarrow> int \<Rightarrow> request \<Rightarrow> api_error + access_output" where
  "refresh_extractor ext hs reg now req =
     (case validate_refresh_token ext now (service_did_from_registry reg) (auth_header hs req) of
        Inl e \<Rightarrow> Inl (auth_error_to_api_error hs e)
      | Inr v \<Rightarrow> Inr \<lparr>ao_credentials = Some
          \<lparr>cr_type = ''refresh'', cr_did = Some (vb_did v), cr_scope = Some (vb_scope v),
           cr_audience = vb_audience v, cr_token_id = jp_jti (vb_payload v), cr_aud = None, cr_iss = None,
           cr_is_privileged = None, cr_admin_scopes = None\<rparr>, ao_artifacts = Some (vb_token v)\<rparr>)"

definition revoke_refresh_extractor :: "ext \<Rightarrow> header_env \<Rightarrow> auth_registry \<Rightarrow> int \<Rightarrow> request \<Rightarrow> api_error + string" where
  "revoke_refresh_extractor ext hs reg now req =
     (case validate_refresh_token ext now (service_did_from_registry reg) (auth_header hs req) of
        Inl e \<Rightarrow> Inl (auth_error_to_api_error hs e)
      | Inr v \<Rightarrow> (case jp_jti (vb_payload v) of
           Some jti \<Rightarrow> Inr jti
         | None \<Rightarrow> Inl (InvalidRequest ''Unexpected missing refresh token id'')))"

definition admin_token_extractor :: "header_env \<Rightarrow> environment \<Rightarrow> request \<Rightarrow> api_error + access_output" where
  "admin_token_extractor hs env req =
     map_sum (auth_error_to_api_error hs) id (verify_admin_token (hs_base64 hs) env (auth_header hs req))"

definition require_admin_scope :: "credentials option \<Rightarrow> admin_scope \<Rightarrow> api_error + unit" where
  "require_admin_scope creds scope =
     (case Option.bind creds cr_admin_scopes of
        Some scopes \<Rightarrow> if scopes_contain scopes scope then Inr ()
          else Inl (AuthRequiredError (''Missing admin scope: '' @ admin_scope_as_str scope))
      | None \<Rightarrow> Inl (AuthRequiredError (''Missing admin scope: '' @ admin_scope_as_str scope)))"

definition require_admin :: "admin_scope \<Rightarrow> header_env \<Rightarrow> environment \<Rightarrow> request \<Rightarrow> api_error + access_output" where
  "require_admin scope hs env req =
     (case admin_token_extractor hs env req of
        Inl e \<Rightarrow> Inl e
      | Inr admin \<Rightarrow> (case require_admin_scope (ao_credentials admin) scope of
           Inl e \<Rightarrow> Inl e
         | Inr _ \<Rightarrow> Inr admin))"

definition require_invite_admin :: "header_env \<Rightarrow> environment \<Rightarrow> request \<Rightarrow> api_error + access_output" where
  "require_invite_admin = require_admin InviteAdmin"

definition require_account_admin :: "header_env \<Rightarrow> environment \<Rightarrow> request \<Rightarrow> api_error + access_output" where
  "require_account_admin = require_admin AccountAdmin"

definition require_takedown_admin :: "header_env \<Rightarrow> environment \<Rightarrow> request \<Rightarrow> api_error + access_output" where
  "require_takedown_admin = require_admin TakedownAdmin"

definition has_bearer :: "header_env \<Rightarrow> request \<Rightarrow> bool" where
  "has_bearer hs req = (case auth_header hs req of Some h \<Rightarrow> starts_with h ''Bearer '' | None \<Rightarrow> False)"

definition moderator :: "header_env \<Rightarrow> environment \<Rightarrow> request \<Rightarrow> api_error + access_output" where
  "moderator hs env req =
     (if has_bearer hs req then Inl (InvalidRequest ''moderator token not yet wired'')
      else admin_token_extractor hs env req)"

definition optional_access_or_admin_token ::
  "ext \<Rightarrow> header_env \<Rightarrow> auth_registry \<Rightarrow> environment \<Rightarrow> int \<Rightarrow> request \<Rightarrow> account_db \<Rightarrow>
   (api_error + access_output option) \<times> account_db" where
  "optional_access_or_admin_token ext hs reg env now req db =
     (case auth_header hs req of
        None \<Rightarrow> (Inr None, db)
      | Some h \<Rightarrow>
          if starts_with h ''Bearer '' then apfst (map_sum id Some) (access_full ext hs reg now req db)
          else (map_sum id Some (admin_token_extractor hs env req), db))"

definition user_did_auth ::
  "service_crypto \<Rightarrow> header_env \<Rightarrow> auth_registry \<Rightarrow> int \<Rightarrow> request \<Rightarrow> api_error + access_output" where
  "user_did_auth sv hs reg now req =
     map_sum (auth_error_to_api_error hs) id (verify_user_did_token sv reg now (auth_header hs req))"

definition user_did_auth_optional ::
  "service_crypto \<Rightarrow> header_env \<Rightarrow> auth_registry \<Rightarrow> int \<Rightarrow> request \<Rightarrow> api_error + access_output option" where
  "user_did_auth_optional sv hs reg now req =
     (if has_bearer hs req then map_sum id Some (user_did_auth sv hs reg now req) else Inr None)"

end
