(* ===== verification/Auth_Facts.thy ===== *)
theory Auth_Facts
  imports Auth_Extractors
begin

text \<open>
  Properties of the verifier and its extractors: the shape of the credentials each source
  gives, which session tokens each extractor lets through, exactly when a service token is
  accepted, and exactly when an admin scope is.
\<close>

section \<open>The shape of credentials\<close>

definition credential_shape :: "credentials \<Rightarrow> string \<times> bool \<times> bool \<times> bool \<times> bool" where
  "credential_shape c =
     (cr_type c, cr_did c \<noteq> None, cr_scope c \<noteq> None, cr_iss c \<noteq> None \<and> cr_aud c \<noteq> None, cr_admin_scopes c \<noteq> None)"

definition credential_shapes :: "(string \<times> bool \<times> bool \<times> bool \<times> bool) set" where
  "credential_shapes =
     {(''access'', True, True, False, False), (''oauth'', True, True, False, False),
      (''refresh'', True, True, False, False), (''admin_token'', False, False, False, True),
      (''user_did'', False, False, True, False)}"

lemmas verifier_defs = validate_access_def validate_access_token_def validate_dpop_access_token_def
  access_credentials_def

lemma validate_access_shape:
  assumes "validate_access ext hs reg now req scopes opts db = (Inr out, db')"
  shows "\<exists>c. ao_credentials out = Some c \<and> credential_shape c \<in> credential_shapes \<and> cr_admin_scopes c = None \<and>
    (scopes \<noteq> [] \<longrightarrow> the (cr_scope c) \<in> set scopes)"
  using assms
  by (auto simp: verifier_defs validate_bearer_token_def credential_shape_def credential_shapes_def
      split: sum.splits option.splits prod.splits audiences.splits if_splits)

lemma admin_extractor_shape:
  assumes "admin_token_extractor hs env req = Inr out"
  shows "\<exists>c. ao_credentials out = Some c \<and> credential_shape c \<in> credential_shapes \<and> cr_type c = ''admin_token''"
  using assms
  by (cases "verify_admin_token (hs_base64 hs) env (auth_header hs req)")
    (auto simp: admin_token_extractor_def verify_admin_token_def credential_shape_def credential_shapes_def
      split: sum.splits option.splits)

lemma user_did_shape:
  assumes "user_did_auth sv hs reg now req = Inr out"
  shows "\<exists>c. ao_credentials out = Some c \<and> credential_shape c \<in> credential_shapes \<and> cr_type c = ''user_did'' \<and>
    cr_admin_scopes c = None"
  using assms
  by (cases "verify_user_did_token sv reg now (auth_header hs req)")
    (auto simp: user_did_auth_def verify_user_did_token_def credential_shape_def credential_shapes_def
      split: sum.splits option.splits prod.splits)

text \<open>C17: Whatever extractor accepts a request, its credentials are of one of five shapes: sessions, OAuth and refresh
  tokens carry a DID and a scope, service tokens an issuer, admin tokens only admin scopes; and no
  credential but an admin token ever passes an admin-scope check.\<close>

theorem credentials_typed:
  assumes "fst (access_extractor scopes opts ext hs reg now req db) = Inr out \<or>
    refresh_extractor ext hs reg now req = Inr out \<or> admin_token_extractor hs env req = Inr out \<or>
    user_did_auth sv hs reg now req = Inr out"
  shows "\<exists>c. ao_credentials out = Some c \<and> credential_shape c \<in> credential_shapes \<and>
    (is_ok (require_admin_scope (ao_credentials out) s) \<longrightarrow> cr_type c = ''admin_token'') \<and>
    (is_user_or_admin out did \<longrightarrow> cr_type c = ''admin_token'' \<or> cr_did c = Some did)"
proof -
  have admin: "cr_admin_scopes c = None \<Longrightarrow> \<not> is_ok (require_admin_scope (Some c) s)" for c
    by (simp add: require_admin_scope_def)
  have user: "ao_credentials out = Some c \<Longrightarrow> is_user_or_admin out did \<Longrightarrow>
      cr_type c = ''admin_token'' \<or> cr_did c = Some did" for c
    by (simp add: is_user_or_admin_def)
  from assms consider
      "fst (access_extractor scopes opts ext hs reg now req db) = Inr out"
    | "refresh_extractor ext hs reg now req = Inr out"
    | "admin_token_extractor hs env req = Inr out" | "user_did_auth sv hs reg now req = Inr out"
    by blast
  then show ?thesis
  proof cases
    case 1
    then obtain db' where "validate_access ext hs reg now req scopes opts db = (Inr out, db')"
      by (cases "validate_access ext hs reg now req scopes opts db";
          cases "fst (validate_access ext hs reg now req scopes opts db)")
        (auto simp: access_extractor_def)
    from validate_access_shape [OF this] admin user show ?thesis by auto
  next
    case 2
    then show ?thesis
      by (auto simp: refresh_extractor_def credential_shape_def credential_shapes_def require_admin_scope_def
          is_user_or_admin_def split: sum.splits)
  next
    case 3
    from admin_extractor_shape [OF this] user show ?thesis by auto
  next
    case 4
    from user_did_shape [OF this] admin user show ?thesis by auto
  qed
qed

definition demo_headers :: header_env where
  "demo_headers = \<lparr>hs_to_str = Some, hs_display = (\<lambda>_. ''auth error''), hs_base64 = Some\<rparr>"

definition demo_env :: environment where
  "demo_env = [(''PDS_ADMIN_TOKEN_OPS_SECRET'', ''s3cret''), (''PDS_ADMIN_TOKEN_OPS_SCOPES'', ''InviteAdmin, bogus'')]"

definition demo_admin_request :: request where
  "demo_admin_request = \<lparr>rq_method = ''POST'', rq_uri = ''/xrpc/x'', rq_authorization = Some ''Basic OPS:s3cret'', rq_dpop = []\<rparr>"

lemma demo_registry:
  "registry_from_env demo_env = [\<lparr>te_name = ''OPS'', te_scopes = [InviteAdmin], te_secret = ''s3cret''\<rparr>]"
  by code_simp

lemma demo_parse:
  "parse_basic_auth Some ''Basic OPS:s3cret'' = Some \<lparr>ba_username = ''OPS'', ba_password = ''s3cret''\<rparr>"
proof -
  have "split_whitespace [] ''Basic OPS:s3cret'' = [''Basic'', ''OPS:s3cret'']" by code_simp
  then show ?thesis by (simp add: parse_basic_auth_def byte_def)
qed

lemma demo_admin: "\<exists>out. admin_token_extractor demo_headers demo_env demo_admin_request = Inr out \<and>
    ao_credentials out \<noteq> None \<and> is_ok (require_admin_scope (ao_credentials out) InviteAdmin)"
proof -
  have "auth_header demo_headers demo_admin_request = Some ''Basic OPS:s3cret''" "hs_base64 demo_headers = Some"
    by (simp_all add: auth_header_def demo_headers_def demo_admin_request_def)
  then show ?thesis
    by (simp only: admin_token_extractor_def verify_admin_token_def demo_parse demo_registry option.case)
      (simp add: registry_lookup_def require_admin_scope_def scopes_contain_def)
qed

lemma credentials_typed_witness:
  "\<exists>out c. admin_token_extractor demo_headers demo_env demo_admin_request = Inr out \<and>
     ao_credentials out = Some c \<and> cr_type c = ''admin_token''"
proof -
  obtain out where out: "admin_token_extractor demo_headers demo_env demo_admin_request = Inr out"
    "is_ok (require_admin_scope (ao_credentials out) InviteAdmin)"
    using demo_admin by blast
  from credentials_typed [where env = demo_env and hs = demo_headers and req = demo_admin_request and
      out = out and s = InviteAdmin] out show ?thesis by blast
qed

section \<open>Session tokens at the extractors\<close>

text \<open>
  What the code relies on when it verifies with options: until it expires a token just signed
  verifies, with its claims, when its audience is allowed and its validity within the
  maximum.
\<close>

definition jwt_options_ok :: "ext \<Rightarrow> bool" where
  "jwt_options_ok ext \<longleftrightarrow>
     (\<forall>now later req jwt opts. jwt_sign ext now req = Some jwt \<longrightarrow>
        now_secs now \<le> now_secs later \<longrightarrow> now_secs later < now_secs now + tq_valid_for req \<longrightarrow>
        (\<forall>as. vo_allowed_audiences opts = Some as \<longrightarrow> tq_audience req \<in> set as) \<longrightarrow>
        (\<forall>m. vo_max_validity opts = Some m \<longrightarrow> tq_valid_for req \<le> int m) \<longrightarrow>
        jwt_verify ext later (Some opts) jwt =
          Inr \<lparr>cl_scope = tq_scope req, cl_subject = Some (tq_subject req),
               cl_audiences = Some (AsString (tq_audience req)),
               cl_expires_at = Some ((now_secs now + tq_valid_for req) * 1000),
               cl_issued_at = Some (now_secs now * 1000), cl_jwt_id = tq_jwt_id req\<rparr>)"

lemma demo_jwt_options: "jwt_options_ok demo_ext"
  by (auto simp: jwt_options_ok_def demo_ext_def demo_verify_def demo_claims_def demo_parse_sign
      split: option.splits)

definition bearer_request :: "string \<Rightarrow> request" where
  "bearer_request token = \<lparr>rq_method = ''GET'', rq_uri = ''/xrpc/x'',
     rq_authorization = Some (''Bearer '' @ token), rq_dpop = []\<rparr>"

lemma bearer_header:
  assumes "hs_to_str hs (''Bearer '' @ token) = Some (''Bearer '' @ token)"
  shows "auth_header hs (bearer_request token) = Some (''Bearer '' @ token)"
    and "bearer_token_from_req (Some (''Bearer '' @ token)) = Some token"
    and "dpop_token_from_req (Some (''Bearer '' @ token)) = Inr None"
proof -
  show "auth_header hs (bearer_request token) = Some (''Bearer '' @ token)"
    using assms by (simp add: auth_header_def bearer_request_def)
  show "bearer_token_from_req (Some (''Bearer '' @ token)) = Some token"
    by (simp add: bearer_token_from_req_def BEARER_def starts_with_def)
  have "\<not> eq_ignore_ascii_case ''Beare'' ''DPoP ''" by code_simp
  then show "dpop_token_from_req (Some (''Bearer '' @ token)) = Inr None"
    by (simp add: dpop_token_from_req_def DPOP_def is_char_boundary_def continuation_def byte_def)
qed

lemma session_token_verifies:
  assumes "jwt_options_ok ext" and "jwt_sign ext now req = Some jwt" and "tq_scope req = scope_as_str sc"
    and "starts_with (tq_subject req) ''did:''" and "starts_with (tq_audience req) ''did:''"
    and "now_secs now \<le> now_secs later" and "now_secs later < now_secs now + tq_valid_for req"
    and "vo_allowed_audiences opts = Some [tq_audience req]"
    and "\<forall>m. vo_max_validity opts = Some m \<longrightarrow> tq_valid_for req \<le> int m"
  shows "if scopes \<noteq> [] \<and> sc \<notin> set scopes
    then validate_bearer_token ext later jwt scopes (Some opts) = Inl (Message ''Bad token scope'')
    else \<exists>v. validate_bearer_token ext later jwt scopes (Some opts) = Inr v \<and> vb_did v = tq_subject req \<and>
      vb_scope v = sc \<and> jp_jti (vb_payload v) = tq_jwt_id req"
proof -
  have "jwt_verify ext later (Some opts) jwt =
      Inr \<lparr>cl_scope = tq_scope req, cl_subject = Some (tq_subject req),
           cl_audiences = Some (AsString (tq_audience req)),
           cl_expires_at = Some ((now_secs now + tq_valid_for req) * 1000),
           cl_issued_at = Some (now_secs now * 1000), cl_jwt_id = tq_jwt_id req\<rparr>"
    using assms(1,2,6-9) unfolding jwt_options_ok_def by simp
  then show ?thesis
    using assms(3-5) by (simp add: validate_bearer_token_def verify_jwt_def scope_roundtrip)
qed


definition demo_auth_registry :: auth_registry where
  "demo_auth_registry = \<lparr>OAUTH_PROVIDER = None, ACCOUNT_MANAGER = True, SIGNING_KEY_RESOLVER = None,
     SERVICE_DID = Some ''did:web:pds''\<rparr>"


section \<open>Service tokens\<close>

text \<open>A key verifies the signature over the two first segments.\<close>

definition signed_by :: "service_crypto \<Rightarrow> string \<Rightarrow> string \<Rightarrow> string \<Rightarrow> string \<Rightarrow> bool" where
  "signed_by sv p0 p1 sig key =
     (case base64url_decode sv sig of
        Some bytes \<Rightarrow> verify_signature_digest sv key (sha256 sv (p0 @ ''.'' @ p1)) bytes = Inr True
      | None \<Rightarrow> False)"

lemma check_signature_True:
  "check_signature sv get_key iss d bytes = Inr True \<longleftrightarrow>
   (\<exists>k. get_key iss False = Inr k \<and>
     (verify_signature_digest sv k d bytes = Inr True \<or>
      verify_signature_digest sv k d bytes = Inr False \<and>
      (\<exists>k'. get_key iss True = Inr k' \<and> k' \<noteq> k \<and> verify_signature_digest sv k' d bytes = Inr True)))"
  by (auto simp: check_signature_def split: sum.splits bool.splits if_splits)
    (auto simp: map_sum_def split: sum.splits)

text \<open>C19: A service token is accepted exactly when it has three segments, its payload decodes, it has not expired (in
  whole seconds), it is meant for this service, its issuer is trusted and its signature verifies with the
  issuer's key, or, when that key says no, with a different key that a forced refresh resolves.\<close>

theorem service_jwt_accepted_iff:
  "verify_service_jwt sv now jwt opts resolver = Inr (iss, aud) \<longleftrightarrow>
   (\<exists>p0 p1 sig exp k. split_on (CHR ''.'') jwt = [p0, p1, sig] \<and>
      Option.bind (base64url_decode sv p1) (payload_from_json sv) = Some (iss, aud, exp) \<and>
      verifier_now_secs now \<le> exp \<and>
      so_aud opts \<in> {None, Some aud} \<and>
      (so_iss opts = None \<or> iss \<in> set (the (so_iss opts))) \<and>
      resolver iss False = Inr k \<and>
      (signed_by sv p0 p1 sig k \<or>
       (\<exists>bytes k'. base64url_decode sv sig = Some bytes \<and>
          verify_signature_digest sv k (sha256 sv (p0 @ ''.'' @ p1)) bytes = Inr False \<and>
          resolver iss True = Inr k' \<and> k' \<noteq> k \<and> signed_by sv p0 p1 sig k')))"
proof -
  have key: "trusted_signing_key opts resolver iss f = Inr k \<longleftrightarrow>
      (so_iss opts = None \<or> iss \<in> set (the (so_iss opts))) \<and> resolver iss f = Inr k" for f k
    by (cases "so_iss opts"; cases "resolver iss f") (auto simp: trusted_signing_key_def)
  have aud: "(case so_aud opts of Some did \<Rightarrow> aud \<noteq> did | None \<Rightarrow> False) \<longleftrightarrow> so_aud opts \<notin> {None, Some aud}"
    by (cases "so_aud opts") auto
  have tok: "verify_service_jwt sv now jwt opts resolver = Inr (iss, aud) \<longleftrightarrow>
      (\<exists>exp. verify_service_jwt_token sv now jwt (so_aud opts) (trusted_signing_key opts resolver) = Inr (iss, aud, exp))"
    by (cases "verify_service_jwt_token sv now jwt (so_aud opts) (trusted_signing_key opts resolver)")
      (auto simp: verify_service_jwt_def)
  have "verify_service_jwt_token sv now jwt (so_aud opts) (trusted_signing_key opts resolver) = Inr (iss, aud, exp) \<longleftrightarrow>
    (\<exists>p0 p1 sig bytes. split_on (CHR ''.'') jwt = [p0, p1, sig] \<and>
      Option.bind (base64url_decode sv p1) (payload_from_json sv) = Some (iss, aud, exp) \<and>
      verifier_now_secs now \<le> exp \<and> so_aud opts \<in> {None, Some aud} \<and>
      base64url_decode sv sig = Some bytes \<and>
      check_signature sv (trusted_signing_key opts resolver) iss (sha256 sv (p0 @ ''.'' @ p1)) bytes = Inr True)" for exp
    by (auto simp: verify_service_jwt_token_def not_less split: list.splits option.splits sum.splits if_splits)
  then show ?thesis
    unfolding tok check_signature_True key signed_by_def
    by (auto split: option.splits)
qed

section \<open>Admin scopes\<close>

lemma registry_lookup_Some:
  "registry_lookup reg name secret = Some scopes \<longleftrightarrow>
   (\<exists>e. find (\<lambda>e. te_name e = name \<and> te_secret e = secret) reg = Some e \<and> te_scopes e = scopes)"
  by (auto simp: registry_lookup_def)

text \<open>C20: With basic credentials a request passes an admin-scope extractor exactly when the first admin token of the
  environment with that name and secret grants the scope, itself or by the wildcard; any colon after the
  first belongs to the secret.\<close>

theorem admin_scope_required:
  assumes "hs_to_str hs (''Basic '' @ encoded) = Some (''Basic '' @ encoded)"
    and "hs_base64 hs encoded = Some (name @ '':'' @ secret)" and "CHR '':'' \<notin> set name"
    and "valid_utf8 (map byte (name @ '':'' @ secret))"
    and "encoded \<noteq> []" and "\<forall>c \<in> set encoded. \<forall>x \<in> set white_space. c \<noteq> hd x"
    and "rq_authorization req = Some (''Basic '' @ encoded)"
  shows "is_ok (require_admin scope hs env req) \<longleftrightarrow>
    (\<exists>e. find (\<lambda>e. te_name e = name \<and> te_secret e = secret) (registry_from_env env) = Some e \<and>
       (scope \<in> set (te_scopes e) \<or> Wildcard \<in> set (te_scopes e)))"
proof -
  have ws: "split_whitespace [] (''Basic '' @ encoded) = [''Basic'', encoded]"
  proof -
    have "split_whitespace [] (''Basic'' @ ('' '' @ encoded)) = split_whitespace ''Basic'' ('' '' @ encoded)"
      using split_whitespace_word [of "''Basic''" "[]" "'' '' @ encoded"] by (simp add: white_space_def)
    also have "ws_at ('' '' @ encoded) = Some '' ''"
      by (simp add: ws_at_def white_space_def starts_with_def)
    then have "split_whitespace ''Basic'' ('' '' @ encoded) = ''Basic'' # split_whitespace [] encoded"
      by (subst split_whitespace.simps) simp
    also have "split_whitespace [] encoded = [encoded]"
    proof -
      have "split_whitespace [] (encoded @ []) = split_whitespace encoded []"
        using split_whitespace_word [OF assms(6), of "[]" "[]"] by simp
      also have "\<dots> = [encoded]" using assms(5) by (subst split_whitespace.simps) simp
      finally show ?thesis by simp
    qed
    finally show ?thesis by simp
  qed
  have once: "split_once (CHR '':'') (name @ CHR '':'' # secret) = Some (name, secret)"
    using assms(3) by (rule split_once_append)
  have hdr: "auth_header hs req = Some (''Basic '' @ encoded)" using assms(1,7) by (simp add: auth_header_def)
  have parse: "parse_basic_auth (hs_base64 hs) (''Basic '' @ encoded) = Some \<lparr>ba_username = name, ba_password = secret\<rparr>"
    using assms(2,4) once unfolding parse_basic_auth_def ws by simp
  have ext: "admin_token_extractor hs env req =
    (case registry_lookup (registry_from_env env) name secret of
       None \<Rightarrow> Inl (AuthRequiredError ''BadAuth'')
     | Some scopes \<Rightarrow> Inr \<lparr>ao_credentials = Some
               \<lparr>cr_type = ''admin_token'', cr_did = None, cr_scope = None, cr_audience = None,
                cr_token_id = None, cr_aud = None, cr_iss = None, cr_is_privileged = None,
                cr_admin_scopes = Some scopes\<rparr>, ao_artifacts = None\<rparr>)"
    unfolding admin_token_extractor_def verify_admin_token_def hdr option.case parse
    by (simp add: auth_error_to_api_error_def split: option.splits)
  have "scopes_contain s scope \<longleftrightarrow> scope \<in> set s \<or> Wildcard \<in> set s" for s
    by (auto simp: scopes_contain_def list_ex_iff)
  then show ?thesis
    unfolding require_admin_def ext
    by (auto simp: registry_lookup_def require_admin_scope_def split: option.splits)
qed

lemma admin_scope_required_witness:
  "is_ok (require_admin InviteAdmin demo_headers demo_env demo_admin_request) \<and>
   \<not> is_ok (require_admin AccountAdmin demo_headers demo_env demo_admin_request)"
proof -
  have "is_ok (require_admin scope demo_headers demo_env demo_admin_request) \<longleftrightarrow>
    (\<exists>e. find (\<lambda>e. te_name e = ''OPS'' \<and> te_secret e = ''s3cret'') (registry_from_env demo_env) = Some e \<and>
       (scope \<in> set (te_scopes e) \<or> Wildcard \<in> set (te_scopes e)))" for scope
    by (rule admin_scope_required [where encoded = "''OPS:s3cret''"])
      (simp_all add: demo_headers_def demo_admin_request_def white_space_def byte_def)
  then show ?thesis by (simp add: demo_registry)
qed

end
