(* ===== verification/Db_Id.thy ===== *)
theory Db_Id
  imports Rust_Text
begin

text \<open>
  Identifiers (migration/src/types/db_id.rs). A \<open>DbId\<close> is a ULID: 128 bits, the upper 48 a time
  stamp in milliseconds. Its byte form is big-endian, so that SQLite's comparison of BLOBs
  (memcmp, the lexicographic order of the byte lists) is the order of the numbers; that is what
  makes \<open>ORDER BY seq\<close> in the sequencer meaningful, and it is proved here. The hexadecimal
  form is written in lower case and read in either case. The Crockford text form and the
  generator belong to the ulid crate: the text form is a parameter where it is used, a fresh
  identifier an argument.
\<close>

unbundle bit_operations_syntax

type_synonym byte = "8 word"
type_synonym db_id = "128 word"

section \<open>Big-endian bytes\<close>

fun be_bytes :: "nat \<Rightarrow> 'a::len word \<Rightarrow> byte list" where
  "be_bytes 0 w = []"
| "be_bytes (Suc n) w = ucast (drop_bit (8 * n) w) # be_bytes n w"

fun be_value :: "byte list \<Rightarrow> int" where
  "be_value [] = 0"
| "be_value (b # bs) = uint b * 256 ^ length bs + be_value bs"

definition to_bytes :: "db_id \<Rightarrow> byte list" where
  "to_bytes i = be_bytes 16 i"

definition from_bytes :: "byte list \<Rightarrow> db_id" where
  "from_bytes bs = word_of_int (be_value bs)"

lemma length_be_bytes [simp]: "length (be_bytes n w) = n"
  by (induction n) simp_all

lemma length_to_bytes [simp]: "length (to_bytes i) = 16"
  by (simp add: to_bytes_def)

lemma be_value_nonneg: "0 \<le> be_value bs"
  by (induction bs) simp_all

lemma be_value_bound: "be_value bs < 256 ^ length bs"
proof (induction bs)
  case (Cons b bs)
  have "uint b + 1 \<le> 256"
    using uint_bounded [of b] by simp
  then have "(uint b + 1) * 256 ^ length bs \<le> 256 * 256 ^ length bs"
    by (rule mult_right_mono) simp
  with Cons.IH show ?case
    unfolding be_value.simps length_Cons power_Suc distrib_right mult_1 by linarith
qed simp

lemma uint_drop_bit: "uint (drop_bit n w) = uint w div 2 ^ n"
  for w :: "'a::len word"
proof -
  have "uint (drop_bit n w) = drop_bit n (uint w)"
    using uint_bounded [of w] by (simp only: unsigned_drop_bit_eq bintr_uint order_refl)
  then show ?thesis
    by (simp only: drop_bit_eq_div)
qed

lemma uint_byte_of: "uint (ucast (drop_bit (8 * n) w) :: byte) = uint w div 256 ^ n mod 256"
  for w :: "'a::len word"
proof -
  have "uint (ucast (drop_bit (8 * n) w) :: byte) = take_bit 8 (uint (drop_bit (8 * n) w))"
    by (simp add: unsigned_ucast_eq)
  also have "\<dots> = uint w div 2 ^ (8 * n) mod 2 ^ 8"
    by (simp add: uint_drop_bit take_bit_eq_mod)
  finally show ?thesis
    by (simp add: power_mult)
qed

lemma be_value_be_bytes: "be_value (be_bytes n w) = uint w mod 256 ^ n"
proof (induction n)
  case (Suc n)
  have "uint w mod 256 ^ Suc n = 256 ^ n * (uint w div 256 ^ n mod 256) + uint w mod 256 ^ n"
    by (metis mod_mult2_eq' mult.commute power_Suc zmod_zmult2_eq zero_le_numeral zero_le_power)
  with Suc.IH show ?case
    by (simp add: uint_byte_of)
qed simp

lemma be_value_inj:
  "length as = length bs \<Longrightarrow> be_value as = be_value bs \<Longrightarrow> as = bs"
proof (induction as bs rule: list_induct2)
  case (Cons a as b bs)
  let ?p = "256 ^ length as :: int"
  have p: "?p > 0" by simp
  have ea: "be_value (a # as) div ?p = uint a" "be_value (a # as) mod ?p = be_value as"
    and eb: "be_value (b # bs) div ?p = uint b" "be_value (b # bs) mod ?p = be_value bs"
    using be_value_bound [of as] be_value_bound [of bs] be_value_nonneg [of as]
      be_value_nonneg [of bs] Cons.hyps p by simp_all
  from Cons.prems ea eb have "uint a = uint b" "be_value as = be_value bs"
    by simp_all
  with Cons.IH show ?case by (simp add: word_uint_eqI)
qed simp

theorem from_to_bytes [simp]: "from_bytes (to_bytes i) = i"
proof -
  have "uint i < 256 ^ 16"
    using uint_bounded [of i] by simp
  then show ?thesis
    by (simp add: from_bytes_def to_bytes_def be_value_be_bytes)
qed

lemma to_from_bytes: "length bs = 16 \<Longrightarrow> to_bytes (from_bytes bs) = bs"
proof (rule be_value_inj)
  assume l: "length bs = 16"
  then show "length (to_bytes (from_bytes bs)) = length bs" by simp
  have "be_value bs < 2 ^ 128"
    using be_value_bound [of bs] l by simp
  then have "uint (from_bytes bs) = be_value bs"
    using be_value_nonneg [of bs] by (simp add: from_bytes_def uint_word_of_int take_bit_eq_mod)
  then show "be_value (to_bytes (from_bytes bs)) = be_value bs"
    using \<open>be_value bs < 2 ^ 128\<close> be_value_nonneg [of bs]
    by (simp add: to_bytes_def be_value_be_bytes)
qed

text \<open>The order of the BLOBs is the order of the identifiers.\<close>

lemma be_value_less:
  "length as = length bs \<Longrightarrow> as < bs \<longleftrightarrow> be_value as < be_value bs"
proof (induction as bs rule: list_induct2)
  case (Cons a as b bs)
  let ?p = "256 ^ length as :: int"
  have bnd: "be_value as < ?p" "be_value bs < ?p" "0 \<le> be_value as" "0 \<le> be_value bs"
    using be_value_bound [of as] be_value_bound [of bs] Cons.hyps
    by (simp_all add: be_value_nonneg)
  have gap: "be_value (x # xs) < be_value (y # ys)"
    if "uint x < uint y" "be_value xs < ?p" "0 \<le> be_value ys"
      "length xs = length as" "length ys = length as" for x y :: byte and xs ys
  proof -
    have "(uint x + 1) * ?p \<le> uint y * ?p"
      using that(1) by (intro mult_right_mono) simp_all
    with that show ?thesis by (simp add: algebra_simps)
  qed
  consider "uint a < uint b" | "uint b < uint a" | "a = b"
    by (metis linorder_neqE word_uint_eqI)
  then show ?case
  proof cases
    case 1
    then have "be_value (a # as) < be_value (b # bs)"
      using bnd Cons.hyps by (intro gap) simp_all
    moreover from 1 have "a # as < b # bs"
      by (simp add: word_less_def)
    ultimately show ?thesis by simp
  next
    case 2
    then have "be_value (b # bs) < be_value (a # as)"
      using bnd Cons.hyps by (intro gap) simp_all
    moreover from 2 have "\<not> a # as < b # bs"
      by (auto simp: word_less_def)
    ultimately show ?thesis by simp
  next
    case 3
    with Cons.IH Cons.hyps show ?thesis by simp
  qed
qed simp

lemma to_bytes_less_iff [simp]: "to_bytes i < to_bytes j \<longleftrightarrow> i < j"
proof -
  have "uint w mod 256 ^ 16 = uint w" for w :: db_id
    using uint_bounded [of w] by simp
  then have v: "be_value (to_bytes w) = uint w" for w
    by (simp add: to_bytes_def be_value_be_bytes)
  show ?thesis
    unfolding be_value_less [of "to_bytes i" "to_bytes j", simplified] v
    by (simp add: word_less_def)
qed

lemma to_bytes_eq_iff [simp]: "to_bytes i = to_bytes j \<longleftrightarrow> i = j"
  by (metis from_to_bytes)

lemma to_bytes_le_iff [simp]: "to_bytes i \<le> to_bytes j \<longleftrightarrow> i \<le> j"
  by (auto simp: order.order_iff_strict)

section \<open>The time stamp\<close>

definition timestamp_ms :: "db_id \<Rightarrow> 64 word" where
  "timestamp_ms i = ucast (drop_bit 80 i)"

text \<open>\<open>as i64\<close> of the time stamp, the number clients see as the sequence number.\<close>

definition seq_ms :: "db_id \<Rightarrow> int" where
  "seq_ms i = sint (timestamp_ms i)"

text \<open>\<open>Ulid::from_parts\<close> with no random part, as the firehose builds it from a cursor.\<close>

definition ulid_for_ts :: "int \<Rightarrow> db_id" where
  "ulid_for_ts ts = push_bit 80 (word_of_int (max ts 0))"

lemma timestamp_bounds: "0 \<le> uint i div 2 ^ 80" "uint i div 2 ^ 80 < 2 ^ 48" for i :: db_id
proof -
  have "uint i < 2 ^ 48 * 2 ^ 80"
    using uint_bounded [of i] by simp
  then show "uint i div 2 ^ 80 < 2 ^ 48"
    by (simp add: div_less_iff_less_mult)
  show "0 \<le> uint i div 2 ^ 80"
    by (simp add: pos_imp_zdiv_nonneg_iff)
qed

lemma uint_timestamp_ms: "uint (timestamp_ms i) = uint i div 2 ^ 80"
proof -
  have "uint (timestamp_ms i) = uint i div 2 ^ 80 mod 2 ^ 64"
    by (simp add: timestamp_ms_def unsigned_ucast_eq uint_drop_bit take_bit_eq_mod)
  also have "\<dots> = uint i div 2 ^ 80"
  proof (rule mod_pos_pos_trivial)
    show "uint i div 2 ^ 80 < 2 ^ 64"
      using timestamp_bounds(2) [of i] by (rule less_trans) simp
  qed (rule timestamp_bounds)
  finally show ?thesis .
qed

lemma seq_ms_eq: "seq_ms i = uint i div 2 ^ 80"
  using timestamp_bounds [of i]
  by (simp add: seq_ms_def sint_uint uint_timestamp_ms signed_take_bit_int_eq_self_iff)

lemma seq_ms_bounds: "0 \<le> seq_ms i" "seq_ms i < 2 ^ 48"
  using timestamp_bounds [of i] unfolding seq_ms_eq by simp_all

lemma seq_ms_mono: "i \<le> j \<Longrightarrow> seq_ms i \<le> seq_ms j"
  by (simp add: seq_ms_eq word_le_def zdiv_mono1)

text \<open>
  \<open>ulid_for_ts\<close> of a time stamp of 48 bits is the smallest identifier of that millisecond, so
  \<open>seq > ulid_for_ts ts\<close> in SQL leaves out no identifier but that one.
\<close>

lemma uint_ulid_for_ts: "0 \<le> ts \<Longrightarrow> ts < 2 ^ 48 \<Longrightarrow> uint (ulid_for_ts ts) = ts * 2 ^ 80"
proof -
  assume ts: "0 \<le> ts" "ts < 2 ^ 48"
  have "ulid_for_ts ts = word_of_int (ts * 2 ^ 80)"
    using ts by (simp add: ulid_for_ts_def push_bit_eq_mult)
  then show "uint (ulid_for_ts ts) = ts * 2 ^ 80"
    using ts by (simp only: uint_word_of_int) simp
qed

lemma ulid_for_ts_le:
  assumes "0 \<le> ts" and "ts < 2 ^ 48"
  shows "ulid_for_ts ts \<le> i \<longleftrightarrow> ts \<le> seq_ms i"
proof -
  have "uint i div 2 ^ 80 < ts \<longleftrightarrow> uint i < ts * 2 ^ 80"
    by simp linarith
  then have "ts * 2 ^ 80 \<le> uint i \<longleftrightarrow> ts \<le> uint i div 2 ^ 80"
    by (meson not_less)
  then show ?thesis
    by (simp add: word_le_def uint_ulid_for_ts [OF assms] seq_ms_eq)
qed

lemma seq_ms_ulid_for_ts: "0 \<le> ts \<Longrightarrow> ts < 2 ^ 48 \<Longrightarrow> seq_ms (ulid_for_ts ts) = ts"
  by (simp add: seq_ms_eq uint_ulid_for_ts)

section \<open>Hexadecimal form\<close>

datatype hex_error = FromHex string

definition HEX :: string where
  "HEX = ''0123456789abcdef''"

definition to_hex :: "db_id \<Rightarrow> string" where
  "to_hex i = concat (map (\<lambda>b. [HEX ! unat (drop_bit 4 b), HEX ! unat (b AND 0x0f)]) (to_bytes i))"

definition from_hex_digit :: "byte \<Rightarrow> byte option" where
  "from_hex_digit c =
     (if 0x30 \<le> c \<and> c \<le> 0x39 then Some (c - 0x30)
      else if 0x61 \<le> c \<and> c \<le> 0x66 then Some (c - 0x61 + 10)
      else if 0x41 \<le> c \<and> c \<le> 0x46 then Some (c - 0x41 + 10)
      else None)"

fun hex_pairs :: "byte list \<Rightarrow> byte list option" where
  "hex_pairs (h # l # cs) =
     (case from_hex_digit h of None \<Rightarrow> None
      | Some hi \<Rightarrow>
          (case from_hex_digit l of None \<Rightarrow> None
           | Some lo \<Rightarrow> map_option (\<lambda>bs. (push_bit 4 hi OR lo) # bs) (hex_pairs cs)))"
| "hex_pairs _ = Some []"

definition hex_to_bytes :: "string \<Rightarrow> byte list option" where
  "hex_to_bytes s = (if length s \<noteq> 32 then None else hex_pairs (map of_char s))"

definition from_hex :: "string \<Rightarrow> hex_error + db_id" where
  "from_hex s = (case hex_to_bytes s of None \<Rightarrow> Inl (FromHex s) | Some bs \<Rightarrow> Inr (from_bytes bs))"

definition hex_digit_ok :: "char \<Rightarrow> bool" where
  "hex_digit_ok c =
     (case from_hex_digit (of_char c) of
        None \<Rightarrow> ascii_lower_char c \<notin> set HEX
      | Some d \<Rightarrow> unat d < 16 \<and> ascii_lower_char c = HEX ! unat d)"

lemma hex_digit_ok: "\<forall>c. hex_digit_ok c"
  by code_simp

lemma from_hex_digit_iff:
  "from_hex_digit (of_char c) = Some d \<longleftrightarrow> unat d < 16 \<and> ascii_lower_char c = HEX ! unat d"
proof -
  have HEX: "distinct HEX" "length HEX = 16"
    by (simp_all add: HEX_def)
  have ok: "hex_digit_ok c"
    using hex_digit_ok by blast
  show ?thesis
  proof (cases "from_hex_digit (of_char c)")
    case None
    with ok have "ascii_lower_char c \<notin> set HEX"
      by (simp add: hex_digit_ok_def)
    then show ?thesis
      using None HEX by (metis nth_mem option.distinct(1))
  next
    case (Some e)
    with ok have e: "unat e < 16" "ascii_lower_char c = HEX ! unat e"
      by (simp_all add: hex_digit_ok_def)
    show ?thesis
    proof
      assume "from_hex_digit (of_char c) = Some d"
      with Some e show "unat d < 16 \<and> ascii_lower_char c = HEX ! unat d" by simp
    next
      assume d: "unat d < 16 \<and> ascii_lower_char c = HEX ! unat d"
      with e HEX have "unat d = unat e"
        by (metis nth_eq_iff_index_eq)
      then have "d = e" by (rule unsigned_word_eqI)
      with Some show "from_hex_digit (of_char c) = Some d" by simp
    qed
  qed
qed

lemma nibble_bits:
  fixes d :: byte
  assumes "unat d < 16" and b: "bit d n"
  shows "n < 4"
proof -
  have "take_bit 4 d = d"
  proof (rule unsigned_word_eqI)
    show "unat (take_bit 4 d) = unat d"
      using assms(1) by (simp add: take_bit_eq_mod unat_mod_distrib)
  qed
  with b show "n < 4" by (metis bit_take_bit_iff)
qed

lemma nibbles_join:
  fixes hi lo b :: byte
  assumes "unat hi < 16" and "unat lo < 16"
  shows "push_bit 4 hi OR lo = b \<longleftrightarrow> hi = drop_bit 4 b \<and> lo = b AND 0x0f"
proof -
  have m: "b AND 0x0f = take_bit 4 b" for b :: byte
    by (simp add: take_bit_eq_mask mask_eq_exp_minus_1)
  note bits = nibble_bits [OF assms(1)] nibble_bits [OF assms(2)]
  show ?thesis
  proof
    assume b: "push_bit 4 hi OR lo = b"
    have "hi = drop_bit 4 b"
      unfolding b [symmetric]
      by (rule bit_word_eqI) (use bits in \<open>auto simp: bit_simps\<close>)
    moreover have "lo = take_bit 4 b"
      unfolding b [symmetric]
      by (rule bit_word_eqI) (use bits in \<open>auto simp: bit_simps\<close>)
    ultimately show "hi = drop_bit 4 b \<and> lo = b AND 0x0f" by (simp add: m)
  next
    assume "hi = drop_bit 4 b \<and> lo = b AND 0x0f"
    then show "push_bit 4 hi OR lo = b"
      by (simp only: m) (rule bit_word_eqI, auto simp: bit_simps)
  qed
qed
lemma nibble_bounds: "unat (drop_bit 4 b) < 16" "unat (b AND 0x0f) < 16" for b :: byte
proof -
  have "unat b < 256"
    using unsigned_less [of b, where 'a = nat] by simp
  moreover have "unat (drop_bit 4 b) = unat b div 16"
    by (simp add: drop_bit_eq_div unat_div_distrib)
  ultimately show "unat (drop_bit 4 b) < 16" by simp
  have "b AND 0x0f \<le> 0x0f"
    by (rule word_and_le1)
  then show "unat (b AND 0x0f) < 16"
    by (simp add: word_le_nat_alt)
qed

fun hex_text :: "byte list \<Rightarrow> string" where
  "hex_text [] = []"
| "hex_text (b # bs) = HEX ! unat (drop_bit 4 b) # HEX ! unat (b AND 0x0f) # hex_text bs"

lemma to_hex_text: "to_hex i = hex_text (to_bytes i)"
proof -
  have "concat (map (\<lambda>b. [HEX ! unat (drop_bit 4 b), HEX ! unat (b AND 0x0f)]) bs) = hex_text bs" for bs
    by (induction bs) simp_all
  then show ?thesis by (simp add: to_hex_def)
qed

lemma length_hex_text [simp]: "length (hex_text bs) = 2 * length bs"
  by (induction bs) simp_all

lemma hex_pairs_iff:
  "length s = 2 * n \<Longrightarrow>
   hex_pairs (map of_char s) = Some bs \<longleftrightarrow> length bs = n \<and> ascii_lower s = hex_text bs"
proof (induction n arbitrary: s bs)
  case (Suc n)
  then obtain h l t where s: "s = h # l # t" and t: "length t = 2 * n"
    by (cases s; cases "tl s") auto
  have "hex_pairs (map of_char s) = Some bs \<longleftrightarrow>
    (\<exists>hi lo cs. from_hex_digit (of_char h) = Some hi \<and> from_hex_digit (of_char l) = Some lo \<and>
       hex_pairs (map of_char t) = Some cs \<and> bs = (push_bit 4 hi OR lo) # cs)"
    by (auto simp: s split: option.splits)
  also have "\<dots> \<longleftrightarrow> (\<exists>b cs. ascii_lower_char h = HEX ! unat (drop_bit 4 b) \<and>
      ascii_lower_char l = HEX ! unat (b AND 0x0f) \<and> length cs = n \<and> ascii_lower t = hex_text cs \<and>
      bs = b # cs)"
    (is "?L \<longleftrightarrow> ?R")
  proof
    assume ?L
    then obtain hi lo cs where d: "unat hi < 16" "ascii_lower_char h = HEX ! unat hi"
      "unat lo < 16" "ascii_lower_char l = HEX ! unat lo"
      "length cs = n" "ascii_lower t = hex_text cs" "bs = (push_bit 4 hi OR lo) # cs"
      unfolding from_hex_digit_iff Suc.IH [OF t] by blast
    with nibbles_join [OF d(1,3), of "push_bit 4 hi OR lo"] show ?R by auto
  next
    assume ?R
    then obtain b cs where r: "ascii_lower_char h = HEX ! unat (drop_bit 4 b)"
      "ascii_lower_char l = HEX ! unat (b AND 0x0f)" "length cs = n" "ascii_lower t = hex_text cs"
      "bs = b # cs"
      by blast
    moreover have "push_bit 4 (drop_bit 4 b) OR (b AND 0x0f) = b"
      using nibbles_join [OF nibble_bounds [of b], of b] by simp
    ultimately show ?L
      unfolding from_hex_digit_iff Suc.IH [OF t] using nibble_bounds [of b] by metis
  qed
  also have "\<dots> \<longleftrightarrow> length bs = Suc n \<and> ascii_lower s = hex_text bs"
    by (cases bs) (auto simp: s ascii_lower_def)
  finally show ?case .
qed (auto simp: ascii_lower_def)

text \<open>Parsing a hexadecimal identifier succeeds exactly on the 32 digits that printing
  writes, in either case, and gives back the identifier they stand for.\<close>

theorem from_hex_iff: "from_hex s = Inr i \<longleftrightarrow> ascii_lower s = to_hex i"
proof (cases "length s = 32")
  case True
  then have iff: "hex_to_bytes s = Some bs \<longleftrightarrow> length bs = 16 \<and> ascii_lower s = hex_text bs" for bs
    using hex_pairs_iff [of s 16 bs] by (simp add: hex_to_bytes_def del: hex_pairs.simps)
  have "from_hex s = Inr i \<longleftrightarrow> (\<exists>bs. hex_to_bytes s = Some bs \<and> from_bytes bs = i)"
    by (simp add: from_hex_def split: option.split)
  also have "\<dots> \<longleftrightarrow>
      (\<exists>bs. length bs = 16 \<and> ascii_lower s = hex_text bs \<and> from_bytes bs = i)"
    by (simp only: iff conj_assoc)
  also have "\<dots> \<longleftrightarrow> ascii_lower s = to_hex i"
    unfolding to_hex_text by (metis from_to_bytes length_to_bytes to_from_bytes)
  finally show ?thesis .
next
  case False
  have "length (to_hex i) = 32"
    by (simp add: to_hex_text)
  moreover have "length (ascii_lower s) = length s"
    by (simp add: ascii_lower_def)
  ultimately show ?thesis
    using False by (auto simp: from_hex_def hex_to_bytes_def)
qed

section \<open>Conversions of the database layer\<close>

datatype sea_value = Bytes "byte list option" | SeaString "string option" | OtherValue

datatype column_error = BadLength nat | BadText string | ColumnError string | SlicePanic

definition id_to_value :: "db_id \<Rightarrow> sea_value" where
  "id_to_value i = Bytes (Some (to_bytes i))"

text \<open>\<open>ulid_from_str\<close> is the ulid crate's parser of the 26-character text form.\<close>

definition id_from_value :: "(string \<Rightarrow> db_id option) \<Rightarrow> sea_value \<Rightarrow> db_id option" where
  "id_from_value ulid_from_str v =
     (case v of
        Bytes (Some bs) \<Rightarrow> (if length bs = 16 then Some (from_bytes bs) else None)
      | SeaString (Some s) \<Rightarrow> ulid_from_str s
      | _ \<Rightarrow> None)"

text \<open>
  Reading a column: what the driver makes of it as bytes and as text are arguments. Bytes of a
  wrong length are an error even where the text would have been read. The message of the last
  error slices the text at 64 bytes, which panics inside a character.
\<close>

definition id_from_column ::
  "(string \<Rightarrow> db_id option) \<Rightarrow> string + byte list \<Rightarrow> string + string \<Rightarrow> column_error + db_id" where
  "id_from_column ulid_from_str bytes_result text_result =
     (case bytes_result of
        Inr v \<Rightarrow> (if length v = 16 then Inr (from_bytes v) else Inl (BadLength (length v)))
      | Inl _ \<Rightarrow>
          (case text_result of
             Inr s \<Rightarrow>
               (case ulid_from_str s of
                  Some i \<Rightarrow> Inr i
                | None \<Rightarrow>
                    (case hex_to_bytes s of
                       Some bs \<Rightarrow> Inr (from_bytes bs)
                     | None \<Rightarrow>
                         if is_char_boundary s (min (length s) 64)
                         then Inl (BadText (take 64 s)) else Inl SlicePanic))
           | Inl e \<Rightarrow> Inl (ColumnError e)))"

lemma id_value_roundtrip [simp]: "id_from_value u (id_to_value i) = Some i"
  by (simp add: id_from_value_def id_to_value_def)

lemma id_column_roundtrip [simp]: "id_from_column u (Inr (to_bytes i)) t = Inr i"
  by (simp add: id_from_column_def)

end
