(* ===== verification/Seq_Events.thy ===== *)
theory Seq_Events
  imports Db_Id Accounts
begin

text \<open>
  The events of the firehose (cacos-pds-sequencer/src/events.rs): their bodies, the typed
  envelopes broadcast to subscribers, and the rows of \<open>repo_seq\<close> that persist them. The DAG-CBOR
  and JSON codecs of serde, the CAR writer and the block maps of rsky-repo and the time formats
  are functions of the record \<open>seq_codec\<close>; a CID is its byte string. Times are nanoseconds since
  the epoch, as \<open>OffsetDateTime\<close> holds them.
\<close>

type_synonym cid = string
type_synonym block_map = "(cid \<times> string) list"

section \<open>Event bodies\<close>

datatype commit_action = CommitCreate | CommitUpdate | CommitDelete
datatype commit_evt_op_action = OpCreate | OpUpdate | OpDelete

fun op_action_as_str :: "commit_evt_op_action \<Rightarrow> string" where
  "op_action_as_str OpCreate = ''create''"
| "op_action_as_str OpUpdate = ''update''"
| "op_action_as_str OpDelete = ''delete''"

record commit_op =
  co_action :: commit_action
  co_path :: string
  co_cid :: "cid option"
  co_prev :: "cid option"

record commit_data =
  cd_cid :: cid
  cd_rev :: string
  cd_since :: "string option"
  cd_prev :: "cid option"
  cd_new_blocks :: block_map
  cd_relevant_blocks :: block_map
  cd_removed_cids :: "cid list"

record commit_data_with_ops =
  cw_commit_data :: commit_data
  cw_ops :: "commit_op list"
  cw_prev_data :: "cid option"

record commit_evt_op =
  eo_action :: commit_evt_op_action
  eo_path :: string
  eo_cid :: "cid option"
  eo_prev :: "cid option"

record commit_evt =
  ce_rebase :: bool
  ce_too_big :: bool
  ce_repo :: string
  ce_commit :: cid
  ce_prev :: "cid option"
  ce_rev :: string
  ce_since :: "string option"
  ce_blocks :: string
  ce_ops :: "commit_evt_op list"
  ce_blobs :: "cid list"
  ce_prev_data :: "cid option"

record handle_evt =
  he_did :: string
  he_handle :: string

record identity_evt =
  ie_did :: string
  ie_handle :: "string option"

record account_evt =
  ae_did :: string
  ae_active :: bool
  ae_status :: "lex_account_status option"

record sync_evt =
  se_did :: string
  se_blocks :: string
  se_rev :: string

record 'e typed_evt =
  te_type :: string
  te_seq :: int
  te_time :: string
  te_evt :: 'e

datatype seq_evt =
    TypedCommitEvt "commit_evt typed_evt"
  | TypedIdentityEvt "identity_evt typed_evt"
  | TypedAccountEvt "account_evt typed_evt"
  | TypedSyncEvt "sync_evt typed_evt"

fun evt_seq :: "seq_evt \<Rightarrow> int" where
  "evt_seq (TypedCommitEvt e) = te_seq e"
| "evt_seq (TypedIdentityEvt e) = te_seq e"
| "evt_seq (TypedAccountEvt e) = te_seq e"
| "evt_seq (TypedSyncEvt e) = te_seq e"

section \<open>Codecs\<close>

record seq_codec =
  enc_commit :: "commit_evt \<Rightarrow> string option"
  dec_commit :: "string \<Rightarrow> commit_evt option"
  enc_handle :: "handle_evt \<Rightarrow> string option"
  enc_identity :: "identity_evt \<Rightarrow> string option"
  dec_identity :: "string \<Rightarrow> identity_evt option"
  enc_account :: "account_evt \<Rightarrow> string option"
  dec_account :: "string \<Rightarrow> account_evt option"
  enc_sync :: "sync_evt \<Rightarrow> string option"
  dec_sync :: "string \<Rightarrow> sync_evt option"
  json_to_string :: "seq_evt \<Rightarrow> string option"
  json_type :: "string \<Rightarrow> string option option"
  json_commit :: "string \<Rightarrow> commit_evt typed_evt option"
  json_identity :: "string \<Rightarrow> identity_evt typed_evt option"
  json_account :: "string \<Rightarrow> account_evt typed_evt option"
  json_sync :: "string \<Rightarrow> sync_evt typed_evt option"
  add_map :: "block_map \<Rightarrow> block_map \<Rightarrow> block_map option"
  get_many :: "block_map \<Rightarrow> cid list \<Rightarrow> (block_map \<times> cid list) option"
  blocks_to_car_file :: "cid option \<Rightarrow> block_map \<Rightarrow> string option"
  fmt_millis :: "int \<Rightarrow> string option" \<comment> \<open>year to milliseconds and Z\<close>
  time_to_string :: "int \<Rightarrow> string"
  parse_millis :: "string \<Rightarrow> int option"
  parse_rfc3339 :: "string \<Rightarrow> int option"
  time_in_range :: "int \<Rightarrow> bool" \<comment> \<open>years of four digits\<close>
  db_time :: "int \<Rightarrow> string" \<comment> \<open>how the database driver writes a time stamp\<close>

datatype seq_error =
    EncodeError
  | DecodeError string
  | InvalidEventType string
  | CarError
  | BlockMapError
  | CommitBlockMissing
  | InvalidSeqBytes nat
  | TimeParseError
  | SeqTaken

definition format_offset_datetime :: "seq_codec \<Rightarrow> int \<Rightarrow> string" where
  "format_offset_datetime c t =
     (case fmt_millis c t of Some s \<Rightarrow> s | None \<Rightarrow> time_to_string c t)"

text \<open>
  Reading a JSON envelope back: \<open>json_type\<close> is the text of the field \<open>type\<close> of the value, if the
  text is JSON and has one.
\<close>

definition seq_evt_from_str :: "seq_codec \<Rightarrow> string \<Rightarrow> seq_evt option" where
  "seq_evt_from_str c s =
     (case json_type c s of
        Some (Some typ) \<Rightarrow>
          if typ = ''commit'' then map_option TypedCommitEvt (json_commit c s)
          else if typ = ''identity'' then map_option TypedIdentityEvt (json_identity c s)
          else if typ = ''account'' then map_option TypedAccountEvt (json_account c s)
          else if typ = ''sync'' then map_option TypedSyncEvt (json_sync c s)
          else None
      | _ \<Rightarrow> None)"

section \<open>Rows\<close>

text \<open>A row as read by the code (\<open>repo_seq::Model\<close>), and one still without its number.\<close>

record repo_seq =
  rs_seq :: db_id
  rs_did :: string
  rs_event_type :: string
  rs_event :: string
  rs_invalidated :: "int option"
  rs_sequenced_at :: int

record repo_seq_new =
  rn_did :: string
  rn_event_type :: string
  rn_event :: string
  rn_sequenced_at :: int

record repo_seq_active =
  ra_seq :: "db_id option"
  ra_did :: string
  ra_event_type :: string
  ra_event :: string
  ra_invalidated :: "int option"
  ra_sequenced_at :: int

definition mk_repo_seq_new :: "string \<Rightarrow> string \<Rightarrow> string \<Rightarrow> int \<Rightarrow> repo_seq_new" where
  "mk_repo_seq_new did event_type event sequenced_at =
     \<lparr>rn_did = did, rn_event_type = event_type, rn_event = event, rn_sequenced_at = sequenced_at\<rparr>"

definition active_of_new :: "repo_seq_new \<Rightarrow> repo_seq_active" where
  "active_of_new value =
     \<lparr>ra_seq = None, ra_did = rn_did value, ra_event_type = rn_event_type value,
      ra_event = rn_event value, ra_invalidated = Some 0, ra_sequenced_at = rn_sequenced_at value\<rparr>"

section \<open>Rows from events\<close>

fun evt_action_of :: "commit_action \<Rightarrow> commit_evt_op_action" where
  "evt_action_of CommitCreate = OpCreate"
| "evt_action_of CommitUpdate = OpUpdate"
| "evt_action_of CommitDelete = OpDelete"

definition evt_op_of :: "commit_op \<Rightarrow> commit_evt_op" where
  "evt_op_of op' =
     \<lparr>eo_action = evt_action_of (co_action op'), eo_path = co_path op', eo_cid = co_cid op',
      eo_prev = co_prev op'\<rparr>"

definition commit_evt_of :: "string \<Rightarrow> commit_data_with_ops \<Rightarrow> string \<Rightarrow> commit_evt" where
  "commit_evt_of did cw car_slice =
     \<lparr>ce_rebase = False, ce_too_big = False, ce_repo = did,
      ce_commit = cd_cid (cw_commit_data cw), ce_prev = None, ce_rev = cd_rev (cw_commit_data cw),
      ce_since = cd_since (cw_commit_data cw), ce_blocks = car_slice,
      ce_ops = map evt_op_of (cw_ops cw), ce_blobs = [], ce_prev_data = cw_prev_data cw\<rparr>"

definition encoded_row :: "string \<Rightarrow> string \<Rightarrow> string option \<Rightarrow> int \<Rightarrow> seq_error + repo_seq_new" where
  "encoded_row did event_type body now =
     (case body of None \<Rightarrow> Inl EncodeError
      | Some b \<Rightarrow> Inr (mk_repo_seq_new did event_type b now))"

definition format_seq_commit ::
  "seq_codec \<Rightarrow> string \<Rightarrow> commit_data_with_ops \<Rightarrow> int \<Rightarrow> seq_error + repo_seq_new" where
  "format_seq_commit c did cw now =
     (case add_map c [] (cd_new_blocks (cw_commit_data cw)) of
        None \<Rightarrow> Inl BlockMapError
      | Some b1 \<Rightarrow>
          (case add_map c b1 (cd_relevant_blocks (cw_commit_data cw)) of
             None \<Rightarrow> Inl BlockMapError
           | Some blocks_to_send \<Rightarrow>
               (case blocks_to_car_file c (Some (cd_cid (cw_commit_data cw))) blocks_to_send of
                  None \<Rightarrow> Inl CarError
                | Some car_slice \<Rightarrow>
                    encoded_row did ''append'' (enc_commit c (commit_evt_of did cw car_slice)) now)))"

definition format_seq_handle_update ::
  "seq_codec \<Rightarrow> string \<Rightarrow> string \<Rightarrow> int \<Rightarrow> seq_error + repo_seq_new" where
  "format_seq_handle_update c did handle now =
     encoded_row did ''handle'' (enc_handle c \<lparr>he_did = did, he_handle = handle\<rparr>) now"

definition format_seq_identity_evt ::
  "seq_codec \<Rightarrow> string \<Rightarrow> string option \<Rightarrow> int \<Rightarrow> seq_error + repo_seq_new" where
  "format_seq_identity_evt c did handle now =
     encoded_row did ''identity'' (enc_identity c \<lparr>ie_did = did, ie_handle = handle\<rparr>) now"

definition format_seq_account_evt ::
  "seq_codec \<Rightarrow> string \<Rightarrow> bool \<Rightarrow> lex_account_status option \<Rightarrow> int \<Rightarrow> seq_error + repo_seq_new" where
  "format_seq_account_evt c did active status now =
     encoded_row did ''account''
       (enc_account c \<lparr>ae_did = did, ae_active = active, ae_status = status\<rparr>) now"

definition format_seq_sync_evt ::
  "seq_codec \<Rightarrow> string \<Rightarrow> string \<Rightarrow> block_map \<Rightarrow> int \<Rightarrow> seq_error + repo_seq_new" where
  "format_seq_sync_evt c did rev' blocks now =
     (case blocks_to_car_file c None blocks of
        None \<Rightarrow> Inl CarError
      | Some car_slice \<Rightarrow>
          encoded_row did ''sync''
            (enc_sync c \<lparr>se_did = did, se_blocks = car_slice, se_rev = rev'\<rparr>) now)"

definition seq_evt_to_envelope :: "seq_codec \<Rightarrow> seq_evt \<Rightarrow> int \<Rightarrow> seq_error + repo_seq_active" where
  "seq_evt_to_envelope c evt now =
     (let (did, event_type, body) =
        (case evt of
           TypedCommitEvt e \<Rightarrow> (ce_repo (te_evt e), ''append'', enc_commit c (te_evt e))
         | TypedIdentityEvt e \<Rightarrow> (ie_did (te_evt e), ''identity'', enc_identity c (te_evt e))
         | TypedAccountEvt e \<Rightarrow> (ae_did (te_evt e), ''account'', enc_account c (te_evt e))
         | TypedSyncEvt e \<Rightarrow> (se_did (te_evt e), ''sync'', enc_sync c (te_evt e)))
      in case body of None \<Rightarrow> Inl EncodeError
         | Some b \<Rightarrow>
             Inr \<lparr>ra_seq = None, ra_did = did, ra_event_type = event_type, ra_event = b,
                  ra_invalidated = Some 0, ra_sequenced_at = now\<rparr>)"

record sync_evt_data =
  sy_cid :: cid
  sy_rev :: string
  sy_blocks :: block_map

definition into_parts :: "sync_evt_data \<Rightarrow> string \<times> block_map" where
  "into_parts d = (sy_rev d, sy_blocks d)"

definition sync_evt_data_from_commit ::
  "seq_codec \<Rightarrow> commit_data_with_ops \<Rightarrow> seq_error + sync_evt_data" where
  "sync_evt_data_from_commit c cw =
     (let cd = cw_commit_data cw in
      case get_many c (cd_relevant_blocks cd) [cd_cid cd] of
        None \<Rightarrow> Inl BlockMapError
      | Some (blocks, missing) \<Rightarrow>
          if missing \<noteq> [] then Inl CommitBlockMissing
          else Inr \<lparr>sy_cid = cd_cid cd, sy_rev = cd_rev cd, sy_blocks = blocks\<rparr>)"

section \<open>Typed events from rows\<close>

text \<open>
  Two functions of the code do this, \<open>typed_seq_evt\<close> of the sequencer and
  \<open>envelope_from_repo_row\<close> of the events; they differ in how they word their errors only.
\<close>

definition with_header :: "seq_codec \<Rightarrow> string \<Rightarrow> repo_seq \<Rightarrow> 'e \<Rightarrow> 'e typed_evt" where
  "with_header c typ row e =
     \<lparr>te_type = typ, te_seq = seq_ms (rs_seq row),
      te_time = format_offset_datetime c (rs_sequenced_at row), te_evt = e\<rparr>"

definition typed_seq_evt :: "seq_codec \<Rightarrow> repo_seq \<Rightarrow> seq_error + seq_evt" where
  "typed_seq_evt c row =
     (if rs_event_type row = ''append'' \<or> rs_event_type row = ''rebase'' then
        (case dec_commit c (rs_event row) of
           None \<Rightarrow> Inl (DecodeError ''commit'')
         | Some e \<Rightarrow> Inr (TypedCommitEvt (with_header c ''commit'' row e)))
      else if rs_event_type row = ''sync'' then
        (case dec_sync c (rs_event row) of
           None \<Rightarrow> Inl (DecodeError ''sync'')
         | Some e \<Rightarrow> Inr (TypedSyncEvt (with_header c ''sync'' row e)))
      else if rs_event_type row = ''identity'' then
        (case dec_identity c (rs_event row) of
           None \<Rightarrow> Inl (DecodeError ''identity'')
         | Some e \<Rightarrow> Inr (TypedIdentityEvt (with_header c ''identity'' row e)))
      else if rs_event_type row = ''account'' then
        (case dec_account c (rs_event row) of
           None \<Rightarrow> Inl (DecodeError ''account'')
         | Some e \<Rightarrow> Inr (TypedAccountEvt (with_header c ''account'' row e)))
      else Inl (InvalidEventType (rs_event_type row)))"

definition envelope_from_repo_row :: "seq_codec \<Rightarrow> repo_seq \<Rightarrow> seq_error + seq_evt" where
  "envelope_from_repo_row c row =
     (let hdr_seq = seq_ms (rs_seq row);
          hdr_time = (case fmt_millis c (rs_sequenced_at row) of Some s \<Rightarrow> s
                      | None \<Rightarrow> time_to_string c (rs_sequenced_at row))
      in if rs_event_type row \<in> {''append'', ''rebase''} then
           (case dec_commit c (rs_event row) of
              None \<Rightarrow> Inl (DecodeError ''commit'')
            | Some e \<Rightarrow> Inr (TypedCommitEvt
                \<lparr>te_type = ''commit'', te_seq = hdr_seq, te_time = hdr_time, te_evt = e\<rparr>))
         else if rs_event_type row = ''sync'' then
           (case dec_sync c (rs_event row) of
              None \<Rightarrow> Inl (DecodeError ''sync'')
            | Some e \<Rightarrow> Inr (TypedSyncEvt
                \<lparr>te_type = ''sync'', te_seq = hdr_seq, te_time = hdr_time, te_evt = e\<rparr>))
         else if rs_event_type row = ''identity'' then
           (case dec_identity c (rs_event row) of
              None \<Rightarrow> Inl (DecodeError ''identity'')
            | Some e \<Rightarrow> Inr (TypedIdentityEvt
                \<lparr>te_type = ''identity'', te_seq = hdr_seq, te_time = hdr_time, te_evt = e\<rparr>))
         else if rs_event_type row = ''account'' then
           (case dec_account c (rs_event row) of
              None \<Rightarrow> Inl (DecodeError ''account'')
            | Some e \<Rightarrow> Inr (TypedAccountEvt
                \<lparr>te_type = ''account'', te_seq = hdr_seq, te_time = hdr_time, te_evt = e\<rparr>))
         else Inl (InvalidEventType (rs_event_type row)))"

lemma envelope_from_repo_row_eq: "envelope_from_repo_row c row = typed_seq_evt c row"
  unfolding envelope_from_repo_row_def typed_seq_evt_def with_header_def
    format_offset_datetime_def Let_def by simp

lemma typed_seq_evt_seq: "typed_seq_evt c row = Inr e \<Longrightarrow> evt_seq e = seq_ms (rs_seq row)"
  by (auto simp: typed_seq_evt_def with_header_def split: if_splits option.splits)

section \<open>What the code relies on\<close>

text \<open>The codecs are inverse to themselves, on a body and on an envelope with its own type.\<close>

definition cbor_ok :: "seq_codec \<Rightarrow> bool" where
  "cbor_ok c \<longleftrightarrow>
     (\<forall>e b. enc_commit c e = Some b \<longrightarrow> dec_commit c b = Some e) \<and>
     (\<forall>e b. enc_identity c e = Some b \<longrightarrow> dec_identity c b = Some e) \<and>
     (\<forall>e b. enc_account c e = Some b \<longrightarrow> dec_account c b = Some e) \<and>
     (\<forall>e b. enc_sync c e = Some b \<longrightarrow> dec_sync c b = Some e)"

definition json_ok :: "seq_codec \<Rightarrow> bool" where
  "json_ok c \<longleftrightarrow>
     (\<forall>e s. json_to_string c (TypedCommitEvt e) = Some s \<longrightarrow>
        json_type c s = Some (Some (te_type e)) \<and> json_commit c s = Some e) \<and>
     (\<forall>e s. json_to_string c (TypedIdentityEvt e) = Some s \<longrightarrow>
        json_type c s = Some (Some (te_type e)) \<and> json_identity c s = Some e) \<and>
     (\<forall>e s. json_to_string c (TypedAccountEvt e) = Some s \<longrightarrow>
        json_type c s = Some (Some (te_type e)) \<and> json_account c s = Some e) \<and>
     (\<forall>e s. json_to_string c (TypedSyncEvt e) = Some s \<longrightarrow>
        json_type c s = Some (Some (te_type e)) \<and> json_sync c s = Some e)"

text \<open>A time stamp the driver has written is read back, in one of the two formats.\<close>

definition db_times_ok :: "seq_codec \<Rightarrow> bool" where
  "db_times_ok c \<longleftrightarrow> (\<forall>t. time_in_range c t \<longrightarrow>
     (case parse_millis c (db_time c t) of Some t' \<Rightarrow> Some t' | None \<Rightarrow> parse_rfc3339 c (db_time c t)) =
       Some t)"

text \<open>An event the sequencer makes of a row survives its JSON envelope.\<close>

lemma json_roundtrip:
  assumes "json_ok c" and "typed_seq_evt c row = Inr e" and "json_to_string c e = Some s"
  shows "seq_evt_from_str c s = Some e"
  using assms
  by (cases e) (auto simp: typed_seq_evt_def json_ok_def seq_evt_from_str_def with_header_def
      split: if_splits option.splits)

text \<open>The four kinds of rows decode to the event they were made of.\<close>

lemma decode_encoded:
  assumes "cbor_ok c"
  shows "enc_commit c ce = Some (rs_event row) \<Longrightarrow> rs_event_type row = ''append'' \<Longrightarrow>
      typed_seq_evt c row = Inr (TypedCommitEvt (with_header c ''commit'' row ce))"
    and "enc_identity c ie = Some (rs_event row) \<Longrightarrow> rs_event_type row = ''identity'' \<Longrightarrow>
      typed_seq_evt c row = Inr (TypedIdentityEvt (with_header c ''identity'' row ie))"
    and "enc_account c ae = Some (rs_event row) \<Longrightarrow> rs_event_type row = ''account'' \<Longrightarrow>
      typed_seq_evt c row = Inr (TypedAccountEvt (with_header c ''account'' row ae))"
    and "enc_sync c se = Some (rs_event row) \<Longrightarrow> rs_event_type row = ''sync'' \<Longrightarrow>
      typed_seq_evt c row = Inr (TypedSyncEvt (with_header c ''sync'' row se))"
  using assms by (simp_all add: cbor_ok_def typed_seq_evt_def)

lemma encoded_row_Inr:
  "encoded_row did typ body now = Inr n \<longleftrightarrow>
     (\<exists>b. body = Some b \<and> n = mk_repo_seq_new did typ b now)"
  by (auto simp: encoded_row_def split: option.splits)

end
