(* ===== verification/Seq_Worker.thy ===== *)
theory Seq_Worker
  imports Seq_Events
begin

text \<open>
  The job queue between the sequencer and the subscribers
  (cacos-pds-sequencer/src/apalis_worker.rs): a table of jobs, the operation that enqueues an
  envelope, and one turn of the worker's loop, which takes the pending job of the lowest
  \<open>run_at\<close>, marks it done and publishes it. The channel is the list of envelopes sent on it.

  The locale \<open>job_queue\<close> states what a client of such a queue may rely on, over the queue's
  contents as an ordered list; the table implements it (\<open>jobs\<close>), and every pending job is
  published after at most as many turns as there are jobs of no larger number.
\<close>

section \<open>Decimal numbers\<close>

fun dec_nat :: "nat \<Rightarrow> string" where
  "dec_nat n = (if n < 10 then [digit_char n] else dec_nat (n div 10) @ [digit_char (n mod 10)])"

declare dec_nat.simps [simp del]

definition dec_int :: "int \<Rightarrow> string" where
  "dec_int i = (if i < 0 then CHR ''-'' # dec_nat (nat (- i)) else dec_nat (nat i))"

lemma read_dec_snoc: "read_dec (s @ [c]) = read_dec s * 10 + undigit c"
  by (simp add: read_dec_def)

lemma read_dec_nat [simp]: "read_dec (dec_nat n) = n"
proof (induction n rule: dec_nat.induct)
  case (1 n)
  show ?case
  proof (cases "n < 10")
    case True
    then show ?thesis
      by (simp add: dec_nat.simps [of n] read_dec_def undigit_digit)
  next
    case False
    with 1 show ?thesis
      by (simp add: dec_nat.simps [of n] read_dec_snoc undigit_digit)
  qed
qed

lemma dec_nat_digits: "c \<in> set (dec_nat n) \<Longrightarrow> \<exists>d < 10. c = digit_char d"
proof (induction n rule: dec_nat.induct)
  case (1 n)
  show ?case
  proof (cases "n < 10 \<or> c = digit_char (n mod 10)")
    case True
    with "1.prems" show ?thesis
      by (intro exI [of _ "n mod 10"]) (auto simp: dec_nat.simps [of n] split: if_splits)
  next
    case False
    with 1 show ?thesis
      by (simp add: dec_nat.simps [of n])
  qed
qed

lemma dec_nat_nonempty [simp]: "dec_nat n \<noteq> []"
  by (subst dec_nat.simps) simp

lemma dec_nat_hd: "dec_nat n \<noteq> CHR ''-'' # s"
proof
  assume "dec_nat n = CHR ''-'' # s"
  then have "CHR ''-'' \<in> set (dec_nat n)"
    by simp
  then obtain d where d: "d < 10" "CHR ''-'' = digit_char d"
    using dec_nat_digits by blast
  then have "(of_char CHR ''-'' :: nat) = 48 + d"
    by (simp add: of_digit_char)
  then show False
    by simp
qed

lemma dec_int_inj [simp]: "dec_int i = dec_int j \<longleftrightarrow> i = j"
proof
  assume eq: "dec_int i = dec_int j"
  have nat_eq: "m = n" if "dec_nat m = dec_nat n" for m n
    using that by (metis read_dec_nat)
  from eq show "i = j"
    by (auto simp: dec_int_def dec_nat_hd dec_nat_hd [symmetric] split: if_splits dest!: nat_eq)
qed simp

section \<open>The table\<close>

record job_row =
  jb_id :: string
  jb_job_type :: string
  jb_status :: string
  jb_attempts :: int
  jb_max_attempts :: int
  jb_run_at :: int
  jb_payload :: string

record seq_event_job =
  sj_seq :: int
  sj_envelope :: string

definition job_id :: "int \<Rightarrow> string" where
  "job_id seq = ''seq-'' @ dec_int seq"

definition enqueue_seq_event_job :: "seq_event_job \<Rightarrow> job_row list \<Rightarrow> job_row list" where
  "enqueue_seq_event_job job pool =
     delete_where (\<lambda>r. jb_id r = job_id (sj_seq job)) pool @
       [\<lparr>jb_id = job_id (sj_seq job), jb_job_type = ''seq'', jb_status = ''Pending'',
         jb_attempts = 0, jb_max_attempts = 5, jb_run_at = sj_seq job,
         jb_payload = sj_envelope job\<rparr>]"

definition publish :: "string \<Rightarrow> string list \<Rightarrow> string list" where
  "publish envelope sent = sent @ [envelope]"

definition run_seq_event_job :: "seq_event_job \<Rightarrow> string list \<Rightarrow> string list" where
  "run_seq_event_job job sent = publish (sj_envelope job) sent"

text \<open>\<open>SELECT ... WHERE status = 'Pending' ORDER BY run_at ASC LIMIT 1\<close>.\<close>

definition is_pending :: "job_row \<Rightarrow> bool" where
  "is_pending r = (jb_status r = ''Pending'')"

definition next_job :: "job_row list \<Rightarrow> job_row option" where
  "next_job pool =
     (case sort_key jb_run_at (filter is_pending pool) of [] \<Rightarrow> None | r # _ \<Rightarrow> Some r)"

text \<open>One turn of the loop; with nothing pending it sleeps.\<close>

definition worker_turn :: "job_row list \<times> string list \<Rightarrow> job_row list \<times> string list" where
  "worker_turn = (\<lambda>(pool, sent).
     (case next_job pool of
        None \<Rightarrow> (pool, sent)
      | Some r \<Rightarrow>
          (update_where (\<lambda>r'. jb_id r' = jb_id r) (\<lambda>r'. r'\<lparr>jb_status := ''Done''\<rparr>) pool,
           run_seq_event_job \<lparr>sj_seq = jb_run_at r, sj_envelope = jb_payload r\<rparr> sent)))"

section \<open>A queue that publishes in order of numbers\<close>

datatype 'e queue_op = Enq int 'e | Turn

fun turns :: "'e queue_op list \<Rightarrow> nat" where
  "turns [] = 0"
| "turns (Turn # ops) = Suc (turns ops)"
| "turns (Enq _ _ # ops) = turns ops"

locale job_queue =
  fixes inv :: "'s \<Rightarrow> bool"
    and pending :: "'s \<Rightarrow> (int \<times> 'e) list"
    and sent :: "'s \<Rightarrow> 'e list"
    and enq :: "int \<Rightarrow> 'e \<Rightarrow> 's \<Rightarrow> 's"
    and turn :: "'s \<Rightarrow> 's"
  assumes inv_enq: "inv s \<Longrightarrow> inv (enq n e s)"
    and inv_turn: "inv s \<Longrightarrow> inv (turn s)"
    and ordered: "inv s \<Longrightarrow> sorted_wrt (\<lambda>p q. fst p < fst q) (pending s)"
    and pending_enq: "inv s \<Longrightarrow>
      set (pending (enq n e s)) = insert (n, e) {p \<in> set (pending s). fst p \<noteq> n}"
    and sent_enq: "inv s \<Longrightarrow> sent (enq n e s) = sent s"
    and pending_turn: "inv s \<Longrightarrow> pending (turn s) = tl (pending s)"
    and sent_turn: "inv s \<Longrightarrow>
      sent (turn s) = sent s @ (case pending s of [] \<Rightarrow> [] | p # _ \<Rightarrow> [snd p])"
begin

fun exec :: "'e queue_op list \<Rightarrow> 's \<Rightarrow> 's" where
  "exec [] s = s"
| "exec (Enq n e # ops) s = exec ops (enq n e s)"
| "exec (Turn # ops) s = exec ops (turn s)"

definition ahead :: "'s \<Rightarrow> int \<Rightarrow> nat" where
  "ahead s n = card {p \<in> set (pending s). fst p \<le> n}"

lemma sent_grows: "inv s \<Longrightarrow> \<exists>out. sent (exec ops s) = sent s @ out"
proof (induction ops s rule: exec.induct)
  case (2 n e ops s)
  then show ?case by (auto simp: sent_enq inv_enq)
next
  case (3 ops s)
  then obtain out where "sent (exec ops (turn s)) = sent (turn s) @ out"
    using inv_turn by blast
  with "3.prems" show ?case by (simp add: sent_turn)
qed simp

lemma ahead_enq: "inv s \<Longrightarrow> n < k \<Longrightarrow> ahead (enq k e s) n = ahead s n"
  unfolding ahead_def pending_enq by (rule arg_cong [where f = card]) auto

lemma ahead_turn:
  assumes "inv s" and "pending s = p # ps" and "fst p \<le> n"
  shows "ahead s n = Suc (ahead (turn s) n)"
proof -
  have "p \<notin> set ps"
    using ordered [OF assms(1)] assms(2) by auto
  moreover have "{q \<in> set (pending s). fst q \<le> n} = insert p {q \<in> set ps. fst q \<le> n}"
    using assms(2,3) by auto
  ultimately show ?thesis
    using assms(1,2) by (simp add: ahead_def pending_turn)
qed

lemma delivered:
  assumes "inv s" and "(n, e) \<in> set (pending s)"
    and "\<And>k e'. Enq k e' \<in> set ops \<Longrightarrow> n < k" and "ahead s n \<le> turns ops"
  shows "\<exists>out. sent (exec ops s) = sent s @ out \<and> e \<in> set out"
  using assms
proof (induction ops s rule: exec.induct)
  case (1 s)
  then have "ahead s n = 0" by simp
  with "1.prems"(2) show ?case
    by (auto simp: ahead_def)
next
  case (2 k f ops s)
  then have "n < k" by auto
  with 2 have "\<exists>out. sent (exec ops (enq k f s)) = sent (enq k f s) @ out \<and> e \<in> set out"
    by (intro "2.IH") (auto simp: inv_enq pending_enq ahead_enq)
  with 2 show ?case by (simp add: sent_enq)
next
  case (3 ops s)
  then obtain p ps where p: "pending s = p # ps"
    by (cases "pending s") auto
  obtain out where out: "sent (exec ops (turn s)) = sent (turn s) @ out"
    using sent_grows inv_turn "3.prems"(1) by blast
  have turn: "sent (turn s) = sent s @ [snd p]"
    using 3 p by (simp add: sent_turn)
  show ?case
  proof (cases "p = (n, e)")
    case True
    with out turn show ?thesis by simp
  next
    case False
    with 3 p have rest: "(n, e) \<in> set ps" by simp
    with ordered [OF "3.prems"(1)] p have "fst p \<le> n" by fastforce
    with "3.prems" p have "ahead (turn s) n \<le> turns ops"
      using ahead_turn by fastforce
    with 3 p rest have "\<exists>out. sent (exec ops (turn s)) = sent (turn s) @ out \<and> e \<in> set out"
      by (intro "3.IH") (auto simp: inv_turn pending_turn)
    with turn show ?thesis by auto
  qed
qed

text \<open>With nothing enqueued meanwhile, the worker publishes what is pending, in order.\<close>

lemma drained:
  "inv s \<Longrightarrow> length (pending s) \<le> k \<Longrightarrow>
   sent ((turn ^^ k) s) = sent s @ map snd (pending s) \<and> pending ((turn ^^ k) s) = []"
proof (induction k arbitrary: s)
  case (Suc k)
  have "sent ((turn ^^ k) (turn s)) = sent (turn s) @ map snd (pending (turn s)) \<and>
      pending ((turn ^^ k) (turn s)) = []"
    using Suc.prems by (intro Suc.IH) (auto simp: inv_turn pending_turn)
  then show ?case
    using Suc.prems by (cases "pending s") (simp_all add: funpow_swap1 [symmetric] sent_turn pending_turn)
qed simp

end

section \<open>The table implements the queue\<close>

definition pool_ok :: "job_row list \<Rightarrow> bool" where
  "pool_ok pool \<longleftrightarrow> uniq jb_id pool \<and> (\<forall>r \<in> set pool. jb_id r = job_id (jb_run_at r))"

definition pending_jobs :: "job_row list \<Rightarrow> (int \<times> string) list" where
  "pending_jobs pool =
     map (\<lambda>r. (jb_run_at r, jb_payload r)) (sort_key jb_run_at (filter is_pending pool))"

lemma job_id_inj [simp]: "job_id a = job_id b \<longleftrightarrow> a = b"
  by (simp add: job_id_def)

lemma pool_ok_runs: "pool_ok pool \<Longrightarrow> uniq jb_run_at pool"
  by (auto simp: pool_ok_def uniq_def distinct_map inj_on_def)

lemma pool_ok_enqueue: "pool_ok pool \<Longrightarrow> pool_ok (enqueue_seq_event_job job pool)"
  by (auto simp: pool_ok_def enqueue_seq_event_job_def uniq_snoc uniq_delete)

lemma pool_ok_done:
  "pool_ok pool \<Longrightarrow> pool_ok (update_where p (\<lambda>r. r\<lparr>jb_status := ''Done''\<rparr>) pool)"
  by (auto simp: pool_ok_def uniq_update set_update_where)

lemma set_pending_jobs:
  "set (pending_jobs pool) = (\<lambda>r. (jb_run_at r, jb_payload r)) ` {r \<in> set pool. is_pending r}"
  by (simp add: pending_jobs_def)

lemma sorted_distinct_strict:
  "sorted (map k xs) \<Longrightarrow> distinct (map k xs) \<Longrightarrow> sorted_wrt (\<lambda>x y. k x < (k y :: 'a::linorder)) xs"
  by (induction xs) (auto simp: order.order_iff_strict)

lemma sort_key_unique:
  fixes k :: "'a \<Rightarrow> 'b::linorder"
  assumes "sorted_wrt (\<lambda>x y. k x < k y) xs" and "set xs = set ys" and "uniq k ys"
  shows "sort_key k ys = xs"
proof -
  have "inj_on k (set ys)" "distinct ys"
    using assms(3) by (auto simp: uniq_def distinct_map)
  moreover have "distinct xs" "sorted (map k xs)"
    using assms(1) by (induction xs) (auto simp: order.order_iff_strict)
  ultimately show ?thesis
    using assms(2) map_sorted_distinct_set_unique [of k "sort_key k ys" xs]
    by (simp add: distinct_map)
qed

lemma pending_jobs_ordered:
  assumes "pool_ok pool"
  shows "sorted_wrt (\<lambda>p q. fst p < fst q) (pending_jobs pool)"
proof -
  have "distinct (map jb_run_at (sort_key jb_run_at (filter is_pending pool)))"
    using pool_ok_runs [OF assms] uniq_filter [of jb_run_at pool is_pending]
    by (simp add: uniq_def distinct_map)
  then have "sorted_wrt (\<lambda>r r'. jb_run_at r < jb_run_at r')
      (sort_key jb_run_at (filter is_pending pool))"
    by (intro sorted_distinct_strict) simp_all
  then show ?thesis
    by (simp add: pending_jobs_def sorted_wrt_map)
qed

lemma next_job_pending:
  "pending_jobs pool =
     (case next_job pool of None \<Rightarrow> [] | Some r \<Rightarrow> (jb_run_at r, jb_payload r) # tl (pending_jobs pool))"
  by (auto simp: next_job_def pending_jobs_def split: list.splits)

lemma pending_jobs_done:
  assumes ok: "pool_ok pool" and r: "next_job pool = Some r"
  shows "pending_jobs (update_where (\<lambda>r'. jb_id r' = jb_id r) (\<lambda>r'. r'\<lparr>jb_status := ''Done''\<rparr>) pool) =
    tl (pending_jobs pool)"
proof -
  let ?pool = "update_where (\<lambda>r'. jb_id r' = jb_id r) (\<lambda>r'. r'\<lparr>jb_status := ''Done''\<rparr>) pool"
  obtain rs where rs: "sort_key jb_run_at (filter is_pending pool) = r # rs"
    using r by (auto simp: next_job_def split: list.splits)
  have u: "uniq jb_run_at (filter is_pending pool)"
    using pool_ok_runs [OF ok] by (rule uniq_filter)
  then have d: "distinct (map jb_run_at (r # rs))" "distinct (r # rs)"
    by (simp_all add: uniq_def distinct_map flip: rs)
  have strict: "sorted_wrt (\<lambda>x y. jb_run_at x < jb_run_at y) (r # rs)"
    using d(1) by (intro sorted_distinct_strict) (simp_all flip: rs)
  have "set (r # rs) = {r' \<in> set pool. is_pending r'}"
    by (simp flip: rs)
  then have rest: "set rs = {r' \<in> set pool. is_pending r' \<and> r' \<noteq> r}"
    using d(2) by auto
  have in_pool: "r \<in> set pool"
    using \<open>set (r # rs) = _\<close> by auto
  have same: "jb_id r' = jb_id r \<longleftrightarrow> r' = r" if "r' \<in> set pool" for r'
    using that in_pool ok by (auto simp: pool_ok_def dest: uniq_eqI)
  have done_id: "r'\<lparr>jb_status := ''Done''\<rparr> = r' \<longleftrightarrow> jb_status r' = ''Done''" for r'
    by (cases r') auto
  have "set (filter is_pending ?pool) = set rs"
    unfolding rest by (auto simp: done_id set_update_where is_pending_def same image_iff split: if_splits)
  moreover have "uniq jb_run_at (filter is_pending ?pool)"
    using pool_ok_runs [OF pool_ok_done [OF ok]] by (rule uniq_filter)
  ultimately have "sort_key jb_run_at (filter is_pending ?pool) = rs"
    using strict by (intro sort_key_unique) simp_all
  then show ?thesis
    by (simp add: pending_jobs_def rs)
qed

lemma pending_jobs_enqueue:
  assumes "pool_ok pool"
  shows "set (pending_jobs (enqueue_seq_event_job job pool)) =
    insert (sj_seq job, sj_envelope job) {p \<in> set (pending_jobs pool). fst p \<noteq> sj_seq job}"
proof -
  let ?f = "\<lambda>r. (jb_run_at r, jb_payload r)"
  have "{r \<in> set (enqueue_seq_event_job job pool). is_pending r} =
      insert \<lparr>jb_id = job_id (sj_seq job), jb_job_type = ''seq'', jb_status = ''Pending'',
         jb_attempts = 0, jb_max_attempts = 5, jb_run_at = sj_seq job, jb_payload = sj_envelope job\<rparr>
        {r \<in> set pool. is_pending r \<and> jb_id r \<noteq> job_id (sj_seq job)}"
    by (auto simp: enqueue_seq_event_job_def is_pending_def)
  also have "{r \<in> set pool. is_pending r \<and> jb_id r \<noteq> job_id (sj_seq job)} =
      {r \<in> set pool. is_pending r \<and> jb_run_at r \<noteq> sj_seq job}"
    using assms by (auto simp: pool_ok_def)
  finally have "set (pending_jobs (enqueue_seq_event_job job pool)) = insert (sj_seq job, sj_envelope job)
      (?f ` {r \<in> set pool. is_pending r \<and> jb_run_at r \<noteq> sj_seq job})"
    by (simp add: set_pending_jobs)
  also have "?f ` {r \<in> set pool. is_pending r \<and> jb_run_at r \<noteq> sj_seq job} =
      {p \<in> set (pending_jobs pool). fst p \<noteq> sj_seq job}"
    unfolding set_pending_jobs by auto
  finally show ?thesis .
qed

definition pool_inv :: "job_row list \<times> string list \<Rightarrow> bool" where
  "pool_inv = pool_ok \<circ> fst"

definition enqueue_text :: "int \<Rightarrow> string \<Rightarrow> job_row list \<times> string list \<Rightarrow> job_row list \<times> string list" where
  "enqueue_text n e = apfst (enqueue_seq_event_job \<lparr>sj_seq = n, sj_envelope = e\<rparr>)"

interpretation jobs: job_queue pool_inv "pending_jobs \<circ> fst" snd enqueue_text worker_turn
proof unfold_locales
  fix s :: "job_row list \<times> string list" and n e
  assume "pool_inv s"
  then obtain pool sent where s: "s = (pool, sent)" and ok: "pool_ok pool"
    by (cases s) (simp add: pool_inv_def)
  show "pool_inv (enqueue_text n e s)"
    using ok by (simp add: s pool_inv_def enqueue_text_def pool_ok_enqueue)
  show "pool_inv (worker_turn s)"
    using ok by (simp add: s pool_inv_def worker_turn_def pool_ok_done split: option.split)
  show "sorted_wrt (\<lambda>p q. fst p < fst q) ((pending_jobs \<circ> fst) s)"
    using ok by (simp add: s pending_jobs_ordered)
  show "set ((pending_jobs \<circ> fst) (enqueue_text n e s)) =
      insert (n, e) {p \<in> set ((pending_jobs \<circ> fst) s). fst p \<noteq> n}"
    using pending_jobs_enqueue [OF ok] by (simp add: s enqueue_text_def)
  show "snd (enqueue_text n e s) = snd s"
    by (simp add: s enqueue_text_def)
  show "(pending_jobs \<circ> fst) (worker_turn s) = tl ((pending_jobs \<circ> fst) s)"
  proof (cases "next_job pool")
    case None
    then show ?thesis
      using next_job_pending [of pool] by (simp add: s worker_turn_def)
  next
    case (Some r)
    then show ?thesis
      using pending_jobs_done [OF ok] by (simp add: s worker_turn_def)
  qed
  show "snd (worker_turn s) =
      snd s @ (case (pending_jobs \<circ> fst) s of [] \<Rightarrow> [] | p # _ \<Rightarrow> [snd p])"
    using next_job_pending [of pool]
    by (cases "next_job pool"; cases "pending_jobs pool")
      (simp_all add: s worker_turn_def run_seq_event_job_def publish_def)
qed

section \<open>Every enqueued envelope is published\<close>

fun queue_step :: "string queue_op \<Rightarrow> job_row list \<times> string list \<Rightarrow> job_row list \<times> string list" where
  "queue_step (Enq n e) s = enqueue_text n e s"
| "queue_step Turn s = worker_turn s"

fun enqueued :: "'e queue_op list \<Rightarrow> nat" where
  "enqueued [] = 0"
| "enqueued (Enq _ _ # ops) = Suc (enqueued ops)"
| "enqueued (Turn # ops) = enqueued ops"

lemma enqueued_append: "enqueued (a @ b) = enqueued a + enqueued b"
  by (induction a rule: enqueued.induct) simp_all

lemma exec_fold: "jobs.exec ops s = fold queue_step ops s"
  by (induction ops s rule: jobs.exec.induct) simp_all

lemma inv_fold: "pool_inv s \<Longrightarrow> pool_inv (fold queue_step ops s)"
proof (induction ops arbitrary: s)
  case (Cons op' ops)
  then show ?case
    by (cases op') (simp_all add: jobs.inv_enq jobs.inv_turn)
qed simp

lemma card_pending_enq: "card (set (pending_jobs (enqueue_seq_event_job job pool))) \<le>
    Suc (card (set (pending_jobs pool)))" if "pool_ok pool"
proof -
  have "card (set (pending_jobs (enqueue_seq_event_job job pool))) \<le>
      Suc (card {p \<in> set (pending_jobs pool). fst p \<noteq> sj_seq job})"
    unfolding pending_jobs_enqueue [OF that] by (simp add: card_insert_if)
  also have "\<dots> \<le> Suc (card (set (pending_jobs pool)))"
    by (simp add: card_mono)
  finally show ?thesis .
qed

lemma card_pending_fold:
  "pool_inv s \<Longrightarrow> card (set (pending_jobs (fst (fold queue_step ops s)))) \<le>
     enqueued ops + card (set (pending_jobs (fst s)))"
proof (induction ops arbitrary: s)
  case (Cons op' ops)
  have inv: "pool_inv (queue_step op' s)"
    using Cons.prems by (cases op') (simp_all add: jobs.inv_enq jobs.inv_turn)
  have "card (set (pending_jobs (fst (queue_step op' s)))) \<le>
      enqueued [op'] + card (set (pending_jobs (fst s)))"
  proof (cases op')
    case (Enq n e)
    with Cons.prems card_pending_enq [of "fst s"] show ?thesis
      by (simp add: pool_inv_def enqueue_text_def)
  next
    case Turn
    then show ?thesis
      using jobs.pending_turn [OF Cons.prems] by (cases "pending_jobs (fst s)") (auto simp: card_insert_le)
  qed
  moreover have "enqueued (op' # ops) = enqueued [op'] + enqueued ops"
    by (cases op') simp_all
  ultimately show ?case
    using Cons.IH [OF inv] by simp
qed simp



text \<open>Two events of one millisecond share a job: the later one replaces the earlier.\<close>

lemma enqueue_overwrites:
  "enqueue_seq_event_job \<lparr>sj_seq = n, sj_envelope = e'\<rparr>
     (enqueue_seq_event_job \<lparr>sj_seq = n, sj_envelope = e\<rparr> pool) =
   enqueue_seq_event_job \<lparr>sj_seq = n, sj_envelope = e'\<rparr> pool"
  by (simp add: enqueue_seq_event_job_def delete_where_def)

end
