(* ===== verification/Seq_Demo.thy ===== *)
theory Seq_Demo
  imports Seq_Events
begin

text \<open>
  A concrete codec that satisfies what the sequencer relies on, for the witnesses of the
  theorems about events: time stamps are 18 digits, an identity event without handle is its DID,
  and one commit has an encoding. Everything else is refused.
\<close>

definition demo_commit_data :: commit_data_with_ops where
  "demo_commit_data =
     \<lparr>cw_commit_data = \<lparr>cd_cid = ''root'', cd_rev = ''rev1'', cd_since = None, cd_prev = None,
        cd_new_blocks = [(''root'', ''commit'')], cd_relevant_blocks = [(''root'', ''commit'')],
        cd_removed_cids = []\<rparr>,
      cw_ops = [\<lparr>co_action = CommitCreate, co_path = ''app.bsky.feed.post/1'',
        co_cid = Some ''leaf'', co_prev = None\<rparr>],
      cw_prev_data = None\<rparr>"

definition demo_commit_evt :: commit_evt where
  "demo_commit_evt = commit_evt_of ''did:plc:a'' demo_commit_data ''car''"

definition demo_head :: "char \<Rightarrow> 'e typed_evt \<Rightarrow> string option" where
  "demo_head k e =
     (if 0 \<le> te_seq e \<and> te_seq e < 10 ^ 15 \<and> length (te_time e) = 18
      then Some (k # pad_dec 15 (nat (te_seq e)) @ te_time e) else None)"

definition demo_seq :: "string \<Rightarrow> int" where
  "demo_seq s = int (read_dec (take 15 (tl s)))"

definition demo_time :: "string \<Rightarrow> string" where
  "demo_time s = take 18 (drop 15 (tl s))"

lemma demo_head:
  assumes "demo_head k e = Some h"
  shows "demo_seq (h @ r) = te_seq e" "demo_time (h @ r) = te_time e" "hd (h @ r) = k"
    "drop 34 (h @ r) = r"
proof -
  let ?p = "pad_dec 15 (nat (te_seq e))"
  have h: "h = k # ?p @ te_time e" and t: "length (te_time e) = 18"
      and n: "0 \<le> te_seq e" "nat (te_seq e) < 10 ^ 15"
    using assms by (auto simp: demo_head_def split: if_splits)
  have "length ?p = 15" by (rule length_pad_dec)
  then have "take 15 (?p @ te_time e @ r) = ?p" "drop 15 (?p @ te_time e @ r) = te_time e @ r"
    by simp_all
  with h t show "demo_time (h @ r) = te_time e"
    by (simp add: demo_time_def)
  show "demo_seq (h @ r) = te_seq e"
    using h n \<open>take 15 _ = _\<close> by (simp add: demo_seq_def read_pad_dec)
  show "hd (h @ r) = k" using h by simp
  have "length h = 34" using h t by simp
  then show "drop 34 (h @ r) = r" by simp
qed

definition demo_seq_codec :: seq_codec where
  "demo_seq_codec =
     \<lparr>enc_commit = (\<lambda>e. if e = demo_commit_evt then Some ''C'' else None),
      dec_commit = (\<lambda>b. if b = ''C'' then Some demo_commit_evt else None),
      enc_handle = (\<lambda>e. Some (he_handle e)),
      enc_identity = (\<lambda>e. if ie_handle e = None then Some (ie_did e) else None),
      dec_identity = (\<lambda>b. Some \<lparr>ie_did = b, ie_handle = None\<rparr>),
      enc_account = (\<lambda>_. None), dec_account = (\<lambda>_. None),
      enc_sync = (\<lambda>_. None), dec_sync = (\<lambda>_. None),
      json_to_string = (\<lambda>e. case e of
          TypedCommitEvt t \<Rightarrow>
            if te_type t = ''commit'' \<and> te_evt t = demo_commit_evt then demo_head CHR ''c'' t else None
        | TypedIdentityEvt t \<Rightarrow>
            if te_type t = ''identity'' \<and> ie_handle (te_evt t) = None
            then map_option (\<lambda>h. h @ ie_did (te_evt t)) (demo_head CHR ''i'' t) else None
        | _ \<Rightarrow> None),
      json_type = (\<lambda>s. if s = [] then None
        else Some (if hd s = CHR ''c'' then Some ''commit'' else Some ''identity'')),
      json_commit = (\<lambda>s. Some \<lparr>te_type = ''commit'', te_seq = demo_seq s, te_time = demo_time s,
        te_evt = demo_commit_evt\<rparr>),
      json_identity = (\<lambda>s. Some \<lparr>te_type = ''identity'', te_seq = demo_seq s, te_time = demo_time s,
        te_evt = \<lparr>ie_did = drop 34 s, ie_handle = None\<rparr>\<rparr>),
      json_account = (\<lambda>_. None), json_sync = (\<lambda>_. None),
      add_map = (\<lambda>a b. Some (b @ a)),
      get_many = (\<lambda>m cs. Some (filter (\<lambda>p. fst p \<in> set cs) m, filter (\<lambda>x. x \<notin> fst ` set m) cs)),
      blocks_to_car_file = (\<lambda>_ _. Some ''car''),
      fmt_millis = (\<lambda>t. if 0 \<le> t \<and> t < 10 ^ 18 then Some (pad_dec 18 (nat t)) else None),
      time_to_string = (\<lambda>_. ''?''),
      parse_millis = (\<lambda>s. Some (int (read_dec s))),
      parse_rfc3339 = (\<lambda>_. None),
      time_in_range = (\<lambda>t. 0 \<le> t \<and> t < 10 ^ 18),
      db_time = (\<lambda>t. pad_dec 18 (nat t))\<rparr>"

lemma demo_cbor_ok: "cbor_ok demo_seq_codec"
  by (auto simp: cbor_ok_def demo_seq_codec_def split: if_splits)

lemma demo_db_times_ok: "db_times_ok demo_seq_codec"
  by (auto simp: db_times_ok_def demo_seq_codec_def read_pad_dec nat_less_iff)

lemma demo_json_ok: "json_ok demo_seq_codec"
proof -
  have "json_type demo_seq_codec s = Some (Some (te_type e)) \<and> json_commit demo_seq_codec s = Some e"
    if "json_to_string demo_seq_codec (TypedCommitEvt e) = Some s" for e s
    using that demo_head [of "CHR ''c''" e s "[]"]
    by (cases e) (auto simp: demo_seq_codec_def demo_head_def split: if_splits)
  moreover have "json_type demo_seq_codec s = Some (Some (te_type e)) \<and>
      json_identity demo_seq_codec s = Some e"
    if s: "json_to_string demo_seq_codec (TypedIdentityEvt e) = Some s" for e s
  proof -
    obtain h where h: "demo_head CHR ''i'' e = Some h" "s = h @ ie_did (te_evt e)"
        "te_type e = ''identity''" "ie_handle (te_evt e) = None"
      using s by (auto simp: demo_seq_codec_def split: if_splits)
    have "h \<noteq> []"
      using h(1) by (auto simp: demo_head_def split: if_splits)
    with h demo_head [OF h(1), of "ie_did (te_evt e)"] show ?thesis
      by (simp add: demo_seq_codec_def)
  qed
  ultimately show ?thesis
    by (simp add: json_ok_def) (simp add: demo_seq_codec_def)
qed

end
