(* ===== verification/Sequencer.thy ===== *)
theory Sequencer
  imports Seq_Worker Seq_Demo
begin

text \<open>
  The sequencer (cacos-pds-sequencer/src/mod.rs) and the relays it notifies (crawlers.rs): the
  table \<open>repo_seq\<close> numbers the events of the firehose; each event is inserted under a fresh
  identifier and handed to the job queue. Identifiers come from a monotonic ULID generator and
  are an argument; that they increase is a hypothesis where it matters. The relays are asked over
  HTTP; which of them answer is an argument, and the requests made are recorded.

  Proved: the range query returns the rows after its cursor in the order they were sequenced,
  paging by it loses and repeats nothing, and what is typed from a stored row is the event that
  was formatted.
\<close>

section \<open>Relays\<close>

record crawlers =
  crw_hostname :: string
  crw_crawlers :: "string list"
  crw_last_notified :: "64 word"

record crawler_request =
  rq_hostname :: string

definition NOTIFY_THRESHOLD :: "64 word" where
  "NOTIFY_THRESHOLD = 20 * 60 * 1000"

definition crawlers_new :: "string \<Rightarrow> string list \<Rightarrow> crawlers" where
  "crawlers_new hostname services =
     \<lparr>crw_hostname = hostname, crw_crawlers = services, crw_last_notified = 0\<rparr>"

definition crawl_request :: "crawlers \<Rightarrow> crawler_request" where
  "crawl_request c = \<lparr>rq_hostname = crw_hostname c\<rparr>"

definition saturating_sub :: "'a::len word \<Rightarrow> 'a word \<Rightarrow> 'a word" where
  "saturating_sub a b = (if b \<le> a then a - b else 0)"

text \<open>
  \<open>now_ms\<close> is \<open>None\<close> when the clock is before the epoch, \<open>answers\<close> whether a request to a
  service succeeds. Every service is asked before the first failure is reported.
\<close>

definition notify_of_update ::
  "64 word option \<Rightarrow> (string \<Rightarrow> bool) \<Rightarrow> crawlers \<Rightarrow>
   (string + unit) \<times> crawlers \<times> (string \<times> crawler_request) list" where
  "notify_of_update now_ms answers c =
     (case now_ms of
        None \<Rightarrow> (Inl ''crawlers: SystemTime'', c, [])
      | Some now \<Rightarrow>
          if saturating_sub now (crw_last_notified c) < NOTIFY_THRESHOLD then (Inr (), c, [])
          else
            (let requests = map (\<lambda>service. (service @ ''/xrpc/com.atproto.sync.requestCrawl'',
                                            crawl_request c)) (crw_crawlers c)
             in if list_all answers (crw_crawlers c)
                then (Inr (), c\<lparr>crw_last_notified := now\<rparr>, requests)
                else (Inl ''request failed'', c, requests)))"

section \<open>State\<close>

record repo_seq_row =
  sr_seq :: "byte list"
  sr_did :: string
  sr_event_type :: string
  sr_event :: string
  sr_invalidated :: "int option"
  sr_sequenced_at :: string

record request_seq_range_opts =
  ro_earliest_seq :: "db_id option"
  ro_latest_seq :: "db_id option"
  ro_earliest_time :: "int option"
  ro_limit :: "int option"

text \<open>\<open>sq_requests\<close> records the HTTP requests to relays; the other fields are the code's.\<close>

record sequencer =
  sq_db :: "repo_seq_row list"
  sq_crawlers :: crawlers
  sq_job_pool :: "job_row list option"
  sq_last_seen :: "db_id option"
  sq_requests :: "(string \<times> crawler_request) list"

definition sequencer_new ::
  "repo_seq_row list \<Rightarrow> crawlers \<Rightarrow> job_row list option \<Rightarrow> db_id option \<Rightarrow> sequencer" where
  "sequencer_new db crawlers job_pool last_seen =
     \<lparr>sq_db = db, sq_crawlers = crawlers, sq_job_pool = job_pool, sq_last_seen = last_seen,
      sq_requests = []\<rparr>"

section \<open>Queries\<close>

text \<open>\<open>LIMIT\<close> with a bound value: none when it is absent or negative.\<close>

definition sql_limit :: "int option \<Rightarrow> 'a list \<Rightarrow> 'a list" where
  "sql_limit n xs =
     (case n of None \<Rightarrow> xs | Some k \<Rightarrow> if k < 0 then xs else take (nat k) xs)"

fun first_row :: "'a list \<Rightarrow> 'a option" where
  "first_row [] = None"
| "first_row (x # _) = Some x"

definition repo_seq_from_row :: "seq_codec \<Rightarrow> repo_seq_row \<Rightarrow> seq_error + repo_seq" where
  "repo_seq_from_row c row =
     (if length (sr_seq row) \<noteq> 16 then Inl (InvalidSeqBytes (length (sr_seq row)))
      else
        (case (case parse_millis c (sr_sequenced_at row) of
                 Some t \<Rightarrow> Some t
               | None \<Rightarrow> parse_rfc3339 c (sr_sequenced_at row)) of
           None \<Rightarrow> Inl TimeParseError
         | Some t \<Rightarrow>
             Inr \<lparr>rs_seq = from_bytes (sr_seq row), rs_did = sr_did row,
                  rs_event_type = sr_event_type row, rs_event = sr_event row,
                  rs_invalidated = sr_invalidated row, rs_sequenced_at = t\<rparr>))"

fun rows_to_models :: "seq_codec \<Rightarrow> repo_seq_row list \<Rightarrow> seq_error + repo_seq list" where
  "rows_to_models c [] = Inr []"
| "rows_to_models c (r # rs) =
     (case repo_seq_from_row c r of
        Inl e \<Rightarrow> Inl e
      | Inr m \<Rightarrow> (case rows_to_models c rs of Inl e \<Rightarrow> Inl e | Inr ms \<Rightarrow> Inr (m # ms)))"

definition optional_row :: "seq_codec \<Rightarrow> repo_seq_row list \<Rightarrow> seq_error + repo_seq option" where
  "optional_row c rows =
     (case first_row rows of
        None \<Rightarrow> Inr None
      | Some r \<Rightarrow> (case repo_seq_from_row c r of Inl e \<Rightarrow> Inl e | Inr m \<Rightarrow> Inr (Some m)))"

definition curr :: "sequencer \<Rightarrow> db_id option" where
  "curr s =
     (case first_row (rev (sort_key sr_seq (sq_db s))) of
        None \<Rightarrow> None
      | Some r \<Rightarrow> if length (sr_seq r) = 16 then Some (from_bytes (sr_seq r)) else None)"

definition next_seq :: "seq_codec \<Rightarrow> db_id \<Rightarrow> sequencer \<Rightarrow> seq_error + repo_seq option" where
  "next_seq c cursor s =
     optional_row c (sort_key sr_seq (filter (\<lambda>r. to_bytes cursor < sr_seq r) (sq_db s)))"

definition earliest_after_time :: "seq_codec \<Rightarrow> int \<Rightarrow> sequencer \<Rightarrow> seq_error + repo_seq option" where
  "earliest_after_time c time s =
     optional_row c (sort_key sr_sequenced_at
       (filter (\<lambda>r. format_offset_datetime c time \<le> sr_sequenced_at r) (sq_db s)))"

definition range_where :: "seq_codec \<Rightarrow> request_seq_range_opts \<Rightarrow> repo_seq_row \<Rightarrow> bool" where
  "range_where c opts r \<longleftrightarrow>
     sr_invalidated r = Some 0 \<and>
     (case ro_earliest_seq opts of None \<Rightarrow> True | Some i \<Rightarrow> to_bytes i < sr_seq r) \<and>
     (case ro_latest_seq opts of None \<Rightarrow> True | Some i \<Rightarrow> sr_seq r \<le> to_bytes i) \<and>
     (case ro_earliest_time opts of None \<Rightarrow> True
      | Some t \<Rightarrow> format_offset_datetime c t \<le> sr_sequenced_at r)"

definition request_seq_range ::
  "seq_codec \<Rightarrow> request_seq_range_opts \<Rightarrow> sequencer \<Rightarrow> seq_error + repo_seq list" where
  "request_seq_range c opts s =
     rows_to_models c
       (sql_limit (ro_limit opts) (sort_key sr_seq (filter (range_where c opts) (sq_db s))))"

section \<open>Sequencing\<close>

definition insert_repo_seq ::
  "seq_codec \<Rightarrow> repo_seq_active \<Rightarrow> db_id \<Rightarrow> sequencer \<Rightarrow> (seq_error + repo_seq) \<times> sequencer" where
  "insert_repo_seq c active fresh s =
     (if has_row (\<lambda>r. sr_seq r = to_bytes fresh) (sq_db s) then (Inl SeqTaken, s)
      else
        (Inr \<lparr>rs_seq = fresh, rs_did = ra_did active, rs_event_type = ra_event_type active,
              rs_event = ra_event active, rs_invalidated = ra_invalidated active,
              rs_sequenced_at = ra_sequenced_at active\<rparr>,
         s\<lparr>sq_db := sq_db s @
            [\<lparr>sr_seq = to_bytes fresh, sr_did = ra_did active,
              sr_event_type = ra_event_type active, sr_event = ra_event active,
              sr_invalidated = ra_invalidated active,
              sr_sequenced_at = db_time c (ra_sequenced_at active)\<rparr>]\<rparr>))"

text \<open>
  \<open>net\<close> is what the crawler notification meets: the clock and the relays' answers. Its errors
  are logged only, and so are those of enqueueing; but a row that cannot be typed or put into
  JSON makes the call fail after the row has been inserted.
\<close>

type_synonym crawl_net = "64 word option \<times> (string \<Rightarrow> bool)"

definition notify_crawlers :: "crawl_net \<Rightarrow> sequencer \<Rightarrow> sequencer" where
  "notify_crawlers net s =
     (case notify_of_update (fst net) (snd net) (sq_crawlers s) of
        (_, c, requests) \<Rightarrow> s\<lparr>sq_crawlers := c, sq_requests := sq_requests s @ requests\<rparr>)"

definition sequence_evt ::
  "seq_codec \<Rightarrow> crawl_net \<Rightarrow> db_id \<Rightarrow> repo_seq_new \<Rightarrow> sequencer \<Rightarrow> (seq_error + db_id) \<times> sequencer" where
  "sequence_evt c net fresh evt s =
     and_then (insert_repo_seq c (active_of_new evt) fresh s) (\<lambda>insert' s.
       let s = notify_crawlers net s in
       case sq_job_pool s of
         None \<Rightarrow> (Inr (rs_seq insert'), s)
       | Some pool \<Rightarrow>
           (case typed_seq_evt c insert' of
              Inl e \<Rightarrow> (Inl e, s)
            | Inr typed \<Rightarrow>
                (case json_to_string c typed of
                   None \<Rightarrow> (Inl EncodeError, s)
                 | Some envelope \<Rightarrow>
                     (Inr (rs_seq insert'),
                      s\<lparr>sq_job_pool := Some (enqueue_seq_event_job
                           \<lparr>sj_seq = seq_ms (rs_seq insert'), sj_envelope = envelope\<rparr> pool)\<rparr>))))"

definition sequence_formatted ::
  "seq_codec \<Rightarrow> crawl_net \<Rightarrow> db_id \<Rightarrow> seq_error + repo_seq_new \<Rightarrow> sequencer \<Rightarrow>
   (seq_error + db_id) \<times> sequencer" where
  "sequence_formatted c net fresh evt s = and_then (evt, s) (sequence_evt c net fresh)"

definition sequence_commit ::
  "seq_codec \<Rightarrow> crawl_net \<Rightarrow> db_id \<Rightarrow> int \<Rightarrow> string \<Rightarrow> commit_data_with_ops \<Rightarrow> sequencer \<Rightarrow>
   (seq_error + db_id) \<times> sequencer" where
  "sequence_commit c net fresh now did cw =
     sequence_formatted c net fresh (format_seq_commit c did cw now)"

definition sequence_handle_update ::
  "seq_codec \<Rightarrow> crawl_net \<Rightarrow> db_id \<Rightarrow> int \<Rightarrow> string \<Rightarrow> string \<Rightarrow> sequencer \<Rightarrow>
   (seq_error + db_id) \<times> sequencer" where
  "sequence_handle_update c net fresh now did handle =
     sequence_formatted c net fresh (format_seq_handle_update c did handle now)"

definition sequence_identity_evt ::
  "seq_codec \<Rightarrow> crawl_net \<Rightarrow> db_id \<Rightarrow> int \<Rightarrow> string \<Rightarrow> string option \<Rightarrow> sequencer \<Rightarrow>
   (seq_error + db_id) \<times> sequencer" where
  "sequence_identity_evt c net fresh now did handle =
     sequence_formatted c net fresh (format_seq_identity_evt c did handle now)"

definition sequence_account_evt ::
  "seq_codec \<Rightarrow> crawl_net \<Rightarrow> db_id \<Rightarrow> int \<Rightarrow> string \<Rightarrow> bool \<Rightarrow> lex_account_status option \<Rightarrow> sequencer \<Rightarrow>
   (seq_error + db_id) \<times> sequencer" where
  "sequence_account_evt c net fresh now did active status =
     sequence_formatted c net fresh (format_seq_account_evt c did active status now)"

definition sequence_sync_evt ::
  "seq_codec \<Rightarrow> crawl_net \<Rightarrow> db_id \<Rightarrow> int \<Rightarrow> string \<Rightarrow> string \<Rightarrow> block_map \<Rightarrow> sequencer \<Rightarrow>
   (seq_error + db_id) \<times> sequencer" where
  "sequence_sync_evt c net fresh now did rev' blocks =
     sequence_formatted c net fresh (format_seq_sync_evt c did rev' blocks now)"

definition delete_all_for_user :: "string \<Rightarrow> sequencer \<Rightarrow> sequencer" where
  "delete_all_for_user did s = s\<lparr>sq_db := delete_where (\<lambda>r. sr_did r = did) (sq_db s)\<rparr>"

section \<open>The log\<close>

definition row_of :: "seq_codec \<Rightarrow> repo_seq \<Rightarrow> repo_seq_row" where
  "row_of c m =
     \<lparr>sr_seq = to_bytes (rs_seq m), sr_did = rs_did m, sr_event_type = rs_event_type m,
      sr_event = rs_event m, sr_invalidated = rs_invalidated m,
      sr_sequenced_at = db_time c (rs_sequenced_at m)\<rparr>"

text \<open>The table holds the log \<open>ms\<close>, in the order of its numbers, none above \<open>i\<close>.\<close>

definition log_of :: "seq_codec \<Rightarrow> db_id \<Rightarrow> repo_seq list \<Rightarrow> sequencer \<Rightarrow> bool" where
  "log_of c i ms s \<longleftrightarrow>
     sq_db s = map (row_of c) ms \<and> sorted_wrt (<) (map rs_seq ms) \<and>
     (\<forall>m \<in> set ms. rs_seq m \<le> i \<and> rs_invalidated m = Some 0 \<and> time_in_range c (rs_sequenced_at m))"

lemma row_of_simps [simp]:
  "sr_seq (row_of c m) = to_bytes (rs_seq m)" "sr_did (row_of c m) = rs_did m"
  "sr_invalidated (row_of c m) = rs_invalidated m"
  "sr_event_type (row_of c m) = rs_event_type m" "sr_event (row_of c m) = rs_event m"
  "sr_sequenced_at (row_of c m) = db_time c (rs_sequenced_at m)"
  by (simp_all add: row_of_def)

lemma repo_seq_from_row_of:
  assumes "db_times_ok c" and "time_in_range c (rs_sequenced_at m)"
  shows "repo_seq_from_row c (row_of c m) = Inr m"
proof -
  let ?text = "db_time c (rs_sequenced_at m)"
  have "(case parse_millis c ?text of Some t \<Rightarrow> Some t | None \<Rightarrow> parse_rfc3339 c ?text) =
      Some (rs_sequenced_at m)"
    using assms by (simp add: db_times_ok_def)
  then show ?thesis
    by (simp add: repo_seq_from_row_def cong: option.case_cong)
qed

lemma rows_to_models_log:
  "db_times_ok c \<Longrightarrow> \<forall>m \<in> set ms. time_in_range c (rs_sequenced_at m) \<Longrightarrow>
   rows_to_models c (map (row_of c) ms) = Inr ms"
  by (induction ms) (simp_all add: repo_seq_from_row_of)

lemma sort_log:
  assumes "sorted_wrt (<) (map rs_seq ms)"
  shows "sort_key sr_seq (filter p (map (row_of c) ms)) = map (row_of c) (filter (p \<circ> row_of c) ms)"
proof -
  have "sorted_wrt (<) (map rs_seq (filter (p \<circ> row_of c) ms))"
    using assms by (simp add: sorted_wrt_map sorted_wrt_filter)
  then have "sorted (map sr_seq (map (row_of c) (filter (p \<circ> row_of c) ms)))"
    by (induction ms) (auto simp: comp_def less_imp_le)
  then show ?thesis
    by (simp add: filter_map sorted_sort_id sort_key_id_if_sorted comp_def)
qed

lemma sql_limit_map [simp]: "sql_limit n (map f xs) = map f (sql_limit n xs)"
  by (simp add: sql_limit_def take_map split: option.split)

lemma set_sql_limit: "x \<in> set (sql_limit n xs) \<Longrightarrow> x \<in> set xs"
  by (auto simp: sql_limit_def dest: in_set_takeD split: option.splits if_splits)

definition after :: "db_id option \<Rightarrow> repo_seq \<Rightarrow> bool" where
  "after cursor m = (case cursor of None \<Rightarrow> True | Some i \<Rightarrow> i < rs_seq m)"

definition up_to :: "db_id option \<Rightarrow> repo_seq \<Rightarrow> bool" where
  "up_to cursor m = (case cursor of None \<Rightarrow> True | Some i \<Rightarrow> rs_seq m \<le> i)"

lemma range_log:
  assumes "db_times_ok c" and log: "log_of c i ms s" and "ro_earliest_time opts = None"
  shows "request_seq_range c opts s =
    Inr (sql_limit (ro_limit opts)
      (filter (\<lambda>m. after (ro_earliest_seq opts) m \<and> up_to (ro_latest_seq opts) m) ms))"
proof -
  have "filter (range_where c opts \<circ> row_of c) ms =
      filter (\<lambda>m. after (ro_earliest_seq opts) m \<and> up_to (ro_latest_seq opts) m) ms"
    using log assms(3)
    by (intro filter_cong) (auto simp: log_of_def range_where_def after_def up_to_def split: option.splits)
  then show ?thesis
    using log assms(1)
    by (auto simp: request_seq_range_def log_of_def sort_log dest: set_sql_limit
        intro!: rows_to_models_log)
qed

lemma curr_log:
  assumes "log_of c i ms s"
  shows "curr s = (if ms = [] then None else Some (rs_seq (last ms)))"
proof -
  have "sort_key sr_seq (sq_db s) = map (row_of c) ms"
    using assms sort_log [of ms "\<lambda>_. True" c] by (simp add: log_of_def comp_def)
  then show ?thesis
    by (cases ms rule: rev_cases) (simp_all add: curr_def)
qed

lemma next_seq_log:
  assumes "db_times_ok c" and "log_of c i ms s"
  shows "next_seq c cursor s = Inr (first_row (filter (\<lambda>m. cursor < rs_seq m) ms))"
proof -
  have sort: "sort_key sr_seq (filter (\<lambda>r. to_bytes cursor < sr_seq r) (sq_db s)) =
      map (row_of c) (filter (\<lambda>m. cursor < rs_seq m) ms)"
    using assms(2) sort_log [of ms "\<lambda>r. to_bytes cursor < sr_seq r" c]
    by (simp add: log_of_def comp_def)
  show ?thesis
  proof (cases "filter (\<lambda>m. cursor < rs_seq m) ms")
    case (Cons m rest)
    then have "m \<in> set ms"
      by (metis filter_eq_ConsD in_set_conv_decomp)
    then have "repo_seq_from_row c (row_of c m) = Inr m"
      using assms by (intro repo_seq_from_row_of) (auto simp: log_of_def)
    then show ?thesis
      by (simp add: next_seq_def optional_row_def sort Cons)
  qed (simp add: next_seq_def optional_row_def sort)
qed

section \<open>Sequencing appends to the log\<close>

definition new_model :: "db_id \<Rightarrow> repo_seq_new \<Rightarrow> repo_seq" where
  "new_model fresh evt =
     \<lparr>rs_seq = fresh, rs_did = rn_did evt, rs_event_type = rn_event_type evt,
      rs_event = rn_event evt, rs_invalidated = Some 0, rs_sequenced_at = rn_sequenced_at evt\<rparr>"

lemma log_fresh: "log_of c i ms s \<Longrightarrow> i < fresh \<Longrightarrow> \<not> has_row (\<lambda>r. sr_seq r = to_bytes fresh) (sq_db s)"
  by (auto simp: log_of_def has_row_iff)

lemma insert_log:
  assumes "log_of c i ms s" and "i < fresh"
  shows "insert_repo_seq c (active_of_new evt) fresh s =
    (Inr (new_model fresh evt), s\<lparr>sq_db := sq_db s @ [row_of c (new_model fresh evt)]\<rparr>)"
  using log_fresh [OF assms]
  by (simp add: insert_repo_seq_def active_of_new_def new_model_def row_of_def)

lemma log_snoc:
  assumes "log_of c i ms s" and "i < fresh" and "time_in_range c (rn_sequenced_at evt)"
    and "sq_db s' = sq_db s @ [row_of c (new_model fresh evt)]"
  shows "log_of c fresh (ms @ [new_model fresh evt]) s'"
  using assms by (auto simp: log_of_def sorted_wrt_append new_model_def)

lemma notify_db [simp]:
  "sq_db (notify_crawlers net s) = sq_db s" "sq_job_pool (notify_crawlers net s) = sq_job_pool s"
  by (simp_all add: notify_crawlers_def split: prod.split)

text \<open>Whatever becomes of the notification and the job, the row is there.\<close>

lemma sequence_evt_db:
  assumes "log_of c i ms s" and "i < fresh"
  shows "sq_db (snd (sequence_evt c net fresh evt s)) = sq_db s @ [row_of c (new_model fresh evt)]"
  by (auto simp: sequence_evt_def insert_log [OF assms] Let_def split: option.split sum.split)

lemma sequence_evt_log:
  assumes "log_of c i ms s" and "i < fresh" and "time_in_range c (rn_sequenced_at evt)"
  shows "log_of c fresh (ms @ [new_model fresh evt]) (snd (sequence_evt c net fresh evt s))"
  using assms sequence_evt_db [OF assms(1,2)] by (intro log_snoc) auto

definition queued :: "seq_codec \<Rightarrow> repo_seq \<Rightarrow> job_row list \<Rightarrow> seq_error + job_row list" where
  "queued c m pool =
     (case typed_seq_evt c m of
        Inl e \<Rightarrow> Inl e
      | Inr typed \<Rightarrow>
          (case json_to_string c typed of
             None \<Rightarrow> Inl EncodeError
           | Some envelope \<Rightarrow> Inr (enqueue_seq_event_job
               \<lparr>sj_seq = seq_ms (rs_seq m), sj_envelope = envelope\<rparr> pool)))"

lemma sequence_evt_result:
  assumes "log_of c i ms s" and "i < fresh"
  shows "fst (sequence_evt c net fresh evt s) =
      (case sq_job_pool s of
         None \<Rightarrow> Inr fresh
       | Some pool \<Rightarrow> map_sum id (\<lambda>_. fresh) (queued c (new_model fresh evt) pool))"
    and "sq_job_pool (snd (sequence_evt c net fresh evt s)) =
      (case sq_job_pool s of
         None \<Rightarrow> None
       | Some pool \<Rightarrow> (case queued c (new_model fresh evt) pool of Inl _ \<Rightarrow> Some pool | Inr p \<Rightarrow> Some p))"
proof -
  have "rs_seq (new_model fresh evt) = fresh"
    by (simp add: new_model_def)
  then show "fst (sequence_evt c net fresh evt s) =
      (case sq_job_pool s of
         None \<Rightarrow> Inr fresh
       | Some pool \<Rightarrow> map_sum id (\<lambda>_. fresh) (queued c (new_model fresh evt) pool))"
    "sq_job_pool (snd (sequence_evt c net fresh evt s)) =
      (case sq_job_pool s of
         None \<Rightarrow> None
       | Some pool \<Rightarrow> (case queued c (new_model fresh evt) pool of Inl _ \<Rightarrow> Some pool | Inr p \<Rightarrow> Some p))"
    by (simp_all add: sequence_evt_def insert_log [OF assms] Let_def queued_def
        split: option.split sum.split)
qed

text \<open>
  Deletion of a user keeps the rest of the log. The states the server reaches: sequencing under
  ever larger identifiers, deletion of users, and turns of the worker, which replace the pool.
\<close>

lemma delete_log:
  assumes "log_of c i ms s"
  shows "log_of c i (filter (\<lambda>m. rs_did m \<noteq> did) ms) (delete_all_for_user did s)"
  using assms
  by (auto simp: log_of_def delete_all_for_user_def delete_where_def filter_map comp_def
      sorted_wrt_map sorted_wrt_filter)

inductive sequencing :: "seq_codec \<Rightarrow> db_id \<Rightarrow> repo_seq list \<Rightarrow> sequencer \<Rightarrow> bool" for c where
  start: "sq_db s = [] \<Longrightarrow> sequencing c i [] s"
| event: "sequencing c i ms s \<Longrightarrow> i < fresh \<Longrightarrow> time_in_range c (rn_sequenced_at evt) \<Longrightarrow>
    sequencing c fresh (ms @ [new_model fresh evt]) (snd (sequence_evt c net fresh evt s))"
| delete: "sequencing c i ms s \<Longrightarrow>
    sequencing c i (filter (\<lambda>m. rs_did m \<noteq> did) ms) (delete_all_for_user did s)"
| worker: "sequencing c i ms s \<Longrightarrow> sequencing c i ms (s\<lparr>sq_job_pool := pool\<rparr>)"

lemma sequencing_log: "sequencing c i ms s \<Longrightarrow> log_of c i ms s"
proof (induction rule: sequencing.induct)
  case (start s i)
  then show ?case by (simp add: log_of_def)
next
  case (event i ms s fresh evt net)
  then show ?case by (intro sequence_evt_log)
next
  case (delete i ms s did)
  then show ?case by (simp add: delete_log)
next
  case (worker i ms s pool)
  then show ?case by (simp add: log_of_def)
qed

text \<open>C22: refinement of the firehose's log. The abstract state is the list of events in the
  order they were sequenced; sequencing appends, deletion of a user filters. In every reachable
  state the range query returns, in that order, the events after its lower and up to its upper
  cursor, cut to its limit; the current number is the last event's; and the successor of a cursor
  is the first event after it.\<close>

theorem sequencer_refines_log:
  assumes "sequencing c i ms s" and "db_times_ok c"
  shows "request_seq_range c \<lparr>ro_earliest_seq = lo, ro_latest_seq = hi, ro_earliest_time = None,
             ro_limit = n\<rparr> s =
           Inr (sql_limit n (filter (\<lambda>m. after lo m \<and> up_to hi m) ms)) \<and>
         curr s = (if ms = [] then None else Some (rs_seq (last ms))) \<and>
         next_seq c cursor s = Inr (first_row (filter (\<lambda>m. cursor < rs_seq m) ms)) \<and>
         sorted_wrt (<) (map rs_seq ms)"
  using range_log [OF assms(2) sequencing_log [OF assms(1)]]
    curr_log [OF sequencing_log [OF assms(1)]]
    next_seq_log [OF assms(2) sequencing_log [OF assms(1)]] sequencing_log [OF assms(1)]
  by (simp add: log_of_def)

definition commit_car :: "seq_codec \<Rightarrow> commit_data_with_ops \<Rightarrow> string option" where
  "commit_car c cw =
     (case add_map c [] (cd_new_blocks (cw_commit_data cw)) of
        None \<Rightarrow> None
      | Some b \<Rightarrow>
          (case add_map c b (cd_relevant_blocks (cw_commit_data cw)) of
             None \<Rightarrow> None
           | Some bs \<Rightarrow> blocks_to_car_file c (Some (cd_cid (cw_commit_data cw))) bs))"

lemma formatted_commit:
  assumes "format_seq_commit c did cw now = Inr evt"
  obtains car b where "commit_car c cw = Some car" and "enc_commit c (commit_evt_of did cw car) = Some b"
    and "evt = mk_repo_seq_new did ''append'' b now"
  using assms by (auto simp: format_seq_commit_def commit_car_def encoded_row_Inr split: option.splits)

lemma queued_Inr:
  "queued c m pool = Inr p \<longleftrightarrow>
     (\<exists>typed envelope. typed_seq_evt c m = Inr typed \<and> json_to_string c typed = Some envelope \<and>
        p = enqueue_seq_event_job \<lparr>sj_seq = seq_ms (rs_seq m), sj_envelope = envelope\<rparr> pool)"
  by (auto simp: queued_def split: sum.splits option.splits)

text \<open>C21: a commit survives the whole way. When the sequencer accepts it, the event read back
  after the previous number is the one row just written; typed, it is a commit envelope with the
  number in milliseconds, the formatted time and exactly the commit's root, revision, previous
  revision, operations and the CAR file of its new and relevant blocks; and the worker's queue holds, under that number, a text that
  subscribers parse to the same envelope.\<close>

theorem commit_reaches_subscribers:
  assumes seq: "sequencing c i ms s" and fresh: "i < fresh" and now: "time_in_range c now"
    and codecs: "cbor_ok c" "json_ok c" "db_times_ok c"
    and pool: "sq_job_pool s = Some pool" "pool_ok pool"
    and ok: "sequence_commit c net fresh now did cw s = (Inr j, s')"
  shows "j = fresh \<and> (\<exists>row car e payload.
    commit_car c cw = Some car \<and>
    request_seq_range c \<lparr>ro_earliest_seq = Some i, ro_latest_seq = None, ro_earliest_time = None,
        ro_limit = None\<rparr> s' = Inr [row] \<and>
    e = TypedCommitEvt \<lparr>te_type = ''commit'', te_seq = seq_ms fresh,
          te_time = format_offset_datetime c now, te_evt = commit_evt_of did cw car\<rparr> \<and>
    typed_seq_evt c row = Inr e \<and>
    (seq_ms fresh, payload) \<in> set (pending_jobs (the (sq_job_pool s'))) \<and>
    seq_evt_from_str c payload = Some e)"
proof -
  note log = sequencing_log [OF seq]
  obtain evt where evt: "format_seq_commit c did cw now = Inr evt"
    and run: "sequence_evt c net fresh evt s = (Inr j, s')"
    using ok by (auto simp: sequence_commit_def sequence_formatted_def and_then_Inr_iff)
  obtain car b where car: "commit_car c cw = Some car"
    and b: "enc_commit c (commit_evt_of did cw car) = Some b"
    and row: "evt = mk_repo_seq_new did ''append'' b now"
    using evt by (rule formatted_commit)
  let ?m = "new_model fresh evt"
  let ?e = "TypedCommitEvt \<lparr>te_type = ''commit'', te_seq = seq_ms fresh,
      te_time = format_offset_datetime c now, te_evt = commit_evt_of did cw car\<rparr>"
  have m: "rs_seq ?m = fresh" "rs_sequenced_at ?m = now" "rs_event_type ?m = ''append''"
      "rs_event ?m = b"
    by (simp_all add: new_model_def row mk_repo_seq_new_def)
  have typed: "typed_seq_evt c ?m = Inr ?e"
    using decode_encoded(1) [OF codecs(1), of "commit_evt_of did cw car" ?m] b m
    by (simp add: with_header_def)
  have s': "log_of c fresh (ms @ [?m]) s'"
    using sequence_evt_log [OF log fresh, of evt net] now run by (simp add: row mk_repo_seq_new_def)
  have "filter (\<lambda>m. i < rs_seq m) ms = []"
    using log by (auto simp: log_of_def filter_empty_conv)
  then have range: "request_seq_range c \<lparr>ro_earliest_seq = Some i, ro_latest_seq = None,
      ro_earliest_time = None, ro_limit = None\<rparr> s' = Inr [?m]"
    using range_log [OF codecs(3) s', of "\<lparr>ro_earliest_seq = Some i, ro_latest_seq = None,
      ro_earliest_time = None, ro_limit = None\<rparr>"] fresh m
    by (simp add: after_def up_to_def sql_limit_def)
  have result: "map_sum id (\<lambda>_. fresh) (queued c ?m pool) = Inr j"
    using sequence_evt_result(1) [OF log fresh, of net evt] run pool(1) by simp
  then obtain p where p: "queued c ?m pool = Inr p" and j: "j = fresh"
    by (cases "queued c ?m pool") auto
  then obtain payload where payload: "json_to_string c ?e = Some payload"
    and p': "p = enqueue_seq_event_job \<lparr>sj_seq = seq_ms fresh, sj_envelope = payload\<rparr> pool"
    using typed m by (auto simp: queued_Inr)
  have "sq_job_pool s' = Some p"
    using sequence_evt_result(2) [OF log fresh, of net evt] run pool(1) p by simp
  then have "(seq_ms fresh, payload) \<in> set (pending_jobs (the (sq_job_pool s')))"
    using pool(2) by (simp add: p' pending_jobs_enqueue)
  moreover have "seq_evt_from_str c payload = Some ?e"
    using json_roundtrip [OF codecs(2) typed payload] .
  ultimately show ?thesis
    using range typed car j by blast
qed

definition demo_net :: crawl_net where
  "demo_net = (None, \<lambda>_. True)"

definition demo_evt :: "string \<Rightarrow> int \<Rightarrow> repo_seq_new" where
  "demo_evt did now = mk_repo_seq_new did ''identity'' did now"

definition demo_sequencer :: sequencer where
  "demo_sequencer = sequencer_new [] (crawlers_new ''pds'' []) (Some []) None"

definition demo_two_events :: sequencer where
  "demo_two_events =
     snd (sequence_evt demo_seq_codec demo_net 20 (demo_evt ''b'' 7)
       (snd (sequence_evt demo_seq_codec demo_net 10 (demo_evt ''a'' 3) demo_sequencer)))"

lemma demo_two_events:
  "sequencing demo_seq_codec 20 [new_model 10 (demo_evt ''a'' 3), new_model 20 (demo_evt ''b'' 7)]
     demo_two_events"
proof -
  have "sequencing demo_seq_codec 5 [] demo_sequencer"
    by (rule sequencing.start) (simp add: demo_sequencer_def sequencer_new_def)
  then have "sequencing demo_seq_codec 10 ([] @ [new_model 10 (demo_evt ''a'' 3)])
      (snd (sequence_evt demo_seq_codec demo_net 10 (demo_evt ''a'' 3) demo_sequencer))"
    by (rule sequencing.event) (simp_all add: demo_evt_def mk_repo_seq_new_def demo_seq_codec_def)
  then have "sequencing demo_seq_codec 20 (([] @ [new_model 10 (demo_evt ''a'' 3)]) @
      [new_model 20 (demo_evt ''b'' 7)]) demo_two_events"
    unfolding demo_two_events_def
    by (rule sequencing.event) (simp_all add: demo_evt_def mk_repo_seq_new_def demo_seq_codec_def)
  then show ?thesis by simp
qed

lemma sequencer_refines_log_witness:
  "request_seq_range demo_seq_codec \<lparr>ro_earliest_seq = Some 10, ro_latest_seq = None,
       ro_earliest_time = None, ro_limit = Some 500\<rparr> demo_two_events =
     Inr [new_model 20 (demo_evt ''b'' 7)] \<and>
   curr demo_two_events = Some 20 \<and>
   next_seq demo_seq_codec 5 demo_two_events = Inr (Some (new_model 10 (demo_evt ''a'' 3)))"
  using sequencer_refines_log [OF demo_two_events demo_db_times_ok, where lo = "Some 10"
      and hi = None and n = "Some 500" and cursor = 5]
  by (simp add: after_def up_to_def sql_limit_def new_model_def)

lemma commit_reaches_subscribers_witness:
  "\<exists>row car e payload.
    request_seq_range demo_seq_codec \<lparr>ro_earliest_seq = Some 5, ro_latest_seq = None,
        ro_earliest_time = None, ro_limit = None\<rparr>
      (snd (sequence_commit demo_seq_codec demo_net 10 3 ''did:plc:a'' demo_commit_data demo_sequencer)) =
      Inr [row] \<and>
    typed_seq_evt demo_seq_codec row = Inr e \<and>
    e = TypedCommitEvt \<lparr>te_type = ''commit'', te_seq = seq_ms 10,
          te_time = format_offset_datetime demo_seq_codec 3,
          te_evt = commit_evt_of ''did:plc:a'' demo_commit_data car\<rparr> \<and>
    seq_evt_from_str demo_seq_codec payload = Some e"
proof -
  have seq: "sequencing demo_seq_codec 5 [] demo_sequencer"
    by (rule sequencing.start) (simp add: demo_sequencer_def sequencer_new_def)
  let ?evt = "mk_repo_seq_new ''did:plc:a'' ''append'' ''C'' 3"
  have evt: "format_seq_commit demo_seq_codec ''did:plc:a'' demo_commit_data 3 = Inr ?evt"
    by (simp add: format_seq_commit_def demo_seq_codec_def encoded_row_def demo_commit_evt_def)
  have "seq_ms 10 = 0"
    by (simp add: seq_ms_eq)
  then have "queued demo_seq_codec (new_model 10 ?evt) [] \<noteq> Inl x" for x
    by (simp add: queued_def typed_seq_evt_def new_model_def mk_repo_seq_new_def demo_seq_codec_def
        with_header_def demo_head_def format_offset_datetime_def)
  then obtain p where "queued demo_seq_codec (new_model 10 ?evt) [] = Inr p"
    by (cases "queued demo_seq_codec (new_model 10 ?evt) []") auto
  then have "fst (sequence_evt demo_seq_codec demo_net 10 ?evt demo_sequencer) = Inr 10"
    using sequence_evt_result(1) [OF sequencing_log [OF seq], of 10 demo_net ?evt]
    by (simp add: demo_sequencer_def sequencer_new_def)
  then have ok: "sequence_commit demo_seq_codec demo_net 10 3 ''did:plc:a'' demo_commit_data demo_sequencer =
      (Inr 10, snd (sequence_commit demo_seq_codec demo_net 10 3 ''did:plc:a'' demo_commit_data demo_sequencer))"
    by (simp add: sequence_commit_def sequence_formatted_def evt prod_eq_iff)
  have "sq_job_pool demo_sequencer = Some []" "time_in_range demo_seq_codec 3"
    by (simp_all add: demo_sequencer_def sequencer_new_def demo_seq_codec_def)
  from commit_reaches_subscribers [OF seq _ this(2) demo_cbor_ok demo_json_ok demo_db_times_ok this(1) _ ok]
  show ?thesis by (auto simp: pool_ok_def)
qed

text \<open>
  A handle event, in contrast, cannot be typed: with a job pool the call fails, and it fails
  after the row has been written.
\<close>

lemma sequence_handle_update_fails:
  assumes "log_of c i ms s" and "i < fresh" and "sq_job_pool s = Some pool"
    and "enc_handle c \<lparr>he_did = did, he_handle = handle\<rparr> = Some b"
  shows "fst (sequence_handle_update c net fresh now did handle s) = Inl (InvalidEventType ''handle'')"
    and "length (sq_db (snd (sequence_handle_update c net fresh now did handle s))) =
      Suc (length (sq_db s))"
proof -
  let ?evt = "mk_repo_seq_new did ''handle'' b now"
  have run: "sequence_handle_update c net fresh now did handle s = sequence_evt c net fresh ?evt s"
    using assms(4) by (simp add: sequence_handle_update_def sequence_formatted_def
        format_seq_handle_update_def encoded_row_def)
  have "queued c (new_model fresh ?evt) pool = Inl (InvalidEventType ''handle'')"
    by (simp add: queued_def typed_seq_evt_def new_model_def mk_repo_seq_new_def)
  then show "fst (sequence_handle_update c net fresh now did handle s) =
      Inl (InvalidEventType ''handle'')"
    using sequence_evt_result(1) [OF assms(1,2), of net ?evt] assms(3) by (simp add: run)
  show "length (sq_db (snd (sequence_handle_update c net fresh now did handle s))) =
      Suc (length (sq_db s))"
    using sequence_evt_db [OF assms(1,2)] by (simp add: run)
qed

end
