(* ===== verification/Outbox.thy ===== *)
theory Outbox
  imports Sequencer "HOL-Library.Sublist"
begin

text \<open>
  The outbox (cacos-pds-sequencer/src/outbox.rs): what a subscriber of the firehose is sent,
  first a replay of stored events after its cursor and then the live broadcast. The replay and
  the live part meet in a stream; a background task filters the broadcast into a channel of 64
  places, and the consumer polls. The task, the consumer and the publisher run concurrently: a
  schedule is a list of \<open>stream_event\<close>s, each one atomic step of the code, and the theorems hold
  for every schedule.
\<close>

definition PAGE_SIZE :: int where
  "PAGE_SIZE = 500"

record outbox =
  ob_caught_up :: bool
  ob_last_seen :: int
  ob_cutover_buffer :: "seq_evt list"
  ob_sequencer :: sequencer
  ob_backfill_cursor :: "int option"
  ob_max_observed :: int

definition outbox_new :: "sequencer \<Rightarrow> outbox" where
  "outbox_new s =
     \<lparr>ob_caught_up = False, ob_last_seen = - 1, ob_cutover_buffer = [], ob_sequencer = s,
      ob_backfill_cursor = None, ob_max_observed = - 1\<rparr>"

text \<open>The gauge \<open>OUTBOX_BUFFER_LAG\<close> is set to \<open>buffer_lag\<close> after each call.\<close>

definition observe_max :: "int \<Rightarrow> outbox \<Rightarrow> outbox" where
  "observe_max seq ob =
     (if seq > ob_max_observed ob then ob\<lparr>ob_max_observed := seq\<rparr> else ob)"

definition buffer_lag :: "outbox \<Rightarrow> int" where
  "buffer_lag ob = max 0 (ob_max_observed ob - ob_last_seen ob)"

definition outbox_lag :: "outbox \<Rightarrow> int" where
  "outbox_lag ob =
     (case curr (ob_sequencer ob) of Some i \<Rightarrow> seq_ms i - ob_last_seen ob | None \<Rightarrow> 0)"

section \<open>Replay\<close>

fun backfill_rows :: "seq_codec \<Rightarrow> int \<Rightarrow> repo_seq list \<Rightarrow> int \<Rightarrow> int \<times> seq_evt list" where
  "backfill_rows c start [] last_seen = (last_seen, [])"
| "backfill_rows c start (row # rows) last_seen =
     (case typed_seq_evt c row of
        Inl _ \<Rightarrow> backfill_rows c start rows last_seen
      | Inr typed \<Rightarrow>
          if evt_seq typed > start
          then apsnd (Cons typed) (backfill_rows c start rows (evt_seq typed))
          else backfill_rows c start rows last_seen)"

definition get_backfill :: "seq_codec \<Rightarrow> int \<Rightarrow> outbox \<Rightarrow> outbox \<times> seq_evt list" where
  "get_backfill c backfill_cursor ob =
     (let start = max (ob_last_seen ob) backfill_cursor
      in case request_seq_range c \<lparr>ro_earliest_seq = None, ro_latest_seq = None,
                ro_earliest_time = None, ro_limit = Some PAGE_SIZE\<rparr> (ob_sequencer ob) of
           Inl _ \<Rightarrow> (ob, [])
         | Inr rows \<Rightarrow>
             (case backfill_rows c start rows (ob_last_seen ob) of
                (last_seen, evts) \<Rightarrow> (ob\<lparr>ob_last_seen := last_seen\<rparr>, evts)))"

section \<open>The stream\<close>

text \<open>
  \<open>os_iter\<close> are the events still to be replayed, \<open>os_rx\<close> the channel, \<open>os_last_seen\<close> the number
  the task and the consumer share. Of the task: \<open>os_bcast\<close> are the envelopes broadcast to it and
  not yet received, \<open>os_blocked\<close> the event it is sending, \<open>os_running\<close> whether it lives;
  \<open>os_open\<close> is whether the broadcast has a sender.
\<close>

record outbox_stream =
  os_iter :: "seq_evt list"
  os_rx :: "seq_evt list"
  os_last_seen :: int
  os_bcast :: "string list"
  os_blocked :: "seq_evt option"
  os_running :: bool
  os_open :: bool

definition new_stream :: "seq_evt list \<Rightarrow> int \<Rightarrow> outbox_stream" where
  "new_stream evts last_seen =
     \<lparr>os_iter = evts, os_rx = [], os_last_seen = last_seen, os_bcast = [], os_blocked = None,
      os_running = True, os_open = True\<rparr>"

definition events :: "seq_codec \<Rightarrow> int option \<Rightarrow> outbox \<Rightarrow> outbox \<times> outbox_stream" where
  "events c backfill_cursor ob =
     (let (ob, evts) =
        (case backfill_cursor of
           None \<Rightarrow> (ob, [])
         | Some cursor \<Rightarrow> get_backfill c cursor (ob\<lparr>ob_backfill_cursor := Some cursor\<rparr>));
          ob = fold observe_max (map evt_seq evts) ob;
          ob = ob\<lparr>ob_caught_up := True\<rparr>
      in (ob, new_stream evts (ob_last_seen ob)))"

definition channel_size :: nat where
  "channel_size = 64"

text \<open>One turn of the task: receive an envelope, filter it, remember its number.\<close>

definition task_receive :: "seq_codec \<Rightarrow> outbox_stream \<Rightarrow> outbox_stream" where
  "task_receive c st =
     (if \<not> os_running st \<or> os_blocked st \<noteq> None then st
      else
        (case os_bcast st of
           [] \<Rightarrow> if os_open st then st else st\<lparr>os_running := False\<rparr>
         | envelope # rest \<Rightarrow>
             (let st = st\<lparr>os_bcast := rest\<rparr>
              in case seq_evt_from_str c envelope of
                   None \<Rightarrow> st
                 | Some evt \<Rightarrow>
                     (let last_seen_now = os_last_seen st;
                          st = (if evt_seq evt > last_seen_now
                                then st\<lparr>os_last_seen := evt_seq evt\<rparr> else st)
                      in if evt_seq evt > last_seen_now then st\<lparr>os_blocked := Some evt\<rparr> else st))))"

definition task_send :: "outbox_stream \<Rightarrow> outbox_stream" where
  "task_send st =
     (case os_blocked st of
        None \<Rightarrow> st
      | Some evt \<Rightarrow>
          if length (os_rx st) < channel_size
          then st\<lparr>os_rx := os_rx st @ [evt], os_blocked := None\<rparr> else st)"

datatype poll = PollPending | PollReady "seq_evt option"

definition poll_next :: "outbox_stream \<Rightarrow> poll \<times> outbox_stream" where
  "poll_next me =
     (case os_iter me of
        evt # rest \<Rightarrow>
          (PollReady (Some evt),
           me\<lparr>os_iter := rest, os_last_seen := max (os_last_seen me) (evt_seq evt)\<rparr>)
      | [] \<Rightarrow>
          (case os_rx me of
             evt # rest \<Rightarrow> (PollReady (Some evt), me\<lparr>os_rx := rest\<rparr>)
           | [] \<Rightarrow> (if os_running me then PollPending else PollReady None, me)))"

text \<open>
  A schedule: an envelope is published, the oldest one is lost because the receiver lags, the
  broadcast closes, the task receives or sends, the consumer polls. A run is the stream with
  what the consumer has been given.
\<close>

datatype stream_event = Publish string | Lagged | CloseBroadcast | TaskReceive | TaskSend | Poll

fun stream_step ::
  "seq_codec \<Rightarrow> stream_event \<Rightarrow> seq_evt list \<times> outbox_stream \<Rightarrow> seq_evt list \<times> outbox_stream" where
  "stream_step c (Publish e) (out, st) =
     (out, if os_open st then st\<lparr>os_bcast := os_bcast st @ [e]\<rparr> else st)"
| "stream_step c Lagged (out, st) = (out, st\<lparr>os_bcast := tl (os_bcast st)\<rparr>)"
| "stream_step c CloseBroadcast (out, st) = (out, st\<lparr>os_open := False\<rparr>)"
| "stream_step c TaskReceive (out, st) = (out, task_receive c st)"
| "stream_step c TaskSend (out, st) = (out, task_send st)"
| "stream_step c Poll (out, st) =
     (case poll_next st of
        (PollReady (Some evt), st) \<Rightarrow> (out @ [evt], st)
      | (_, st) \<Rightarrow> (out, st))"

fun published :: "stream_event list \<Rightarrow> string list" where
  "published [] = []"
| "published (Publish e # evs) = e # published evs"
| "published (_ # evs) = published evs"

section \<open>What a subscriber may expect\<close>

text \<open>The events of the first page whose number is above the cursor.\<close>

definition replay :: "seq_codec \<Rightarrow> int \<Rightarrow> repo_seq list \<Rightarrow> seq_evt list" where
  "replay c cursor ms =
     List.map_filter (\<lambda>m. case typed_seq_evt c m of Inl _ \<Rightarrow> None
        | Inr e \<Rightarrow> if evt_seq e > cursor then Some e else None) (take 500 ms)"

text \<open>The live events that advance the number.\<close>

fun advancing :: "int \<Rightarrow> seq_evt list \<Rightarrow> seq_evt list" where
  "advancing n [] = []"
| "advancing n (e # es) = (if evt_seq e > n then e # advancing (evt_seq e) es else advancing n es)"

fun last_number :: "int \<Rightarrow> seq_evt list \<Rightarrow> int" where
  "last_number n [] = n"
| "last_number n (e # es) = last_number (evt_seq e) es"

lemma advancing_above: "e \<in> set (advancing n es) \<Longrightarrow> n < evt_seq e"
  by (induction n es rule: advancing.induct) (auto split: if_splits)

lemma advancing_sorted: "sorted_wrt (<) (map evt_seq (advancing n es))"
  by (induction n es rule: advancing.induct) (auto dest: advancing_above)

lemma last_number_append: "last_number n (xs @ ys) = last_number (last_number n xs) ys"
  by (induction n xs rule: last_number.induct) simp_all

lemma advancing_append:
  "advancing n (xs @ ys) = advancing n xs @ advancing (last_number n (advancing n xs)) ys"
  by (induction n xs rule: advancing.induct) simp_all

lemma backfill_rows_eq:
  "backfill_rows c start rows n =
     (let evts = List.map_filter (\<lambda>m. case typed_seq_evt c m of Inl _ \<Rightarrow> None
        | Inr e \<Rightarrow> if evt_seq e > start then Some e else None) rows
      in (last_number n evts, evts))"
  by (induction c start rows n rule: backfill_rows.induct)
    (auto simp: map_filter_simps Let_def split: sum.split)

definition parsed :: "seq_codec \<Rightarrow> string list \<Rightarrow> seq_evt list" where
  "parsed c = List.map_filter (seq_evt_from_str c)"

definition in_flight :: "outbox_stream \<Rightarrow> seq_evt list" where
  "in_flight st = os_iter st @ os_rx st @ (case os_blocked st of None \<Rightarrow> [] | Some e \<Rightarrow> [e])"

text \<open>
  The stream has given out or still holds the replay followed by the live events that advance
  the number, of the envelopes received so far.
\<close>

definition stream_inv ::
  "seq_codec \<Rightarrow> seq_evt list \<Rightarrow> int \<Rightarrow> string list \<Rightarrow> string list \<Rightarrow> seq_evt list \<times> outbox_stream \<Rightarrow> bool" where
  "stream_inv c evts n pub received = (\<lambda>(out, st).
     out @ in_flight st = evts @ advancing n (parsed c received) \<and>
     os_last_seen st = last_number n (advancing n (parsed c received)) \<and>
     set (os_iter st) \<subseteq> set evts \<and>
     subseq (received @ os_bcast st) pub)"

lemma last_number_advancing: "n \<le> last_number n (advancing n es)"
  by (induction n es rule: advancing.induct) auto

lemma parsed_snoc:
  "parsed c (xs @ [x]) = parsed c xs @ (case seq_evt_from_str c x of None \<Rightarrow> [] | Some e \<Rightarrow> [e])"
  by (simp add: parsed_def map_filter_def split: option.split)

lemma receive_inv:
  assumes inv: "stream_inv c evts n pub received (out, st)"
  shows "\<exists>received. stream_inv c evts n pub received (out, task_receive c st)"
proof (cases "os_running st \<and> os_blocked st = None \<and> os_bcast st \<noteq> []")
  case False
  then have "task_receive c st \<in> {st, st\<lparr>os_running := False\<rparr>}"
    by (auto simp: task_receive_def split: list.split)
  with inv show ?thesis
    by (auto simp: stream_inv_def in_flight_def)
next
  case True
  then obtain env rest where b: "os_bcast st = env # rest"
    by (cases "os_bcast st") auto
  have "stream_inv c evts n pub (received @ [env]) (out, task_receive c st)"
    using inv True b
    by (auto simp: stream_inv_def in_flight_def task_receive_def parsed_snoc advancing_append
        last_number_append Let_def split: option.split)
  then show ?thesis by blast
qed

lemma stream_step_inv:
  assumes inv: "stream_inv c evts n pub received (out, st)" and le: "\<forall>e \<in> set evts. evt_seq e \<le> n"
  shows "\<exists>received. stream_inv c evts n (pub @ published [ev]) received (stream_step c ev (out, st))"
proof (cases ev)
  case (Publish e)
  have "subseq (received @ os_bcast st) pub"
    using inv by (simp add: stream_inv_def)
  then have "subseq ((received @ os_bcast st) @ [e]) (pub @ [e])"
    and "subseq (received @ os_bcast st) (pub @ [e])"
    by (rule list_emb_append_mono, simp) (rule list_emb_prefix, fact)
  with inv Publish have "stream_inv c evts n (pub @ [e]) received (stream_step c ev (out, st))"
    by (auto simp: stream_inv_def in_flight_def)
  with Publish show ?thesis by auto
next
  case Lagged
  have "subseq (received @ tl (os_bcast st)) (received @ os_bcast st)"
    by (cases "os_bcast st") (auto intro: list_emb_append_mono)
  with inv Lagged show ?thesis
    by (auto simp: stream_inv_def in_flight_def intro: subseq_order.trans)
next
  case CloseBroadcast
  with inv show ?thesis by (auto simp: stream_inv_def in_flight_def)
next
  case TaskReceive
  with receive_inv [OF inv] show ?thesis by simp
next
  case TaskSend
  with inv show ?thesis
    by (auto simp: stream_inv_def in_flight_def task_send_def split: option.splits)
next
  case Poll
  show ?thesis
  proof (cases "os_iter st")
    case Nil
    with inv Poll show ?thesis
      by (auto simp: stream_inv_def in_flight_def poll_next_def split: list.splits)
  next
    case (Cons e rest)
    with inv le have "evt_seq e \<le> os_last_seen st"
      using last_number_advancing [of n "parsed c received"] by (auto simp: stream_inv_def)
    with inv Poll Cons show ?thesis
      by (auto simp: stream_inv_def in_flight_def poll_next_def max_absorb1)
  qed
qed

lemma published_append: "published (a @ b) = published a @ published b"
  by (induction a rule: published.induct) simp_all

lemma stream_inv_run:
  assumes "\<forall>e \<in> set evts. evt_seq e \<le> n"
  shows "\<exists>received. stream_inv c evts n (published evs) received
           (fold (stream_step c) evs ([], new_stream evts n))"
proof (induction evs rule: rev_induct)
  case Nil
  have "stream_inv c evts n [] [] ([], new_stream evts n)"
    by (simp add: stream_inv_def new_stream_def in_flight_def parsed_def map_filter_simps)
  then show ?case by auto
next
  case (snoc ev evs)
  then show ?case
    using stream_step_inv [OF _ assms, of c "published evs" _
        "fst (fold (stream_step c) evs ([], new_stream evts n))"
        "snd (fold (stream_step c) evs ([], new_stream evts n))" ev]
    by (auto simp: published_append)
qed

section \<open>The subscriber's view\<close>

lemma replay_sorted:
  assumes "sorted_wrt (<) (map rs_seq ms)"
  shows "sorted (map evt_seq (replay c cursor ms))"
proof -
  let ?typed = "\<lambda>m. case typed_seq_evt c m of Inl _ \<Rightarrow> None
        | Inr e \<Rightarrow> if evt_seq e > cursor then Some e else None"
  have "sorted (map evt_seq (List.map_filter ?typed ms))"
    if "sorted_wrt (<) (map rs_seq ms)" for ms
    using that
  proof (induction ms)
    case (Cons m ms)
    have "evt_seq e \<le> evt_seq e'"
      if e: "?typed m = Some e" and e': "e' \<in> set (List.map_filter ?typed ms)" for e e'
    proof -
      obtain m' where m': "m' \<in> set ms" "?typed m' = Some e'"
        using e' by (auto simp: map_filter_def)
      then have "rs_seq m \<le> rs_seq m'"
        using Cons.prems by (auto simp: less_imp_le)
      then show ?thesis
        using e m'(2) typed_seq_evt_seq
        by (fastforce split: sum.splits if_splits intro: seq_ms_mono)
    qed
    with Cons show ?case
      by (auto simp: map_filter_simps split: option.split)
  qed (simp add: map_filter_simps)
  moreover have "sorted_wrt (<) (map rs_seq (take 500 ms))"
    using assms by (simp add: sorted_wrt_take flip: take_map)
  ultimately show ?thesis
    unfolding replay_def by blast
qed

lemma last_number_eq: "last_number n es = (if es = [] then n else evt_seq (last es))"
  by (induction n es rule: last_number.induct) auto

lemma sorted_last_number: "sorted (map evt_seq es) \<Longrightarrow> e \<in> set es \<Longrightarrow> evt_seq e \<le> last_number n es"
  by (cases es rule: rev_cases) (auto simp: last_number_eq sorted_append)

lemma observe_max_simps [simp]:
  "ob_last_seen (fold observe_max ns ob) = ob_last_seen ob"
  "ob_sequencer (fold observe_max ns ob) = ob_sequencer ob"
  by (induction ns arbitrary: ob) (simp_all add: observe_max_def)

lemma events_replay:
  assumes "log_of c i ms s" and "db_times_ok c"
  shows "snd (events c (Some cursor) (outbox_new s)) =
    new_stream (replay c (max (- 1) cursor) ms)
      (last_number (- 1) (replay c (max (- 1) cursor) ms))"
proof -
  have "request_seq_range c \<lparr>ro_earliest_seq = None, ro_latest_seq = None,
      ro_earliest_time = None, ro_limit = Some PAGE_SIZE\<rparr> s = Inr (take 500 ms)"
    using range_log [OF assms(2,1)]
    by (simp add: after_def up_to_def sql_limit_def PAGE_SIZE_def)
  then show ?thesis
    by (simp add: events_def get_backfill_def outbox_new_def backfill_rows_eq replay_def Let_def)
qed

text \<open>What a subscriber at \<open>cursor\<close> may be given when \<open>received\<close> are the envelopes it gets.\<close>

definition expected :: "seq_codec \<Rightarrow> int \<Rightarrow> repo_seq list \<Rightarrow> string list \<Rightarrow> seq_evt list" where
  "expected c cursor ms received =
     (let start = replay c (max (- 1) cursor) ms
      in start @ advancing (last_number (- 1) start) (parsed c received))"

text \<open>C24: safety of the firehose for one subscriber. Whatever the interleaving of publisher,
  background task and consumer, and however many broadcasts the task misses, what the consumer is
  given is a prefix of: the stored events of the first 500 rows with a number above the cursor,
  followed by those of the envelopes received (a subsequence of those published) that advance
  the number. So numbers never go down, and a live event is never given twice.\<close>

theorem subscriber_view:
  assumes "sequencing c i ms s" and "db_times_ok c"
  shows "\<exists>received. subseq received (published evs) \<and>
    prefix (fst (fold (stream_step c) evs ([], snd (events c (Some cursor) (outbox_new s)))))
      (expected c cursor ms received) \<and>
    sorted (map evt_seq (expected c cursor ms received))"
proof -
  let ?start = "replay c (max (- 1) cursor) ms"
  have log: "log_of c i ms s"
    using assms(1) by (rule sequencing_log)
  then have sorted: "sorted (map evt_seq ?start)"
    by (intro replay_sorted) (simp add: log_of_def)
  let ?n = "last_number (- 1) ?start"
  let ?run = "fold (stream_step c) evs ([], new_stream ?start ?n)"
  have below: "\<forall>e \<in> set ?start. evt_seq e \<le> ?n"
    using sorted_last_number [OF sorted] by blast
  then obtain received where r: "stream_inv c ?start ?n (published evs) received ?run"
    using stream_inv_run by blast
  obtain out st where run: "?run = (out, st)"
    by (cases ?run)
  with r have "out @ in_flight st = ?start @ advancing ?n (parsed c received)"
    and sub: "subseq (received @ os_bcast st) (published evs)"
    by (simp_all add: stream_inv_def)
  then have "prefix out (?start @ advancing ?n (parsed c received))"
    by (metis prefixI)
  moreover have "subseq received (published evs)"
    using sub by (rule subseq_order.trans [rotated]) (intro list_emb_prefix subseq_order.order_refl)
  moreover have "sorted (map evt_seq (?start @ advancing ?n (parsed c received)))"
    using sorted below advancing_sorted [of ?n "parsed c received"]
    by (auto simp: sorted_append strict_sorted_imp_sorted dest!: advancing_above)
  ultimately show ?thesis
    using run events_replay [OF log assms(2), of cursor]
    by (intro exI [of _ received]) (simp add: expected_def Let_def)
qed

lemma subscriber_view_witness:
  "\<exists>received. subseq received (published [Poll, Publish ''x'', TaskReceive, Poll]) \<and>
    prefix (fst (fold (stream_step demo_seq_codec) [Poll, Publish ''x'', TaskReceive, Poll]
        ([], snd (events demo_seq_codec (Some 0) (outbox_new demo_two_events)))))
      (expected demo_seq_codec 0 [new_model 10 (demo_evt ''a'' 3), new_model 20 (demo_evt ''b'' 7)]
        received)"
  using subscriber_view [OF demo_two_events demo_db_times_ok,
      of "[Poll, Publish ''x'', TaskReceive, Poll]" 0]
  by blast

text \<open>
  The replay reads only the first page of the table, from its beginning: a cursor beyond the
  first 500 rows gets nothing replayed, however many rows follow.
\<close>

lemma replay_gap:
  assumes "sorted_wrt (<) (map rs_seq ms)" and "seq_ms (rs_seq (ms ! 499)) \<le> cursor"
    and "500 \<le> length ms"
  shows "replay c cursor ms = []"
proof -
  have "evt_seq e \<le> cursor" if m: "m \<in> set (take 500 ms)" and e: "typed_seq_evt c m = Inr e" for m e
  proof -
    obtain k where k: "k < 500" "m = ms ! k"
      using m by (auto simp: in_set_conv_nth)
    have "rs_seq m \<le> rs_seq (ms ! 499)"
      using assms(1,3) k by (cases "k = 499") (auto simp: sorted_wrt_iff_nth_less intro: less_imp_le)
    then have "seq_ms (rs_seq m) \<le> cursor"
      using seq_ms_mono assms(2) by (meson order_trans)
    with typed_seq_evt_seq [OF e] show ?thesis by simp
  qed
  then show ?thesis
    by (force simp: replay_def map_filter_def filter_empty_conv split: sum.splits if_splits)
qed

end
