(* ===== verification/Firehose.thy ===== *)
theory Firehose
  imports Outbox
begin

text \<open>
  The firehose endpoint (cacos-pds-server/src/xrpc/com/atproto/sync/subscribe_repos.rs) and the
  frames it sends (cacos-pds-sequencer/src/ws_frames.rs). \<open>open_cursor\<close> is the validation of the
  client's cursor, with the frames sent on the way; \<open>session\<close> is the loop that forwards the
  outbox, answers the client's messages and pings. The CBOR encoders, the lexicon's bodies and
  chrono's formats are the record \<open>ws_env\<close>; which branch of the select runs, and whether a send
  succeeds, is the argument of the session.
\<close>

section \<open>Frames\<close>

datatype frame_type = MessageOp | ErrorOp

fun frame_op :: "frame_type \<Rightarrow> int" where
  "frame_op MessageOp = 1"
| "frame_op ErrorOp = - 1"

record message_frame_header =
  mh_op :: frame_type
  mh_t :: "string option"

record error_frame_header =
  eh_op :: frame_type

record error_frame_body =
  eb_error :: string
  eb_message :: "string option"

record info_frame_body =
  ib_name :: string
  ib_message :: "string option"

record message_frame_opts =
  mo_type :: "string option"

record 'b message_frame =
  mf_header :: message_frame_header
  mf_body :: 'b

record error_frame =
  ef_header :: error_frame_header
  ef_body :: error_frame_body

definition message_frame_new :: "'b \<Rightarrow> message_frame_opts option \<Rightarrow> 'b message_frame" where
  "message_frame_new body opts =
     \<lparr>mf_header =
        (case opts of None \<Rightarrow> \<lparr>mh_op = MessageOp, mh_t = None\<rparr>
         | Some o' \<Rightarrow> \<lparr>mh_op = MessageOp, mh_t = mo_type o'\<rparr>),
      mf_body = body\<rparr>"

definition get_type :: "'b message_frame \<Rightarrow> string option" where
  "get_type f = mh_t (mf_header f)"

definition error_frame_new :: "error_frame_body \<Rightarrow> error_frame" where
  "error_frame_new body = \<lparr>ef_header = \<lparr>eh_op = ErrorOp\<rparr>, ef_body = body\<rparr>"

definition get_code :: "error_frame \<Rightarrow> string" where
  "get_code f = eb_error (ef_body f)"

definition get_message :: "error_frame \<Rightarrow> string option" where
  "get_message f = eb_message (ef_body f)"

definition message_is_message :: "'b message_frame \<Rightarrow> bool" where
  "message_is_message f = (mh_op (mf_header f) = MessageOp)"

definition message_is_error :: "'b message_frame \<Rightarrow> bool" where
  "message_is_error f = (mh_op (mf_header f) = ErrorOp)"

definition error_is_message :: "error_frame \<Rightarrow> bool" where
  "error_is_message f = (eh_op (ef_header f) = MessageOp)"

definition error_is_error :: "error_frame \<Rightarrow> bool" where
  "error_is_error f = (eh_op (ef_header f) = ErrorOp)"

section \<open>Bodies\<close>

record repos_commit_op =
  rc_path :: string
  rc_cid :: "cid option"
  rc_prev :: "cid option"
  rc_action :: string

record repos_commit =
  rp_seq :: int
  rp_time :: int
  rp_rebase :: bool
  rp_too_big :: bool
  rp_repo :: string
  rp_commit :: cid
  rp_prev :: "cid option"
  rp_rev :: string
  rp_since :: "string option"
  rp_blocks :: string
  rp_ops :: "repos_commit_op list"
  rp_blobs :: "string list"
  rp_prev_data :: "cid option"

record repos_identity =
  ri_did :: string
  ri_seq :: int
  ri_handle :: "string option"
  ri_time :: int

record repos_account =
  rt_seq :: int
  rt_did :: string
  rt_status :: "lex_account_status option"
  rt_active :: bool
  rt_time :: int

record repos_sync =
  ry_seq :: int
  ry_did :: string
  ry_blocks :: string
  ry_rev :: string
  ry_time :: int

datatype frame_body =
    CommitBody repos_commit
  | IdentityBody repos_identity
  | AccountBody repos_account
  | SyncBody repos_sync
  | InfoBody info_frame_body
  | ErrorBody error_frame_body

record ws_env =
  enc_message_header :: "message_frame_header \<Rightarrow> string option"
  enc_error_header :: "error_frame_header \<Rightarrow> string option"
  enc_body :: "frame_body \<Rightarrow> string option"
  encode_error :: "seq_evt \<Rightarrow> string" \<comment> \<open>the encoder's message\<close>
  cid_to_string :: "cid \<Rightarrow> string"
  fmt_variant :: "int \<Rightarrow> string" \<comment> \<open>chrono's RFC 3339 with milliseconds\<close>
  chrono_rfc3339 :: "string \<Rightarrow> int option"

definition concat_frame :: "string option \<Rightarrow> string option \<Rightarrow> string option" where
  "concat_frame header body =
     (case header of None \<Rightarrow> None | Some h \<Rightarrow> map_option (\<lambda>b. h @ b) body)"

definition message_to_bytes :: "ws_env \<Rightarrow> frame_body message_frame \<Rightarrow> string option" where
  "message_to_bytes env f = concat_frame (enc_message_header env (mf_header f)) (enc_body env (mf_body f))"

definition error_to_bytes :: "ws_env \<Rightarrow> error_frame \<Rightarrow> string option" where
  "error_to_bytes env f =
     concat_frame (enc_error_header env (ef_header f)) (enc_body env (ErrorBody (ef_body f)))"

text \<open>A text that does not parse stands for the present.\<close>

definition parse_time :: "ws_env \<Rightarrow> int \<Rightarrow> string \<Rightarrow> int" where
  "parse_time env now s = (case chrono_rfc3339 env s of Some t \<Rightarrow> t | None \<Rightarrow> now)"

definition tagged_frame :: "ws_env \<Rightarrow> string \<Rightarrow> frame_body \<Rightarrow> string option" where
  "tagged_frame env typ body =
     message_to_bytes env (message_frame_new body (Some \<lparr>mo_type = Some (CHR ''#'' # typ)\<rparr>))"

definition typed_event_to_frame_bytes :: "ws_env \<Rightarrow> int \<Rightarrow> seq_evt \<Rightarrow> string option" where
  "typed_event_to_frame_bytes env now evt =
     (case evt of
        TypedCommitEvt e \<Rightarrow>
          tagged_frame env (te_type e) (CommitBody
            \<lparr>rp_seq = te_seq e, rp_time = parse_time env now (te_time e),
             rp_rebase = ce_rebase (te_evt e), rp_too_big = ce_too_big (te_evt e),
             rp_repo = ce_repo (te_evt e), rp_commit = ce_commit (te_evt e),
             rp_prev = ce_prev (te_evt e), rp_rev = ce_rev (te_evt e),
             rp_since = ce_since (te_evt e), rp_blocks = ce_blocks (te_evt e),
             rp_ops = map (\<lambda>op'. \<lparr>rc_path = eo_path op', rc_cid = eo_cid op', rc_prev = eo_prev op',
                rc_action = op_action_as_str (eo_action op')\<rparr>) (ce_ops (te_evt e)),
             rp_blobs = map (cid_to_string env) (ce_blobs (te_evt e)),
             rp_prev_data = ce_prev_data (te_evt e)\<rparr>)
      | TypedIdentityEvt e \<Rightarrow>
          tagged_frame env (te_type e) (IdentityBody
            \<lparr>ri_did = ie_did (te_evt e), ri_seq = te_seq e, ri_handle = ie_handle (te_evt e),
             ri_time = parse_time env now (te_time e)\<rparr>)
      | TypedAccountEvt e \<Rightarrow>
          tagged_frame env (te_type e) (AccountBody
            \<lparr>rt_seq = te_seq e, rt_did = ae_did (te_evt e), rt_status = ae_status (te_evt e),
             rt_active = ae_active (te_evt e), rt_time = parse_time env now (te_time e)\<rparr>)
      | TypedSyncEvt e \<Rightarrow>
          tagged_frame env (te_type e) (SyncBody
            \<lparr>ry_seq = te_seq e, ry_did = se_did (te_evt e), ry_blocks = se_blocks (te_evt e),
             ry_rev = se_rev (te_evt e), ry_time = parse_time env now (te_time e)\<rparr>))"

section \<open>Validation of the cursor\<close>

definition repo_backfill_limit_ms :: int where
  "repo_backfill_limit_ms = 24 * 60 * 60 * 1000"

definition get_backfill_limit :: "ws_env \<Rightarrow> int \<Rightarrow> int \<Rightarrow> string" where
  "get_backfill_limit env now ms = fmt_variant env (now - ms * 1000000)"

definition parse_backfill_time :: "ws_env \<Rightarrow> string \<Rightarrow> int" where
  "parse_backfill_time env s = (case chrono_rfc3339 env s of Some t \<Rightarrow> t div 1000000 | None \<Rightarrow> 0)"

text \<open>
  \<open>timestamp_nanos_opt\<close> is \<open>None\<close> outside 64 bits; both failures fall back to the epoch.
\<close>

definition backfill_time_date :: "ws_env \<Rightarrow> string \<Rightarrow> int" where
  "backfill_time_date env s =
     (case chrono_rfc3339 env s of
        Some t \<Rightarrow> if - (2 ^ 63) \<le> t \<and> t < 2 ^ 63 then t else 0
      | None \<Rightarrow> 0)"

text \<open>\<open>nanos as i64 / 1_000_000\<close>: cut to 64 bits, then divided towards zero.\<close>

definition nanos_as_millis :: "int \<Rightarrow> int" where
  "nanos_as_millis n =
     (let k = sint (word_of_int n :: 64 word)
      in if k < 0 then - (- k div 1000000) else k div 1000000)"

definition next_ts :: "seq_codec \<Rightarrow> int \<Rightarrow> sequencer \<Rightarrow> int" where
  "next_ts c cursor s =
     (case next_seq c (ulid_for_ts cursor) s of
        Inr (Some n) \<Rightarrow> nanos_as_millis (rs_sequenced_at n)
      | _ \<Rightarrow> cursor)"

definition future_cursor :: error_frame where
  "future_cursor = error_frame_new
     \<lparr>eb_error = ''FutureCursor'', eb_message = Some ''Cursor in the future.''\<rparr>"

definition outdated_cursor :: "frame_body message_frame" where
  "outdated_cursor = message_frame_new
     (InfoBody \<lparr>ib_name = ''OutdatedCursor'',
        ib_message = Some ''Requested cursor exceeded limit. Possibly missing events''\<rparr>)
     (Some \<lparr>mo_type = Some ''#info''\<rparr>)"

definition or_default :: "string option \<Rightarrow> string" where
  "or_default b = (case b of None \<Rightarrow> [] | Some s \<Rightarrow> s)"

text \<open>
  The binary messages sent, and then \<open>None\<close> when the connection ends here, or the cursor given
  to the outbox (\<open>Some None\<close>: live events only).
\<close>

definition open_cursor ::
  "ws_env \<Rightarrow> seq_codec \<Rightarrow> int \<Rightarrow> int option \<Rightarrow> sequencer \<Rightarrow> string list \<times> int option option" where
  "open_cursor env c now cursor s =
     (let backfill_time = get_backfill_limit env now repo_backfill_limit_ms
      in case cursor of
           None \<Rightarrow> ([], Some None)
         | Some cursor \<Rightarrow>
             (let curr_ts = map_option seq_ms (curr s)
              in if cursor > (case curr_ts of None \<Rightarrow> 0 | Some ts \<Rightarrow> ts)
                 then ([or_default (error_to_bytes env future_cursor)], None)
                 else if next_ts c cursor s < parse_backfill_time env backfill_time
                 then
                   ([or_default (message_to_bytes env outdated_cursor)],
                    Some (case earliest_after_time c (backfill_time_date env backfill_time) s of
                            Inr (Some earliest) \<Rightarrow> Some (seq_ms (rs_seq earliest) - 1)
                          | _ \<Rightarrow> None))
                 else ([], Some (Some cursor))))"

section \<open>The session\<close>

datatype incoming = InClose | InMessage | InError | InEnd

datatype ws_event =
    StreamItem "(string + seq_evt) option"
  | Incoming incoming
  | PingTick

datatype ws_message = Binary string | PingMessage

text \<open>
  Each turn is one branch of the select with the fate of its send and the clock; the loop ends
  with the stream, an error, a failed send or the client.
\<close>

fun session :: "ws_env \<Rightarrow> (ws_event \<times> bool \<times> int) list \<Rightarrow> ws_message list" where
  "session env [] = []"
| "session env ((StreamItem (Some (Inr evt)), sent, now) # rest) =
     (case typed_event_to_frame_bytes env now evt of
        Some bytes \<Rightarrow> Binary bytes # (if sent then session env rest else [])
      | None \<Rightarrow> [Binary (or_default (error_to_bytes env (error_frame_new
          \<lparr>eb_error = ''SerializationError'', eb_message = Some (encode_error env evt)\<rparr>)))])"
| "session env ((StreamItem (Some (Inl err)), sent, now) # rest) =
     [Binary (or_default (error_to_bytes env (error_frame_new
        \<lparr>eb_error = ''EventStreamError'', eb_message = Some err\<rparr>)))]"
| "session env ((StreamItem None, sent, now) # rest) = []"
| "session env ((Incoming InMessage, sent, now) # rest) = session env rest"
| "session env ((Incoming _, sent, now) # rest) = []"
| "session env ((PingTick, sent, now) # rest) =
     PingMessage # (if sent then session env rest else [])"

section \<open>Resuming\<close>

text \<open>chrono reads back the limit it has written, to the millisecond.\<close>

definition limit_ok :: "ws_env \<Rightarrow> int \<Rightarrow> bool" where
  "limit_ok env now \<longleftrightarrow>
     parse_backfill_time env (get_backfill_limit env now repo_backfill_limit_ms) =
       now div 1000000 - repo_backfill_limit_ms"

lemma nanos_as_millis:
  assumes "0 \<le> n" and "n < 2 ^ 63"
  shows "nanos_as_millis n = n div 1000000"
proof -
  have "sint (word_of_int n :: 64 word) = n"
  proof -
    have "uint (word_of_int n :: 64 word) = n"
      using assms by (simp add: uint_word_of_int take_bit_eq_mod)
    moreover have "signed_take_bit 63 n = n"
      using assms by (intro signed_take_bit_int_eq_self) simp_all
    ultimately show ?thesis
      by (simp add: sint_uint)
  qed
  with assms(1) show ?thesis
    by (simp add: nanos_as_millis_def)
qed

lemma next_ts_log:
  assumes "db_times_ok c" and "log_of c i ms s"
  shows "next_ts c cursor s =
    (case first_row (filter (\<lambda>m. ulid_for_ts cursor < rs_seq m) ms) of
       None \<Rightarrow> cursor | Some m \<Rightarrow> nanos_as_millis (rs_sequenced_at m))"
  using next_seq_log [OF assms, of "ulid_for_ts cursor"]
  by (simp add: next_ts_def split: option.split)

lemma after_cursor:
  assumes "0 \<le> cursor" and "cursor < 2 ^ 48" and "\<forall>m \<in> set ms. rs_seq m \<noteq> ulid_for_ts cursor"
  shows "filter (\<lambda>m. ulid_for_ts cursor < rs_seq m) ms = filter (\<lambda>m. cursor \<le> seq_ms (rs_seq m)) ms"
  using assms by (intro filter_cong) (auto simp: order.strict_iff_order ulid_for_ts_le)

text \<open>The replay of a short log with decodable rows has every event above the cursor.\<close>

lemma replay_complete:
  assumes "length ms \<le> 500" and "\<forall>m \<in> set ms. \<exists>e. typed_seq_evt c m = Inr e"
  shows "replay c cursor ms =
    map (\<lambda>m. projr (typed_seq_evt c m)) (filter (\<lambda>m. cursor < seq_ms (rs_seq m)) ms)"
proof -
  have "List.map_filter (\<lambda>m. case typed_seq_evt c m of Inl _ \<Rightarrow> None
        | Inr e \<Rightarrow> if evt_seq e > cursor then Some e else None) ms =
      map (\<lambda>m. projr (typed_seq_evt c m)) (filter (\<lambda>m. cursor < seq_ms (rs_seq m)) ms)"
    using assms(2)
  proof (induction ms)
    case (Cons m ms)
    then obtain e where "typed_seq_evt c m = Inr e" by auto
    with Cons typed_seq_evt_seq [OF this] show ?case
      by (simp add: map_filter_simps)
  qed (simp add: map_filter_simps)
  with assms(1) show ?thesis
    by (simp add: replay_def)
qed


definition demo_ws :: ws_env where
  "demo_ws =
     \<lparr>enc_message_header = (\<lambda>h. mh_t h), enc_error_header = (\<lambda>_. Some ''error''),
      enc_body = (\<lambda>_. Some ''body''), encode_error = (\<lambda>_. ''encode''), cid_to_string = id,
      fmt_variant = (\<lambda>t. pad_dec 18 (nat t)), chrono_rfc3339 = (\<lambda>s. Some (int (read_dec s)))\<rparr>"

definition demo_id1 :: db_id where
  "demo_id1 = 6044629098073145873530881"

definition demo_id2 :: db_id where
  "demo_id2 = 10880332376531662572355585"

definition demo_resumed :: sequencer where
  "demo_resumed =
     snd (sequence_evt demo_seq_codec demo_net demo_id2 (demo_evt ''b'' 7)
       (snd (sequence_evt demo_seq_codec demo_net demo_id1 (demo_evt ''a'' 3) demo_sequencer)))"

lemma demo_ids: "0 < demo_id1" "demo_id1 < demo_id2" "seq_ms demo_id1 = 5" "seq_ms demo_id2 = 9"
  by (simp_all add: demo_id1_def demo_id2_def seq_ms_eq word_less_def)

lemma demo_resumed:
  "sequencing demo_seq_codec demo_id2
     [new_model demo_id1 (demo_evt ''a'' 3), new_model demo_id2 (demo_evt ''b'' 7)] demo_resumed"
proof -
  have "sequencing demo_seq_codec 0 [] demo_sequencer"
    by (rule sequencing.start) (simp add: demo_sequencer_def sequencer_new_def)
  then have "sequencing demo_seq_codec demo_id1 ([] @ [new_model demo_id1 (demo_evt ''a'' 3)])
      (snd (sequence_evt demo_seq_codec demo_net demo_id1 (demo_evt ''a'' 3) demo_sequencer))"
    by (rule sequencing.event)
      (simp_all add: demo_ids demo_evt_def mk_repo_seq_new_def demo_seq_codec_def)
  then have "sequencing demo_seq_codec demo_id2 (([] @ [new_model demo_id1 (demo_evt ''a'' 3)]) @
      [new_model demo_id2 (demo_evt ''b'' 7)]) demo_resumed"
    unfolding demo_resumed_def
    by (rule sequencing.event)
      (simp_all add: demo_ids demo_evt_def mk_repo_seq_new_def demo_seq_codec_def)
  then show ?thesis by simp
qed


end
