(* ===== verification/Actor_Db.thy ===== *)
theory Actor_Db
  imports Seq_Events Account_Db
begin

text \<open>
  The database of one actor: its tables (migration/src/m20260801_000004_actor.rs and the entities)
  and the prepared writes that change them. The text form of a CID, AT URIs, block maps and CID
  sets are types of other packages: their operations are the record \<open>actor_env\<close>, with the laws
  the code relies on. A \<open>BlockMap\<close> is a \<open>BTreeMap\<close> from the text of a CID to bytes, a field the
  code uses directly; it is a list of pairs without duplicate keys.
\<close>

section \<open>Errors\<close>

datatype pds_error = NotFound string | InvalidInput string | Internal string | Database db_err

section \<open>Tables\<close>

record repo_block_row =
  rb_cid :: string
  rb_repo_rev :: string
  rb_size :: "64 word"
  rb_content :: string

record record_row =
  rec_uri :: string
  rec_cid :: string
  rec_collection :: string
  rec_rkey :: string
  rec_repo_rev :: string
  rec_indexed_at :: string
  rec_takedown_ref :: "string option"

record backlink_row =
  bl_uri :: string
  bl_path :: string
  bl_link_to :: string

record blob_row =
  br_cid :: string
  br_mime_type :: string
  br_size :: "64 word"
  br_temp_key :: "string option"
  br_width :: "int option"
  br_height :: "int option"
  br_created_at :: string
  br_takedown_ref :: "string option"

record record_blob_row =
  rbl_blob_cid :: string
  rbl_record_uri :: string

record account_pref_row =
  ap_id :: db_id
  ap_name :: string
  ap_value_json :: string

record actor_db =
  ad_roots :: "repo_root_row list"
  ad_blocks :: "repo_block_row list"
  ad_records :: "record_row list"
  ad_backlinks :: "backlink_row list"
  ad_blobs :: "blob_row list"
  ad_record_blobs :: "record_blob_row list"
  ad_prefs :: "account_pref_row list"

definition empty_actor_db :: actor_db where
  "empty_actor_db =
     \<lparr>ad_roots = [], ad_blocks = [], ad_records = [], ad_backlinks = [], ad_blobs = [],
      ad_record_blobs = [], ad_prefs = []\<rparr>"

text \<open>The primary keys and the unique index on preference names.\<close>

definition wf_actor_db :: "actor_db \<Rightarrow> bool" where
  "wf_actor_db db \<longleftrightarrow>
     uniq rr_did (ad_roots db) \<and> uniq rb_cid (ad_blocks db) \<and> uniq rec_uri (ad_records db) \<and>
     uniq (\<lambda>r. (bl_uri r, bl_path r)) (ad_backlinks db) \<and> uniq br_cid (ad_blobs db) \<and>
     uniq (\<lambda>r. (rbl_blob_cid r, rbl_record_uri r)) (ad_record_blobs db) \<and>
     uniq ap_id (ad_prefs db) \<and> uniq ap_name (ad_prefs db)"

lemma wf_empty_actor_db [simp]: "wf_actor_db empty_actor_db"
  by (simp add: wf_actor_db_def empty_actor_db_def)

lemma find_key_update:
  "\<forall>r. k (f r) = k r \<Longrightarrow>
   find (\<lambda>r. k r = u) (update_where (\<lambda>r. k r = v) f t) =
     (if u = v then map_option f (find (\<lambda>r. k r = u) t) else find (\<lambda>r. k r = u) t)"
  by (induction t) auto

lemma has_key_iff: "has_row (\<lambda>r. k r = u) t \<longleftrightarrow> find (\<lambda>r. k r = u) t \<noteq> None"
  by (metis not_has_row_find)

section \<open>Types of other packages\<close>

record at_uri =
  au_text :: string
  au_collection :: string
  au_rkey :: string

record actor_env =
  cid_to_str :: "cid \<Rightarrow> string"
  cid_from_str :: "string \<Rightarrow> cid option"
  at_uri_of :: "string \<Rightarrow> at_uri option"
  bm_get :: "block_map \<Rightarrow> cid \<Rightarrow> string option"
  bm_set :: "block_map \<Rightarrow> cid \<Rightarrow> string \<Rightarrow> block_map"
  bm_add_map :: "block_map \<Rightarrow> block_map \<Rightarrow> block_map option"
  bm_get_many :: "block_map \<Rightarrow> cid list \<Rightarrow> (block_map \<times> cid list) option"
  cs_new :: "cid list \<Rightarrow> cid list"
  cs_delete :: "cid \<Rightarrow> cid list \<Rightarrow> cid list"
  cs_to_list :: "cid list \<Rightarrow> cid list"
  car_file :: "cid option \<Rightarrow> block_map \<Rightarrow> string option"

text \<open>A CID survives its text; two texts of one CID do not occur.\<close>

definition cids_ok :: "actor_env \<Rightarrow> bool" where
  "cids_ok env \<longleftrightarrow>
     (\<forall>c. cid_from_str env (cid_to_str env c) = Some c) \<and>
     (\<forall>s c. cid_from_str env s = Some c \<longrightarrow> cid_to_str env c = s)"

definition block_maps_ok :: "actor_env \<Rightarrow> bool" where
  "block_maps_ok env \<longleftrightarrow>
     (\<forall>m c. bm_get env m c = map_of m (cid_to_str env c)) \<and>
     (\<forall>m c b. map_of (bm_set env m c b) = (map_of m)(cid_to_str env c \<mapsto> b)) \<and>
     (\<forall>m n. \<exists>r. bm_add_map env m n = Some r \<and> map_of r = map_of m ++ map_of n) \<and>
     (\<forall>m cs. \<exists>r. bm_get_many env m cs = Some (r, filter (\<lambda>c. map_of m (cid_to_str env c) = None) cs) \<and>
        map_of r = map_of m |` (cid_to_str env ` set cs))"

definition cid_sets_ok :: "actor_env \<Rightarrow> bool" where
  "cid_sets_ok env \<longleftrightarrow>
     (\<forall>cs. set (cs_to_list env (cs_new env cs)) = set cs) \<and>
     (\<forall>c s. set (cs_to_list env (cs_delete env c s)) = set (cs_to_list env s) - {c})"

lemma cid_from_to: "cids_ok env \<Longrightarrow> cid_from_str env (cid_to_str env c) = Some c"
  by (simp add: cids_ok_def)

lemma cid_to_from: "cids_ok env \<Longrightarrow> cid_from_str env s = Some c \<Longrightarrow> cid_to_str env c = s"
  by (simp add: cids_ok_def)

lemma cid_to_str_inj: "cids_ok env \<Longrightarrow> cid_to_str env a = cid_to_str env b \<longleftrightarrow> a = b"
  by (metis cid_from_to option.inject)

lemma cid_to_str_image: "cids_ok env \<Longrightarrow> cid_to_str env c \<in> cid_to_str env ` S \<longleftrightarrow> c \<in> S"
  by (auto simp: cid_to_str_inj)

text \<open>Texts parsed one after the other, the first that is no CID failing the whole list.\<close>

fun parse_texts :: "actor_env \<Rightarrow> 'e \<Rightarrow> string list \<Rightarrow> 'e + cid list" where
  "parse_texts env e [] = Inr []"
| "parse_texts env e (s # ss) =
     (case cid_from_str env s of
        None \<Rightarrow> Inl e
      | Some c \<Rightarrow> map_sum (\<lambda>e. e) (Cons c) (parse_texts env e ss))"

lemma parse_texts_Inr: "cids_ok env \<Longrightarrow> parse_texts env e ss = Inr cs \<Longrightarrow> map (cid_to_str env) cs = ss"
proof (induction ss arbitrary: cs)
  case (Cons s ss)
  from Cons.prems(2) obtain c cs' where c: "cid_from_str env s = Some c"
    and cs: "parse_texts env e ss = Inr cs'" "cs = c # cs'"
    by (cases "parse_texts env e ss") (auto split: option.splits)
  show ?case
    using Cons.IH [OF Cons.prems(1) cs(1)] cs(2) cid_to_from [OF Cons.prems(1) c] by simp
qed simp

text \<open>A concrete instance, for the witnesses: a CID is its text, sets are lists.\<close>

definition demo_actor_env :: actor_env where
  "demo_actor_env =
     \<lparr>cid_to_str = (\<lambda>c. c), cid_from_str = Some,
      at_uri_of = (\<lambda>s. Some \<lparr>au_text = s, au_collection = take 1 s, au_rkey = drop 1 s\<rparr>),
      bm_get = map_of, bm_set = (\<lambda>m c b. (c, b) # m), bm_add_map = (\<lambda>m n. Some (n @ m)),
      bm_get_many = (\<lambda>m cs. Some (filter (\<lambda>p. fst p \<in> set cs) m, filter (\<lambda>c. map_of m c = None) cs)),
      cs_new = (\<lambda>cs. cs), cs_delete = removeAll, cs_to_list = (\<lambda>cs. cs), car_file = (\<lambda>_ _. Some [])\<rparr>"

lemma demo_actor_env_simps [simp]:
  "cid_to_str demo_actor_env c = c" "cid_from_str demo_actor_env s = Some s"
  "at_uri_of demo_actor_env s = Some \<lparr>au_text = s, au_collection = take 1 s, au_rkey = drop 1 s\<rparr>"
  "bm_get demo_actor_env m = map_of m" "bm_set demo_actor_env m c b = (c, b) # m"
  by (simp_all add: demo_actor_env_def)

lemma map_of_keys: "map_of (filter (\<lambda>p. fst p \<in> S) m) = map_of m |` S"
  by (induction m) (auto simp: restrict_map_def fun_eq_iff)

lemma demo_actor_env_ok:
  "cids_ok demo_actor_env" "block_maps_ok demo_actor_env" "cid_sets_ok demo_actor_env"
  by (auto simp: demo_actor_env_def cids_ok_def block_maps_ok_def cid_sets_ok_def map_of_keys)

section \<open>Prepared writes\<close>

datatype write_op_action = WriteCreate | WriteUpdate | WriteDelete

text \<open>\<open>serde_json::Value\<close>; numbers stay text.\<close>

datatype json =
    JsonNull
  | JsonBool bool
  | JsonNumber string
  | JsonString string
  | JsonArray "json list"
  | JsonObject "(string \<times> json) list"

datatype ipld =
    IpldMap "(string \<times> ipld) list"
  | IpldList "ipld list"
  | IpldString string
  | IpldLink string
  | IpldBytes string
  | IpldJson json

datatype lex =
    LexIpld ipld
  | LexMap "(string \<times> lex) list"
  | LexList "lex list"
  | LexBlob string

type_synonym repo_record = "(string \<times> lex) list"

record blob_constraint =
  bc_max_size :: "64 word option"
  bc_accept :: "string list option"

record prepared_blob_ref =
  pb_cid :: cid
  pb_mime_type :: string
  pb_constraints :: blob_constraint

record prepared_create_or_update =
  pc_action :: write_op_action
  pc_uri :: string
  pc_cid :: cid
  pc_swap_cid :: "cid option"
  pc_record :: repo_record
  pc_blobs :: "prepared_blob_ref list"

record prepared_delete =
  pd_action :: write_op_action
  pd_uri :: string
  pd_swap_cid :: "cid option"

datatype prepared_write =
    PwCreate prepared_create_or_update
  | PwUpdate prepared_create_or_update
  | PwDelete prepared_delete

fun write_action :: "prepared_write \<Rightarrow> write_op_action" where
  "write_action (PwCreate w) = pc_action w"
| "write_action (PwUpdate w) = pc_action w"
| "write_action (PwDelete w) = pd_action w"

fun write_uri :: "prepared_write \<Rightarrow> string" where
  "write_uri (PwCreate w) = pc_uri w"
| "write_uri (PwUpdate w) = pc_uri w"
| "write_uri (PwDelete w) = pd_uri w"

fun write_swap_cid :: "prepared_write \<Rightarrow> cid option" where
  "write_swap_cid (PwCreate w) = pc_swap_cid w"
| "write_swap_cid (PwUpdate w) = pc_swap_cid w"
| "write_swap_cid (PwDelete w) = pd_swap_cid w"

end
