(* ===== verification/Blob_Store.thy ===== *)
theory Blob_Store
  imports Actor_Db
begin

text \<open>
  The blob storage of one actor over a shared operator (cacos-pds-blobstore/src/opendal.rs). The
  operator is a map from paths to bytes; each handle bakes its DID into every path. Which paths a
  recursive deletion covers belongs to the operator and is the parameter \<open>covers\<close>; failures of the
  backend other than a missing object, metrics and the chunking of streams are left out.

  Proved: a handle never changes what another actor has stored.
\<close>

type_synonym operator = "string \<rightharpoonup> string"

datatype blob_error =
    StoredBlobNotFound
  | BlobRowNotFound
  | BlobTakendown
  | BlobTooLarge "64 word" "64 word"
  | InvalidMimeType string string
  | WrongFileType string "string list"
  | CouldNotFindBlob string
  | LimitTooHigh
  | BadCid

section \<open>Paths\<close>

text \<open>A key of 20 random bytes, in hexadecimal.\<close>

definition hex_digits :: string where
  "hex_digits = ''0123456789abcdef''"

definition tmp_key :: "8 word list \<Rightarrow> string" where
  "tmp_key bytes = concat (map (\<lambda>b. [hex_digits ! (unat b div 16), hex_digits ! (unat b mod 16)]) bytes)"

definition tmp_path :: "string \<Rightarrow> string \<Rightarrow> string" where
  "tmp_path did key = ''tmp/'' @ did @ ''/'' @ key"

definition stored_path :: "string \<Rightarrow> string \<Rightarrow> string" where
  "stored_path did cid = ''blocks/'' @ did @ ''/'' @ cid"

definition quarantine_path :: "string \<Rightarrow> string \<Rightarrow> string" where
  "quarantine_path did cid = ''quarantine/'' @ did @ ''/'' @ cid"

section \<open>Operations\<close>

text \<open>A rename overwrites its target and fails when there is no source.\<close>

definition rename_object :: "string \<Rightarrow> string \<Rightarrow> operator \<Rightarrow> (blob_error + unit) \<times> operator" where
  "rename_object src dst op' =
     (case op' src of
        None \<Rightarrow> (Inl StoredBlobNotFound, op')
      | Some bytes \<Rightarrow> (Inr (), (op'(src := None))(dst \<mapsto> bytes)))"

definition put_temp :: "string \<Rightarrow> 8 word list \<Rightarrow> string \<Rightarrow> operator \<Rightarrow> string \<times> operator" where
  "put_temp did rnd bytes op' =
     (let key = tmp_key rnd in (key, op'(tmp_path did key \<mapsto> bytes)))"

definition make_permanent ::
  "string \<Rightarrow> string \<Rightarrow> string \<Rightarrow> operator \<Rightarrow> (blob_error + unit) \<times> operator" where
  "make_permanent did key cid op' =
     and_then
       (if op' (stored_path did cid) = None
        then rename_object (tmp_path did key) (stored_path did cid) op' else (Inr (), op'))
       (\<lambda>_ op'. (Inr (), op'(tmp_path did key := None)))"

definition put_permanent :: "string \<Rightarrow> string \<Rightarrow> string \<Rightarrow> operator \<Rightarrow> operator" where
  "put_permanent did cid bytes op' = op'(stored_path did cid \<mapsto> bytes)"

definition quarantine :: "string \<Rightarrow> string \<Rightarrow> operator \<Rightarrow> (blob_error + unit) \<times> operator" where
  "quarantine did cid op' = rename_object (stored_path did cid) (quarantine_path did cid) op'"

definition unquarantine :: "string \<Rightarrow> string \<Rightarrow> operator \<Rightarrow> (blob_error + unit) \<times> operator" where
  "unquarantine did cid op' = rename_object (quarantine_path did cid) (stored_path did cid) op'"

definition get_blob_bytes :: "string \<Rightarrow> string \<Rightarrow> operator \<Rightarrow> blob_error + string" where
  "get_blob_bytes did cid op' = option_to_result StoredBlobNotFound (op' (stored_path did cid))"

definition has_temp :: "string \<Rightarrow> string \<Rightarrow> operator \<Rightarrow> bool" where
  "has_temp did key op' = (op' (tmp_path did key) \<noteq> None)"

definition has_stored :: "string \<Rightarrow> string \<Rightarrow> operator \<Rightarrow> bool" where
  "has_stored did cid op' = (op' (stored_path did cid) \<noteq> None)"

text \<open>Deleting an object that is not there succeeds.\<close>

definition delete_blob :: "string \<Rightarrow> string \<Rightarrow> operator \<Rightarrow> operator" where
  "delete_blob did cid op' = op'(stored_path did cid := None)"

definition delete_blobs :: "string \<Rightarrow> string list \<Rightarrow> operator \<Rightarrow> operator" where
  "delete_blobs did cids op' = fold (delete_blob did) cids op'"

definition delete_prefix :: "(string \<Rightarrow> string \<Rightarrow> bool) \<Rightarrow> string \<Rightarrow> operator \<Rightarrow> operator" where
  "delete_prefix covers prefix op' = (\<lambda>path. if covers prefix path then None else op' path)"

definition delete_all :: "(string \<Rightarrow> string \<Rightarrow> bool) \<Rightarrow> string \<Rightarrow> operator \<Rightarrow> operator" where
  "delete_all covers did op' =
     fold (delete_prefix covers) [''tmp/'' @ did, ''blocks/'' @ did, ''quarantine/'' @ did] op'"

section \<open>Actors are isolated\<close>

text \<open>\<open>assert_safe_path_part\<close> of the actor store, which every DID passes before its store opens.\<close>

definition assert_safe_path_part :: "string \<Rightarrow> pds_error + unit" where
  "assert_safe_path_part part =
     (if part = [] \<or> starts_with part ''.'' \<or> CHR ''/'' \<in> set part \<or> CHR 0x5C \<in> set part \<or>
         contains_str part ''..''
      then Inl (InvalidInput (''unsafe path part: '' @ part)) else Inr ())"

lemma safe_no_slash: "is_ok (assert_safe_path_part did) \<Longrightarrow> CHR ''/'' \<notin> set did"
  by (auto simp: assert_safe_path_part_def split: if_splits)

datatype area = TmpArea | BlocksArea | QuarantineArea

fun area_path :: "area \<Rightarrow> string \<Rightarrow> string \<Rightarrow> string" where
  "area_path TmpArea = tmp_path"
| "area_path BlocksArea = stored_path"
| "area_path QuarantineArea = quarantine_path"

fun area_name :: "area \<Rightarrow> string" where
  "area_name TmpArea = ''tmp''"
| "area_name BlocksArea = ''blocks''"
| "area_name QuarantineArea = ''quarantine''"

lemma area_path: "area_path a did k = area_name a @ ''/'' @ did @ ''/'' @ k"
  by (cases a) (simp_all add: tmp_path_def stored_path_def quarantine_path_def)

lemma area_name_no_slash [simp]: "CHR ''/'' \<notin> set (area_name a)"
  by (cases a) simp_all

lemma area_name_eq [simp]: "area_name a = area_name b \<longleftrightarrow> a = b"
  by (cases a; cases b) simp_all

lemma split_at_slash:
  "CHR ''/'' \<notin> set x \<Longrightarrow> CHR ''/'' \<notin> set y \<Longrightarrow> x @ CHR ''/'' # r = y @ CHR ''/'' # s \<longleftrightarrow> x = y \<and> r = s"
proof (induction x arbitrary: y)
  case Nil
  then show ?case by (cases y) auto
next
  case (Cons c x)
  then show ?case by (cases y) auto
qed

lemma area_path_eq:
  assumes "CHR ''/'' \<notin> set did" and "CHR ''/'' \<notin> set did'"
  shows "area_path a did k = area_path b did' k' \<longleftrightarrow> a = b \<and> did = did' \<and> k = k'"
  using assms by (simp add: area_path split_at_slash)

text \<open>The operations, and what the operator promises of a recursive deletion.\<close>

datatype store_call =
    PutTemp "8 word list" string | MakePermanent string string | PutPermanent string string
  | Quarantine string | Unquarantine string | DeleteBlobs "string list" | DeleteAll

fun run_call :: "(string \<Rightarrow> string \<Rightarrow> bool) \<Rightarrow> string \<times> store_call \<Rightarrow> operator \<Rightarrow> operator" where
  "run_call covers (did, PutTemp rnd bytes) op' = snd (put_temp did rnd bytes op')"
| "run_call covers (did, MakePermanent key cid) op' = snd (make_permanent did key cid op')"
| "run_call covers (did, PutPermanent cid bytes) op' = put_permanent did cid bytes op'"
| "run_call covers (did, Quarantine cid) op' = snd (quarantine did cid op')"
| "run_call covers (did, Unquarantine cid) op' = snd (unquarantine did cid op')"
| "run_call covers (did, DeleteBlobs cids) op' = delete_blobs did cids op'"
| "run_call covers (did, DeleteAll) op' = delete_all covers did op'"

definition directories :: "(string \<Rightarrow> string \<Rightarrow> bool) \<Rightarrow> bool" where
  "directories covers \<longleftrightarrow> (\<forall>prefix path. covers prefix path \<longrightarrow> path = prefix \<or> starts_with path (prefix @ ''/''))"

lemma rename_other: "path \<noteq> src \<Longrightarrow> path \<noteq> dst \<Longrightarrow> snd (rename_object src dst op') path = op' path"
  by (simp add: rename_object_def split: option.split)

lemma make_permanent_other:
  "path \<noteq> tmp_path did key \<Longrightarrow> path \<noteq> stored_path did cid \<Longrightarrow>
   snd (make_permanent did key cid op') path = op' path"
  by (simp add: make_permanent_def rename_object_def split: option.split)

lemma delete_blobs_apply:
  "delete_blobs did cids op' path = (if path \<in> stored_path did ` set cids then None else op' path)"
  unfolding delete_blobs_def by (induction cids arbitrary: op') (auto simp: delete_blob_def)

lemma under_other:
  assumes "directories covers" and "CHR ''/'' \<notin> set did" and "CHR ''/'' \<notin> set did'" and "did \<noteq> did'"
  shows "\<not> covers (area_name b @ ''/'' @ did) (area_path a did' k)"
proof
  assume "covers (area_name b @ ''/'' @ did) (area_path a did' k)"
  with assms(1) have "area_path a did' k = area_name b @ ''/'' @ did \<or>
      starts_with (area_path a did' k) ((area_name b @ ''/'' @ did) @ ''/'')"
    unfolding directories_def by blast
  then show False
  proof
    assume "area_path a did' k = area_name b @ ''/'' @ did"
    then have "did' @ ''/'' @ k = did"
      by (simp add: area_path split_at_slash)
    with assms(2) show False by auto
  next
    assume "starts_with (area_path a did' k) ((area_name b @ ''/'' @ did) @ ''/'')"
    with assms(2-4) show False
      by (auto simp: starts_with_iff area_path split_at_slash)
  qed
qed

lemma run_call_other:
  assumes "directories covers" and "CHR ''/'' \<notin> set did" and "CHR ''/'' \<notin> set did'" and "did \<noteq> did'"
  shows "run_call covers (did, c) op' (area_path a did' k) = op' (area_path a did' k)"
proof -
  have neq: "area_path a did' k \<noteq> area_path b did k'" for b k'
    using area_path_eq [OF assms(3,2)] assms(4) by blast
  note paths = neq [of TmpArea, simplified] neq [of BlocksArea, simplified] neq [of QuarantineArea, simplified]
  note dels = under_other [OF assms, of TmpArea a k, simplified]
    under_other [OF assms, of BlocksArea a k, simplified] under_other [OF assms, of QuarantineArea a k, simplified]
  show ?thesis
  proof (cases c)
    case (DeleteBlobs cids)
    then show ?thesis by (auto simp: delete_blobs_apply paths)
  qed (simp_all add: paths dels put_temp_def make_permanent_other put_permanent_def quarantine_def
      unquarantine_def rename_other delete_all_def delete_prefix_def Let_def)
qed

text \<open>C27: the blob stores of different actors are isolated although they share one operator. Take
  any sequence of operations on handles of DIDs other than one, all of which pass the path check
  of the actor store. If the operator deletes directories and not everything that starts with
  their name, every object of that one DID, in each of its three areas, is what it was.\<close>

theorem blob_stores_isolated:
  assumes "directories covers" and "is_ok (assert_safe_path_part did)"
    and "\<forall>(d, c) \<in> set calls. d \<noteq> did \<and> is_ok (assert_safe_path_part d)"
  shows "fold (run_call covers) calls op' (area_path a did k) = op' (area_path a did k)"
  using assms(3)
proof (induction calls arbitrary: op')
  case (Cons dc calls)
  obtain d c where dc: "dc = (d, c)" by (cases dc)
  with Cons.prems have "run_call covers (d, c) op' (area_path a did k) = op' (area_path a did k)"
    using assms(1,2) by (intro run_call_other) (auto dest: safe_no_slash)
  with Cons dc show ?case by simp
qed simp

definition demo_under :: "string \<Rightarrow> string \<Rightarrow> bool" where
  "demo_under prefix path \<longleftrightarrow> path = prefix \<or> starts_with path (prefix @ ''/'')"

lemma blob_stores_isolated_witness:
  "fold (run_call demo_under)
     [(''did:web:a'', PutPermanent ''c'' ''x''), (''did:web:a'', Quarantine ''c''), (''did:web:a'', DeleteAll)]
     [stored_path ''did:web:a.b'' ''c'' \<mapsto> ''y''] (area_path BlocksArea ''did:web:a.b'' ''c'') = Some ''y''"
proof -
  have "directories demo_under"
    by (simp add: directories_def demo_under_def)
  moreover have "is_ok (assert_safe_path_part ''did:web:a.b'')" "is_ok (assert_safe_path_part ''did:web:a'')"
    by (simp_all add: assert_safe_path_part_def starts_with_def)
  ultimately show ?thesis
    by (subst blob_stores_isolated) simp_all
qed

section \<open>The interface\<close>

text \<open>
  What a blob store promises to its client, seen as three maps of the actor: temporary, stored
  and hidden (quarantined) objects.
\<close>

locale blob_storage =
  fixes temp stored hidden :: "'s \<Rightarrow> string \<Rightarrow> string option"
    and put :: "string \<Rightarrow> string \<Rightarrow> 's \<Rightarrow> 's"
    and promote :: "string \<Rightarrow> string \<Rightarrow> 's \<Rightarrow> ('e + unit) \<times> 's"
    and hide reveal :: "string \<Rightarrow> 's \<Rightarrow> ('e + unit) \<times> 's"
    and drop_all :: "string list \<Rightarrow> 's \<Rightarrow> 's"
  assumes put: "temp (put k b s) = (temp s)(k \<mapsto> b)" "stored (put k b s) = stored s"
      "hidden (put k b s) = hidden s"
    and promote: "hidden (snd (promote k c s)) = hidden s"
      "is_ok (fst (promote k c s)) \<longleftrightarrow> stored s c \<noteq> None \<or> temp s k \<noteq> None"
      "is_ok (fst (promote k c s)) \<Longrightarrow> temp (snd (promote k c s)) = (temp s)(k := None)"
      "is_ok (fst (promote k c s)) \<Longrightarrow> stored (snd (promote k c s)) =
         (if stored s c = None then (stored s)(c := temp s k) else stored s)"
      "\<not> is_ok (fst (promote k c s)) \<Longrightarrow> snd (promote k c s) = s"
    and hide: "temp (snd (hide c s)) = temp s" "stored (snd (hide c s)) = (stored s)(c := None)"
      "hidden (snd (hide c s)) =
         (if stored s c = None then hidden s else (hidden s)(c := stored s c))"
    and reveal: "temp (snd (reveal c s)) = temp s" "hidden (snd (reveal c s)) = (hidden s)(c := None)"
      "stored (snd (reveal c s)) =
         (if hidden s c = None then stored s else (stored s)(c := hidden s c))"
    and drop_all: "temp (drop_all cs s) = temp s" "hidden (drop_all cs s) = hidden s"
      "stored (drop_all cs s) = stored s |` (- set cs)"

definition area_of :: "area \<Rightarrow> string \<Rightarrow> operator \<Rightarrow> string \<Rightarrow> string option" where
  "area_of a did op' k = op' (area_path a did k)"

definition write_temp :: "string \<Rightarrow> string \<Rightarrow> string \<Rightarrow> operator \<Rightarrow> operator" where
  "write_temp did key bytes op' = op'(tmp_path did key \<mapsto> bytes)"

lemma put_temp_eq: "put_temp did rnd bytes op' = (tmp_key rnd, write_temp did (tmp_key rnd) bytes op')"
  by (simp add: put_temp_def write_temp_def Let_def)

lemma area_path_same: "area_path a did k = area_path b did k' \<longleftrightarrow> a = b \<and> k = k'"
  by (auto simp: area_path split_at_slash)

lemmas paths_same = area_path_same [of TmpArea _ _ TmpArea, simplified]
  area_path_same [of TmpArea _ _ BlocksArea, simplified] area_path_same [of TmpArea _ _ QuarantineArea, simplified]
  area_path_same [of BlocksArea _ _ TmpArea, simplified] area_path_same [of BlocksArea _ _ BlocksArea, simplified]
  area_path_same [of BlocksArea _ _ QuarantineArea, simplified]
  area_path_same [of QuarantineArea _ _ TmpArea, simplified]
  area_path_same [of QuarantineArea _ _ BlocksArea, simplified]
  area_path_same [of QuarantineArea _ _ QuarantineArea, simplified]

interpretation handle: blob_storage "area_of TmpArea did" "area_of BlocksArea did" "area_of QuarantineArea did"
  "write_temp did" "make_permanent did" "quarantine did" "unquarantine did" "delete_blobs did" for did
  by unfold_locales
    (auto simp: area_of_def fun_eq_iff write_temp_def paths_same make_permanent_def rename_object_def
      quarantine_def unquarantine_def delete_blobs_apply restrict_map_def split: option.splits if_splits)

end
