(* ===== verification/Actor_Files.thy ===== *)
theory Actor_Files
  imports Blob_Store
begin

text \<open>
  The service that owns the actors' directories (\<open>ActorStore\<close> in
  cacos-pds-actor-store/src/mod.rs): where an actor's database and keys are, the cache of open
  databases, the per-DID write locks, and the reserved signing keys. Files are a map from paths to
  bytes; a database file is a number, which an open connection keeps, and has contents: a cached
  connection is used without a look at the directory. Hashes and keys are the record
  \<open>key_env\<close>. Other I/O failures are left out. What holds of it is in Actor_Keys.
\<close>

record key_env =
  sha256_hex :: "string \<Rightarrow> string"
  secret_ok :: "string \<Rightarrow> bool"
  did_key_of :: "string \<Rightarrow> string"

text \<open>A digest prints as 64 hexadecimal digits.\<close>

definition key_env_ok :: "key_env \<Rightarrow> bool" where
  "key_env_ok ke \<longleftrightarrow> (\<forall>s. length (sha256_hex ke s) = 64)"

record actor_location =
  al_directory :: string
  al_db_location :: string
  al_key_location :: string
  al_rotation_key_location :: string

record actor_service =
  as_directory :: string
  as_files :: "string \<rightharpoonup> string"
  as_dbs :: "string \<rightharpoonup> nat"
  as_contents :: "nat \<Rightarrow> actor_db"
  as_next :: nat
  as_cache :: "(string \<times> nat) list"
  as_cache_size :: nat
  as_locks :: "string set"

definition actor_store_new :: "string \<Rightarrow> nat \<Rightarrow> actor_service" where
  "actor_store_new directory cache_size =
     \<lparr>as_directory = directory, as_files = Map.empty, as_dbs = Map.empty,
      as_contents = (\<lambda>_. empty_actor_db), as_next = 0, as_cache = [],
      as_cache_size = max cache_size 1, as_locks = {}\<rparr>"

definition path_join :: "string \<Rightarrow> string \<Rightarrow> string" where
  "path_join a b = a @ ''/'' @ b"

definition reserved_key_dir :: "actor_service \<Rightarrow> string" where
  "reserved_key_dir s = path_join (as_directory s) ''reserved_keys''"

definition get_location :: "key_env \<Rightarrow> string \<Rightarrow> actor_service \<Rightarrow> pds_error + actor_location" where
  "get_location ke did s =
     (case assert_safe_path_part did of
        Inl e \<Rightarrow> Inl e
      | Inr _ \<Rightarrow>
          (let directory = path_join (path_join (as_directory s) (take 2 (sha256_hex ke did))) did
           in Inr \<lparr>al_directory = directory, al_db_location = path_join directory ''store.sqlite'',
                al_key_location = path_join directory ''key'',
                al_rotation_key_location = path_join directory ''rotation_key''\<rparr>))"

definition import_keypair :: "key_env \<Rightarrow> string \<Rightarrow> pds_error + string" where
  "import_keypair ke secret =
     (if secret_ok ke secret then Inr secret
      else Inl (Internal ''import_keypair: SecretKey::from_slice failed''))"

definition load_key :: "key_env \<Rightarrow> string \<Rightarrow> actor_service \<Rightarrow> pds_error + string option" where
  "load_key ke location s =
     (case as_files s location of
        None \<Rightarrow> Inr None
      | Some bytes \<Rightarrow> map_sum (\<lambda>e. e) Some (import_keypair ke bytes))"

definition write_file :: "string \<Rightarrow> string \<Rightarrow> actor_service \<Rightarrow> actor_service" where
  "write_file path bytes s = s\<lparr>as_files := (as_files s)(path \<mapsto> bytes)\<rparr>"

definition remove_file :: "string \<Rightarrow> actor_service \<Rightarrow> actor_service" where
  "remove_file path s = s\<lparr>as_files := (as_files s)(path := None)\<rparr>"

section \<open>Keys\<close>

definition exists_actor :: "key_env \<Rightarrow> string \<Rightarrow> actor_service \<Rightarrow> pds_error + bool" where
  "exists_actor ke did s = map_sum (\<lambda>e. e) (\<lambda>l. as_dbs s (al_db_location l) \<noteq> None) (get_location ke did s)"

definition key_at :: "key_env \<Rightarrow> (actor_location \<Rightarrow> string) \<Rightarrow> string \<Rightarrow> string \<Rightarrow> actor_service \<Rightarrow> pds_error + string"
  where
  "key_at ke file what did s =
     (case get_location ke did s of
        Inl e \<Rightarrow> Inl e
      | Inr location \<Rightarrow>
          (case load_key ke (file location) s of
             Inl e \<Rightarrow> Inl e
           | Inr (Some key) \<Rightarrow> Inr key
           | Inr None \<Rightarrow> Inl (NotFound (what @ did))))"

definition keypair :: "key_env \<Rightarrow> string \<Rightarrow> actor_service \<Rightarrow> pds_error + string" where
  "keypair ke did s = key_at ke al_key_location ''keypair for '' did s"

definition rotation_keypair :: "key_env \<Rightarrow> string \<Rightarrow> actor_service \<Rightarrow> pds_error + string" where
  "rotation_keypair ke did s = key_at ke al_rotation_key_location ''rotation keypair for '' did s"

definition store_rotation_keypair ::
  "key_env \<Rightarrow> string \<Rightarrow> string \<Rightarrow> actor_service \<Rightarrow> (pds_error + unit) \<times> actor_service" where
  "store_rotation_keypair ke did secret s =
     (case get_location ke did s of
        Inl e \<Rightarrow> (Inl e, s)
      | Inr location \<Rightarrow> (Inr (), write_file (al_rotation_key_location location) secret s))"

text \<open>\<open>fresh\<close> is the secret drawn. A stored key is returned as it is.\<close>

definition create_rotation_keypair ::
  "key_env \<Rightarrow> string \<Rightarrow> string \<Rightarrow> actor_service \<Rightarrow> (pds_error + string) \<times> actor_service" where
  "create_rotation_keypair ke fresh did s =
     (case get_location ke did s of
        Inl e \<Rightarrow> (Inl e, s)
      | Inr location \<Rightarrow>
          (case load_key ke (al_rotation_key_location location) s of
             Inl e \<Rightarrow> (Inl e, s)
           | Inr (Some existing) \<Rightarrow> (Inr existing, s)
           | Inr None \<Rightarrow> and_then (store_rotation_keypair ke did fresh s) (\<lambda>_ s. (Inr fresh, s))))"

definition clear_rotation_keypair :: "key_env \<Rightarrow> string \<Rightarrow> actor_service \<Rightarrow> (pds_error + unit) \<times> actor_service" where
  "clear_rotation_keypair ke did s =
     (case get_location ke did s of
        Inl e \<Rightarrow> (Inl e, s)
      | Inr location \<Rightarrow> (Inr (), remove_file (al_rotation_key_location location) s))"

definition has_rotation_keypair :: "key_env \<Rightarrow> string \<Rightarrow> actor_service \<Rightarrow> bool" where
  "has_rotation_keypair ke did s =
     (case get_location ke did s of
        Inr location \<Rightarrow> as_files s (al_rotation_key_location location) \<noteq> None
      | Inl _ \<Rightarrow> False)"

definition write_rotation_key_from_bytes ::
  "key_env \<Rightarrow> string \<Rightarrow> string \<Rightarrow> actor_service \<Rightarrow> (pds_error + unit) \<times> actor_service" where
  "write_rotation_key_from_bytes ke did secret_bytes s =
     (case get_location ke did s of
        Inl e \<Rightarrow> (Inl e, s)
      | Inr location \<Rightarrow> (Inr (), write_file (al_rotation_key_location location) secret_bytes s))"

section \<open>Reserved keys\<close>

definition reserve_keypair ::
  "key_env \<Rightarrow> string \<Rightarrow> string option \<Rightarrow> actor_service \<Rightarrow> (pds_error + string) \<times> actor_service" where
  "reserve_keypair ke fresh did s =
     (let file = (\<lambda>name. path_join (reserved_key_dir s) name)
      in case did of
           None \<Rightarrow> (Inr (did_key_of ke fresh), write_file (file (did_key_of ke fresh)) fresh s)
         | Some did \<Rightarrow>
             (case assert_safe_path_part did of
                Inl e \<Rightarrow> (Inl e, s)
              | Inr _ \<Rightarrow>
                  (case load_key ke (file did) s of
                     Inl e \<Rightarrow> (Inl e, s)
                   | Inr (Some key) \<Rightarrow> (Inr (did_key_of ke key), s)
                   | Inr None \<Rightarrow> (Inr (did_key_of ke fresh), write_file (file did) fresh s))))"

definition get_reserved_keypair :: "key_env \<Rightarrow> string \<Rightarrow> actor_service \<Rightarrow> pds_error + string option" where
  "get_reserved_keypair ke signing_key_or_did s =
     (case assert_safe_path_part signing_key_or_did of
        Inl e \<Rightarrow> Inl e
      | Inr _ \<Rightarrow> load_key ke (path_join (reserved_key_dir s) signing_key_or_did) s)"

definition clear_reserved_keypair ::
  "string \<Rightarrow> string option \<Rightarrow> actor_service \<Rightarrow> (pds_error + unit) \<times> actor_service" where
  "clear_reserved_keypair key_did did s =
     (case assert_safe_path_part key_did of
        Inl e \<Rightarrow> (Inl e, s)
      | Inr _ \<Rightarrow>
          (let s = remove_file (path_join (reserved_key_dir s) key_did) s
           in case did of
                None \<Rightarrow> (Inr (), s)
              | Some did \<Rightarrow>
                  (case assert_safe_path_part did of
                     Inl e \<Rightarrow> (Inl e, s)
                   | Inr _ \<Rightarrow> (Inr (), remove_file (path_join (reserved_key_dir s) did) s))))"

section \<open>Databases\<close>

text \<open>\<open>LruCache::put\<close> and \<open>get\<close>: the most recent entry first, the oldest dropped.\<close>

definition cache_put :: "string \<Rightarrow> nat \<Rightarrow> actor_service \<Rightarrow> actor_service" where
  "cache_put did db s =
     s\<lparr>as_cache := take (as_cache_size s) ((did, db) # filter (\<lambda>p. fst p \<noteq> did) (as_cache s))\<rparr>"

definition cache_pop :: "string \<Rightarrow> actor_service \<Rightarrow> actor_service" where
  "cache_pop did s = s\<lparr>as_cache := filter (\<lambda>p. fst p \<noteq> did) (as_cache s)\<rparr>"

definition did_lock :: "string \<Rightarrow> actor_service \<Rightarrow> actor_service" where
  "did_lock did s = s\<lparr>as_locks := insert did (as_locks s)\<rparr>"

definition open_db :: "key_env \<Rightarrow> string \<Rightarrow> actor_service \<Rightarrow> (pds_error + nat) \<times> actor_service" where
  "open_db ke did s =
     (case map_of (as_cache s) did of
        Some db \<Rightarrow> (Inr db, cache_put did db s)
      | None \<Rightarrow>
          (case get_location ke did s of
             Inl e \<Rightarrow> (Inl e, s)
           | Inr location \<Rightarrow>
               (case as_dbs s (al_db_location location) of
                  None \<Rightarrow> (Inl (NotFound (''Repo not found: '' @ did)), s)
                | Some db \<Rightarrow> (Inr db, cache_put did db s))))"

text \<open>The root of the repository, read by DID.\<close>

definition get_repo_root ::
  "actor_env \<Rightarrow> key_env \<Rightarrow> string \<Rightarrow> actor_service \<Rightarrow> (pds_error + cid option) \<times> actor_service" where
  "get_repo_root env ke did s =
     and_then (open_db ke did s) (\<lambda>db s.
       (Inr (case find (\<lambda>r. rr_did r = did) (ad_roots (as_contents s db)) of
           None \<Rightarrow> None | Some model \<Rightarrow> cid_from_str env (rr_cid model)), s))"

record actor_reader =
  ar_did :: string
  ar_db :: nat
  ar_key_location :: string

definition read_actor :: "key_env \<Rightarrow> string \<Rightarrow> actor_service \<Rightarrow> (pds_error + actor_reader) \<times> actor_service" where
  "read_actor ke did s =
     and_then (open_db ke did s) (\<lambda>db s.
     and_then (get_location ke did s, s) (\<lambda>location s.
       (Inr \<lparr>ar_did = did, ar_db = db, ar_key_location = al_key_location location\<rparr>, s)))"

definition reader_keypair :: "key_env \<Rightarrow> actor_reader \<Rightarrow> actor_service \<Rightarrow> pds_error + string" where
  "reader_keypair ke r s =
     (case load_key ke (ar_key_location r) s of
        Inl e \<Rightarrow> Inl e
      | Inr (Some key) \<Rightarrow> Inr key
      | Inr None \<Rightarrow> Inl (NotFound (''keypair for '' @ ar_did r)))"

definition transact ::
  "key_env \<Rightarrow> string \<Rightarrow> actor_service \<Rightarrow> (pds_error + actor_reader \<times> string) \<times> actor_service" where
  "transact ke did s =
     and_then (read_actor ke did (did_lock did s)) (\<lambda>r s.
     and_then (reader_keypair ke r s, s) (\<lambda>key s. (Inr (r, key), s)))"

definition create_actor :: "key_env \<Rightarrow> string \<Rightarrow> string \<Rightarrow> actor_service \<Rightarrow> (pds_error + unit) \<times> actor_service" where
  "create_actor ke did key s =
     (case get_location ke did s of
        Inl e \<Rightarrow> (Inl e, s)
      | Inr location \<Rightarrow>
          if as_dbs s (al_db_location location) \<noteq> None
          then (Inl (InvalidInput (''Repo already exists: '' @ did)), s)
          else
            (let s = write_file (al_key_location location) key s; db = as_next s;
                 s = s\<lparr>as_dbs := (as_dbs s)(al_db_location location \<mapsto> db),
                   as_contents := (as_contents s)(db := empty_actor_db), as_next := Suc db\<rparr>
             in (Inr (), cache_put did db s)))"

text \<open>The blob store is wiped first, whatever the path check says about the DID.\<close>

definition in_directory :: "string \<Rightarrow> string \<Rightarrow> bool" where
  "in_directory directory path \<longleftrightarrow> starts_with path (directory @ ''/'')"

definition destroy_actor ::
  "key_env \<Rightarrow> (string \<Rightarrow> string \<Rightarrow> bool) \<Rightarrow> string \<Rightarrow> string \<Rightarrow> actor_service \<times> operator \<Rightarrow>
   (pds_error + unit) \<times> actor_service \<times> operator" where
  "destroy_actor ke covers blob_did did so =
     (let s = cache_pop did (fst so);
          s = s\<lparr>as_locks := as_locks s - {did}\<rparr>;
          op' = delete_all covers blob_did (snd so)
      in case get_location ke did s of
           Inl e \<Rightarrow> (Inl e, s, op')
         | Inr location \<Rightarrow>
             (Inr (),
              s\<lparr>as_files := (\<lambda>p. if in_directory (al_directory location) p then None else as_files s p),
                as_dbs := (\<lambda>p. if in_directory (al_directory location) p then None else as_dbs s p)\<rparr>, op'))"

end
