(* ===== verification/Actor_Keys.thy ===== *)
theory Actor_Keys
  imports Actor_Files
begin

text \<open>
  What the actor store service guarantees (\<open>ActorStore\<close> in cacos-pds-actor-store/src/mod.rs):
  the paths of different actors never meet, each database belongs to one actor, the cache agrees
  with the directory, and an actor keeps its database and signing key under every sequence of
  operations that does not destroy it.
\<close>

section \<open>Paths\<close>

definition actor_dir :: "key_env \<Rightarrow> string \<Rightarrow> string \<Rightarrow> string" where
  "actor_dir ke root did = path_join (path_join root (take 2 (sha256_hex ke did))) did"

definition actor_file :: "key_env \<Rightarrow> string \<Rightarrow> string \<Rightarrow> string \<Rightarrow> string" where
  "actor_file ke root did f = path_join (actor_dir ke root did) f"

lemma get_location_Inr:
  "get_location ke did s = Inr l \<longleftrightarrow> is_ok (assert_safe_path_part did) \<and>
     l = \<lparr>al_directory = actor_dir ke (as_directory s) did,
          al_db_location = actor_file ke (as_directory s) did ''store.sqlite'',
          al_key_location = actor_file ke (as_directory s) did ''key'',
          al_rotation_key_location = actor_file ke (as_directory s) did ''rotation_key''\<rparr>"
  by (auto simp: get_location_def actor_dir_def actor_file_def Let_def split: sum.split)

lemma get_location_ok:
  "is_ok (assert_safe_path_part did) \<Longrightarrow> get_location ke did s =
     Inr \<lparr>al_directory = actor_dir ke (as_directory s) did,
          al_db_location = actor_file ke (as_directory s) did ''store.sqlite'',
          al_key_location = actor_file ke (as_directory s) did ''key'',
          al_rotation_key_location = actor_file ke (as_directory s) did ''rotation_key''\<rparr>"
  by (simp add: get_location_Inr)

lemma in_actor_dir:
  assumes "key_env_ok ke" "is_ok (assert_safe_path_part d)" "is_ok (assert_safe_path_part did)"
  shows "in_directory (actor_dir ke root d) (actor_file ke root did f) \<longleftrightarrow> d = did"
proof
  assume "in_directory (actor_dir ke root d) (actor_file ke root did f)"
  then obtain r where "take 2 (sha256_hex ke did) @ ''/'' @ did @ ''/'' @ f =
      take 2 (sha256_hex ke d) @ ''/'' @ d @ ''/'' @ r"
    by (auto simp: in_directory_def starts_with_iff actor_file_def actor_dir_def path_join_def)
  moreover have "length (take 2 (sha256_hex ke did)) = length (take 2 (sha256_hex ke d))"
    using assms(1) by (simp add: key_env_ok_def)
  ultimately have "did @ CHR ''/'' # f = d @ CHR ''/'' # r"
    by (simp add: append_eq_append_conv)
  then show "d = did"
    using split_at_slash assms(2,3) [THEN safe_no_slash] by blast
qed (simp add: in_directory_def actor_file_def path_join_def starts_with_iff)

lemma actor_file_eq:
  assumes "key_env_ok ke" "is_ok (assert_safe_path_part d)" "is_ok (assert_safe_path_part did)"
  shows "actor_file ke root d f = actor_file ke root did g \<longleftrightarrow> d = did \<and> f = g"
proof
  assume eq: "actor_file ke root d f = actor_file ke root did g"
  have "in_directory (actor_dir ke root d) (actor_file ke root did g)"
    unfolding eq [symmetric] by (simp add: in_directory_def actor_file_def path_join_def starts_with_iff)
  with in_actor_dir [OF assms] have "d = did" by simp
  with eq show "d = did \<and> f = g" by (simp add: actor_file_def path_join_def)
qed simp

text \<open>Reserved keys are outside every actor's directory: \<open>reserved_keys\<close> is longer than a shard.\<close>

lemma reserved_not_actor:
  assumes "key_env_ok ke"
  shows "path_join (path_join root ''reserved_keys'') x \<noteq> actor_file ke root did f"
proof
  assume "path_join (path_join root ''reserved_keys'') x = actor_file ke root did f"
  then have "''reserved_keys'' @ ''/'' @ x = take 2 (sha256_hex ke did) @ ''/'' @ did @ ''/'' @ f"
    by (simp add: path_join_def actor_file_def actor_dir_def)
  then have "(''reserved_keys'' @ ''/'' @ x) ! 2 =
      (take 2 (sha256_hex ke did) @ ''/'' @ did @ ''/'' @ f) ! 2" by (rule arg_cong)
  then show False
    using assms by (simp add: key_env_ok_def nth_append)
qed

section \<open>Operations as data\<close>

datatype service_op =
    SvcCreate string string
  | SvcDestroy string
  | SvcRead string
  | SvcTransact string
  | SvcRoot string
  | SvcCreateRotation string string
  | SvcStoreRotation string string
  | SvcWriteRotation string string
  | SvcClearRotation string
  | SvcReserve string "string option"
  | SvcClearReserved string "string option"

record service_world =
  sv_ke :: key_env
  sv_env :: actor_env
  sv_covers :: "string \<Rightarrow> string \<Rightarrow> bool"
  sv_blob_did :: string

fun service_step :: "service_world \<Rightarrow> service_op \<Rightarrow> actor_service \<times> operator \<Rightarrow> actor_service \<times> operator" where
  "service_step w (SvcCreate did key) (s, b) = (snd (create_actor (sv_ke w) did key s), b)"
| "service_step w (SvcDestroy did) (s, b) = snd (destroy_actor (sv_ke w) (sv_covers w) (sv_blob_did w) did (s, b))"
| "service_step w (SvcRead did) (s, b) = (snd (read_actor (sv_ke w) did s), b)"
| "service_step w (SvcTransact did) (s, b) = (snd (transact (sv_ke w) did s), b)"
| "service_step w (SvcRoot did) (s, b) = (snd (get_repo_root (sv_env w) (sv_ke w) did s), b)"
| "service_step w (SvcCreateRotation fresh did) (s, b) = (snd (create_rotation_keypair (sv_ke w) fresh did s), b)"
| "service_step w (SvcStoreRotation did secret) (s, b) = (snd (store_rotation_keypair (sv_ke w) did secret s), b)"
| "service_step w (SvcWriteRotation did bytes) (s, b) = (snd (write_rotation_key_from_bytes (sv_ke w) did bytes s), b)"
| "service_step w (SvcClearRotation did) (s, b) = (snd (clear_rotation_keypair (sv_ke w) did s), b)"
| "service_step w (SvcReserve fresh did) (s, b) = (snd (reserve_keypair (sv_ke w) fresh did s), b)"
| "service_step w (SvcClearReserved key did) (s, b) = (snd (clear_reserved_keypair key did s), b)"

definition run_service :: "service_world \<Rightarrow> service_op list \<Rightarrow> actor_service \<times> operator \<Rightarrow> actor_service \<times> operator" where
  "run_service w ops sb = fold (service_step w) ops sb"

section \<open>The invariant\<close>

text \<open>
  Every database file belongs to one safe DID, numbers are not shared, and a cached connection is
  the one of its file.
\<close>

definition service_ok :: "key_env \<Rightarrow> string \<Rightarrow> actor_service \<Rightarrow> bool" where
  "service_ok ke root s \<longleftrightarrow> as_directory s = root \<and>
     (\<forall>p n. as_dbs s p = Some n \<longrightarrow> n < as_next s) \<and>
     (\<forall>p q n. as_dbs s p = Some n \<longrightarrow> as_dbs s q = Some n \<longrightarrow> p = q) \<and>
     (\<forall>(did, n) \<in> set (as_cache s). is_ok (assert_safe_path_part did) \<and>
        as_dbs s (actor_file ke root did ''store.sqlite'') = Some n)"

lemma service_ok_new: "service_ok ke root (actor_store_new root n)"
  by (simp add: service_ok_def actor_store_new_def)

text \<open>The invariant does not look at keys or locks.\<close>

lemma service_ok_files:
  "service_ok ke root (s\<lparr>as_files := f\<rparr>) = service_ok ke root s"
  "service_ok ke root (s\<lparr>as_locks := ls\<rparr>) = service_ok ke root s"
  by (simp_all add: service_ok_def)

lemma service_ok_cached:
  "service_ok ke root s \<Longrightarrow> is_ok (assert_safe_path_part did) \<Longrightarrow>
   as_dbs s (actor_file ke root did ''store.sqlite'') = Some n \<Longrightarrow> service_ok ke root (cache_put did n s)"
  by (auto simp: service_ok_def cache_put_def dest!: in_set_takeD)

lemma open_db_Inr:
  assumes "service_ok ke root s" "open_db ke did s = (Inr n, s')"
  shows "is_ok (assert_safe_path_part did)" "as_dbs s (actor_file ke root did ''store.sqlite'') = Some n"
    "s' = cache_put did n s"
proof -
  have root: "as_directory s = root" using assms(1) by (simp add: service_ok_def)
  have "is_ok (assert_safe_path_part did) \<and> as_dbs s (actor_file ke root did ''store.sqlite'') = Some n \<and>
      s' = cache_put did n s"
  proof (cases "map_of (as_cache s) did")
    case None
    with assms(2) root show ?thesis
      by (auto simp: open_db_def get_location_Inr split: sum.splits option.splits)
  next
    case (Some m)
    with assms show ?thesis
      by (auto simp: open_db_def service_ok_def dest!: map_of_SomeD)
  qed
  then show "is_ok (assert_safe_path_part did)" "as_dbs s (actor_file ke root did ''store.sqlite'') = Some n"
    "s' = cache_put did n s" by simp_all
qed

text \<open>Opening changes the cache only; nothing is opened or only one entry is put.\<close>

lemma open_db_state:
  "snd (open_db ke did s) = s \<or> (\<exists>n. open_db ke did s = (Inr n, cache_put did n s))"
  by (auto simp: open_db_def split: option.split sum.split)

lemma service_ok_open: "service_ok ke root s \<Longrightarrow> service_ok ke root (snd (open_db ke did s))"
  using open_db_state [of ke did s] open_db_Inr [of ke root s did]
  by (metis service_ok_cached snd_conv)

lemma opening_steps:
  "snd (read_actor ke did s) = snd (open_db ke did s)"
  "snd (get_repo_root env ke did s) = snd (open_db ke did s)"
  "snd (transact ke did s) = snd (open_db ke did (did_lock did s))"
  by (auto simp: read_actor_def get_repo_root_def transact_def and_then_def split: sum.split prod.split)

text \<open>Operations that only write or remove key files.\<close>

lemma key_steps:
  "\<exists>f. snd (create_rotation_keypair ke fresh did s) = s\<lparr>as_files := f\<rparr>"
  "\<exists>f. snd (store_rotation_keypair ke did secret s) = s\<lparr>as_files := f\<rparr>"
  "\<exists>f. snd (write_rotation_key_from_bytes ke did bytes s) = s\<lparr>as_files := f\<rparr>"
  "\<exists>f. snd (clear_rotation_keypair ke did s) = s\<lparr>as_files := f\<rparr>"
  "\<exists>f. snd (reserve_keypair ke fresh odid s) = s\<lparr>as_files := f\<rparr>"
  "\<exists>f. snd (clear_reserved_keypair key odid s) = s\<lparr>as_files := f\<rparr>"
proof -
  have same: "\<exists>f. s = s\<lparr>as_files := f\<rparr>" by (metis actor_service.surjective actor_service.update_convs(2))
  show "\<exists>f. snd (create_rotation_keypair ke fresh did s) = s\<lparr>as_files := f\<rparr>"
    "\<exists>f. snd (store_rotation_keypair ke did secret s) = s\<lparr>as_files := f\<rparr>"
    "\<exists>f. snd (write_rotation_key_from_bytes ke did bytes s) = s\<lparr>as_files := f\<rparr>"
    "\<exists>f. snd (clear_rotation_keypair ke did s) = s\<lparr>as_files := f\<rparr>"
    "\<exists>f. snd (reserve_keypair ke fresh odid s) = s\<lparr>as_files := f\<rparr>"
    "\<exists>f. snd (clear_reserved_keypair key odid s) = s\<lparr>as_files := f\<rparr>"
    using same
    by (auto simp: create_rotation_keypair_def store_rotation_keypair_def write_rotation_key_from_bytes_def
        clear_rotation_keypair_def reserve_keypair_def clear_reserved_keypair_def write_file_def remove_file_def
        and_then_def Let_def split: sum.split option.split)
qed

lemma service_ok_create: "service_ok ke root s \<Longrightarrow> service_ok ke root (snd (create_actor ke did key s))"
proof -
  assume ok: "service_ok ke root s"
  then have root: "as_directory s = root" by (simp add: service_ok_def)
  show ?thesis
  proof (cases "is_ok (assert_safe_path_part did) \<and> as_dbs s (actor_file ke root did ''store.sqlite'') = None")
    case True
    let ?p = "actor_file ke root did ''store.sqlite''"
    let ?s = "(write_file (actor_file ke root did ''key'') key s)\<lparr>as_dbs := (as_dbs s)(?p \<mapsto> as_next s),
      as_contents := (as_contents s)(as_next s := empty_actor_db), as_next := Suc (as_next s)\<rparr>"
    have step: "snd (create_actor ke did key s) = cache_put did (as_next s) ?s"
      using True root get_location_ok [of did ke s] by (simp add: create_actor_def Let_def write_file_def)
    have "service_ok ke root ?s"
      using ok True by (fastforce simp: service_ok_def write_file_def)
    then show ?thesis
      unfolding step by (rule service_ok_cached) (use True in simp_all)
  next
    case False
    then have "snd (create_actor ke did key s) = s"
      using root by (auto simp: create_actor_def get_location_Inr split: sum.split)
    with ok show ?thesis by simp
  qed
qed

lemma destroy_result:
  "fst (snd (destroy_actor ke covers bd did (s, b))) =
     (case get_location ke did s of
        Inl e \<Rightarrow> (cache_pop did s)\<lparr>as_locks := as_locks s - {did}\<rparr>
      | Inr l \<Rightarrow> (cache_pop did s)\<lparr>as_locks := as_locks s - {did},
          as_files := (\<lambda>p. if in_directory (al_directory l) p then None else as_files s p),
          as_dbs := (\<lambda>p. if in_directory (al_directory l) p then None else as_dbs s p)\<rparr>)"
proof -
  have "get_location ke did (s\<lparr>as_cache := c, as_locks := ls\<rparr>) = get_location ke did s" for c ls
    by (cases "assert_safe_path_part did") (simp_all add: get_location_def)
  then show ?thesis
    by (cases "get_location ke did s") (simp_all add: destroy_actor_def Let_def cache_pop_def cong: if_cong)
qed

lemma service_ok_destroy:
  assumes "key_env_ok ke" "service_ok ke root s"
  shows "service_ok ke root (fst (snd (destroy_actor ke covers bd did (s, b))))"
  using assms in_actor_dir [OF assms(1), of did]
  by (auto simp: destroy_result service_ok_def cache_pop_def get_location_Inr split: sum.split)

lemma service_ok_step:
  assumes "key_env_ok (sv_ke w)" "service_ok (sv_ke w) root (fst sb)"
  shows "service_ok (sv_ke w) root (fst (service_step w op' sb))"
proof -
  obtain s b where sb: "sb = (s, b)" by (cases sb)
  have lock: "service_ok (sv_ke w) root (did_lock d s)" for d
    using assms(2) by (simp add: sb did_lock_def service_ok_files)
  have files: "service_ok (sv_ke w) root t" if "\<exists>f. t = s\<lparr>as_files := f\<rparr>" for t
    using that assms(2) by (auto simp: sb service_ok_files)
  show ?thesis
    using assms lock
    by (cases op') (simp_all add: sb opening_steps service_ok_open service_ok_create service_ok_destroy
        files [OF key_steps(1)] files [OF key_steps(2)] files [OF key_steps(3)] files [OF key_steps(4)]
        files [OF key_steps(5)] files [OF key_steps(6)])
qed

lemma service_ok_run:
  assumes "key_env_ok (sv_ke w)" "service_ok (sv_ke w) root (fst sb)"
  shows "service_ok (sv_ke w) root (fst (run_service w ops sb))"
  using assms(2) unfolding run_service_def
  by (induction ops arbitrary: sb) (simp_all add: service_ok_step [OF assms(1)])

section \<open>An actor keeps its database and key\<close>

definition holds_actor :: "key_env \<Rightarrow> string \<Rightarrow> string \<Rightarrow> string \<Rightarrow> nat \<Rightarrow> actor_service \<Rightarrow> bool" where
  "holds_actor ke root did key n s \<longleftrightarrow> is_ok (assert_safe_path_part did) \<and>
     as_dbs s (actor_file ke root did ''store.sqlite'') = Some n \<and>
     as_files s (actor_file ke root did ''key'') = Some key"

lemma created_holds:
  assumes "key_env_ok ke" "service_ok ke root s" "create_actor ke did key s = (Inr u, s1)"
  shows "holds_actor ke root did key (as_next s) s1"
proof -
  have root: "as_directory s = root" using assms(2) by (simp add: service_ok_def)
  have safe: "is_ok (assert_safe_path_part did)"
    using assms(3) by (auto simp: create_actor_def get_location_Inr split: sum.splits)
  with assms(3) root show ?thesis
    by (auto simp: create_actor_def get_location_ok holds_actor_def Let_def write_file_def cache_put_def
        split: if_splits)
qed

text \<open>The key file of an actor is written by \<open>create_actor\<close> on its own DID only.\<close>

lemma key_steps_files:
  assumes "key_env_ok ke" "is_ok (assert_safe_path_part did)" "as_directory s = root"
  shows "as_files (snd (create_rotation_keypair ke fresh d s)) (actor_file ke root did ''key'') =
      as_files s (actor_file ke root did ''key'')"
    "as_files (snd (store_rotation_keypair ke d secret s)) (actor_file ke root did ''key'') =
      as_files s (actor_file ke root did ''key'')"
    "as_files (snd (write_rotation_key_from_bytes ke d bytes s)) (actor_file ke root did ''key'') =
      as_files s (actor_file ke root did ''key'')"
    "as_files (snd (clear_rotation_keypair ke d s)) (actor_file ke root did ''key'') =
      as_files s (actor_file ke root did ''key'')"
    "as_files (snd (reserve_keypair ke fresh od s)) (actor_file ke root did ''key'') =
      as_files s (actor_file ke root did ''key'')"
    "as_files (snd (clear_reserved_keypair k od s)) (actor_file ke root did ''key'') =
      as_files s (actor_file ke root did ''key'')"
  using actor_file_eq [OF assms(1) assms(2), of _ root "''key''" "''rotation_key''"] assms(3)
  by (auto simp: reserved_not_actor [OF assms(1)] reserved_not_actor [OF assms(1), symmetric] create_rotation_keypair_def store_rotation_keypair_def write_rotation_key_from_bytes_def
      clear_rotation_keypair_def reserve_keypair_def clear_reserved_keypair_def write_file_def remove_file_def
      and_then_def Let_def get_location_Inr reserved_key_dir_def split: sum.split option.split)

lemma holds_create:
  assumes "key_env_ok ke" "as_directory s = root" "holds_actor ke root did key n s"
  shows "holds_actor ke root did key n (snd (create_actor ke d k s))"
proof (cases "is_ok (assert_safe_path_part d)")
  case True
  show ?thesis
    using assms True actor_file_eq [OF assms(1) _ True, of did root]
    by (cases "d = did") (auto simp: create_actor_def get_location_ok holds_actor_def Let_def write_file_def cache_put_def)
next
  case False
  then show ?thesis
    using assms(3) by (auto simp: create_actor_def get_location_Inr split: sum.split)
qed

lemma holds_destroy:
  assumes "key_env_ok ke" "as_directory s = root" "holds_actor ke root did key n s" "d \<noteq> did"
  shows "holds_actor ke root did key n (fst (snd (destroy_actor ke covers bd d (s, b))))"
  using assms in_actor_dir [OF assms(1), of d did root]
  by (auto simp: destroy_result holds_actor_def cache_pop_def get_location_Inr split: sum.split)

lemma holds_step:
  assumes ke: "key_env_ok (sv_ke w)" and root: "as_directory (fst sb) = root"
    and holds: "holds_actor (sv_ke w) root did key n (fst sb)" and "op' \<noteq> SvcDestroy did"
  shows "holds_actor (sv_ke w) root did key n (fst (service_step w op' sb))"
proof -
  obtain s b where sb: "sb = (s, b)" by (cases sb)
  have safe: "is_ok (assert_safe_path_part did)" using holds by (simp add: holds_actor_def)
  have opened: "holds_actor (sv_ke w) root did key n (snd (open_db (sv_ke w) d t))"
    if "holds_actor (sv_ke w) root did key n t" for d t
    using that open_db_state [of "sv_ke w" d t] by (auto simp: holds_actor_def cache_put_def)
  have lock: "holds_actor (sv_ke w) root did key n (did_lock d s)" for d
    using holds by (simp add: sb holds_actor_def did_lock_def)
  have files: "holds_actor (sv_ke w) root did key n t"
    if "\<exists>f. t = s\<lparr>as_files := f\<rparr>" "as_files t (actor_file (sv_ke w) root did ''key'') =
      as_files s (actor_file (sv_ke w) root did ''key'')" for t
    using that holds by (auto simp: sb holds_actor_def)
  have root': "as_directory s = root" using root by (simp add: sb)
  note kf = key_steps_files [OF ke safe root']
  show ?thesis
    using holds lock opened assms(4)
    by (cases op') (simp_all add: sb opening_steps holds_create [OF ke root'] holds_destroy [OF ke root']
        files [OF key_steps(1) kf(1)] files [OF key_steps(2) kf(2)] files [OF key_steps(3) kf(3)]
        files [OF key_steps(4) kf(4)] files [OF key_steps(5) kf(5)] files [OF key_steps(6) kf(6)])
qed

lemma holds_run:
  assumes "key_env_ok (sv_ke w)" "service_ok (sv_ke w) root (fst sb)"
    "holds_actor (sv_ke w) root did key n (fst sb)" "SvcDestroy did \<notin> set ops"
  shows "holds_actor (sv_ke w) root did key n (fst (run_service w ops sb))"
  using assms(2-4) unfolding run_service_def
proof (induction ops arbitrary: sb)
  case (Cons op' ops)
  have "holds_actor (sv_ke w) root did key n (fst (service_step w op' sb))"
    using Cons.prems by (intro holds_step [OF assms(1)]) (auto simp: service_ok_def)
  with Cons service_ok_step [OF assms(1)] show ?case by simp
qed simp

lemma open_holds:
  assumes "service_ok ke root s" "holds_actor ke root did key n s"
  shows "fst (open_db ke did s) = Inr n"
proof (cases "map_of (as_cache s) did")
  case None
  with assms show ?thesis
    by (auto simp: open_db_def get_location_ok holds_actor_def service_ok_def)
next
  case (Some m)
  then have "open_db ke did s = (Inr m, cache_put did m s)" by (simp add: open_db_def)
  with open_db_Inr(2) [OF assms(1) this] assms(2) show ?thesis
    by (simp add: holds_actor_def)
qed

lemma transact_holds:
  assumes "service_ok ke root s" "holds_actor ke root did key n s" "secret_ok ke key"
  shows "keypair ke did s = Inr key"
    "fst (transact ke did s) =
       Inr (\<lparr>ar_did = did, ar_db = n, ar_key_location = actor_file ke root did ''key''\<rparr>, key)"
proof -
  have root: "as_directory s = root" using assms(1) by (simp add: service_ok_def)
  have ok: "service_ok ke root (did_lock did s)" "holds_actor ke root did key n (did_lock did s)"
    using assms(1,2) by (simp_all add: did_lock_def service_ok_def holds_actor_def)
  have safe: "is_ok (assert_safe_path_part did)" "as_files s (actor_file ke root did ''key'') = Some key"
    using assms(2) by (simp_all add: holds_actor_def)
  show "keypair ke did s = Inr key"
    using safe root assms(3) by (simp add: keypair_def key_at_def get_location_ok load_key_def import_keypair_def)
  obtain t where t: "open_db ke did (did_lock did s) = (Inr n, t)"
    using open_holds [OF ok] by (metis prod.collapse)
  from open_db_Inr(3) [OF ok(1) this] have "t = cache_put did n (did_lock did s)" .
  then have "as_directory t = root" "as_files t = as_files s"
    using root by (simp_all add: cache_put_def did_lock_def)
  with t safe assms(3) show "fst (transact ke did s) =
       Inr (\<lparr>ar_did = did, ar_db = n, ar_key_location = actor_file ke root did ''key''\<rparr>, key)"
    by (simp add: transact_def read_actor_def and_then_def get_location_ok reader_keypair_def load_key_def
        import_keypair_def)
qed

text \<open>C29: each actor keeps its own database and signing key. Whatever operations of the service ran
  before an actor is created, and whatever runs afterwards on any actor except destroying this one,
  the actor's key is the one it was created with, a transaction on it opens the database made for it,
  and no other actor's name opens that database.\<close>

theorem actor_keeps_database_and_key:
  assumes "key_env_ok (sv_ke w)" and "secret_ok (sv_ke w) key"
    and "run_service w before (actor_store_new root size', blobs) = (s, b)"
    and "create_actor (sv_ke w) did key s = (Inr u, s1)"
    and "SvcDestroy did \<notin> set after"
    and "run_service w after (s1, b) = (s2, b2)"
  shows "keypair (sv_ke w) did s2 = Inr key \<and>
    fst (transact (sv_ke w) did s2) = Inr (\<lparr>ar_did = did, ar_db = as_next s,
      ar_key_location = actor_file (sv_ke w) root did ''key''\<rparr>, key) \<and>
    (\<forall>other. fst (open_db (sv_ke w) other s2) = Inr (as_next s) \<longrightarrow> other = did)"
proof -
  have ok: "service_ok (sv_ke w) root s"
    using service_ok_run [OF assms(1), of root "(actor_store_new root size', blobs)" before]
    by (simp add: service_ok_new assms(3))
  then have ok1: "service_ok (sv_ke w) root s1"
    using service_ok_create [of "sv_ke w" root s did key] assms(4) by simp
  with service_ok_run [OF assms(1), of root "(s1, b)" after] have ok2: "service_ok (sv_ke w) root s2"
    by (simp add: assms(6))
  have holds: "holds_actor (sv_ke w) root did key (as_next s) s2"
    using holds_run [OF assms(1), of root "(s1, b)"] ok1 created_holds [OF assms(1) ok assms(4)] assms(5,6)
    by fastforce
  have "other = did" if opens: "fst (open_db (sv_ke w) other s2) = Inr (as_next s)" for other
  proof -
    obtain t where "open_db (sv_ke w) other s2 = (Inr (as_next s), t)"
      using opens by (cases "open_db (sv_ke w) other s2") simp
    from open_db_Inr(1,2) [OF ok2 this] ok2 holds
    have "is_ok (assert_safe_path_part other)"
      "actor_file (sv_ke w) root other ''store.sqlite'' = actor_file (sv_ke w) root did ''store.sqlite''"
      by (auto simp: service_ok_def holds_actor_def)
    with actor_file_eq [OF assms(1), of other did] holds show ?thesis by (simp add: holds_actor_def)
  qed
  with transact_holds [OF ok2 holds assms(2)] show ?thesis by blast
qed

definition demo_keys :: key_env where
  "demo_keys = \<lparr>sha256_hex = (\<lambda>s. replicate 64 (CHR ''0'')), secret_ok = (\<lambda>s. s \<noteq> []),
     did_key_of = (\<lambda>k. ''did:key:'' @ k)\<rparr>"

definition demo_world :: service_world where
  "demo_world = \<lparr>sv_ke = demo_keys, sv_env = demo_actor_env, sv_covers = (\<lambda>_ _. False), sv_blob_did = ''shared''\<rparr>"

lemma demo_world_simps [simp]:
  "sv_ke demo_world = demo_keys" "key_env_ok demo_keys" "secret_ok demo_keys k \<longleftrightarrow> k \<noteq> []"
  by (simp_all add: demo_world_def demo_keys_def key_env_ok_def)

lemma actor_keeps_database_and_key_witness:
  "\<exists>s1 s2 b2. create_actor demo_keys ''did:a'' ''secret'' (actor_store_new ''data'' 1) = (Inr (), s1) \<and>
     run_service demo_world [SvcCreate ''did:b'' ''other'', SvcRead ''did:a'', SvcDestroy ''did:b''] (s1, \<lambda>_. None) = (s2, b2) \<and>
     keypair demo_keys ''did:a'' s2 = Inr ''secret''"
proof -
  have safe: "assert_safe_path_part ''did:a'' = Inr ()"
    by (simp add: assert_safe_path_part_def starts_with_def)
  obtain s1 where s1: "create_actor demo_keys ''did:a'' ''secret'' (actor_store_new ''data'' 1) = (Inr (), s1)"
    by (simp add: create_actor_def get_location_def safe actor_store_new_def Let_def)
  obtain s2 b2 where s2: "run_service demo_world
      [SvcCreate ''did:b'' ''other'', SvcRead ''did:a'', SvcDestroy ''did:b''] (s1, \<lambda>_. None) = (s2, b2)"
    by (metis prod.collapse)
  have "run_service demo_world [] (actor_store_new ''data'' 1, \<lambda>_. None) = (actor_store_new ''data'' 1, \<lambda>_. None)"
    by (simp add: run_service_def)
  from actor_keeps_database_and_key [where w = demo_world and key = "''secret''", OF _ _ this _ _ s2] s1
  have "keypair demo_keys ''did:a'' s2 = Inr ''secret''" by simp
  with s1 s2 show ?thesis by blast
qed

end
