(* ===== verification/Session_Handlers.thy ===== *)
theory Session_Handlers
  imports Account_Manager Invites Auth_Extractors
begin

text \<open>
  The methods of com.atproto.server about sessions, e-mail addresses, passwords, invite codes and
  service tokens (cacos-pds-server/src/xrpc/com/atproto/server/*.rs): what each checks before it
  calls the account manager, and how the manager's errors reach the client. One request reads one
  clock \<open>now\<close>; random text is an argument. Mail that is sent is recorded with the answer of the
  mail server an argument. An \<open>unwrap\<close> on missing credentials is the value \<open>HandlerPanic\<close>.
\<close>

section \<open>Errors, credentials, mail\<close>

datatype handler_error = ApiErr api_error | HandlerPanic

definition panicked_did :: "access_output \<Rightarrow> handler_error + string" where
  "panicked_did auth =
     (case Option.bind (ao_credentials auth) cr_did of Some did \<Rightarrow> Inr did | None \<Rightarrow> Inl HandlerPanic)"

definition access_did :: "access_output \<Rightarrow> api_error + string" where
  "access_did auth =
     (case ao_credentials auth of
        None \<Rightarrow> Inl (InvalidRequest ''Missing credentials on access token'')
      | Some c \<Rightarrow>
          (case cr_did c of
             None \<Rightarrow> Inl (InvalidRequest ''Missing did on access token'')
           | Some did \<Rightarrow> Inr did))"

definition internal :: "('e + 'a) \<times> 's \<Rightarrow> (handler_error + 'a) \<times> 's" where
  "internal r = (case r of (Inl _, s) \<Rightarrow> (Inl (ApiErr RuntimeError), s) | (Inr x, s) \<Rightarrow> (Inr x, s))"

text \<open>The outer handlers of some methods answer every error with the internal one.\<close>

definition masked :: "(handler_error + 'a) \<times> 's \<Rightarrow> (handler_error + 'a) \<times> 's" where
  "masked r = (case r of
     (Inl (ApiErr _), s) \<Rightarrow> (Inl (ApiErr RuntimeError), s)
   | (Inl HandlerPanic, s) \<Rightarrow> (Inl HandlerPanic, s)
   | (Inr x, s) \<Rightarrow> (Inr x, s))"

datatype mail = UpdateEmailMail string string | ConfirmEmailMail string string
  | AccountDeleteMail string string | ResetPasswordMail string string string

record desk =
  dk_db :: account_db
  dk_mails :: "mail list"

definition on_desk :: "(account_db \<Rightarrow> 'r \<times> account_db) \<Rightarrow> desk \<Rightarrow> 'r \<times> desk" where
  "on_desk f d = (case f (dk_db d) of (r, db) \<Rightarrow> (r, d\<lparr>dk_db := db\<rparr>))"

definition send_mail :: "bool \<Rightarrow> mail \<Rightarrow> desk \<Rightarrow> (handler_error + unit) \<times> desk" where
  "send_mail delivered m d =
     (if delivered then (Inr (), d\<lparr>dk_mails := dk_mails d @ [m]\<rparr>) else (Inl (ApiErr RuntimeError), d))"

definition any_account :: "availability_flags option" where
  "any_account = Some \<lparr>include_taken_down = Some True, include_deactivated = Some True\<rparr>"

definition INVALID_HANDLE :: string where
  "INVALID_HANDLE = ''handle.invalid''"

section \<open>Sessions\<close>

record session_output =
  so_did :: string
  so_handle :: string
  so_email :: "string option"
  so_email_confirmed :: bool
  so_access_jwt :: string
  so_refresh_jwt :: string

definition api_error_from_account_error :: "account_error \<Rightarrow> api_error" where
  "api_error_from_account_error e = (if e = AccountLocked then RateLimitExceeded else RuntimeError)"

definition session_user :: "ext \<Rightarrow> string \<Rightarrow> account_db \<Rightarrow> actor_account option" where
  "session_user ext identifier db =
     (let identifier = to_lowercase ext identifier
      in if CHR ''@'' \<in> set identifier then get_account_by_email ext identifier any_account db
         else get_account identifier any_account db)"

text \<open>\<open>Some name\<close>: signed in, with the app password \<open>name\<close> if one was used. \<open>None\<close>: refused.\<close>

definition check_session_password ::
  "ext \<Rightarrow> string \<Rightarrow> string \<Rightarrow> account_db \<Rightarrow> api_error + string option option" where
  "check_session_password ext did password db =
     (case verify_account_password ext did password db of
        Inl _ \<Rightarrow> Inl RuntimeError
      | Inr True \<Rightarrow> Inr (Some None)
      | Inr False \<Rightarrow>
          (case verify_app_password ext did password db of
             Inl _ \<Rightarrow> Inl RuntimeError
           | Inr None \<Rightarrow> Inr None
           | Inr (Some name) \<Rightarrow> Inr (Some (Some name))))"

definition inner_create_session ::
  "ext \<Rightarrow> int \<Rightarrow> string \<Rightarrow> string \<Rightarrow> string \<Rightarrow> string \<Rightarrow> account_db \<Rightarrow>
   (api_error + session_output) \<times> account_db" where
  "inner_create_session ext now raw service_did identifier password db =
     (case session_user ext identifier db of
        None \<Rightarrow> (Inl InvalidLogin, db)
      | Some user \<Rightarrow>
          if is_account_locked now (aa_did user) db then (Inl RateLimitExceeded, db)
          else
            (case check_session_password ext (aa_did user) password db of
               Inl e \<Rightarrow> (Inl e, db)
             | Inr None \<Rightarrow> (Inl InvalidLogin, snd (record_failed_login_with_lockout now (aa_did user) db))
             | Inr (Some app_password_name) \<Rightarrow>
                 (let db = clear_account_lockout (aa_did user) db
                  in if aa_takedown_ref user \<noteq> None then (Inl AccountTakendown, db)
                  else
                    (case create_session ext now raw (aa_did user) service_did app_password_name db of
                       (Inl e, db) \<Rightarrow> (Inl (api_error_from_account_error e), db)
                     | (Inr (access_jwt, refresh_jwt), db) \<Rightarrow>
                         (Inr \<lparr>so_did = aa_did user,
                            so_handle = (case aa_handle user of Some h \<Rightarrow> h | None \<Rightarrow> INVALID_HANDLE),
                            so_email = aa_email user,
                            so_email_confirmed = (aa_email_confirmed_at user \<noteq> None),
                            so_access_jwt = access_jwt, so_refresh_jwt = refresh_jwt\<rparr>, db)))))"

definition refresh_credentials :: "access_output \<Rightarrow> api_error + string \<times> string" where
  "refresh_credentials auth =
     (case ao_credentials auth of
        None \<Rightarrow> Inl (InvalidRequest ''Missing credentials on refresh token'')
      | Some c \<Rightarrow>
          (case (cr_did c, cr_token_id c) of
             (None, _) \<Rightarrow> Inl (InvalidRequest ''Missing did on refresh token'')
           | (Some did, None) \<Rightarrow> Inl (InvalidRequest ''Missing token id on refresh token'')
           | (Some did, Some token_id) \<Rightarrow> Inr (did, token_id)))"

text \<open>\<open>attempts\<close> as for \<open>rotate_refresh_token\<close>; four are enough (\<open>rotate_returns\<close>).\<close>

definition inner_refresh_session ::
  "ext \<Rightarrow> string \<Rightarrow> rotate_attempt list \<Rightarrow> access_output \<Rightarrow> account_db \<Rightarrow>
   ((api_error + string \<times> string \<times> string \<times> string) \<times> account_db) option" where
  "inner_refresh_session ext service_did attempts auth db =
     (case refresh_credentials auth of
        Inl e \<Rightarrow> Some (Inl e, db)
      | Inr (did, token_id) \<Rightarrow>
          (case get_account did any_account db of
             None \<Rightarrow> Some (Inl ApiAccountNotFound, db)
           | Some user \<Rightarrow>
               if aa_takedown_ref user \<noteq> None then Some (Inl AccountTakendown, db)
               else
                 (case rotate_refresh_token ext token_id service_did attempts db of
                    None \<Rightarrow> None
                  | Some (Inl _, db) \<Rightarrow> Some (Inl RuntimeError, db)
                  | Some (Inr None, db) \<Rightarrow> Some (Inl ApiExpiredToken, db)
                  | Some (Inr (Some (access_jwt, refresh_jwt)), db) \<Rightarrow>
                      Some (Inr (case aa_handle user of Some h \<Rightarrow> h | None \<Rightarrow> INVALID_HANDLE, did,
                        access_jwt, refresh_jwt), db))))"

definition delete_session_handler :: "string \<Rightarrow> account_db \<Rightarrow> (api_error + unit) \<times> account_db" where
  "delete_session_handler token_id db = (Inr (), snd (revoke_refresh_token token_id db))"

record get_session_output =
  go_handle :: string
  go_did :: string
  go_email :: "string option"
  go_email_confirmed :: bool

definition get_session_handler :: "access_output \<Rightarrow> account_db \<Rightarrow> api_error + get_session_output" where
  "get_session_handler auth db =
     (case access_did auth of
        Inl e \<Rightarrow> Inl e
      | Inr did \<Rightarrow>
          (case get_account did None db of
             None \<Rightarrow> Inl ApiAccountNotFound
           | Some user \<Rightarrow> Inr
               \<lparr>go_handle = (case aa_handle user of Some h \<Rightarrow> h | None \<Rightarrow> INVALID_HANDLE), go_did = aa_did user,
                go_email = aa_email user, go_email_confirmed = (aa_email_confirmed_at user \<noteq> None)\<rparr>))"

section \<open>E-mail addresses\<close>

definition inner_confirm_email ::
  "ext \<Rightarrow> int \<Rightarrow> string \<Rightarrow> string \<Rightarrow> access_output \<Rightarrow> account_db \<Rightarrow> (handler_error + unit) \<times> account_db" where
  "inner_confirm_email ext now token email auth db =
     (case panicked_did auth of
        Inl e \<Rightarrow> (Inl e, db)
      | Inr did \<Rightarrow>
          (case get_account did (Some \<lparr>include_taken_down = None, include_deactivated = Some True\<rparr>) db of
             None \<Rightarrow> (Inl (ApiErr ApiAccountNotFound), db)
           | Some user \<Rightarrow>
               (case aa_email user of
                  None \<Rightarrow> (Inl (ApiErr (InvalidRequest ''Missing Email'')), db)
                | Some user_email \<Rightarrow>
                    if user_email \<noteq> to_lowercase ext email then (Inl (ApiErr InvalidEmail), db)
                    else internal (confirm_email ext now did token db))))"

text \<open>\<open>tokens_first\<close> is the order of the joined statements, as for \<open>manager_update_email\<close>.\<close>

definition inner_update_email ::
  "ext \<Rightarrow> int \<Rightarrow> bool \<Rightarrow> string \<Rightarrow> string option \<Rightarrow> access_output \<Rightarrow> account_db \<Rightarrow>
   (handler_error + unit) \<times> account_db" where
  "inner_update_email ext now tokens_first email token auth db =
     (case panicked_did auth of
        Inl e \<Rightarrow> (Inl e, db)
      | Inr did \<Rightarrow>
          if email = [] then (Inl (ApiErr (InvalidRequest
            ''This email address is not supported, please use a different email.'')), db)
          else
            (case get_account did (Some \<lparr>include_taken_down = None, include_deactivated = Some True\<rparr>) db of
               None \<Rightarrow> (Inl (ApiErr (InvalidRequest ''Account not found'')), db)
             | Some account \<Rightarrow>
                 and_then (case (aa_email_confirmed_at account, token) of
                     (None, _) \<Rightarrow> (Inr (), db)
                   | (Some _, Some token) \<Rightarrow>
                       internal (assert_valid_token ext now did UpdateEmail token None db, db)
                   | (Some _, None) \<Rightarrow> (Inl (ApiErr (InvalidRequest ''Confirmation token required'')), db))
                   (\<lambda>_ db. case manager_update_email ext tokens_first did email db of
                      (Inl UserAlreadyExistsError, db) \<Rightarrow> (Inl (ApiErr (InvalidRequest
                        ''This email address is already in use, please use a different email.'')), db)
                    | (Inl _, db) \<Rightarrow> (Inl (ApiErr RuntimeError), db)
                    | (Inr _, db) \<Rightarrow> (Inr (), db))))"

definition update_email_handler ::
  "ext \<Rightarrow> int \<Rightarrow> bool \<Rightarrow> string \<Rightarrow> string option \<Rightarrow> access_output \<Rightarrow> account_db \<Rightarrow>
   (handler_error + unit) \<times> account_db" where
  "update_email_handler ext now tokens_first email token auth db =
     masked (inner_update_email ext now tokens_first email token auth db)"

text \<open>The account of the credentials and its address, for the requests that mail a token.\<close>

definition mail_account :: "access_output \<Rightarrow> account_db \<Rightarrow> handler_error + string \<times> actor_account \<times> string" where
  "mail_account auth db =
     (case panicked_did auth of
        Inl e \<Rightarrow> Inl e
      | Inr did \<Rightarrow>
          (case get_account did any_account db of
             None \<Rightarrow> Inl (ApiErr (InvalidRequest ''Account not found''))
           | Some account \<Rightarrow>
               (case aa_email account of
                  None \<Rightarrow> Inl (ApiErr (InvalidRequest ''Account does not have an email address''))
                | Some email \<Rightarrow> Inr (did, account, email))))"

definition mail_token ::
  "ext \<Rightarrow> int \<Rightarrow> string \<Rightarrow> bool \<Rightarrow> string \<Rightarrow> email_token_purpose \<Rightarrow> (string \<Rightarrow> mail) \<Rightarrow> desk \<Rightarrow>
   (handler_error + unit) \<times> desk" where
  "mail_token ext now raw delivered did purpose m d =
     and_then (internal (on_desk (create_email_token ext now raw did purpose) d))
       (\<lambda>token d. send_mail delivered (m token) d)"

definition inner_request_email_update ::
  "ext \<Rightarrow> int \<Rightarrow> string \<Rightarrow> bool \<Rightarrow> access_output \<Rightarrow> desk \<Rightarrow> (handler_error + bool) \<times> desk" where
  "inner_request_email_update ext now raw delivered auth d =
     and_then (mail_account auth (dk_db d), d) (\<lambda>(did, account, email) d.
       let token_required = (aa_email_confirmed_at account \<noteq> None)
       in if token_required
          then and_then (mail_token ext now raw delivered did UpdateEmail (UpdateEmailMail email) d)
                 (\<lambda>_ d. (Inr token_required, d))
          else (Inr token_required, d))"

definition inner_request_email_confirmation ::
  "ext \<Rightarrow> int \<Rightarrow> string \<Rightarrow> bool \<Rightarrow> access_output \<Rightarrow> desk \<Rightarrow> (handler_error + unit) \<times> desk" where
  "inner_request_email_confirmation ext now raw delivered auth d =
     and_then (mail_account auth (dk_db d), d) (\<lambda>(did, _, email) d.
       mail_token ext now raw delivered did ConfirmEmail (ConfirmEmailMail email) d)"

definition inner_request_account_delete ::
  "ext \<Rightarrow> int \<Rightarrow> string \<Rightarrow> bool \<Rightarrow> access_output \<Rightarrow> desk \<Rightarrow> (handler_error + unit) \<times> desk" where
  "inner_request_account_delete ext now raw delivered auth d =
     and_then (mail_account auth (dk_db d), d) (\<lambda>(did, _, email) d.
       mail_token ext now raw delivered did DeleteAccount (AccountDeleteMail email) d)"

text \<open>
  The answer never depends on the account; what is spawned for an existing one is the returned
  task, run later.
\<close>

definition reset_task :: "ext \<Rightarrow> int \<Rightarrow> string \<Rightarrow> bool \<Rightarrow> string \<Rightarrow> string \<Rightarrow> string \<Rightarrow> desk \<Rightarrow> desk" where
  "reset_task ext now raw delivered did email identifier d =
     snd (mail_token ext now raw delivered did ResetPassword
       (\<lambda>token. ResetPasswordMail email identifier token) d)"

definition inner_request_password_reset ::
  "ext \<Rightarrow> int \<Rightarrow> string \<Rightarrow> bool \<Rightarrow> string \<Rightarrow> account_db \<Rightarrow> (api_error + unit) \<times> (desk \<Rightarrow> desk)" where
  "inner_request_password_reset ext now raw delivered email db =
     (case get_account_by_email ext (to_lowercase ext email) any_account db of
        Some account \<Rightarrow>
          (case aa_email account of
             Some account_email \<Rightarrow> (Inr (), reset_task ext now raw delivered (aa_did account) account_email
               (case aa_handle account of Some h \<Rightarrow> h | None \<Rightarrow> account_email))
           | None \<Rightarrow> (Inr (), \<lambda>d. d))
      | None \<Rightarrow> (Inr (), \<lambda>d. d))"

definition reset_password_handler ::
  "ext \<Rightarrow> int \<Rightarrow> string \<Rightarrow> string \<Rightarrow> string \<Rightarrow> account_db \<Rightarrow> (handler_error + unit) \<times> account_db" where
  "reset_password_handler ext now salt token password db = internal (reset_password ext now salt password token db)"

section \<open>App passwords\<close>

definition create_app_password_handler ::
  "ext \<Rightarrow> int \<Rightarrow> string \<Rightarrow> string \<Rightarrow> access_output \<Rightarrow> account_db \<Rightarrow>
   (handler_error + create_app_password_output) \<times> account_db" where
  "create_app_password_handler ext now raw name auth db =
     (case access_did auth of
        Inl e \<Rightarrow> (Inl (ApiErr e), db)
      | Inr did \<Rightarrow> internal (create_app_password ext now raw did name db))"

definition list_app_passwords_handler :: "access_output \<Rightarrow> account_db \<Rightarrow> api_error + (string \<times> string) list" where
  "list_app_passwords_handler auth db = map_sum (\<lambda>e. e) (\<lambda>did. list_app_passwords did db) (access_did auth)"

definition revoke_app_password_handler ::
  "string \<Rightarrow> access_output \<Rightarrow> account_db \<Rightarrow> (api_error + unit) \<times> account_db" where
  "revoke_app_password_handler name auth db =
     (case access_did auth of
        Inl e \<Rightarrow> (Inl e, db)
      | Inr did \<Rightarrow> (Inr (), revoke_app_password did name db))"

end
