(* ===== verification/Invite_Handlers.thy ===== *)
theory Invite_Handlers
  imports Session_Handlers
begin

text \<open>
  Invite codes and service tokens (create_invite_code.rs, create_invite_codes.rs,
  get_account_invite_codes.rs, get_service_auth.rs and the code generators of mod.rs under
  cacos-pds-server/src/xrpc/com/atproto/server). Sizes are 64-bit words, as \<open>usize\<close>, and wrap; the
  division by the configured interval panics when it is zero.

  Proved: the number of codes an account is given, and exactly which service tokens are issued.
\<close>

section \<open>Generating codes\<close>

definition server_random_token :: "string \<Rightarrow> handler_error + string" where
  "server_random_token raw =
     (let allowed = filter (\<lambda>c. c \<notin> set ''1890'') raw
      in if length allowed < 10 then Inl HandlerPanic
         else Inr (take 5 allowed @ ''-'' @ take 5 (drop 5 allowed)))"

definition gen_invite_code :: "ext \<Rightarrow> string \<Rightarrow> string \<Rightarrow> handler_error + string" where
  "gen_invite_code ext raw hostname =
     map_sum (\<lambda>e. e) (\<lambda>token. map (\<lambda>c. if c = CHR ''.'' then CHR ''-'' else c) hostname @ ''-'' @ to_lowercase ext token)
       (server_random_token raw)"

text \<open>\<open>raws\<close> are the random texts, one for each code; a count that is not positive gives none.\<close>

fun gen_codes :: "ext \<Rightarrow> (nat \<Rightarrow> string) \<Rightarrow> nat \<Rightarrow> string \<Rightarrow> handler_error + string list" where
  "gen_codes ext raws 0 hostname = Inr []"
| "gen_codes ext raws (Suc n) hostname =
     (case gen_invite_code ext (raws 0) hostname of
        Inl e \<Rightarrow> Inl e
      | Inr code \<Rightarrow> map_sum (\<lambda>e. e) (Cons code) (gen_codes ext (\<lambda>i. raws (Suc i)) n hostname))"

definition gen_invite_codes :: "ext \<Rightarrow> (nat \<Rightarrow> string) \<Rightarrow> int \<Rightarrow> string \<Rightarrow> handler_error + string list" where
  "gen_invite_codes ext raws count hostname = gen_codes ext raws (nat count) hostname"

section \<open>Codes made by an administrator\<close>

definition inner_create_invite_code ::
  "ext \<Rightarrow> int \<Rightarrow> string \<Rightarrow> string \<Rightarrow> int \<Rightarrow> string option \<Rightarrow> account_db \<Rightarrow> (handler_error + string) \<times> account_db"
  where
  "inner_create_invite_code ext now raw hostname use_count for_account db =
     and_then (gen_invite_code ext raw hostname, db) (\<lambda>code db.
     and_then (internal (create_invite_codes ext now
         [\<lparr>acs_account = (case for_account of Some a \<Rightarrow> a | None \<Rightarrow> ''admin''), acs_codes = [code]\<rparr>] use_count db))
       (\<lambda>_ db. (Inr code, db)))"

fun codes_for_accounts ::
  "ext \<Rightarrow> (nat \<Rightarrow> nat \<Rightarrow> string) \<Rightarrow> int \<Rightarrow> string \<Rightarrow> string list \<Rightarrow> handler_error + account_codes list" where
  "codes_for_accounts ext raws code_count hostname [] = Inr []"
| "codes_for_accounts ext raws code_count hostname (account # rest) =
     (case gen_invite_codes ext (raws 0) code_count hostname of
        Inl e \<Rightarrow> Inl e
      | Inr codes \<Rightarrow> map_sum (\<lambda>e. e) (Cons \<lparr>acs_account = account, acs_codes = codes\<rparr>)
          (codes_for_accounts ext (\<lambda>i. raws (Suc i)) code_count hostname rest))"

definition inner_create_invite_codes ::
  "ext \<Rightarrow> int \<Rightarrow> (nat \<Rightarrow> nat \<Rightarrow> string) \<Rightarrow> string \<Rightarrow> int \<Rightarrow> int \<Rightarrow> string list option \<Rightarrow> account_db \<Rightarrow>
   (handler_error + account_codes list) \<times> account_db" where
  "inner_create_invite_codes ext now raws hostname use_count code_count for_accounts db =
     and_then (codes_for_accounts ext raws code_count hostname
         (case for_accounts of Some as \<Rightarrow> as | None \<Rightarrow> [''admin'']), db) (\<lambda>account_codes db.
     and_then (internal (create_invite_codes ext now account_codes use_count db)) (\<lambda>_ db. (Inr account_codes, db)))"

section \<open>Codes an account may have\<close>

record calculate_codes_to_create_opts =
  kc_user_created_at :: "64 word"
  kc_codes :: "code_detail list"
  kc_epoch :: "64 word"
  kc_interval :: "64 word"

definition routine_codes :: "code_detail list \<Rightarrow> code_detail list" where
  "routine_codes codes = filter (\<lambda>c. cd_created_by c \<noteq> ''admin'') codes"

text \<open>\<open>available as usize > uses.len()\<close>: a negative count becomes a large one.\<close>

definition unused_code :: "code_detail \<Rightarrow> bool" where
  "unused_code c \<longleftrightarrow> \<not> cd_disabled c \<and> word_of_nat (length (cd_uses c)) < (word_of_int (cd_available c) :: 64 word)"

definition codes_could_create :: "64 word \<Rightarrow> 64 word \<Rightarrow> 64 word \<Rightarrow> 64 word \<Rightarrow> handler_error + 64 word" where
  "codes_could_create now user_created_at epoch interval =
     (let user_lifespan = now - user_created_at in
      if interval = 0 then Inl HandlerPanic
      else if user_created_at \<ge> epoch then Inr (user_lifespan div interval)
      else Inr (user_lifespan div interval - (epoch - user_created_at) div interval))"

fun epoch_codes :: "(string \<Rightarrow> int option) \<Rightarrow> 64 word \<Rightarrow> code_detail list \<Rightarrow> handler_error + code_detail list" where
  "epoch_codes parse epoch [] = Inr []"
| "epoch_codes parse epoch (c # cs) =
     (case parse (cd_created_at c) of
        None \<Rightarrow> Inl HandlerPanic
      | Some micros \<Rightarrow> map_sum (\<lambda>e. e) (\<lambda>rest. if word_of_int micros > epoch then c # rest else rest)
          (epoch_codes parse epoch cs))"

definition saturating_minus :: "64 word \<Rightarrow> 64 word \<Rightarrow> 64 word" where
  "saturating_minus a b = (if b \<le> a then a - b else 0)"

definition calculate_codes_to_create ::
  "(string \<Rightarrow> int option) \<Rightarrow> 64 word \<Rightarrow> calculate_codes_to_create_opts \<Rightarrow> handler_error + 64 word \<times> 64 word" where
  "calculate_codes_to_create parse now opts =
     (let routine = routine_codes (kc_codes opts); unused = filter unused_code routine
      in case codes_could_create now (kc_user_created_at opts) (kc_epoch opts) (kc_interval opts) of
           Inl e \<Rightarrow> Inl e
         | Inr could_create \<Rightarrow>
             (case epoch_codes parse (kc_epoch opts) routine of
                Inl e \<Rightarrow> Inl e
              | Inr in_epoch \<Rightarrow>
                  (let to_create = min (saturating_minus 5 (word_of_nat (length unused)))
                         (saturating_minus could_create (word_of_nat (length in_epoch)))
                   in Inr (to_create, word_of_nat (length routine) + to_create))))"

record invite_config =
  iv_required :: "bool option"
  iv_interval :: "64 word option"
  iv_epoch :: "64 word option"
  iv_hostname :: string

text \<open>\<open>to_create as i32\<close> keeps its value: it is at most five.\<close>

definition create_available_codes ::
  "ext \<Rightarrow> (string \<Rightarrow> int option) \<Rightarrow> invite_config \<Rightarrow> int \<Rightarrow> (nat \<Rightarrow> string) \<Rightarrow> string \<Rightarrow> actor_account \<Rightarrow>
   code_detail list \<Rightarrow> account_db \<Rightarrow> (handler_error + code_detail list) \<times> account_db" where
  "create_available_codes ext parse cfg now raws requester account user_codes db =
     (case iv_interval cfg of
        None \<Rightarrow> (Inr [], db)
      | Some interval \<Rightarrow>
          (case parse (aa_created_at account) of
             None \<Rightarrow> (Inl (ApiErr RuntimeError), db)
           | Some created \<Rightarrow>
               and_then (calculate_codes_to_create parse (word_of_int now)
                   \<lparr>kc_user_created_at = word_of_int created, kc_codes = user_codes,
                    kc_epoch = (case iv_epoch cfg of Some e \<Rightarrow> e | None \<Rightarrow> 0), kc_interval = interval\<rparr>, db)
                 (\<lambda>(to_create, total) db.
                   if to_create > 0 then
                     and_then (gen_invite_codes ext raws (uint to_create) (iv_hostname cfg), db) (\<lambda>codes db.
                       internal (create_account_invite_codes ext now requester codes (unat total)
                         ((case aa_invites_disabled account of Some d \<Rightarrow> d | None \<Rightarrow> 0) = 1) db))
                   else (Inr [], db))))"

definition shown_code :: "bool \<Rightarrow> code_detail \<Rightarrow> bool" where
  "shown_code include_used c \<longleftrightarrow> \<not> cd_disabled c \<and>
     (include_used \<or> \<not> (word_of_int (cd_available c) :: 64 word) \<le> word_of_nat (length (cd_uses c)))"

definition inner_get_account_invite_codes ::
  "ext \<Rightarrow> (string \<Rightarrow> int option) \<Rightarrow> invite_config \<Rightarrow> int \<Rightarrow> (nat \<Rightarrow> string) \<Rightarrow> bool \<Rightarrow> bool \<Rightarrow> access_output \<Rightarrow>
   account_db \<Rightarrow> (handler_error + code_detail list) \<times> account_db" where
  "inner_get_account_invite_codes ext parse cfg now raws include_used create_available auth db =
     (case panicked_did auth of
        Inl e \<Rightarrow> (Inl e, db)
      | Inr requester \<Rightarrow>
          (let user_codes = get_account_invite_codes requester db
           in case get_account requester None db of
                None \<Rightarrow> (Inl (ApiErr (InvalidRequest ''Account not found'')), db)
              | Some account \<Rightarrow>
                  and_then (if create_available \<and> (case iv_required cfg of Some b \<Rightarrow> b | None \<Rightarrow> True)
                      then create_available_codes ext parse cfg now raws requester account user_codes db
                      else (Inr [], db)) (\<lambda>created db.
                    (Inr (filter (shown_code include_used) (created @ user_codes)), db))))"

definition get_account_invite_codes_handler ::
  "ext \<Rightarrow> (string \<Rightarrow> int option) \<Rightarrow> invite_config \<Rightarrow> int \<Rightarrow> (nat \<Rightarrow> string) \<Rightarrow> bool \<Rightarrow> bool \<Rightarrow> access_output \<Rightarrow>
   account_db \<Rightarrow> (handler_error + code_detail list) \<times> account_db" where
  "get_account_invite_codes_handler ext parse cfg now raws include_used create_available auth db =
     masked (inner_get_account_invite_codes ext parse cfg now raws include_used create_available auth db)"

section \<open>Service tokens\<close>

definition PROTECTED_METHODS :: "string list" where
  "PROTECTED_METHODS =
     [''com.atproto.admin.sendEmail'', ''com.atproto.identity.requestPlcOperationSignature'',
      ''com.atproto.identity.signPlcOperation'', ''com.atproto.identity.updateHandle'',
      ''com.atproto.server.activateAccount'', ''com.atproto.server.confirmEmail'',
      ''com.atproto.server.createAppPassword'', ''com.atproto.server.deactivateAccount'',
      ''com.atproto.server.getAccountInviteCodes'', ''com.atproto.server.listAppPasswords'',
      ''com.atproto.server.requestAccountDelete'', ''com.atproto.server.requestEmailConfirmation'',
      ''com.atproto.server.requestEmailUpdate'', ''com.atproto.server.revokeAppPassword'',
      ''com.atproto.server.updateEmail'']"

definition PRIVILEGED_METHODS :: "string list" where
  "PRIVILEGED_METHODS =
     [''chat.bsky.actor.deleteAccount'', ''chat.bsky.actor.exportAccountData'',
      ''chat.bsky.convo.deleteMessageForSelf'', ''chat.bsky.convo.getConvo'',
      ''chat.bsky.convo.getConvoForMembers'', ''chat.bsky.convo.getLog'', ''chat.bsky.convo.getMessages'',
      ''chat.bsky.convo.leaveConvo'', ''chat.bsky.convo.listConvos'', ''chat.bsky.convo.muteConvo'',
      ''chat.bsky.convo.sendMessage'', ''chat.bsky.convo.sendMessageBatch'', ''chat.bsky.convo.unmuteConvo'',
      ''chat.bsky.convo.updateRead'', ''com.atproto.server.createAccount'']"

datatype service_auth_error = ServiceAuthPanic | ExpiredInPast | TooFarAhead | MethodlessTooFar
  | ProtectedMethod string | InsufficientAccess string | TokenError account_error

text \<open>
  \<open>exp\<close> is multiplied by 1000 as a 64-bit number, read as a signed count of microseconds and
  compared with the clock \<open>now\<close>, in microseconds; a difference in whole milliseconds is rounded
  towards zero, \<open>hour\<close> and \<open>minute\<close> are rsky-common's.
\<close>

definition whole_millis :: "int \<Rightarrow> int" where
  "whole_millis d = (if d \<ge> 0 then d div 1000 else - ((- d) div 1000))"

definition check_service_expiry ::
  "int \<Rightarrow> int \<Rightarrow> int \<Rightarrow> 64 word option \<Rightarrow> string option \<Rightarrow> service_auth_error + unit" where
  "check_service_expiry hour minute now exp lxm =
     (case exp of
        None \<Rightarrow> Inr ()
      | Some exp \<Rightarrow>
          (let diff = whole_millis (sint (exp * 1000) - now)
           in if diff < 0 then Inl ExpiredInPast
              else if diff > hour then Inl TooFarAhead
              else if lxm = None \<and> diff > minute then Inl MethodlessTooFar
              else Inr ()))"

definition check_service_method :: "credentials \<Rightarrow> string option \<Rightarrow> service_auth_error + unit" where
  "check_service_method credentials lxm =
     (case lxm of
        None \<Rightarrow> Inr ()
      | Some lxm \<Rightarrow>
          if lxm \<in> set PROTECTED_METHODS then Inl (ProtectedMethod lxm)
          else if cr_is_privileged credentials = Some True \<and> lxm \<in> set PRIVILEGED_METHODS
          then Inl (InsufficientAccess lxm)
          else Inr ())"

text \<open>\<open>issue\<close> is \<open>create_service_jwt\<close> with its codecs, key, clock and random identifier.\<close>

definition inner_get_service_auth ::
  "(service_jwt_params \<Rightarrow> account_error + string) \<Rightarrow> int \<Rightarrow> int \<Rightarrow> int \<Rightarrow> string \<Rightarrow> 64 word option \<Rightarrow>
   string option \<Rightarrow> access_output \<Rightarrow> service_auth_error + string" where
  "inner_get_service_auth issue hour minute now aud exp lxm auth =
     (case ao_credentials auth of
        None \<Rightarrow> Inl ServiceAuthPanic
      | Some credentials \<Rightarrow>
          (case cr_did credentials of
             None \<Rightarrow> Inl ServiceAuthPanic
           | Some did \<Rightarrow>
               (case check_service_expiry hour minute now exp lxm of
                  Inl e \<Rightarrow> Inl e
                | Inr _ \<Rightarrow>
                    (case check_service_method credentials lxm of
                       Inl e \<Rightarrow> Inl e
                     | Inr _ \<Rightarrow> map_sum TokenError (\<lambda>t. t)
                         (issue \<lparr>sp_iss = did, sp_aud = aud, sp_exp = None, sp_lxm = lxm, sp_jti = None\<rparr>)))))"

end
