(* ===== verification/Session_Facts.thy ===== *)
theory Session_Facts
  imports Invite_Handlers Account_Sessions
begin

text \<open>
  What the methods about sessions, invite codes and service tokens guarantee: how many passwords
  can be tried, how many codes an account is given, and which service tokens are refused.
\<close>

section \<open>Trying passwords\<close>

text \<open>Lookups and password checks do not read the lockout columns.\<close>

definition login_view :: "account_row \<Rightarrow> string \<times> string \<times> string option \<times> int" where
  "login_view r = (ac_email r, ac_password r, ac_email_confirmed_at r, ac_invites_disabled r)"

definition same_logins :: "account_db \<Rightarrow> account_db \<Rightarrow> bool" where
  "same_logins db db' \<longleftrightarrow> actors db' = actors db \<and> app_passwords db' = app_passwords db \<and>
     wf_db db \<and> wf_db db' \<and>
     (\<forall>d. map_option login_view (account_of d db') = map_option login_view (account_of d db))"

lemma same_logins_trans: "same_logins a b \<Longrightarrow> same_logins b c \<Longrightarrow> same_logins a c"
  by (simp add: same_logins_def)

lemma find_parallel:
  assumes "\<And>x. x \<in> set xs \<Longrightarrow> P (f x) = Q (g x)" and "\<And>x. x \<in> set xs \<Longrightarrow> h (f x) = h (g x)"
  shows "map_option h (find P (map f xs)) = map_option h (find Q (map g xs))"
  using assms by (induction xs) auto

lemma same_row:
  assumes "map_option login_view c' = map_option login_view c"
  shows "actor_account_from_row (a, c') = actor_account_from_row (a, c)"
    "map_option ac_email c' = map_option ac_email c" "map_option ac_password c' = map_option ac_password c"
  using assms by (cases c; cases c'; simp add: actor_account_from_row_def login_view_def)+

lemma same_logins_account:
  assumes "same_logins db db'"
  shows "get_account i flags db' = get_account i flags db"
    "get_account_by_email ext e flags db' = get_account_by_email ext e flags db"
proof -
  have row: "map_option login_view (account_of d db') = map_option login_view (account_of d db)" for d
    using assms by (simp add: same_logins_def)
  note join = join_eq [of db] join_eq [of db']
  have email: "(\<exists>z. account_of d db' = Some z \<and> ac_email z = x) \<longleftrightarrow>
      (\<exists>z. account_of d db = Some z \<and> ac_email z = x)" for d x
    using same_row(2) [OF row, of d] by (metis map_option_eq_Some)
  show "get_account i flags db' = get_account i flags db"
    "get_account_by_email ext e flags db' = get_account_by_email ext e flags db"
    using assms same_row(1) [OF row] email unfolding get_account_def get_account_by_email_def
    by (simp_all add: same_logins_def join, (intro find_parallel; simp)+)
qed

lemma same_logins_check:
  assumes "same_logins db db'"
  shows "check_session_password ext did pw db' = check_session_password ext did pw db"
proof -
  have row: "map_option login_view (account_of did db') = map_option login_view (account_of did db)"
    and app: "app_passwords db' = app_passwords db"
    using assms by (simp_all add: same_logins_def)
  have "verify_account_password ext did pw db' = verify_account_password ext did pw db"
    using same_row(3) [OF row] by (auto simp: verify_account_password_def account_of_def split: option.splits)
  moreover have "verify_app_password ext did pw db' = verify_app_password ext did pw db"
    by (simp add: verify_app_password_def app split: sum.split)
  ultimately show ?thesis unfolding check_session_password_def by (simp only:)
qed

lemma same_logins_fail:
  assumes "wf_db db"
  shows "same_logins db (snd (record_failed_login_with_lockout now did db))"
proof -
  have view: "map_option login_view (account_of d (s\<lparr>accounts := update_where (\<lambda>r. ac_did r = did) f (accounts s)\<rparr>)) =
      map_option login_view (account_of d s)"
    if "\<forall>r. ac_did (f r) = ac_did r" "\<forall>r. login_view (f r) = login_view r" for f d s
    using that account_of_update [OF that(1), of did s] account_of_update_other [OF that(1), of d did s]
    by (cases "d = did") (simp_all add: option.map_comp comp_def)
  have inc: "same_logins s (snd (increment_failed_login_count did s))" if "wf_db s" for s
    using that wf_increment [OF that, of did] view
    by (simp add: same_logins_def increment_failed_login_count_def Let_def login_view_def)
  have lock: "same_logins s (set_account_locked_until did u s)" if "wf_db s" for s u
    using that wf_set_locked [OF that, of did u] view
    by (simp add: same_logins_def set_account_locked_until_def login_view_def)
  have wf: "wf_db (snd (increment_failed_login_count did db))" by (rule wf_increment [OF assms])
  show ?thesis
    using inc [OF assms] lock [OF wf] same_logins_trans
    by (simp add: record_failed_login_with_lockout_def Let_def)
qed

text \<open>Requests to sign in, one after the other: the clock, the random text and the password of each.\<close>

fun sign_ins ::
  "ext \<Rightarrow> string \<Rightarrow> string \<Rightarrow> (int \<times> string \<times> string) list \<Rightarrow> account_db \<Rightarrow> (api_error + session_output) list \<times> account_db"
  where
  "sign_ins ext service_did identifier [] db = ([], db)"
| "sign_ins ext service_did identifier ((now, raw, password) # rest) db =
     (case inner_create_session ext now raw service_did identifier password db of
        (r, db1) \<Rightarrow> (case sign_ins ext service_did identifier rest db1 of (rs, db2) \<Rightarrow> (r # rs, db2)))"

lemma wrong_password_step:
  assumes "session_user ext identifier db0 = Some user" and "same_logins db0 db"
    and "check_session_password ext (aa_did user) password db0 = Inr None"
  shows "inner_create_session ext now raw svc identifier password db =
    (if is_account_locked now (aa_did user) db then (Inl RateLimitExceeded, db)
     else (Inl InvalidLogin, snd (record_failed_login_with_lockout now (aa_did user) db)))"
proof -
  have "session_user ext identifier db = Some user"
    using assms(1) same_logins_account [OF assms(2)] by (simp add: session_user_def Let_def split: if_splits)
  with same_logins_check [OF assms(2)] assms(3) show ?thesis
    by (simp add: inner_create_session_def)
qed

definition guessed :: "account_db \<Rightarrow> string \<Rightarrow> int set \<Rightarrow> nat \<Rightarrow> account_db \<Rightarrow> bool" where
  "guessed db0 did secs_seen k db \<longleftrightarrow> same_logins db0 db \<and>
     (k < 5 \<and> lockout_view did db = Some (int k, None) \<or>
      k = 5 \<and> (\<exists>t \<in> secs_seen. lockout_view did db = Some (5, Some (t + 900))))"

lemma guess_step:
  assumes "session_user ext identifier db0 = Some user"
    and "check_session_password ext (aa_did user) password db0 = Inr None"
    and "guessed db0 (aa_did user) secs_seen k db" and "now_secs now \<in> secs_seen"
    and "\<forall>t \<in> secs_seen. now_secs now < t + 900"
  shows "fst (inner_create_session ext now raw svc identifier password db) =
      Inl (if k < 5 then InvalidLogin else RateLimitExceeded)"
    "guessed db0 (aa_did user) secs_seen (min 5 (Suc k)) (snd (inner_create_session ext now raw svc identifier password db))"
proof -
  have same: "same_logins db0 db" using assms(3) by (simp add: guessed_def)
  note step = wrong_password_step [OF assms(1) same assms(2), of now raw svc]
  have wf: "wf_db db" using same by (simp add: same_logins_def)
  consider "k < 5" "lockout_view (aa_did user) db = Some (int k, None)"
    | t where "k = 5" "t \<in> secs_seen" "lockout_view (aa_did user) db = Some (5, Some (t + 900))"
    using assms(3) by (auto simp: guessed_def)
  then have "fst (inner_create_session ext now raw svc identifier password db) =
      Inl (if k < 5 then InvalidLogin else RateLimitExceeded) \<and>
    guessed db0 (aa_did user) secs_seen (min 5 (Suc k)) (snd (inner_create_session ext now raw svc identifier password db))"
  proof cases
    case 1
    then have free: "\<not> is_account_locked now (aa_did user) db" by (simp add: is_account_locked_view)
    have view: "lockout_view (aa_did user) (snd (record_failed_login_with_lockout now (aa_did user) db)) =
        Some (int (Suc k), if 4 \<le> k then Some (now_secs now + 900) else None)"
      using 1 by (simp add: lockout_view_fail)
    have "same_logins db0 (snd (record_failed_login_with_lockout now (aa_did user) db))"
      using same_logins_trans [OF same same_logins_fail [OF wf]] .
    with free view 1 assms(4) show ?thesis
      by (auto simp: step guessed_def)
  next
    case 2
    then have "is_account_locked now (aa_did user) db"
      using assms(5) by (auto simp: is_account_locked_view)
    with assms(3) 2 show ?thesis by (simp add: step)
  qed
  then show "fst (inner_create_session ext now raw svc identifier password db) =
      Inl (if k < 5 then InvalidLogin else RateLimitExceeded)"
    "guessed db0 (aa_did user) secs_seen (min 5 (Suc k)) (snd (inner_create_session ext now raw svc identifier password db))"
    by simp_all
qed

lemma guesses:
  assumes "session_user ext identifier db0 = Some user" and "guessed db0 (aa_did user) secs_seen k db" and "k \<le> 5"
    and "\<forall>s \<in> secs_seen. \<forall>t \<in> secs_seen. s < t + 900"
    and "\<forall>(now, raw, pw) \<in> set attempts. now_secs now \<in> secs_seen \<and>
      check_session_password ext (aa_did user) pw db0 = Inr None"
  shows "fst (sign_ins ext svc identifier attempts db) =
      map (\<lambda>i. Inl (if k + i < 5 then InvalidLogin else RateLimitExceeded)) [0..<length attempts] \<and>
    guessed db0 (aa_did user) secs_seen (min 5 (k + length attempts)) (snd (sign_ins ext svc identifier attempts db))"
  using assms(2,3,5)
proof (induction attempts arbitrary: k db)
  case (Cons a attempts)
  obtain now raw pw where a: "a = (now, raw, pw)" by (cases a)
  have "now_secs now \<in> secs_seen" "check_session_password ext (aa_did user) pw db0 = Inr None"
    using Cons.prems(3) by (simp_all add: a)
  note step = guess_step [OF assms(1) this(2) Cons.prems(1) this(1), of raw svc]
  let ?db = "snd (inner_create_session ext now raw svc identifier pw db)"
  have window: "\<forall>t \<in> secs_seen. now_secs now < t + 900" using assms(4) \<open>now_secs now \<in> secs_seen\<close> by blast
  have IH: "fst (sign_ins ext svc identifier attempts ?db) =
      map (\<lambda>i. Inl (if min 5 (Suc k) + i < 5 then InvalidLogin else RateLimitExceeded)) [0..<length attempts] \<and>
    guessed db0 (aa_did user) secs_seen (min 5 (min 5 (Suc k) + length attempts)) (snd (sign_ins ext svc identifier attempts ?db))"
    using Cons.prems(3) by (intro Cons.IH step(2) window) (auto simp: a)
  have *: "min 5 (min 5 (Suc k) + length attempts) = min 5 (k + length (a # attempts))" by simp
  have shift: "map (\<lambda>i. Inl (if k + i < 5 then InvalidLogin else RateLimitExceeded)) [0..<length (a # attempts)] =
      Inl (if k < 5 then InvalidLogin else RateLimitExceeded) #
      map (\<lambda>i. Inl (if min 5 (Suc k) + i < 5 then InvalidLogin else RateLimitExceeded)) [0..<length attempts]"
    using Cons.prems(2) unfolding length_Cons map_upt_Suc by (auto simp: min_def)
  have run: "sign_ins ext svc identifier (a # attempts) db =
      (fst (inner_create_session ext now raw svc identifier pw db) # fst (sign_ins ext svc identifier attempts ?db),
       snd (sign_ins ext svc identifier attempts ?db))"
    by (simp add: a case_prod_beta)
  show ?case
    using IH unfolding shift run * step(1) [OF window] fst_conv snd_conv by (simp only: simp_thms)
qed simp

text \<open>C33: passwords cannot be tried without bound over createSession. From a clean account and
  within 900 seconds, of any number of requests with wrong passwords the first five are answered
  InvalidLogin and every later one RateLimitExceeded, and then the right password is refused too.\<close>

theorem sign_in_guesses_bounded:
  assumes "wf_db db" and "session_user ext identifier db = Some user"
    and "account_of (aa_did user) db = Some c" and "ac_failed_login_count c = 0" and "ac_locked_until c = None"
    and "\<forall>(now, raw, pw) \<in> set attempts. check_session_password ext (aa_did user) pw db = Inr None"
    and "\<forall>(s, _) \<in> set attempts. \<forall>(t, _) \<in> set attempts. now_secs s < now_secs t + 900"
  shows "fst (sign_ins ext svc identifier attempts db) =
      map (\<lambda>i. Inl (if i < 5 then InvalidLogin else RateLimitExceeded)) [0..<length attempts] \<and>
    (5 \<le> length attempts \<and> (\<forall>(t, _) \<in> set attempts. now_secs now < now_secs t + 900) \<longrightarrow>
      fst (inner_create_session ext now raw svc identifier pw (snd (sign_ins ext svc identifier attempts db))) =
        Inl RateLimitExceeded)"
proof -
  let ?secs_seen = "(\<lambda>a. now_secs (fst a)) ` set attempts"
  have "same_logins db db" using assms(1) by (simp add: same_logins_def)
  then have start: "guessed db (aa_did user) ?secs_seen 0 db"
    using assms(3-5) by (simp add: guessed_def lockout_view_def)
  have run: "fst (sign_ins ext svc identifier attempts db) =
      map (\<lambda>i. Inl (if 0 + i < 5 then InvalidLogin else RateLimitExceeded)) [0..<length attempts] \<and>
    guessed db (aa_did user) ?secs_seen (min 5 (0 + length attempts)) (snd (sign_ins ext svc identifier attempts db))"
    using assms(6,7) by (intro guesses [OF assms(2) start]) force+
  let ?db = "snd (sign_ins ext svc identifier attempts db)"
  have "fst (inner_create_session ext now raw svc identifier pw ?db) = Inl RateLimitExceeded"
    if "5 \<le> length attempts" "\<forall>(t, _) \<in> set attempts. now_secs now < now_secs t + 900"
  proof -
    have "min 5 (0 + length attempts) = 5" using that(1) by simp
    with run obtain t where "t \<in> ?secs_seen" "lockout_view (aa_did user) ?db = Some (5, Some (t + 900))"
      and same: "same_logins db ?db"
      by (auto simp: guessed_def)
    with that(2) have "is_account_locked now (aa_did user) ?db" by (auto simp: is_account_locked_view)
    moreover have "session_user ext identifier ?db = Some user"
      using assms(2) same_logins_account [OF same] by (simp add: session_user_def Let_def split: if_splits)
    ultimately show ?thesis by (simp add: inner_create_session_def)
  qed
  with run show ?thesis by simp
qed

definition demo_user_db :: account_db where
  "demo_user_db = empty_db\<lparr>
     actors := [new_actor demo_ext 0 ''did:a'' ''a.x.org'' None],
     accounts := [new_account demo_ext 0 ''did:a'' ''a@x.org'' ''s|pw'' None]\<rparr>"

lemma sign_in_guesses_bounded_witness:
  "fst (sign_ins demo_ext ''svc'' ''did:a'' (replicate 6 (5000000, ''raw'', ''guess'')) demo_user_db) =
     [Inl InvalidLogin, Inl InvalidLogin, Inl InvalidLogin, Inl InvalidLogin, Inl InvalidLogin, Inl RateLimitExceeded] \<and>
   check_session_password demo_ext ''did:a'' ''pw'' demo_user_db = Inr (Some None)"
proof -
  have "ascii_lower ''did:a'' = ''did:a''" by code_simp
  then have lower: "to_lowercase demo_ext ''did:a'' = ''did:a''" by (simp add: demo_ext_def)
  have sw: "starts_with ''did:a'' ''did:''" by code_simp
  have hash: "hash_app_password demo_ext ''did:a'' q = Inr (''did:a|'' @ q)" for q
    by (simp add: hash_app_password_def hash_with_salt_def demo_ext_def)
  have p: "check_session_password demo_ext ''did:a'' q demo_user_db = Inr (if q = ''pw'' then Some None else None)" for q
  proof -
    have "verify_account_password demo_ext ''did:a'' q demo_user_db = Inr (q = ''pw'')"
      by (simp add: verify_account_password_def verify_def demo_user_db_def new_account_def demo_ext_def eq_commute)
    moreover have "verify_app_password demo_ext ''did:a'' q demo_user_db = Inr None"
      by (simp add: verify_app_password_def hash demo_user_db_def empty_db_def)
    ultimately show ?thesis by (simp add: check_session_password_def)
  qed
  obtain user where u: "session_user demo_ext ''did:a'' demo_user_db = Some user" "aa_did user = ''did:a''"
    by (simp add: session_user_def Let_def lower get_account_def sw demo_user_db_def actor_left_join_account_def any_account_def
        availability_conditions_def actor_account_from_row_def new_account_def new_actor_def empty_db_def)
  obtain c where c: "account_of ''did:a'' demo_user_db = Some c" "ac_failed_login_count c = 0" "ac_locked_until c = None"
    by (simp add: account_of_def demo_user_db_def new_account_def)
  have wf: "wf_db demo_user_db"
    by (simp add: schema_defs empty_db_def demo_user_db_def new_account_def new_actor_def)
  have six: "[0..<6] = [0, 1, 2, 3, 4, 5]" by code_simp
  show ?thesis
    using sign_in_guesses_bounded [of demo_user_db demo_ext "''did:a''" user c
        "replicate 6 (5000000, ''raw'', ''guess'')" "''svc''", OF wf u(1)] u(2) c p
    by (simp add: six)
qed

section \<open>Invite codes\<close>

lemma min_minus: "uint (min (saturating_minus a b) c) \<le> max 0 (uint a - uint b)"
proof -
  have "uint (saturating_minus a b) = max 0 (uint a - uint b)"
    by (auto simp: saturating_minus_def word_le_def uint_minus_simple_alt uint_sub_if')
  moreover have "uint (min (saturating_minus a b) c) \<le> uint (saturating_minus a b)"
    by (simp flip: word_le_def)
  ultimately show ?thesis by simp
qed

lemma epoch_codes_filter:
  "epoch_codes parse epoch cs = Inr rest \<Longrightarrow>
   rest = filter (\<lambda>c. \<exists>t. parse (cd_created_at c) = Some t \<and> word_of_int t > epoch) cs"
proof (induction cs arbitrary: rest)
  case (Cons c cs)
  then show ?case
    by (cases "parse (cd_created_at c)"; cases "epoch_codes parse epoch cs") auto
qed simp


definition demo_codes :: "code_detail list" where
  "demo_codes =
     [\<lparr>cd_code = ''c1'', cd_available = 1, cd_disabled = False, cd_for_account = ''did:a'',
       cd_created_by = ''did:a'', cd_created_at = ''t'', cd_uses = []\<rparr>,
      \<lparr>cd_code = ''c2'', cd_available = 1, cd_disabled = False, cd_for_account = ''did:a'',
       cd_created_by = ''admin'', cd_created_at = ''t'', cd_uses = []\<rparr>]"


section \<open>Service tokens\<close>

lemma map_sum_Inr: "map_sum f g r = Inr y \<longleftrightarrow> (\<exists>x. r = Inr x \<and> y = g x)"
  by (cases r) auto

lemma short_expiry:
  assumes "uint exp < 10 ^ 12" and "10 ^ 15 + 1000 \<le> now"
  shows "check_service_expiry hour minute now (Some exp) lxm = Inl ExpiredInPast"
proof -
  have "uint (exp * 1000) = uint exp * 1000"
    using assms(1) uint_ge_0 [of exp] by (simp add: uint_word_ariths)
  moreover have "sint (exp * 1000) = uint (exp * 1000)"
    using assms(1) calculation by (simp add: sint_uint signed_take_bit_int_eq_self_iff)
      (use uint_ge_0 [of exp] in linarith)
  ultimately show ?thesis
    using assms by (simp add: check_service_expiry_def whole_millis_def Let_def pos_imp_zdiv_pos_iff)
qed

text \<open>C35: which service tokens getServiceAuth gives out. An expiry in seconds, as the lexicon has it,
  is always refused as past, because it is read as microseconds after the multiplication by 1000; and
  a token that is given out is for the caller, never for a protected method and never for a privileged
  method when the caller is privileged, and its expiry is the default one, whatever was asked for.\<close>

theorem service_auth_limits:
  shows "(ao_credentials auth = Some c \<and> cr_did c = Some did \<and> uint exp < 10 ^ 12 \<and> 10 ^ 15 + 1000 \<le> now \<longrightarrow>
      inner_get_service_auth issue hour minute now aud (Some exp) lxm auth = Inl ExpiredInPast) \<and>
    (inner_get_service_auth issue hour minute now aud asked lxm auth = Inr token \<longrightarrow>
      (\<exists>c did. ao_credentials auth = Some c \<and> cr_did c = Some did \<and>
        issue \<lparr>sp_iss = did, sp_aud = aud, sp_exp = None, sp_lxm = lxm, sp_jti = None\<rparr> = Inr token \<and>
        (\<forall>m. lxm = Some m \<longrightarrow> m \<notin> set PROTECTED_METHODS \<and>
          (cr_is_privileged c = Some True \<longrightarrow> m \<notin> set PRIVILEGED_METHODS)))) \<and>
    (ao_credentials auth = Some c \<and> cr_did c = Some did \<and> cr_is_privileged c \<noteq> Some True \<and>
      issue \<lparr>sp_iss = did, sp_aud = aud, sp_exp = None, sp_lxm = Some ''chat.bsky.convo.getLog'', sp_jti = None\<rparr> = Inr token \<longrightarrow>
      inner_get_service_auth issue hour minute now aud None (Some ''chat.bsky.convo.getLog'') auth = Inr token)"
proof (intro conjI impI)
  assume "ao_credentials auth = Some c \<and> cr_did c = Some did \<and> uint exp < 10 ^ 12 \<and> 10 ^ 15 + 1000 \<le> now"
  then show "inner_get_service_auth issue hour minute now aud (Some exp) lxm auth = Inl ExpiredInPast"
    by (simp add: inner_get_service_auth_def short_expiry)
next
  assume "inner_get_service_auth issue hour minute now aud asked lxm auth = Inr token"
  then show "\<exists>c did. ao_credentials auth = Some c \<and> cr_did c = Some did \<and>
        issue \<lparr>sp_iss = did, sp_aud = aud, sp_exp = None, sp_lxm = lxm, sp_jti = None\<rparr> = Inr token \<and>
        (\<forall>m. lxm = Some m \<longrightarrow> m \<notin> set PROTECTED_METHODS \<and>
          (cr_is_privileged c = Some True \<longrightarrow> m \<notin> set PRIVILEGED_METHODS))"
    by (auto simp: inner_get_service_auth_def check_service_method_def map_sum_Inr split: option.splits sum.splits if_splits)
next
  assume "ao_credentials auth = Some c \<and> cr_did c = Some did \<and> cr_is_privileged c \<noteq> Some True \<and>
      issue \<lparr>sp_iss = did, sp_aud = aud, sp_exp = None, sp_lxm = Some ''chat.bsky.convo.getLog'', sp_jti = None\<rparr> = Inr token"
  moreover have "''chat.bsky.convo.getLog'' \<notin> set PROTECTED_METHODS" by (simp add: PROTECTED_METHODS_def)
  ultimately show "inner_get_service_auth issue hour minute now aud None (Some ''chat.bsky.convo.getLog'') auth = Inr token"
    by (simp add: inner_get_service_auth_def check_service_method_def check_service_expiry_def)
qed

definition demo_caller :: access_output where
  "demo_caller = \<lparr>ao_credentials = Some \<lparr>cr_type = ''access'', cr_did = Some ''did:a'', cr_scope = None, cr_audience = None,
     cr_token_id = None, cr_aud = None, cr_iss = None, cr_is_privileged = Some False, cr_admin_scopes = None\<rparr>, ao_artifacts = None\<rparr>"

lemma service_auth_limits_witness:
  "inner_get_service_auth (\<lambda>p. Inr (sp_iss p)) 3600000 60000 1700000000000000 ''aud'' (Some 1700000600) None demo_caller = Inl ExpiredInPast \<and>
   inner_get_service_auth (\<lambda>p. Inr (sp_iss p)) 3600000 60000 1700000000000000 ''aud'' None (Some ''chat.bsky.convo.getLog'') demo_caller =
     Inr ''did:a''"
proof -
  obtain c where "ao_credentials demo_caller = Some c" "cr_did c = Some ''did:a''" "cr_is_privileged c \<noteq> Some True"
    by (simp add: demo_caller_def)
  then show ?thesis
    using service_auth_limits [of demo_caller c "''did:a''" 1700000600 1700000000000000 "\<lambda>p. Inr (sp_iss p)" 3600000 60000
        "''aud''" None None "''did:a''"]
    by simp
qed

end
