(* ===== verification/Block_Store.thy ===== *)
theory Block_Store
  imports Actor_Db "HOL-Library.Product_Lexorder"
begin

text \<open>
  The repository storage of an actor (cacos-pds-actor-store/src/repo/sql_repo.rs): blocks and
  root in SQL, with an in-memory block map in front that reads fill and deletions evict. The
  store is a record of both; the cache is shared by every clone of the reader. A commit runs in
  one transaction: on an error the database is what it was.

  Proved: as long as the cache agrees with the table (\<open>coherent\<close>, kept by every operation when
  blocks are addressed by their content), reads through the cache are reads of the table.
\<close>

record repo_store =
  st_cache :: block_map
  st_db :: actor_db
  st_now :: string
  st_did :: string

definition repo_store_new :: "string \<Rightarrow> string option \<Rightarrow> string \<Rightarrow> actor_db \<Rightarrow> repo_store" where
  "repo_store_new did now clock db =
     \<lparr>st_cache = [], st_db = db, st_now = (case now of Some t \<Rightarrow> t | None \<Rightarrow> clock), st_did = did\<rparr>"

record cid_and_rev =
  cr_cid :: cid
  cr_rev :: string

record blocks_and_missing =
  bm_blocks :: block_map
  bm_missing :: "cid list"

section \<open>Reads\<close>

definition find_block :: "string \<Rightarrow> actor_db \<Rightarrow> repo_block_row option" where
  "find_block key db = find (\<lambda>r. rb_cid r = key) (ad_blocks db)"

definition get_bytes :: "actor_env \<Rightarrow> cid \<Rightarrow> repo_store \<Rightarrow> (pds_error + string option) \<times> repo_store" where
  "get_bytes env cid st =
     (case bm_get env (st_cache st) cid of
        Some bytes \<Rightarrow> (Inr (Some bytes), st)
      | None \<Rightarrow>
          (case find_block (cid_to_str env cid) (st_db st) of
             None \<Rightarrow> (Inr None, st)
           | Some model \<Rightarrow>
               (Inr (Some (rb_content model)),
                st\<lparr>st_cache := bm_set env (st_cache st) cid (rb_content model)\<rparr>)))"

definition has_block :: "actor_env \<Rightarrow> cid \<Rightarrow> repo_store \<Rightarrow> (pds_error + bool) \<times> repo_store" where
  "has_block env cid st =
     and_then (get_bytes env cid st) (\<lambda>result st. (Inr (result \<noteq> None), st))"

text \<open>\<open>slice::chunks\<close>.\<close>

fun chunks :: "nat \<Rightarrow> 'a list \<Rightarrow> 'a list list" where
  "chunks n xs = (if n = 0 \<or> xs = [] then [] else take n xs # chunks n (drop n xs))"

declare chunks.simps [simp del]

definition rows_in :: "string list \<Rightarrow> actor_db \<Rightarrow> repo_block_row list" where
  "rows_in batch db = filter (\<lambda>r. rb_cid r \<in> set batch) (ad_blocks db)"

text \<open>The rows of one batch go into the map and out of the set of missing CIDs.\<close>

fun take_rows ::
  "actor_env \<Rightarrow> repo_block_row list \<Rightarrow> block_map \<Rightarrow> cid list \<Rightarrow> pds_error + block_map \<times> cid list" where
  "take_rows env [] blocks missing = Inr (blocks, missing)"
| "take_rows env (model # rows) blocks missing =
     (case cid_from_str env (rb_cid model) of
        None \<Rightarrow> Inl (Internal ''get_blocks_impl: Cid::try_from failed'')
      | Some cid \<Rightarrow>
          take_rows env rows (bm_set env blocks cid (rb_content model)) (cs_delete env cid missing))"

fun take_batches ::
  "actor_env \<Rightarrow> actor_db \<Rightarrow> string list list \<Rightarrow> block_map \<Rightarrow> cid list \<Rightarrow> pds_error + block_map \<times> cid list"
  where
  "take_batches env db [] blocks missing = Inr (blocks, missing)"
| "take_batches env db (batch # batches) blocks missing =
     (case take_rows env (rows_in batch db) blocks missing of
        Inl e \<Rightarrow> Inl e
      | Inr (blocks, missing) \<Rightarrow> take_batches env db batches blocks missing)"

definition get_blocks ::
  "actor_env \<Rightarrow> cid list \<Rightarrow> repo_store \<Rightarrow> (pds_error + blocks_and_missing) \<times> repo_store" where
  "get_blocks env cids st =
     (case bm_get_many env (st_cache st) cids of
        None \<Rightarrow> (Inl (Internal ''get_blocks_impl: BlockMap::get_many failed''), st)
      | Some (cached, cached_missing) \<Rightarrow>
          if cached_missing = [] then (Inr \<lparr>bm_blocks = cached, bm_missing = []\<rparr>, st)
          else
            (case take_batches env (st_db st)
                    (chunks 500 (map (cid_to_str env) cached_missing)) [] (cs_new env cached_missing) of
               Inl e \<Rightarrow> (Inl e, st)
             | Inr (blocks, missing) \<Rightarrow>
                 (case bm_add_map env (st_cache st) blocks of
                    None \<Rightarrow> (Inl (Internal ''get_blocks_impl: BlockMap::add_map failed''), st)
                  | Some cache \<Rightarrow>
                      (case bm_add_map env blocks cached of
                         None \<Rightarrow> (Inl (Internal ''get_blocks_impl: BlockMap::add_map(cached) failed''),
                           st\<lparr>st_cache := cache\<rparr>)
                       | Some all \<Rightarrow>
                           (Inr \<lparr>bm_blocks = all, bm_missing = cs_to_list env missing\<rparr>,
                            st\<lparr>st_cache := cache\<rparr>)))))"

definition get_root_detailed :: "actor_env \<Rightarrow> repo_store \<Rightarrow> pds_error + cid_and_rev" where
  "get_root_detailed env st =
     (case ad_roots (st_db st) of
        [] \<Rightarrow> Inl (NotFound ''repo root'')
      | model # _ \<Rightarrow>
          (case cid_from_str env (rr_cid model) of
             None \<Rightarrow> Inl (Internal ''get_root_detailed: Cid::try_from failed'')
           | Some cid \<Rightarrow> Inr \<lparr>cr_cid = cid, cr_rev = rr_rev model\<rparr>))"

definition get_root :: "actor_env \<Rightarrow> repo_store \<Rightarrow> cid option" where
  "get_root env st = (case get_root_detailed env st of Inl _ \<Rightarrow> None | Inr r \<Rightarrow> Some (cr_cid r))"

definition list_existing_blocks :: "actor_env \<Rightarrow> cid list \<Rightarrow> repo_store \<Rightarrow> pds_error + cid list" where
  "list_existing_blocks env cids st =
     (if cids = [] then Inr []
      else parse_texts env (Internal ''list_existing_blocks: Cid::try_from failed'')
        (map rb_cid (concat (map (\<lambda>batch. rows_in batch (st_db st))
          (chunks 500 (map (cid_to_str env) cids))))))"

definition count_blocks :: "repo_store \<Rightarrow> nat" where
  "count_blocks st = length (ad_blocks (st_db st))"

text \<open>At most 500 blocks, by descending revision and CID, below a cursor if one is given.\<close>

definition get_block_range ::
  "actor_env \<Rightarrow> string option \<Rightarrow> cid_and_rev option \<Rightarrow> repo_store \<Rightarrow> repo_block_row list" where
  "get_block_range env after_rev after_cid st =
     take 500 (rev (sort_key (\<lambda>r. (rb_repo_rev r, rb_cid r))
       (filter (\<lambda>r. case after_rev of
            None \<Rightarrow> True
          | Some rev' \<Rightarrow>
              (case map_option (\<lambda>cr. cid_to_str env (cr_cid cr)) after_cid of
                 Some c \<Rightarrow> rb_repo_rev r < rev' \<or> rb_repo_rev r = rev' \<and> rb_cid r < c
               | None \<Rightarrow> rb_repo_rev r < rev'))
         (ad_blocks (st_db st)))))"

fun car_blocks :: "actor_env \<Rightarrow> repo_block_row list \<Rightarrow> block_map \<Rightarrow> pds_error + block_map" where
  "car_blocks env [] bm = Inr bm"
| "car_blocks env (model # rows) bm =
     (case cid_from_str env (rb_cid model) of
        None \<Rightarrow> Inl (Internal ''get_car_stream: Cid::try_from failed'')
      | Some cid \<Rightarrow> car_blocks env rows (bm_set env bm cid (rb_content model)))"

definition get_car_stream :: "actor_env \<Rightarrow> cid option \<Rightarrow> repo_store \<Rightarrow> pds_error + string" where
  "get_car_stream env root_cid st =
     (case car_blocks env (get_block_range env None None st) [] of
        Inl e \<Rightarrow> Inl e
      | Inr bm \<Rightarrow>
          (case car_file env root_cid bm of
             None \<Rightarrow> Inl (Internal ''get_car_stream: blocks_to_car_file failed'')
           | Some bytes \<Rightarrow> Inr bytes))"

fun cache_rows ::
  "actor_env \<Rightarrow> repo_block_row list \<Rightarrow> repo_store \<Rightarrow> (pds_error + unit) \<times> repo_store" where
  "cache_rows env [] st = (Inr (), st)"
| "cache_rows env (model # rows) st =
     (case cid_from_str env (rb_cid model) of
        None \<Rightarrow> (Inl (Internal ''cache_rev: Cid::try_from failed''), st)
      | Some cid \<Rightarrow> cache_rows env rows (st\<lparr>st_cache := bm_set env (st_cache st) cid (rb_content model)\<rparr>))"

definition cache_rev :: "actor_env \<Rightarrow> string \<Rightarrow> repo_store \<Rightarrow> (pds_error + unit) \<times> repo_store" where
  "cache_rev env rev' st =
     cache_rows env (take 15 (filter (\<lambda>r. rb_repo_rev r = rev') (ad_blocks (st_db st)))) st"

section \<open>Writes\<close>

definition block_row :: "string \<Rightarrow> string \<Rightarrow> string \<Rightarrow> repo_block_row" where
  "block_row key rev' content =
     \<lparr>rb_cid = key, rb_repo_rev = rev', rb_size = word_of_nat (length content), rb_content = content\<rparr>"

text \<open>\<open>INSERT ... ON CONFLICT DO NOTHING\<close>.\<close>

definition insert_block :: "string \<Rightarrow> string \<Rightarrow> string \<Rightarrow> actor_db \<Rightarrow> actor_db" where
  "insert_block key rev' content db =
     (if find_block key db \<noteq> None then db
      else db\<lparr>ad_blocks := ad_blocks db @ [block_row key rev' content]\<rparr>)"

definition put_block :: "actor_env \<Rightarrow> cid \<Rightarrow> string \<Rightarrow> string \<Rightarrow> repo_store \<Rightarrow> repo_store" where
  "put_block env cid bytes rev' st =
     st\<lparr>st_db := insert_block (cid_to_str env cid) rev' bytes (st_db st),
        st_cache := bm_set env (st_cache st) cid bytes\<rparr>"

definition insert_blocks :: "block_map \<Rightarrow> string \<Rightarrow> actor_db \<Rightarrow> actor_db" where
  "insert_blocks to_put rev' db = fold (\<lambda>(key, content). insert_block key rev' content) to_put db"

definition put_many :: "block_map \<Rightarrow> string \<Rightarrow> repo_store \<Rightarrow> repo_store" where
  "put_many to_put rev' st = st\<lparr>st_db := insert_blocks to_put rev' (st_db st)\<rparr>"

definition evict :: "string list \<Rightarrow> block_map \<Rightarrow> block_map" where
  "evict keys cache = filter (\<lambda>p. fst p \<notin> set keys) cache"

definition delete_blocks :: "string list \<Rightarrow> actor_db \<Rightarrow> actor_db" where
  "delete_blocks keys db =
     fold (\<lambda>batch db. db\<lparr>ad_blocks := delete_where (\<lambda>r. rb_cid r \<in> set batch) (ad_blocks db)\<rparr>)
       (chunks 500 keys) db"

definition delete_many :: "actor_env \<Rightarrow> cid list \<Rightarrow> repo_store \<Rightarrow> repo_store" where
  "delete_many env cids st =
     (if cids = [] then st
      else st\<lparr>st_db := delete_blocks (map (cid_to_str env) cids) (st_db st),
              st_cache := evict (map (cid_to_str env) cids) (st_cache st)\<rparr>)"

definition root_row :: "string \<Rightarrow> string \<Rightarrow> string \<Rightarrow> string \<Rightarrow> repo_root_row" where
  "root_row did cid rev' now = \<lparr>rr_did = did, rr_cid = cid, rr_rev = rev', rr_indexed_at = now\<rparr>"

text \<open>
  Creation inserts the root, which fails on an existing one; otherwise the row of the DID is
  updated, and sea-orm fails when there is none. The time stamp is the reader's, reformatted.
\<close>

definition write_root ::
  "bool \<Rightarrow> string \<Rightarrow> string \<Rightarrow> string \<Rightarrow> string \<Rightarrow> actor_db \<Rightarrow> (pds_error + unit) \<times> actor_db" where
  "write_root is_create did cid rev' now db =
     (if is_create then
        if has_row (\<lambda>r. rr_did r = did) (ad_roots db)
        then (Inl (Internal ''root insert (create) failed''), db)
        else (Inr (), db\<lparr>ad_roots := ad_roots db @ [root_row did cid rev' now]\<rparr>)
      else if has_row (\<lambda>r. rr_did r = did) (ad_roots db)
      then (Inr (), db\<lparr>ad_roots := update_where (\<lambda>r. rr_did r = did)
              (\<lambda>_. root_row did cid rev' now) (ad_roots db)\<rparr>)
      else (Inl (Internal ''root update failed''), db))"

definition update_repo_root ::
  "actor_env \<Rightarrow> cid \<Rightarrow> string \<Rightarrow> bool option \<Rightarrow> repo_store \<Rightarrow> (pds_error + unit) \<times> repo_store" where
  "update_repo_root env cid rev' is_create st =
     (case write_root (is_create = Some True) (st_did st) (cid_to_str env cid) rev' (st_now st) (st_db st) of
        (r, db) \<Rightarrow> (r, st\<lparr>st_db := db\<rparr>))"

text \<open>The transaction: root, new blocks, removed blocks; nothing of it stays on an error.\<close>

definition apply_commit_txn ::
  "actor_env \<Rightarrow> commit_data \<Rightarrow> bool \<Rightarrow> string \<Rightarrow> string \<Rightarrow> actor_db \<Rightarrow> (pds_error + unit) \<times> actor_db" where
  "apply_commit_txn env commit is_create did now db =
     (case write_root is_create did (cid_to_str env (cd_cid commit)) (cd_rev commit) now db of
        (Inl e, _) \<Rightarrow> (Inl e, db)
      | (Inr _, db') \<Rightarrow>
          (Inr (), delete_blocks (map (cid_to_str env) (cs_to_list env (cd_removed_cids commit)))
             (insert_blocks (cd_new_blocks commit) (cd_rev commit) db')))"

definition apply_commit ::
  "actor_env \<Rightarrow> commit_data \<Rightarrow> bool option \<Rightarrow> repo_store \<Rightarrow> (pds_error + unit) \<times> repo_store" where
  "apply_commit env commit is_create st =
     (case apply_commit_txn env commit (is_create = Some True) (st_did st) (st_now st) (st_db st) of
        (Inl e, _) \<Rightarrow> (Inl e, st)
      | (Inr _, db) \<Rightarrow>
          (let keys = map (cid_to_str env) (cs_to_list env (cd_removed_cids commit));
               st = st\<lparr>st_db := db, st_cache := evict keys (st_cache st)\<rparr>
           in (Inr (), st\<lparr>st_cache := evict keys (st_cache st)\<rparr>)))"

section \<open>The table as a map\<close>

definition block_at :: "actor_db \<Rightarrow> string \<Rightarrow> string option" where
  "block_at db key = map_option rb_content (find_block key db)"

definition coherent :: "repo_store \<Rightarrow> bool" where
  "coherent st \<longleftrightarrow> map_of (st_cache st) \<subseteq>\<^sub>m block_at (st_db st)"

text \<open>Keys are unique and texts of CIDs, and every block is addressed by its content.\<close>

definition blocks_ok :: "actor_env \<Rightarrow> (string \<Rightarrow> string) \<Rightarrow> actor_db \<Rightarrow> bool" where
  "blocks_ok env content db \<longleftrightarrow>
     uniq rb_cid (ad_blocks db) \<and>
     (\<forall>r \<in> set (ad_blocks db). cid_from_str env (rb_cid r) \<noteq> None \<and> rb_content r = content (rb_cid r))"

lemma block_at_in: "uniq rb_cid (ad_blocks db) \<Longrightarrow> r \<in> set (ad_blocks db) \<Longrightarrow>
  block_at db (rb_cid r) = Some (rb_content r)"
  by (simp add: block_at_def find_block_def find_uniq [of rb_cid])

lemma block_at_Some: "block_at db key = Some b \<Longrightarrow> \<exists>r \<in> set (ad_blocks db). rb_cid r = key \<and> rb_content r = b"
  by (auto simp: block_at_def find_block_def dest: find_Some_set)

lemma block_at_content: "blocks_ok env content db \<Longrightarrow> block_at db k = Some b \<Longrightarrow> b = content k"
  by (auto simp: blocks_ok_def dest!: block_at_Some)

lemma block_at_None: "block_at db key = None \<longleftrightarrow> key \<notin> rb_cid ` set (ad_blocks db)"
  by (auto simp: block_at_def find_block_def find_None_iff)

lemma concat_chunks: "0 < n \<Longrightarrow> concat (chunks n xs) = xs"
proof (induction n xs rule: chunks.induct)
  case (1 n xs)
  then show ?case
    by (subst chunks.simps) auto
qed

lemma set_rows_in: "r \<in> set (rows_in batch db) \<longleftrightarrow> r \<in> set (ad_blocks db) \<and> rb_cid r \<in> set batch"
  by (auto simp: rows_in_def)

lemma take_rows:
  assumes "cids_ok env" and "block_maps_ok env" and "cid_sets_ok env"
    and "\<forall>r \<in> set rows. cid_from_str env (rb_cid r) \<noteq> None \<and> rb_content r = content (rb_cid r)"
  shows "\<exists>b m. take_rows env rows blocks missing = Inr (b, m) \<and>
    map_of b = (\<lambda>k. if k \<in> rb_cid ` set rows then Some (content k) else map_of blocks k) \<and>
    set (cs_to_list env m) = {c \<in> set (cs_to_list env missing). cid_to_str env c \<notin> rb_cid ` set rows}"
  using assms(4)
proof (induction rows arbitrary: blocks missing)
  case (Cons r rows)
  then obtain c where c: "cid_from_str env (rb_cid r) = Some c"
    by auto
  then have key: "cid_to_str env c = rb_cid r"
    using assms(1) by (simp add: cid_to_from)
  have inj: "cid_to_str env c' = rb_cid r \<longleftrightarrow> c' = c" for c'
    using cid_to_str_inj [OF assms(1)] key by metis
  from Cons.IH [of "bm_set env blocks c (rb_content r)" "cs_delete env c missing"] Cons.prems
  obtain b m where bm: "take_rows env rows (bm_set env blocks c (rb_content r)) (cs_delete env c missing) = Inr (b, m)"
    "map_of b = (\<lambda>k. if k \<in> rb_cid ` set rows then Some (content k)
       else map_of (bm_set env blocks c (rb_content r)) k)"
    "set (cs_to_list env m) = {c' \<in> set (cs_to_list env (cs_delete env c missing)).
       cid_to_str env c' \<notin> rb_cid ` set rows}"
    by auto
  have "map_of (bm_set env blocks c (rb_content r)) = (map_of blocks)(rb_cid r \<mapsto> content (rb_cid r))"
    using assms(2) key Cons.prems by (simp add: block_maps_ok_def)
  moreover have "set (cs_to_list env (cs_delete env c missing)) = set (cs_to_list env missing) - {c}"
    using assms(3) by (simp add: cid_sets_ok_def)
  ultimately show ?case
    using c bm by (auto simp: inj)
qed auto

lemma take_batches:
  assumes "cids_ok env" and "block_maps_ok env" and "cid_sets_ok env" and "blocks_ok env content db"
  shows "\<exists>b m. take_batches env db batches blocks missing = Inr (b, m) \<and>
    map_of b = (\<lambda>k. if k \<in> set (concat batches) \<and> block_at db k \<noteq> None then block_at db k
      else map_of blocks k) \<and>
    set (cs_to_list env m) = {c \<in> set (cs_to_list env missing).
      \<not> (cid_to_str env c \<in> set (concat batches) \<and> block_at db (cid_to_str env c) \<noteq> None)}"
proof (induction batches arbitrary: blocks missing)
  case (Cons batch batches)
  have rows: "\<forall>r \<in> set (rows_in batch db). cid_from_str env (rb_cid r) \<noteq> None \<and>
      rb_content r = content (rb_cid r)"
    using assms(4) by (auto simp: blocks_ok_def set_rows_in)
  have found: "k \<in> rb_cid ` set (rows_in batch db) \<longleftrightarrow> k \<in> set batch \<and> block_at db k \<noteq> None" for k
    by (auto simp: set_rows_in block_at_None)
  have content: "block_at db k = Some (content k)" if "block_at db k \<noteq> None" for k
    using that assms(4) by (auto simp: blocks_ok_def block_at_in dest!: block_at_Some)
  obtain b m where bm: "take_rows env (rows_in batch db) blocks missing = Inr (b, m)"
    "map_of b = (\<lambda>k. if k \<in> rb_cid ` set (rows_in batch db) then Some (content k) else map_of blocks k)"
    "set (cs_to_list env m) = {c \<in> set (cs_to_list env missing).
      cid_to_str env c \<notin> rb_cid ` set (rows_in batch db)}"
    using take_rows [OF assms(1-3) rows] by blast
  from Cons.IH [of b m] obtain b' m' where bm': "take_batches env db batches b m = Inr (b', m')"
    "map_of b' = (\<lambda>k. if k \<in> set (concat batches) \<and> block_at db k \<noteq> None then block_at db k
      else map_of b k)"
    "set (cs_to_list env m') = {c \<in> set (cs_to_list env m).
      \<not> (cid_to_str env c \<in> set (concat batches) \<and> block_at db (cid_to_str env c) \<noteq> None)}"
    by blast
  have "map_of b' = (\<lambda>k. if k \<in> set (concat (batch # batches)) \<and> block_at db k \<noteq> None
      then block_at db k else map_of blocks k)"
    unfolding bm'(2) bm(2) found using content by auto
  moreover have "set (cs_to_list env m') = {c \<in> set (cs_to_list env missing).
      \<not> (cid_to_str env c \<in> set (concat (batch # batches)) \<and> block_at db (cid_to_str env c) \<noteq> None)}"
    unfolding bm'(3) bm(3) found by auto
  ultimately show ?case
    using bm(1) bm'(1) by simp
qed simp

lemma get_blocks_eq:
  assumes env: "cids_ok env" "block_maps_ok env" "cid_sets_ok env"
    and ok: "blocks_ok env content (st_db st)" and coherent: "coherent st"
  shows "\<exists>r st'. get_blocks env cids st = (Inr r, st') \<and> st_db st' = st_db st \<and> coherent st' \<and>
    map_of (bm_blocks r) = block_at (st_db st) |` (cid_to_str env ` set cids) \<and>
    set (bm_missing r) = {c \<in> set cids. block_at (st_db st) (cid_to_str env c) = None}"
proof -
  let ?str = "cid_to_str env" and ?at = "block_at (st_db st)" and ?cache = "map_of (st_cache st)"
  define miss where "miss = filter (\<lambda>c. ?cache (?str c) = None) cids"
  obtain cached where cached: "bm_get_many env (st_cache st) cids = Some (cached, miss)"
    "map_of cached = ?cache |` (?str ` set cids)"
    using env(2) unfolding block_maps_ok_def miss_def by blast
  have sub: "?cache k = Some b \<Longrightarrow> ?at k = Some b" for k b
    using coherent by (auto simp: coherent_def map_le_def dom_def)
  show ?thesis
  proof (cases "miss = []")
    case True
    then have "?cache (?str c) \<noteq> None" if "c \<in> set cids" for c
      using that by (auto simp: miss_def filter_empty_conv)
    then have "map_of cached = ?at |` (?str ` set cids)"
      unfolding cached(2) using sub by (fastforce simp: restrict_map_def)
    moreover have "?at (?str c) \<noteq> None" if "c \<in> set cids" for c
      using that \<open>\<And>c. c \<in> set cids \<Longrightarrow> ?cache (?str c) \<noteq> None\<close> sub by fastforce
    ultimately show ?thesis
      using True cached coherent by (auto simp: get_blocks_def)
  next
    case False
    let ?batches = "chunks 500 (map ?str miss)"
    have cc: "set (concat ?batches) = ?str ` set miss"
      by (simp add: concat_chunks del: set_concat)
    obtain b m where bm: "take_batches env (st_db st) ?batches [] (cs_new env miss) = Inr (b, m)"
      "map_of b = (\<lambda>k. if k \<in> ?str ` set miss \<and> ?at k \<noteq> None then ?at k else map_of [] k)"
      "set (cs_to_list env m) = {c \<in> set (cs_to_list env (cs_new env miss)).
         \<not> (?str c \<in> ?str ` set miss \<and> ?at (?str c) \<noteq> None)}"
      using take_batches [OF env ok, of ?batches "[]" "cs_new env miss"] unfolding cc by blast
    obtain cache' where cache': "bm_add_map env (st_cache st) b = Some cache'"
      "map_of cache' = ?cache ++ map_of b"
      using env(2) by (metis block_maps_ok_def)
    obtain all where all: "bm_add_map env b cached = Some all" "map_of all = map_of b ++ map_of cached"
      using env(2) by (metis block_maps_ok_def)
    have "coherent (st\<lparr>st_cache := cache'\<rparr>)"
      using sub by (auto simp: coherent_def cache'(2) bm(2) map_le_def map_add_def
          split: option.splits if_splits)
    moreover have "map_of all = ?at |` (?str ` set cids)"
    proof
      fix k
      show "map_of all k = (?at |` (?str ` set cids)) k"
        unfolding all(2) bm(2) cached(2) map_add_def restrict_map_def
        using sub by (auto simp: miss_def split: option.split)
    qed
    moreover have "set (cs_to_list env m) = {c \<in> set cids. ?at (?str c) = None}"
    proof -
      have "set (cs_to_list env (cs_new env miss)) = set miss"
        using env(3) by (simp add: cid_sets_ok_def)
      moreover have "?at (?str c) = None \<Longrightarrow> ?cache (?str c) = None" for c
        using sub by (metis option.exhaust)
      ultimately show ?thesis
        unfolding bm(3) by (auto simp: miss_def)
    qed
    ultimately show ?thesis
      using False cached(1) bm(1) cache'(1) all(1) by (simp add: get_blocks_def)
  qed
qed

section \<open>Every operation keeps the cache in step\<close>

lemma find_block_snoc:
  "find_block k (db\<lparr>ad_blocks := ad_blocks db @ [r]\<rparr>) =
     (case find_block k db of None \<Rightarrow> if rb_cid r = k then Some r else None | Some r' \<Rightarrow> Some r')"
  by (simp add: find_block_def find_append split: option.split)

lemma block_at_insert:
  "block_at (insert_block key rev' b db) =
     (if block_at db key \<noteq> None then block_at db else (block_at db)(key \<mapsto> b))"
  by (auto simp: insert_block_def block_at_def find_block_snoc block_row_def fun_eq_iff split: option.split)

lemma blocks_ok_insert:
  assumes "blocks_ok env content db" and "cid_from_str env key \<noteq> None" and "b = content key"
  shows "blocks_ok env content (insert_block key rev' b db)"
  using assms by (auto simp: insert_block_def blocks_ok_def block_row_def uniq_snoc find_block_def find_None_iff)

definition addressed :: "actor_env \<Rightarrow> (string \<Rightarrow> string) \<Rightarrow> block_map \<Rightarrow> bool" where
  "addressed env content bm \<longleftrightarrow> (\<forall>(k, b) \<in> set bm. cid_from_str env k \<noteq> None \<and> b = content k)"

lemma insert_blocks_ok:
  "blocks_ok env content db \<Longrightarrow> addressed env content bm \<Longrightarrow>
   blocks_ok env content (insert_blocks bm rev' db) \<and> block_at db \<subseteq>\<^sub>m block_at (insert_blocks bm rev' db)"
proof (induction bm arbitrary: db)
  case (Cons p bm)
  obtain k b where p: "p = (k, b)" by (cases p)
  let ?db = "insert_block k rev' b db"
  have "blocks_ok env content ?db"
    using Cons.prems by (intro blocks_ok_insert) (auto simp: addressed_def p)
  with Cons have "blocks_ok env content (insert_blocks bm rev' ?db)"
    "block_at ?db \<subseteq>\<^sub>m block_at (insert_blocks bm rev' ?db)"
    by (auto simp: addressed_def)
  moreover have "block_at db \<subseteq>\<^sub>m block_at ?db"
    by (auto simp: block_at_insert map_le_def)
  ultimately show ?case
    using map_le_trans by (fastforce simp: insert_blocks_def p)
qed (simp add: insert_blocks_def)

lemma ad_blocks_delete:
  "ad_blocks (delete_blocks keys db) = delete_where (\<lambda>r. rb_cid r \<in> set keys) (ad_blocks db)"
proof -
  have "ad_blocks (fold (\<lambda>batch db. db\<lparr>ad_blocks := delete_where (\<lambda>r. rb_cid r \<in> set batch) (ad_blocks db)\<rparr>)
      batches db) = delete_where (\<lambda>r. rb_cid r \<in> set (concat batches)) (ad_blocks db)" for batches
    by (induction batches arbitrary: db) (auto simp: delete_where_def intro: filter_cong)
  from this [of "chunks 500 keys"] show ?thesis
    by (simp add: delete_blocks_def concat_chunks del: set_concat)
qed

lemma find_block_delete:
  "find_block k (delete_blocks keys db) = (if k \<in> set keys then None else find_block k db)"
  by (auto simp: find_block_def ad_blocks_delete find_delete_where find_delete_other)

lemma block_at_delete: "block_at (delete_blocks keys db) = block_at db |` (- set keys)"
  by (auto simp: block_at_def find_block_delete restrict_map_def)

lemma blocks_ok_delete: "blocks_ok env content db \<Longrightarrow> blocks_ok env content (delete_blocks keys db)"
  by (auto simp: blocks_ok_def ad_blocks_delete uniq_delete)

lemma map_of_evict: "map_of (evict keys cache) = map_of cache |` (- set keys)"
  unfolding evict_def by (induction cache) (auto simp: restrict_map_def fun_eq_iff)

lemma coherent_grow:
  "coherent st \<Longrightarrow> block_at (st_db st) \<subseteq>\<^sub>m block_at db \<Longrightarrow> coherent (st\<lparr>st_db := db\<rparr>)"
  unfolding coherent_def by (auto intro: map_le_trans)

lemma write_root_blocks [simp]: "ad_blocks (snd (write_root cr did cid rev' now db)) = ad_blocks db"
  by (simp add: write_root_def)

lemma blocks_cong: "ad_blocks db = ad_blocks db' \<Longrightarrow> block_at db = block_at db'"
  "ad_blocks db = ad_blocks db' \<Longrightarrow> blocks_ok env content db = blocks_ok env content db'"
  by (auto simp: block_at_def find_block_def blocks_ok_def)

text \<open>The operations of the store, as one type, with what content addressing asks of each.\<close>

datatype store_op =
    GetBytes cid | GetBlocks "cid list" | CacheRev string
  | PutBlock cid string string | PutMany block_map string | DeleteMany "cid list"
  | UpdateRoot cid string "bool option" | ApplyCommit commit_data "bool option"

fun run_op :: "actor_env \<Rightarrow> store_op \<Rightarrow> repo_store \<Rightarrow> repo_store" where
  "run_op env (GetBytes c) st = snd (get_bytes env c st)"
| "run_op env (GetBlocks cs) st = snd (get_blocks env cs st)"
| "run_op env (CacheRev r) st = snd (cache_rev env r st)"
| "run_op env (PutBlock c b r) st = put_block env c b r st"
| "run_op env (PutMany bm r) st = put_many bm r st"
| "run_op env (DeleteMany cs) st = delete_many env cs st"
| "run_op env (UpdateRoot c r i) st = snd (update_repo_root env c r i st)"
| "run_op env (ApplyCommit cd i) st = snd (apply_commit env cd i st)"

fun op_addressed :: "actor_env \<Rightarrow> (string \<Rightarrow> string) \<Rightarrow> store_op \<Rightarrow> bool" where
  "op_addressed env content (PutBlock c b r) = (b = content (cid_to_str env c))"
| "op_addressed env content (PutMany bm r) = addressed env content bm"
| "op_addressed env content (ApplyCommit cd i) = addressed env content (cd_new_blocks cd)"
| "op_addressed env content _ = True"

definition store_ok :: "actor_env \<Rightarrow> (string \<Rightarrow> string) \<Rightarrow> repo_store \<Rightarrow> bool" where
  "store_ok env content st \<longleftrightarrow> blocks_ok env content (st_db st) \<and> coherent st"

lemma coherent_set:
  assumes "block_maps_ok env" and "coherent st" and "block_at (st_db st) (cid_to_str env c) = Some b"
  shows "coherent (st\<lparr>st_cache := bm_set env (st_cache st) c b\<rparr>)"
proof -
  have "map_of (bm_set env (st_cache st) c b) = (map_of (st_cache st))(cid_to_str env c \<mapsto> b)"
    using assms(1) by (simp add: block_maps_ok_def)
  with assms(2,3) show ?thesis
    by (auto simp: coherent_def map_le_def)
qed

lemma cache_rows_ok:
  assumes "cids_ok env" and "block_maps_ok env" and "blocks_ok env content (st_db st)"
    and "coherent st" and "set rows \<subseteq> set (ad_blocks (st_db st))"
  shows "store_ok env content (snd (cache_rows env rows st))"
  using assms(3-5)
proof (induction rows arbitrary: st)
  case (Cons model rows)
  show ?case
  proof (cases "cid_from_str env (rb_cid model)")
    case None
    with Cons.prems show ?thesis by (simp add: store_ok_def)
  next
    case (Some c)
    have "block_at (st_db st) (rb_cid model) = Some (rb_content model)"
      using Cons.prems by (intro block_at_in) (auto simp: blocks_ok_def)
    then have "coherent (st\<lparr>st_cache := bm_set env (st_cache st) c (rb_content model)\<rparr>)"
      using Cons.prems assms(2) cid_to_from [OF assms(1) Some] by (intro coherent_set) auto
    with Cons Some show ?thesis by simp
  qed
qed (simp add: store_ok_def)

lemma get_bytes_ok:
  assumes "block_maps_ok env" and "store_ok env content st"
  shows "store_ok env content (snd (get_bytes env c st))"
    and "fst (get_bytes env c st) = Inr (block_at (st_db st) (cid_to_str env c))"
proof -
  have get: "bm_get env (st_cache st) c = map_of (st_cache st) (cid_to_str env c)"
    using assms(1) by (simp add: block_maps_ok_def)
  have sub: "map_of (st_cache st) k = Some b \<Longrightarrow> block_at (st_db st) k = Some b" for k b
    using assms(2) by (auto simp: store_ok_def coherent_def map_le_def dom_def)
  show "fst (get_bytes env c st) = Inr (block_at (st_db st) (cid_to_str env c))"
  proof (cases "map_of (st_cache st) (cid_to_str env c)")
    case None
    then show ?thesis by (simp add: get_bytes_def get block_at_def split: option.split)
  next
    case (Some b)
    with sub show ?thesis by (simp add: get_bytes_def get)
  qed
  show "store_ok env content (snd (get_bytes env c st))"
    using assms(2) coherent_set [OF assms(1)]
    by (auto simp: get_bytes_def store_ok_def block_at_def split: option.split)
qed

lemma coherent_delete:
  assumes "coherent st"
  shows "coherent (st\<lparr>st_db := delete_blocks keys (st_db st), st_cache := evict keys (st_cache st)\<rparr>)"
  using assms by (auto simp: coherent_def map_le_def block_at_delete map_of_evict restrict_map_def
      split: if_splits)

lemma apply_commit_ok:
  assumes ok: "store_ok env content st" and new: "addressed env content (cd_new_blocks cd)"
  shows "store_ok env content (snd (apply_commit env cd i st))"
proof -
  let ?w = "write_root (i = Some True) (st_did st) (cid_to_str env (cd_cid cd)) (cd_rev cd) (st_now st) (st_db st)"
  let ?keys = "map (cid_to_str env) (cs_to_list env (cd_removed_cids cd))"
  obtain res db where w: "?w = (res, db)" by (cases ?w)
  have blocks: "ad_blocks db = ad_blocks (st_db st)"
    using write_root_blocks w by (metis snd_conv)
  note same = blocks_cong [OF blocks]
  let ?db = "insert_blocks (cd_new_blocks cd) (cd_rev cd) db"
  have "blocks_ok env content ?db" "block_at (st_db st) \<subseteq>\<^sub>m block_at ?db"
    using insert_blocks_ok [of env content db] ok new by (auto simp: store_ok_def same)
  then have "store_ok env content (st\<lparr>st_db := ?db\<rparr>)"
    using ok coherent_grow by (auto simp: store_ok_def)
  then have "store_ok env content (st\<lparr>st_db := delete_blocks ?keys ?db, st_cache := evict ?keys (st_cache st)\<rparr>)"
    using coherent_delete [of "st\<lparr>st_db := ?db\<rparr>" ?keys] by (simp add: store_ok_def blocks_ok_delete)
  moreover have "evict ?keys (evict ?keys m) = evict ?keys m" for m
    by (simp add: evict_def)
  ultimately show ?thesis
    using ok w by (cases res) (simp_all add: apply_commit_def apply_commit_txn_def Let_def split: unit.split)
qed

lemma run_op_ok:
  assumes env: "cids_ok env" "block_maps_ok env" "cid_sets_ok env"
    and ok: "store_ok env content st" and op': "op_addressed env content op'"
  shows "store_ok env content (run_op env op' st)"
proof (cases op')
  case (GetBytes c)
  with get_bytes_ok [OF env(2) ok] show ?thesis by simp
next
  case (GetBlocks cs)
  obtain r st' where "get_blocks env cs st = (Inr r, st')" "st_db st' = st_db st" "coherent st'"
    using get_blocks_eq [OF env, of content st cs] ok unfolding store_ok_def by blast
  with ok GetBlocks show ?thesis by (simp add: store_ok_def)
next
  case (CacheRev r)
  let ?rows = "take 15 (filter (\<lambda>x. rb_repo_rev x = r) (ad_blocks (st_db st)))"
  have "set ?rows \<subseteq> set (ad_blocks (st_db st))"
    using set_take_subset by fastforce
  with ok have "store_ok env content (snd (cache_rows env ?rows st))"
    by (intro cache_rows_ok [OF env(1,2)]) (simp_all add: store_ok_def)
  with CacheRev show ?thesis
    by (simp add: cache_rev_def)
next
  case (PutBlock c b r)
  let ?db = "insert_block (cid_to_str env c) r b (st_db st)"
  have ok': "blocks_ok env content ?db"
    using ok op' PutBlock env(1) by (intro blocks_ok_insert) (auto simp: store_ok_def cid_from_to)
  have "block_at (st_db st) \<subseteq>\<^sub>m block_at ?db"
    by (auto simp: block_at_insert map_le_def)
  then have "coherent (st\<lparr>st_db := ?db\<rparr>)"
    using ok by (intro coherent_grow) (simp_all add: store_ok_def)
  moreover have "block_at ?db (cid_to_str env c) = Some b"
  proof (cases "block_at (st_db st) (cid_to_str env c)")
    case (Some x)
    then have "x = content (cid_to_str env c)"
      using ok by (auto simp: store_ok_def intro: block_at_content)
    with ok op' PutBlock Some show ?thesis
      by (simp add: block_at_insert)
  qed (simp add: block_at_insert)
  ultimately show ?thesis
    using coherent_set [OF env(2), of "st\<lparr>st_db := ?db\<rparr>" c b] ok' PutBlock
    by (simp add: put_block_def store_ok_def)
next
  case (PutMany bm r)
  then show ?thesis
    using insert_blocks_ok [of env content "st_db st" bm r] ok op' coherent_grow
    by (auto simp: put_many_def store_ok_def)
next
  case (DeleteMany cs)
  then show ?thesis
    using ok coherent_delete [of st] by (simp add: delete_many_def store_ok_def blocks_ok_delete)
next
  case (UpdateRoot c r i)
  obtain res db where w: "write_root (i = Some True) (st_did st) (cid_to_str env c) r (st_now st) (st_db st) = (res, db)"
    by fastforce
  then have "ad_blocks db = ad_blocks (st_db st)"
    using write_root_blocks by (metis snd_conv)
  with ok UpdateRoot w show ?thesis
    by (simp add: update_repo_root_def store_ok_def coherent_def blocks_cong [of db "st_db st"])
next
  case (ApplyCommit cd i)
  with apply_commit_ok [OF ok] op' show ?thesis by simp
qed


definition demo_block :: repo_block_row where
  "demo_block = \<lparr>rb_cid = ''a'', rb_repo_rev = ''rev1'', rb_size = 1, rb_content = ''a''\<rparr>"

definition demo_actor_db :: actor_db where
  "demo_actor_db = empty_actor_db\<lparr>ad_blocks := [demo_block]\<rparr>"


end
