(* ===== verification/Record_Index.thy ===== *)
theory Record_Index
  imports Actor_Db
begin

text \<open>
  The index of an actor's records and the links between them
  (cacos-pds-actor-store/src/record/mod.rs). A \<open>BTreeMap\<close> inside a record is its list of
  entries in key order. The tables are those of theory Actor_Db.

  Proved: indexing, deletion and takedown as updates of one map from URIs to rows, and which links
  are found in a record.
\<close>

section \<open>Links in a record\<close>

definition is_link :: "string \<Rightarrow> bool" where
  "is_link s \<longleftrightarrow> starts_with s ''at://'' \<or> starts_with s ''did:''"

definition make_path :: "string \<Rightarrow> string option \<Rightarrow> string" where
  "make_path slot collection = (case collection of Some c \<Rightarrow> c @ ''/'' @ slot | None \<Rightarrow> slot)"

definition ipld_uri :: "(string \<times> ipld) list \<Rightarrow> string option" where
  "ipld_uri m = (case map_of m ''uri'' of
     Some (IpldString s) \<Rightarrow> if is_link s then Some s else None | _ \<Rightarrow> None)"

fun walk_ipld :: "ipld \<Rightarrow> string \<Rightarrow> string option \<Rightarrow> (string \<times> string) list"
  and walk_ipld_list :: "ipld list \<Rightarrow> string \<Rightarrow> string option \<Rightarrow> (string \<times> string) list"
  and walk_ipld_fields :: "(string \<times> ipld) list \<Rightarrow> string option \<Rightarrow> (string \<times> string) list" where
  "walk_ipld (IpldMap m) slot coll =
     (case ipld_uri m of Some s \<Rightarrow> [(s, make_path slot coll)] | None \<Rightarrow> walk_ipld_fields m coll)"
| "walk_ipld (IpldList arr) slot coll = walk_ipld_list arr slot coll"
| "walk_ipld (IpldString s) slot coll = (if is_link s then [(s, make_path slot coll)] else [])"
| "walk_ipld (IpldLink _) slot coll = []"
| "walk_ipld (IpldBytes _) slot coll = []"
| "walk_ipld (IpldJson _) slot coll = []"
| "walk_ipld_list [] slot coll = []"
| "walk_ipld_list (v # vs) slot coll = walk_ipld v slot coll @ walk_ipld_list vs slot coll"
| "walk_ipld_fields [] coll = []"
| "walk_ipld_fields ((k, v) # m) coll = walk_ipld v k coll @ walk_ipld_fields m coll"

definition lex_string :: "lex option \<Rightarrow> string option" where
  "lex_string v = (case v of Some (LexIpld (IpldString s)) \<Rightarrow> Some s | _ \<Rightarrow> None)"

definition lex_uri :: "(string \<times> lex) list \<Rightarrow> string option" where
  "lex_uri m = (case lex_string (map_of m ''uri'') of
     Some s \<Rightarrow> if is_link s then Some s else None | None \<Rightarrow> None)"

fun walk_lex :: "lex \<Rightarrow> string \<Rightarrow> string option \<Rightarrow> (string \<times> string) list"
  and walk_lex_list :: "lex list \<Rightarrow> string \<Rightarrow> string option \<Rightarrow> (string \<times> string) list"
  and walk_lex_fields :: "(string \<times> lex) list \<Rightarrow> string option \<Rightarrow> (string \<times> string) list" where
  "walk_lex (LexIpld ipld) slot coll = walk_ipld ipld slot coll"
| "walk_lex (LexMap m) slot coll =
     (case lex_uri m of Some s \<Rightarrow> [(s, make_path slot coll)] | None \<Rightarrow> walk_lex_fields m coll)"
| "walk_lex (LexList arr) slot coll = walk_lex_list arr slot coll"
| "walk_lex (LexBlob _) slot coll = []"
| "walk_lex_list [] slot coll = []"
| "walk_lex_list (v # vs) slot coll = walk_lex v slot coll @ walk_lex_list vs slot coll"
| "walk_lex_fields [] coll = []"
| "walk_lex_fields ((k, v) # m) coll = walk_lex v k coll @ walk_lex_fields m coll"

definition extract_links :: "repo_record \<Rightarrow> (string \<times> string) list" where
  "extract_links record' =
     walk_lex_fields (filter (\<lambda>(k, _). k \<noteq> ''$type'') record') (lex_string (map_of record' ''$type''))"

section \<open>Reads\<close>

record got_record =
  gr_uri :: string
  gr_cid :: string
  gr_collection :: string
  gr_rkey :: string
  gr_repo_rev :: string
  gr_indexed_at :: string
  gr_takedown_ref :: "string option"
  gr_value :: "string option"

definition got_of :: "record_row \<Rightarrow> got_record" where
  "got_of m =
     \<lparr>gr_uri = rec_uri m, gr_cid = rec_cid m, gr_collection = rec_collection m, gr_rkey = rec_rkey m,
      gr_repo_rev = rec_repo_rev m, gr_indexed_at = rec_indexed_at m,
      gr_takedown_ref = rec_takedown_ref m, gr_value = None\<rparr>"

definition record_at :: "string \<Rightarrow> actor_db \<Rightarrow> record_row option" where
  "record_at uri db = find (\<lambda>r. rec_uri r = uri) (ad_records db)"

definition record_count :: "actor_db \<Rightarrow> nat" where
  "record_count db = length (ad_records db)"

definition list_collections :: "actor_db \<Rightarrow> string list" where
  "list_collections db = sort (remdups (map rec_collection (ad_records db)))"

definition get_record :: "at_uri \<Rightarrow> actor_db \<Rightarrow> got_record option" where
  "get_record uri db = map_option got_of (record_at (au_text uri) db)"

definition has_record :: "string \<Rightarrow> string \<Rightarrow> actor_db \<Rightarrow> bool" where
  "has_record collection rkey db =
     has_row (\<lambda>r. rec_collection r = collection \<and> rec_rkey r = rkey) (ad_records db)"

definition get_current_record_cid ::
  "actor_env \<Rightarrow> string \<Rightarrow> string \<Rightarrow> actor_db \<Rightarrow> pds_error + cid option" where
  "get_current_record_cid env collection rkey db =
     (case find (\<lambda>r. rec_collection r = collection \<and> rec_rkey r = rkey) (ad_records db) of
        None \<Rightarrow> Inr None
      | Some m \<Rightarrow>
          (case cid_from_str env (rec_cid m) of
             None \<Rightarrow> Inl (Internal ''get_current_record_cid: Cid::try_from failed'')
           | Some c \<Rightarrow> Inr (Some c)))"

definition get_record_backlinks :: "string \<Rightarrow> string \<Rightarrow> actor_db \<Rightarrow> backlink_row list" where
  "get_record_backlinks path link_to db =
     filter (\<lambda>b. bl_link_to b = link_to \<and> bl_path b = path) (ad_backlinks db)"

text \<open>The URIs that do not parse are dropped.\<close>

definition get_backlink_conflicts :: "actor_env \<Rightarrow> repo_record \<Rightarrow> actor_db \<Rightarrow> at_uri list" where
  "get_backlink_conflicts env record' db =
     (let links = extract_links record'
      in if links = [] then []
         else List.map_filter (at_uri_of env)
           (remdups (map bl_uri (filter (\<lambda>b. bl_link_to b \<in> fst ` set links \<and> bl_path b \<in> snd ` set links)
              (ad_backlinks db)))))"

definition get_backlinks :: "repo_record \<Rightarrow> actor_db \<Rightarrow> backlink_row list" where
  "get_backlinks record' db =
     (let links = extract_links record'
      in if links = [] then []
         else filter (\<lambda>b. bl_link_to b \<in> fst ` set links) (ad_backlinks db))"

definition get_record_takedown_status :: "at_uri \<Rightarrow> actor_db \<Rightarrow> string option" where
  "get_record_takedown_status uri db =
     (case record_at (au_text uri) db of None \<Rightarrow> None | Some m \<Rightarrow> rec_takedown_ref m)"

definition list_records_for_collection ::
  "string \<Rightarrow> nat option \<Rightarrow> bool option \<Rightarrow> actor_db \<Rightarrow> got_record list" where
  "list_records_for_collection collection limit reverse db =
     (let rows = sort_key rec_rkey (filter (\<lambda>r. rec_collection r = collection) (ad_records db));
          rows = (if reverse = Some True then rev rows else rows);
          rows = (case limit of Some n \<Rightarrow> take n rows | None \<Rightarrow> rows)
      in map got_of rows)"

section \<open>Writes\<close>

definition new_record :: "at_uri \<Rightarrow> string \<Rightarrow> string \<Rightarrow> string \<Rightarrow> record_row" where
  "new_record uri cid repo_rev now =
     \<lparr>rec_uri = au_text uri, rec_cid = cid, rec_collection = au_collection uri, rec_rkey = au_rkey uri,
      rec_repo_rev = repo_rev, rec_indexed_at = now, rec_takedown_ref = None\<rparr>"

text \<open>An upsert on the URI; on a conflict collection, key and takedown stay.\<close>

definition index_record ::
  "actor_env \<Rightarrow> at_uri \<Rightarrow> cid \<Rightarrow> string \<Rightarrow> string \<Rightarrow> actor_db \<Rightarrow> actor_db" where
  "index_record env uri cid repo_rev now db =
     (if has_row (\<lambda>r. rec_uri r = au_text uri) (ad_records db)
      then db\<lparr>ad_records := update_where (\<lambda>r. rec_uri r = au_text uri)
             (\<lambda>r. r\<lparr>rec_cid := cid_to_str env cid, rec_repo_rev := repo_rev, rec_indexed_at := now\<rparr>)
             (ad_records db)\<rparr>
      else db\<lparr>ad_records := ad_records db @ [new_record uri (cid_to_str env cid) repo_rev now]\<rparr>)"

definition delete_record :: "at_uri \<Rightarrow> actor_db \<Rightarrow> actor_db" where
  "delete_record uri db =
     db\<lparr>ad_records := delete_where (\<lambda>r. rec_uri r = au_text uri) (ad_records db)\<rparr>"

text \<open>sea-orm's \<open>update\<close> of a row that is not there is an error.\<close>

definition update_record_takedown_status ::
  "at_uri \<Rightarrow> string option \<Rightarrow> actor_db \<Rightarrow> (pds_error + unit) \<times> actor_db" where
  "update_record_takedown_status uri takedown_ref db =
     (if has_row (\<lambda>r. rec_uri r = au_text uri) (ad_records db)
      then (Inr (), db\<lparr>ad_records := update_where (\<lambda>r. rec_uri r = au_text uri)
              (\<lambda>r. r\<lparr>rec_takedown_ref := takedown_ref\<rparr>) (ad_records db)\<rparr>)
      else (Inl (Internal ''update_record_takedown_status: update failed''), db))"

definition remove_backlinks_by_uri :: "at_uri \<Rightarrow> actor_db \<Rightarrow> actor_db" where
  "remove_backlinks_by_uri uri db =
     db\<lparr>ad_backlinks := delete_where (\<lambda>b. bl_uri b = au_text uri) (ad_backlinks db)\<rparr>"

definition insert_backlink :: "backlink_row \<Rightarrow> backlink_row list \<Rightarrow> backlink_row list" where
  "insert_backlink b t =
     (if has_row (\<lambda>r. bl_uri r = bl_uri b \<and> bl_path r = bl_path b) t then t else t @ [b])"

text \<open>The row links to the record's own URI: nothing of the link but its path is stored.\<close>

definition add_backlinks :: "at_uri \<Rightarrow> string list \<Rightarrow> actor_db \<Rightarrow> actor_db" where
  "add_backlinks uri links db =
     (if links = [] then db
      else db\<lparr>ad_backlinks := fold (\<lambda>path. insert_backlink
             \<lparr>bl_uri = au_text uri, bl_path = path, bl_link_to = au_text uri\<rparr>) links (ad_backlinks db)\<rparr>)"

section \<open>The index as a map\<close>

lemma record_at_index:
  "record_at u (index_record env uri cid repo_rev now db) =
     (if u = au_text uri then
        Some (case record_at u db of
            None \<Rightarrow> new_record uri (cid_to_str env cid) repo_rev now
          | Some r \<Rightarrow> r\<lparr>rec_cid := cid_to_str env cid, rec_repo_rev := repo_rev, rec_indexed_at := now\<rparr>)
      else record_at u db)"
  by (auto simp: record_at_def index_record_def has_key_iff find_key_update find_append new_record_def
      split: option.split)

lemma record_at_delete:
  "record_at u (delete_record uri db) = (if u = au_text uri then None else record_at u db)"
  by (auto simp: record_at_def delete_record_def find_delete_where find_delete_other)

lemma wf_index: "wf_actor_db db \<Longrightarrow> wf_actor_db (index_record env uri cid repo_rev now db)"
  by (auto simp: wf_actor_db_def index_record_def uniq_update uniq_snoc has_row_iff new_record_def)

lemma wf_delete_record: "wf_actor_db db \<Longrightarrow> wf_actor_db (delete_record uri db)"
  by (simp add: wf_actor_db_def delete_record_def uniq_delete)

lemma record_at_takedown:
  "record_at u (snd (update_record_takedown_status uri ref db)) =
     (if u = au_text uri then map_option (rec_takedown_ref_update (\<lambda>_. ref)) (record_at u db)
      else record_at u db)"
  by (auto simp: record_at_def update_record_takedown_status_def has_key_iff find_key_update)

lemma takedown_ok_iff:
  "is_ok (fst (update_record_takedown_status uri ref db)) \<longleftrightarrow> record_at (au_text uri) db \<noteq> None"
  by (simp add: update_record_takedown_status_def record_at_def not_has_row_find [symmetric])

section \<open>What is found in a record\<close>

text \<open>Only texts that are links are found, each under a path of the record's type.\<close>

definition linked :: "string option \<Rightarrow> (string \<times> string) list \<Rightarrow> bool" where
  "linked coll links \<longleftrightarrow> (\<forall>(s, p) \<in> set links. is_link s \<and> (\<exists>slot. p = make_path slot coll))"

lemma linked_simps [simp]:
  "linked coll []" "linked coll (a @ b) \<longleftrightarrow> linked coll a \<and> linked coll b"
  "linked coll [(s, make_path slot coll)] \<longleftrightarrow> is_link s"
  unfolding linked_def by (simp, simp only: set_append ball_Un, auto)

lemma ipld_uri_link: "ipld_uri m = Some s \<Longrightarrow> is_link s"
  by (auto simp: ipld_uri_def split: option.splits ipld.splits if_splits)

lemma lex_uri_link: "lex_uri m = Some s \<Longrightarrow> is_link s"
  by (auto simp: lex_uri_def split: option.splits if_splits)

lemma walk_ipld_linked:
  "linked coll (walk_ipld v slot coll)" "linked coll (walk_ipld_list vs slot coll)"
  "linked coll (walk_ipld_fields m coll)"
  by (induction v slot coll and vs slot coll and m coll rule: walk_ipld_walk_ipld_list_walk_ipld_fields.induct)
    (simp_all add: ipld_uri_link split: option.split)

lemma walk_lex_linked:
  "linked coll (walk_lex v slot coll)" "linked coll (walk_lex_list vs slot coll)"
  "linked coll (walk_lex_fields m coll)"
  by (induction v slot coll and vs slot coll and m coll rule: walk_lex_walk_lex_list_walk_lex_fields.induct)
    (simp_all add: lex_uri_link walk_ipld_linked split: option.split)

lemma extract_links_linked: "linked (lex_string (map_of record' ''$type'')) (extract_links record')"
  by (simp add: extract_links_def walk_lex_linked)

text \<open>
  Every stored link points to the record it is stored for, so a conflict reported for a record is
  never another record that links to the same target: it is the target itself.
\<close>

definition self_linked :: "actor_db \<Rightarrow> bool" where
  "self_linked db \<longleftrightarrow> (\<forall>b \<in> set (ad_backlinks db). bl_link_to b = bl_uri b)"

lemma insert_backlink_self:
  "\<forall>b \<in> set t. bl_link_to b = bl_uri b \<Longrightarrow>
   \<forall>b \<in> set (insert_backlink \<lparr>bl_uri = u, bl_path = p, bl_link_to = u\<rparr> t). bl_link_to b = bl_uri b"
  by (simp add: insert_backlink_def)

lemma add_backlinks_self: "self_linked db \<Longrightarrow> self_linked (add_backlinks uri links db)"
proof -
  have "\<forall>b \<in> set t. bl_link_to b = bl_uri b \<Longrightarrow>
      \<forall>b \<in> set (fold (\<lambda>path. insert_backlink
        \<lparr>bl_uri = u, bl_path = path, bl_link_to = u\<rparr>) links t). bl_link_to b = bl_uri b" for t u
  proof (induction links arbitrary: t)
    case (Cons p links)
    then show ?case
      using Cons.IH [OF insert_backlink_self [OF Cons.prems, of u p]] by simp
  qed simp
  then show "self_linked db \<Longrightarrow> ?thesis"
    by (simp add: add_backlinks_def self_linked_def)
qed

lemma conflicts_are_targets:
  assumes "self_linked db" and "at_uri \<in> set (get_backlink_conflicts env record' db)"
  shows "\<exists>s \<in> fst ` set (extract_links record'). at_uri_of env s = Some at_uri"
  using assms by (force simp: get_backlink_conflicts_def self_linked_def Let_def List.map_filter_def
      split: if_splits)

end
