(* ===== verification/Blobs.thy ===== *)
theory Blobs
  imports Blob_Store Record_Index
begin

text \<open>
  The metadata of an actor's blobs (cacos-pds-actor-store/src/blob/): upload to a temporary
  object, promotion when a record refers to it, garbage collection of what no record refers to
  any more, and takedown. The state is the database, the operator of the blob store, and the
  queue of background deletions, which may run at any later time in any order. The hash of a
  blob is the parameter \<open>sha\<close>.

  Proved: links from records point to permanent blobs, and those can be read back with the bytes
  their CID names, unless a blob is uploaded again while its deletion is still queued.
\<close>

record blob_reader =
  bs_db :: actor_db
  bs_op :: operator
  bs_tasks :: "string list list"

record blob_metadata =
  bmd_temp_key :: string
  bmd_size :: "64 word"
  bmd_cid :: cid
  bmd_mime_type :: string
  bmd_width :: "int option"
  bmd_height :: "int option"

record blob_output =
  bo_size :: "64 word"
  bo_mime_type :: "string option"

section \<open>Checks\<close>

definition accepted_mime :: "string \<Rightarrow> string list \<Rightarrow> bool" where
  "accepted_mime mime accepted \<longleftrightarrow>
     ''*/*'' \<in> set accepted \<or>
     list_ex (\<lambda>a. ends_with a ''/*'' \<and> starts_with mime (take (length a - 2) a @ ''/'')) accepted \<or>
     mime \<in> set accepted"

definition verify_blob :: "prepared_blob_ref \<Rightarrow> blob_row \<Rightarrow> blob_error + unit" where
  "verify_blob blob found =
     (if (case bc_max_size (pb_constraints blob) of Some max_size \<Rightarrow> max_size < br_size found | None \<Rightarrow> False)
      then Inl (BlobTooLarge (br_size found) (the (bc_max_size (pb_constraints blob))))
      else if pb_mime_type blob \<noteq> br_mime_type found
      then Inl (InvalidMimeType (br_mime_type found) (pb_mime_type blob))
      else if (case bc_accept (pb_constraints blob) of
                 Some accept \<Rightarrow> \<not> accepted_mime (pb_mime_type blob) accept | None \<Rightarrow> False)
      then Inl (WrongFileType (pb_mime_type blob) (the (bc_accept (pb_constraints blob))))
      else Inr ())"

section \<open>Reads\<close>

definition blob_at :: "string \<Rightarrow> actor_db \<Rightarrow> blob_row option" where
  "blob_at key db = find (\<lambda>r. br_cid r = key) (ad_blobs db)"

definition live_blob :: "actor_env \<Rightarrow> cid \<Rightarrow> actor_db \<Rightarrow> blob_row option" where
  "live_blob env cid db =
     find (\<lambda>r. br_cid r = cid_to_str env cid \<and> br_takedown_ref r = None) (ad_blobs db)"

definition get_blob_metadata :: "actor_env \<Rightarrow> cid \<Rightarrow> actor_db \<Rightarrow> blob_error + blob_output" where
  "get_blob_metadata env cid db =
     (case live_blob env cid db of
        None \<Rightarrow> Inl BlobRowNotFound
      | Some found \<Rightarrow> Inr \<lparr>bo_size = br_size found, bo_mime_type = Some (br_mime_type found)\<rparr>)"

definition get_blob ::
  "actor_env \<Rightarrow> string \<Rightarrow> cid \<Rightarrow> blob_reader \<Rightarrow> blob_error + blob_output \<times> string" where
  "get_blob env did cid st =
     (case get_blob_metadata env cid (bs_db st) of
        Inl e \<Rightarrow> Inl e
      | Inr metadata \<Rightarrow>
          (case get_blob_bytes did (cid_to_str env cid) (bs_op st) of
             Inl e \<Rightarrow> Inl e
           | Inr bytes \<Rightarrow> Inr (metadata, bytes)))"

definition get_records_for_blob :: "actor_env \<Rightarrow> cid \<Rightarrow> actor_db \<Rightarrow> string list" where
  "get_records_for_blob env cid db =
     map rbl_record_uri (filter (\<lambda>r. rbl_blob_cid r = cid_to_str env cid) (ad_record_blobs db))"

definition blob_count :: "actor_db \<Rightarrow> nat" where
  "blob_count db = length (ad_blobs db)"

definition record_blob_count :: "actor_db \<Rightarrow> nat" where
  "record_blob_count db = length (remdups (map rbl_blob_cid (ad_record_blobs db)))"

definition get_blob_cids :: "actor_env \<Rightarrow> actor_db \<Rightarrow> blob_error + cid list" where
  "get_blob_cids env db = parse_texts env BadCid (map br_cid (ad_blobs db))"

text \<open>\<open>GROUP BY\<close> leaves the record of a group open: it is the first here.\<close>

definition list_missing_blobs ::
  "string option \<Rightarrow> nat \<Rightarrow> actor_db \<Rightarrow> blob_error + (string \<times> string) list" where
  "list_missing_blobs cursor limit db =
     (if limit > 1000 then Inl LimitTooHigh
      else
        (let rows = filter (\<lambda>r. \<not> has_row (\<lambda>b. br_cid b = rbl_blob_cid r) (ad_blobs db) \<and>
               (case cursor of Some c \<Rightarrow> c < rbl_blob_cid r | None \<Rightarrow> True)) (ad_record_blobs db)
         in Inr (take limit (map (\<lambda>c. (c, rbl_record_uri (the (find (\<lambda>r. rbl_blob_cid r = c) rows))))
              (sort (remdups (map rbl_blob_cid rows)))))))"

definition list_blobs :: "string option \<Rightarrow> string option \<Rightarrow> nat \<Rightarrow> actor_db \<Rightarrow> string list" where
  "list_blobs since cursor limit db =
     take limit (sort (remdups (map rbl_blob_cid (filter
       (\<lambda>r. (case since of
               Some s \<Rightarrow> has_row (\<lambda>m. rec_uri m = rbl_record_uri r \<and> s < rec_repo_rev m) (ad_records db)
             | None \<Rightarrow> True) \<and>
            (case cursor of Some c \<Rightarrow> c < rbl_blob_cid r | None \<Rightarrow> True))
       (ad_record_blobs db)))))"

section \<open>Upload\<close>

definition upload_blob_and_get_metadata ::
  "(string \<Rightarrow> cid) \<Rightarrow> string \<Rightarrow> 8 word list \<Rightarrow> string \<Rightarrow> string \<Rightarrow> blob_reader \<Rightarrow> blob_metadata \<times> blob_reader"
  where
  "upload_blob_and_get_metadata sha did rnd user_suggested_mime bytes st =
     (case put_temp did rnd bytes (bs_op st) of
        (temp_key, op') \<Rightarrow>
          (\<lparr>bmd_temp_key = temp_key, bmd_size = word_of_nat (length bytes), bmd_cid = sha bytes,
            bmd_mime_type = user_suggested_mime, bmd_width = None, bmd_height = None\<rparr>,
           st\<lparr>bs_op := op'\<rparr>))"

definition new_blob :: "actor_env \<Rightarrow> string \<Rightarrow> blob_metadata \<Rightarrow> blob_row" where
  "new_blob env now md =
     \<lparr>br_cid = cid_to_str env (bmd_cid md), br_mime_type = bmd_mime_type md, br_size = bmd_size md,
      br_temp_key = Some (bmd_temp_key md), br_width = bmd_width md, br_height = bmd_height md,
      br_created_at = now, br_takedown_ref = None\<rparr>"

text \<open>The upsert changes the temporary key of a row only while the blob is temporary.\<close>

definition upsert_blob :: "blob_row \<Rightarrow> actor_db \<Rightarrow> actor_db" where
  "upsert_blob row db =
     (if has_row (\<lambda>r. br_cid r = br_cid row) (ad_blobs db)
      then db\<lparr>ad_blobs := update_where (\<lambda>r. br_cid r = br_cid row)
             (\<lambda>r. if br_temp_key r \<noteq> None then r\<lparr>br_temp_key := br_temp_key row\<rparr> else r) (ad_blobs db)\<rparr>
      else db\<lparr>ad_blobs := ad_blobs db @ [row]\<rparr>)"

definition track_untethered_blob ::
  "actor_env \<Rightarrow> string \<Rightarrow> blob_metadata \<Rightarrow> blob_reader \<Rightarrow>
   (blob_error + cid \<times> string \<times> 64 word) \<times> blob_reader" where
  "track_untethered_blob env now md st =
     (if (case blob_at (cid_to_str env (bmd_cid md)) (bs_db st) of
            Some found \<Rightarrow> br_takedown_ref found \<noteq> None | None \<Rightarrow> False)
      then (Inl BlobTakendown, st)
      else (Inr (bmd_cid md, bmd_mime_type md, bmd_size md),
            st\<lparr>bs_db := upsert_blob (new_blob env now md) (bs_db st)\<rparr>))"

section \<open>References from records\<close>

definition clear_temp_key :: "string \<Rightarrow> actor_db \<Rightarrow> actor_db" where
  "clear_temp_key k db =
     db\<lparr>ad_blobs := update_where (\<lambda>r. br_temp_key r = Some k) (\<lambda>r. r\<lparr>br_temp_key := None\<rparr>) (ad_blobs db)\<rparr>"

definition verify_blob_and_make_permanent ::
  "actor_env \<Rightarrow> string \<Rightarrow> prepared_blob_ref \<Rightarrow> blob_reader \<Rightarrow> (blob_error + unit) \<times> blob_reader" where
  "verify_blob_and_make_permanent env did blob st =
     (case live_blob env (pb_cid blob) (bs_db st) of
        None \<Rightarrow> (Inl (CouldNotFindBlob (cid_to_str env (pb_cid blob))), st)
      | Some found \<Rightarrow>
          and_then (verify_blob blob found, st)
            (\<lambda>_ st. case br_temp_key found of
               None \<Rightarrow> (Inr (), st)
             | Some temp_key \<Rightarrow>
                 (case make_permanent did temp_key (cid_to_str env (pb_cid blob)) (bs_op st) of
                    (Inl e, op') \<Rightarrow> (Inl e, st\<lparr>bs_op := op'\<rparr>)
                  | (Inr _, op') \<Rightarrow>
                      (Inr (), st\<lparr>bs_op := op', bs_db := clear_temp_key temp_key (bs_db st)\<rparr>))))"

definition associate_blob :: "actor_env \<Rightarrow> prepared_blob_ref \<Rightarrow> string \<Rightarrow> actor_db \<Rightarrow> actor_db" where
  "associate_blob env blob record_uri db =
     (let row = \<lparr>rbl_blob_cid = cid_to_str env (pb_cid blob), rbl_record_uri = record_uri\<rparr>
      in if row \<in> set (ad_record_blobs db) then db
         else db\<lparr>ad_record_blobs := ad_record_blobs db @ [row]\<rparr>)"

fun touched_uris :: "prepared_write list \<Rightarrow> string list" where
  "touched_uris [] = []"
| "touched_uris (PwCreate w # ws) = touched_uris ws"
| "touched_uris (PwUpdate w # ws) = pc_uri w # touched_uris ws"
| "touched_uris (PwDelete w # ws) = pd_uri w # touched_uris ws"

fun write_blobs :: "prepared_write \<Rightarrow> prepared_blob_ref list" where
  "write_blobs (PwCreate w) = pc_blobs w"
| "write_blobs (PwUpdate w) = pc_blobs w"
| "write_blobs (PwDelete w) = []"

text \<open>
  Rows of touched records go first; a CID they named is collected unless another record or the
  same batch of writes names it. Its bytes are deleted later, by the background queue.
\<close>

definition delete_dereferenced_blobs ::
  "actor_env \<Rightarrow> prepared_write list \<Rightarrow> blob_reader \<Rightarrow> blob_reader" where
  "delete_dereferenced_blobs env writes st =
     (let uris = touched_uris writes; db = bs_db st
      in if uris = [] then st
      else
        (let deleted = map rbl_blob_cid (filter (\<lambda>r. rbl_record_uri r \<in> set uris) (ad_record_blobs db));
             db = db\<lparr>ad_record_blobs :=
               delete_where (\<lambda>r. rbl_record_uri r \<in> set uris) (ad_record_blobs db)\<rparr>
         in if deleted = [] then st\<lparr>bs_db := db\<rparr>
         else
           (let duplicated = map rbl_blob_cid
                  (filter (\<lambda>r. rbl_blob_cid r \<in> set deleted) (ad_record_blobs db));
                new_cids = map (\<lambda>b. cid_to_str env (pb_cid b)) (concat (map write_blobs writes));
                to_delete = filter (\<lambda>c. c \<notin> set duplicated \<and> c \<notin> set new_cids) deleted
            in if to_delete = [] then st\<lparr>bs_db := db\<rparr>
            else st\<lparr>bs_db := db\<lparr>ad_blobs := delete_where (\<lambda>r. br_cid r \<in> set to_delete) (ad_blobs db)\<rparr>,
                    bs_tasks := bs_tasks st @ [to_delete]\<rparr>)))"

fun refer_blobs ::
  "actor_env \<Rightarrow> string \<Rightarrow> string \<Rightarrow> prepared_blob_ref list \<Rightarrow> blob_reader \<Rightarrow> (blob_error + unit) \<times> blob_reader"
  where
  "refer_blobs env did uri [] st = (Inr (), st)"
| "refer_blobs env did uri (blob # blobs) st =
     and_then (verify_blob_and_make_permanent env did blob st)
       (\<lambda>_ st. refer_blobs env did uri blobs (st\<lparr>bs_db := associate_blob env blob uri (bs_db st)\<rparr>))"

fun refer_writes ::
  "actor_env \<Rightarrow> string \<Rightarrow> prepared_write list \<Rightarrow> blob_reader \<Rightarrow> (blob_error + unit) \<times> blob_reader" where
  "refer_writes env did [] st = (Inr (), st)"
| "refer_writes env did (w # ws) st =
     and_then (refer_blobs env did (write_uri w) (write_blobs w) st) (\<lambda>_ st. refer_writes env did ws st)"

definition process_write_blobs ::
  "actor_env \<Rightarrow> string \<Rightarrow> prepared_write list \<Rightarrow> blob_reader \<Rightarrow> (blob_error + unit) \<times> blob_reader" where
  "process_write_blobs env did writes st =
     refer_writes env did writes (delete_dereferenced_blobs env writes st)"

text \<open>One queued deletion; a text that is no CID fails the whole task.\<close>

definition run_task :: "actor_env \<Rightarrow> string \<Rightarrow> nat \<Rightarrow> blob_reader \<Rightarrow> blob_reader" where
  "run_task env did n st =
     (if n < length (bs_tasks st) then
        (let task = bs_tasks st ! n;
             st = st\<lparr>bs_tasks := take n (bs_tasks st) @ drop (Suc n) (bs_tasks st)\<rparr>
         in case parse_texts env BadCid task of
              Inl _ \<Rightarrow> st
            | Inr cids \<Rightarrow> st\<lparr>bs_op := delete_blobs did (map (cid_to_str env) cids) (bs_op st)\<rparr>)
      else st)"

section \<open>Takedown\<close>

definition get_blob_takedown_status :: "actor_env \<Rightarrow> cid \<Rightarrow> actor_db \<Rightarrow> status_attr option" where
  "get_blob_takedown_status env cid db =
     map_option (\<lambda>r. \<lparr>sa_applied = br_takedown_ref r \<noteq> None, sa_ref = br_takedown_ref r\<rparr>)
       (blob_at (cid_to_str env cid) db)"

text \<open>A failure of the blob store is logged and ignored.\<close>

definition update_blob_takedown_status ::
  "actor_env \<Rightarrow> string \<Rightarrow> string \<Rightarrow> cid \<Rightarrow> status_attr \<Rightarrow> blob_reader \<Rightarrow> blob_reader" where
  "update_blob_takedown_status env did now blob takedown st =
     (let key = cid_to_str env blob;
          takedown_ref = (if sa_applied takedown
            then Some (case sa_ref takedown of Some r \<Rightarrow> r | None \<Rightarrow> now) else None);
          db = (bs_db st)\<lparr>ad_blobs := update_where (\<lambda>r. br_cid r = key)
            (\<lambda>r. r\<lparr>br_takedown_ref := takedown_ref\<rparr>) (ad_blobs (bs_db st))\<rparr>;
          op' = snd (if sa_applied takedown then quarantine did key (bs_op st)
            else unquarantine did key (bs_op st))
      in st\<lparr>bs_db := db, bs_op := op'\<rparr>)"

end
