(* ===== verification/Blob_Facts.thy ===== *)
theory Blob_Facts
  imports Blobs
begin

text \<open>
  What the blob code promises. The effect of each operation of a blob store on the bytes behind
  the rows is proved once in the locale \<open>blob_storage\<close>; the operations of theory Blobs use it
  through its interpretation on the OpenDAL handles. \<open>name\<close> is the text of the CID of some bytes.
\<close>

section \<open>Bytes behind rows\<close>

text \<open>
  A temporary blob has, if any, the bytes of its CID under its key; a permanent one has bytes,
  hidden when it is taken down; every stored or hidden object has the bytes of its CID.
\<close>

definition bytes_ok ::
  "(string \<Rightarrow> string) \<Rightarrow> blob_row list \<Rightarrow> (string \<Rightarrow> string option) \<Rightarrow> (string \<Rightarrow> string option) \<Rightarrow>
   (string \<Rightarrow> string option) \<Rightarrow> bool" where
  "bytes_ok name rows temp stored hidden \<longleftrightarrow>
     (\<forall>r \<in> set rows. \<forall>k bs. br_temp_key r = Some k \<longrightarrow> temp k = Some bs \<longrightarrow> name bs = br_cid r) \<and>
     (\<forall>r \<in> set rows. br_temp_key r = None \<longrightarrow> br_takedown_ref r = None \<longrightarrow> stored (br_cid r) \<noteq> None) \<and>
     (\<forall>r \<in> set rows. br_temp_key r = None \<longrightarrow> br_takedown_ref r \<noteq> None \<longrightarrow> hidden (br_cid r) \<noteq> None) \<and>
     (\<forall>c bs. stored c = Some bs \<longrightarrow> name bs = c) \<and> (\<forall>c bs. hidden c = Some bs \<longrightarrow> name bs = c)"

definition own_keys :: "blob_row list \<Rightarrow> bool" where
  "own_keys rows \<longleftrightarrow> (\<forall>r \<in> set rows. \<forall>r' \<in> set rows.
     br_temp_key r \<noteq> None \<longrightarrow> br_temp_key r = br_temp_key r' \<longrightarrow> br_cid r = br_cid r')"

context blob_storage
begin

abbreviation holds :: "(string \<Rightarrow> string) \<Rightarrow> blob_row list \<Rightarrow> 's \<Rightarrow> bool" where
  "holds name rows s \<equiv> bytes_ok name rows (temp s) (stored s) (hidden s)"

lemma holds_put: "holds name rows s \<Longrightarrow> \<forall>r \<in> set rows. br_temp_key r \<noteq> Some k \<Longrightarrow> holds name rows (put k b s)"
  by (simp add: bytes_ok_def put)

lemma holds_promote_failed: "\<not> is_ok (fst (promote k c s)) \<Longrightarrow> holds name rows s \<Longrightarrow>
  holds name rows (snd (promote k c s))"
  by (simp add: promote)

lemma holds_promote:
  assumes rows: "holds name rows s" "own_keys rows" and r: "r \<in> set rows" "br_temp_key r = Some k"
    "br_takedown_ref r = None" and live: "\<forall>r' \<in> set rows. br_cid r' = br_cid r \<longrightarrow> r' = r"
    and ok: "is_ok (fst (promote k (br_cid r) s))"
  shows "holds name (update_where (\<lambda>r. br_temp_key r = Some k) (\<lambda>r. r\<lparr>br_temp_key := None\<rparr>) rows)
    (snd (promote k (br_cid r) s))"
proof -
  have only: "r' = r" if "r' \<in> set rows" "br_temp_key r' = Some k" for r'
    using that rows(2) r live by (metis option.distinct(1) own_keys_def)
  have st: "stored (snd (promote k (br_cid r) s)) (br_cid r) \<noteq> None"
    using ok promote(2,4) [of k "br_cid r" s] by auto
  have same: "stored s c = Some bs \<Longrightarrow> stored (snd (promote k (br_cid r) s)) c = Some bs" for c bs
    using promote(4) [OF ok] by auto
  have name: "stored (snd (promote k (br_cid r) s)) c = Some bs \<Longrightarrow> name bs = c" for c bs
    using promote(4) [OF ok] rows(1) r unfolding bytes_ok_def
    by (auto split: if_splits)
  show ?thesis
    unfolding bytes_ok_def
  proof (intro conjI ballI allI impI)
    fix r' k' bs
    assume r': "r' \<in> set (update_where (\<lambda>r. br_temp_key r = Some k) (\<lambda>r. r\<lparr>br_temp_key := None\<rparr>) rows)"
      "br_temp_key r' = Some k'" "temp (snd (promote k (br_cid r) s)) k' = Some bs"
    then have "r' \<in> set rows" "temp s k' = Some bs"
      using promote(3) [OF ok] by (auto simp: set_update_where split: if_splits)
    with r'(2) show "name bs = br_cid r'"
      using rows(1) by (auto simp: bytes_ok_def)
  next
    fix r'
    assume r': "r' \<in> set (update_where (\<lambda>r. br_temp_key r = Some k) (\<lambda>r. r\<lparr>br_temp_key := None\<rparr>) rows)"
      "br_temp_key r' = None" "br_takedown_ref r' = None"
    then consider "br_cid r' = br_cid r" | "r' \<in> set rows"
      using only by (auto simp: set_update_where split: if_splits)
    then show "stored (snd (promote k (br_cid r) s)) (br_cid r') \<noteq> None"
    proof cases
      case 2
      with r' rows(1) have "stored s (br_cid r') \<noteq> None" by (auto simp: bytes_ok_def)
      with same show ?thesis by fastforce
    qed (use st in simp)
  next
    fix r'
    assume "r' \<in> set (update_where (\<lambda>r. br_temp_key r = Some k) (\<lambda>r. r\<lparr>br_temp_key := None\<rparr>) rows)"
      "br_temp_key r' = None" "br_takedown_ref r' \<noteq> None"
    moreover from this have "r' \<in> set rows"
      using only r(3) by (auto simp: set_update_where split: if_splits)
    ultimately show "hidden (snd (promote k (br_cid r) s)) (br_cid r') \<noteq> None"
      using rows(1) by (auto simp: bytes_ok_def promote(1))
  qed (use name rows(1) in \<open>auto simp: bytes_ok_def promote(1)\<close>)
qed

lemma holds_hide:
  "holds name rows s \<Longrightarrow>
   holds name (update_where (\<lambda>r. br_cid r = c) (\<lambda>r. r\<lparr>br_takedown_ref := Some x\<rparr>) rows) (snd (hide c s))"
  unfolding bytes_ok_def hide by (auto simp: set_update_where split: if_splits)

lemma holds_reveal:
  "holds name rows s \<Longrightarrow>
   holds name (update_where (\<lambda>r. br_cid r = c) (\<lambda>r. r\<lparr>br_takedown_ref := None\<rparr>) rows) (snd (reveal c s))"
  unfolding bytes_ok_def reveal by (auto simp: set_update_where split: if_splits)

lemma holds_drop:
  "holds name rows s \<Longrightarrow> \<forall>r \<in> set rows. br_cid r \<notin> set cs \<Longrightarrow> holds name rows (drop_all cs s)"
  unfolding bytes_ok_def drop_all by (auto simp: restrict_map_def split: if_splits)

lemma holds_fewer: "holds name rows s \<Longrightarrow> set rows' \<subseteq> set rows \<Longrightarrow> holds name rows' s"
  unfolding bytes_ok_def by blast

end

section \<open>The invariant\<close>

abbreviation content_name :: "actor_env \<Rightarrow> (string \<Rightarrow> cid) \<Rightarrow> string \<Rightarrow> string" where
  "content_name env sha bs \<equiv> cid_to_str env (sha bs)"

definition links_ok :: "actor_db \<Rightarrow> bool" where
  "links_ok db \<longleftrightarrow> (\<forall>l \<in> set (ad_record_blobs db).
     \<exists>b \<in> set (ad_blobs db). br_cid b = rbl_blob_cid l \<and> br_temp_key b = None)"

definition queued_cids :: "string list list \<Rightarrow> string set" where
  "queued_cids tasks = \<Union> (set ` set tasks)"

definition blobs_ok :: "actor_env \<Rightarrow> (string \<Rightarrow> cid) \<Rightarrow> string \<Rightarrow> blob_reader \<Rightarrow> bool" where
  "blobs_ok env sha did st \<longleftrightarrow>
     uniq br_cid (ad_blobs (bs_db st)) \<and> own_keys (ad_blobs (bs_db st)) \<and>
     handle.holds did (content_name env sha) (ad_blobs (bs_db st)) (bs_op st) \<and>
     (\<forall>r \<in> set (ad_blobs (bs_db st)). br_cid r \<notin> queued_cids (bs_tasks st)) \<and>
     links_ok (bs_db st)"

lemma live_blob_Some:
  "live_blob env cid db = Some r \<Longrightarrow>
   r \<in> set (ad_blobs db) \<and> br_cid r = cid_to_str env cid \<and> br_takedown_ref r = None"
  by (auto simp: live_blob_def dest: find_Some_set)

lemma blob_at_Some: "blob_at key db = Some r \<Longrightarrow> r \<in> set (ad_blobs db) \<and> br_cid r = key"
  by (auto simp: blob_at_def dest: find_Some_set)

lemma clear_keeps_cids: "br_cid ` set (ad_blobs (clear_temp_key k db)) = br_cid ` set (ad_blobs db)"
proof -
  have "map br_cid (ad_blobs (clear_temp_key k db)) = map br_cid (ad_blobs db)"
    by (simp add: clear_temp_key_def update_where_def)
  from arg_cong [OF this, of set] show ?thesis by simp
qed

lemma clear_row:
  "r' \<in> set (ad_blobs (clear_temp_key k db)) \<Longrightarrow> br_temp_key r' \<noteq> None \<Longrightarrow> r' \<in> set (ad_blobs db)"
  by (auto simp: clear_temp_key_def set_update_where split: if_splits)

lemma clear_ok:
  assumes "links_ok db" and "own_keys (ad_blobs db)" and "uniq br_cid (ad_blobs db)"
  shows "links_ok (clear_temp_key k db)" "own_keys (ad_blobs (clear_temp_key k db))"
    "uniq br_cid (ad_blobs (clear_temp_key k db))"
proof -
  show "links_ok (clear_temp_key k db)"
    unfolding links_ok_def
  proof
    fix l
    assume "l \<in> set (ad_record_blobs (clear_temp_key k db))"
    then obtain b where "b \<in> set (ad_blobs db)" "br_cid b = rbl_blob_cid l" "br_temp_key b = None"
      using assms(1) by (auto simp: links_ok_def clear_temp_key_def)
    then show "\<exists>b \<in> set (ad_blobs (clear_temp_key k db)). br_cid b = rbl_blob_cid l \<and> br_temp_key b = None"
      by (intro bexI [of _ b]) (auto simp: clear_temp_key_def set_update_where image_iff)
  qed
  show "own_keys (ad_blobs (clear_temp_key k db))"
    using assms(2) clear_row [of _ k db] unfolding own_keys_def by metis
  show "uniq br_cid (ad_blobs (clear_temp_key k db))"
    using assms(3) by (simp add: clear_temp_key_def uniq_update)
qed

lemma verify_ok:
  assumes ok: "blobs_ok env sha did st"
  shows "blobs_ok env sha did (snd (verify_blob_and_make_permanent env did blob st))"
    and "is_ok (fst (verify_blob_and_make_permanent env did blob st)) \<Longrightarrow>
      \<exists>b \<in> set (ad_blobs (bs_db (snd (verify_blob_and_make_permanent env did blob st)))).
        br_cid b = cid_to_str env (pb_cid blob) \<and> br_temp_key b = None"
proof -
  let ?r = "verify_blob_and_make_permanent env did blob st" and ?db = "bs_db st"
  let ?key = "cid_to_str env (pb_cid blob)"
  have "blobs_ok env sha did (snd ?r) \<and> (is_ok (fst ?r) \<longrightarrow>
      (\<exists>b \<in> set (ad_blobs (bs_db (snd ?r))). br_cid b = ?key \<and> br_temp_key b = None))"
  proof (cases "live_blob env (pb_cid blob) ?db")
    case None
    with ok show ?thesis by (simp add: verify_blob_and_make_permanent_def)
  next
    case (Some found)
    note found = live_blob_Some [OF Some]
    show ?thesis
    proof (cases "verify_blob blob found")
      case (Inl e)
      with ok Some show ?thesis by (simp add: verify_blob_and_make_permanent_def)
    next
      case (Inr u)
      show ?thesis
      proof (cases "br_temp_key found")
        case None
        with ok Some Inr found show ?thesis by (auto simp: verify_blob_and_make_permanent_def)
      next
        case (Some k)
        let ?p = "make_permanent did k ?key (bs_op st)"
        have inv: "uniq br_cid (ad_blobs ?db)" "own_keys (ad_blobs ?db)" "links_ok ?db"
          "handle.holds did (content_name env sha) (ad_blobs ?db) (bs_op st)"
          "\<forall>r \<in> set (ad_blobs ?db). br_cid r \<notin> queued_cids (bs_tasks st)"
          using ok by (auto simp: blobs_ok_def)
        show ?thesis
        proof (cases "fst ?p")
          case (Inl e)
          then have "\<not> is_ok (fst ?p)" by simp
          from handle.promote(5) [OF this] have same: "?p = (Inl e, bs_op st)"
            using Inl by (metis prod.collapse)
          have "?r = (Inl e, st)"
            using \<open>live_blob _ _ _ = _\<close> \<open>verify_blob _ _ = _\<close> Some same
            by (simp add: verify_blob_and_make_permanent_def)
          with ok show ?thesis by simp
        next
          case (Inr u')
          let ?st = "st\<lparr>bs_op := snd ?p, bs_db := clear_temp_key k ?db\<rparr>"
          have r: "?r = (Inr (), ?st)"
            using \<open>live_blob _ _ _ = _\<close> \<open>verify_blob _ _ = _\<close> Some Inr
            by (cases ?p) (simp add: verify_blob_and_make_permanent_def)
          have p: "is_ok (fst (make_permanent did k (br_cid found) (bs_op st)))"
            using Inr found by simp
          have live: "\<forall>r' \<in> set (ad_blobs ?db). br_cid r' = br_cid found \<longrightarrow> r' = found"
            using inv(1) found by (auto intro: uniq_eqI)
          have "handle.holds did (content_name env sha) (ad_blobs (clear_temp_key k ?db)) (snd ?p)"
            using handle.holds_promote [OF inv(4,2) _ Some _ live p] found
            by (simp add: clear_temp_key_def)
          moreover have "\<forall>r \<in> set (ad_blobs (clear_temp_key k ?db)). br_cid r \<notin> queued_cids (bs_tasks st)"
            using inv(5) clear_keeps_cids [of k ?db] by (metis imageE imageI)
          ultimately have "blobs_ok env sha did ?st"
            using clear_ok [OF inv(3,2,1)] by (simp add: blobs_ok_def)
          moreover have "found\<lparr>br_temp_key := None\<rparr> \<in> set (ad_blobs (clear_temp_key k ?db))"
            using found Some by (force simp: clear_temp_key_def set_update_where)
          ultimately show ?thesis
            using r found by (auto intro!: bexI [of _ "found\<lparr>br_temp_key := None\<rparr>"])
        qed
      qed
    qed
  qed
  then show "blobs_ok env sha did (snd ?r)" and "is_ok (fst ?r) \<Longrightarrow>
      \<exists>b \<in> set (ad_blobs (bs_db (snd ?r))). br_cid b = ?key \<and> br_temp_key b = None"
    by blast+
qed

lemma associate_ok:
  assumes "blobs_ok env sha did st"
    and "\<exists>b \<in> set (ad_blobs (bs_db st)). br_cid b = cid_to_str env (pb_cid blob) \<and> br_temp_key b = None"
  shows "blobs_ok env sha did (st\<lparr>bs_db := associate_blob env blob uri (bs_db st)\<rparr>)"
  using assms by (auto simp: blobs_ok_def links_ok_def associate_blob_def Let_def)

lemma refer_blobs_ok: "blobs_ok env sha did st \<Longrightarrow> blobs_ok env sha did (snd (refer_blobs env did uri blobs st))"
proof (induction blobs arbitrary: st)
  case (Cons blob blobs)
  show ?case
    unfolding refer_blobs.simps
  proof (rule and_then_invariant)
    show "blobs_ok env sha did (snd (verify_blob_and_make_permanent env did blob st))"
      using verify_ok(1) [OF Cons.prems] .
    fix x st'
    assume "verify_blob_and_make_permanent env did blob st = (Inr x, st')" "blobs_ok env sha did st'"
    then have "blobs_ok env sha did (st'\<lparr>bs_db := associate_blob env blob uri (bs_db st')\<rparr>)"
      using verify_ok(2) [OF Cons.prems, of blob] by (intro associate_ok) auto
    then show "blobs_ok env sha did (snd (refer_blobs env did uri blobs
        (st'\<lparr>bs_db := associate_blob env blob uri (bs_db st')\<rparr>)))"
      by (rule Cons.IH)
  qed
qed simp

lemma refer_writes_ok: "blobs_ok env sha did st \<Longrightarrow> blobs_ok env sha did (snd (refer_writes env did ws st))"
proof (induction ws arbitrary: st)
  case (Cons w ws)
  show ?case
    unfolding refer_writes.simps
    by (rule and_then_invariant) (simp_all add: refer_blobs_ok Cons)
qed simp

lemma queued_simps: "queued_cids [] = {}" "queued_cids (ts @ us) = queued_cids ts \<union> queued_cids us" "queued_cids [t] = set t"
  by (simp_all add: queued_cids_def)

lemma blobs_okD:
  assumes "blobs_ok env sha did st"
  shows "uniq br_cid (ad_blobs (bs_db st))" "own_keys (ad_blobs (bs_db st))"
    "handle.holds did (content_name env sha) (ad_blobs (bs_db st)) (bs_op st)"
    "r \<in> set (ad_blobs (bs_db st)) \<Longrightarrow> br_cid r \<notin> queued_cids (bs_tasks st)" "links_ok (bs_db st)"
  using assms by (auto simp: blobs_ok_def)

lemma own_keys_fewer: "own_keys rows \<Longrightarrow> set rows' \<subseteq> set rows \<Longrightarrow> own_keys rows'"
  unfolding own_keys_def by blast

lemma deref_ok:
  assumes ok: "blobs_ok env sha did st"
  shows "blobs_ok env sha did (delete_dereferenced_blobs env writes st)"
proof -
  define uris where "uris = touched_uris writes"
  define deleted where
    "deleted = map rbl_blob_cid (filter (\<lambda>r. rbl_record_uri r \<in> set uris) (ad_record_blobs (bs_db st)))"
  define db where "db = (bs_db st)\<lparr>ad_record_blobs :=
    delete_where (\<lambda>r. rbl_record_uri r \<in> set uris) (ad_record_blobs (bs_db st))\<rparr>"
  define dup where "dup = map rbl_blob_cid (filter (\<lambda>r. rbl_blob_cid r \<in> set deleted) (ad_record_blobs db))"
  define new where "new = map (\<lambda>b. cid_to_str env (pb_cid b)) (concat (map write_blobs writes))"
  define del where "del = filter (\<lambda>c. c \<notin> set dup \<and> c \<notin> set new) deleted"
  define db' where "db' = db\<lparr>ad_blobs := delete_where (\<lambda>r. br_cid r \<in> set del) (ad_blobs db)\<rparr>"
  have eq: "delete_dereferenced_blobs env writes st =
      (if uris = [] then st else if deleted = [] then st\<lparr>bs_db := db\<rparr>
       else if del = [] then st\<lparr>bs_db := db\<rparr>
       else st\<lparr>bs_db := db', bs_tasks := bs_tasks st @ [del]\<rparr>)"
    unfolding delete_dereferenced_blobs_def Let_def uris_def deleted_def db_def dup_def new_def del_def db'_def
    by simp
  have links: "links_ok db"
    using blobs_okD(5) [OF ok] by (auto simp: links_ok_def db_def)
  have ok1: "blobs_ok env sha did (st\<lparr>bs_db := db\<rparr>)"
    using ok links by (simp add: blobs_ok_def) (simp add: db_def)
  have kept: "rbl_blob_cid l \<notin> set del" if "l \<in> set (ad_record_blobs db)" for l
    using that by (auto simp: del_def dup_def)
  have "links_ok db'"
    unfolding links_ok_def
  proof
    fix l
    assume "l \<in> set (ad_record_blobs db')"
    then have l: "l \<in> set (ad_record_blobs db)" by (simp add: db'_def)
    then obtain b where "b \<in> set (ad_blobs db)" "br_cid b = rbl_blob_cid l" "br_temp_key b = None"
      using links by (auto simp: links_ok_def)
    with kept [OF l] show "\<exists>b \<in> set (ad_blobs db'). br_cid b = rbl_blob_cid l \<and> br_temp_key b = None"
      by (auto simp: db'_def)
  qed
  moreover have sub: "set (ad_blobs db') \<subseteq> set (ad_blobs (bs_db st))"
    by (auto simp: db'_def db_def)
  moreover have "uniq br_cid (ad_blobs db')"
    using blobs_okD(1) [OF ok] by (simp add: db'_def db_def uniq_delete)
  ultimately have "blobs_ok env sha did (st\<lparr>bs_db := db', bs_tasks := bs_tasks st @ [del]\<rparr>)"
    using blobs_okD(2-4) [OF ok] own_keys_fewer handle.holds_fewer
    by (auto simp: blobs_ok_def queued_simps) (auto simp: db'_def)
  with ok ok1 show ?thesis
    by (simp add: eq)
qed

lemma process_write_blobs_ok:
  "blobs_ok env sha did st \<Longrightarrow> blobs_ok env sha did (snd (process_write_blobs env did writes st))"
  by (simp add: process_write_blobs_def refer_writes_ok deref_ok)

lemma takedown_ok:
  assumes ok: "blobs_ok env sha did st"
  shows "blobs_ok env sha did (update_blob_takedown_status env did now c takedown st)"
proof -
  have row: "links_ok (db\<lparr>ad_blobs := update_where (\<lambda>r. br_cid r = k) (\<lambda>r. r\<lparr>br_takedown_ref := x\<rparr>) (ad_blobs db)\<rparr>)"
    if old: "links_ok db" for db k x
    unfolding links_ok_def
  proof
    fix l
    let ?db = "db\<lparr>ad_blobs := update_where (\<lambda>r. br_cid r = k) (\<lambda>r. r\<lparr>br_takedown_ref := x\<rparr>) (ad_blobs db)\<rparr>"
    assume "l \<in> set (ad_record_blobs ?db)"
    then obtain b where "b \<in> set (ad_blobs db)" "br_cid b = rbl_blob_cid l" "br_temp_key b = None"
      using old by (auto simp: links_ok_def)
    then show "\<exists>b \<in> set (ad_blobs ?db). br_cid b = rbl_blob_cid l \<and> br_temp_key b = None"
      by (intro bexI [of _ "if br_cid b = k then b\<lparr>br_takedown_ref := x\<rparr> else b"])
        (auto simp: set_update_where)
  qed
  have keys: "own_keys (update_where (\<lambda>r. br_cid r = k) (\<lambda>r. r\<lparr>br_takedown_ref := x\<rparr>) rows)"
    if "own_keys rows" for rows k x
    using that by (fastforce simp: own_keys_def set_update_where)
  show ?thesis
    using blobs_okD [OF ok] row keys
    by (auto simp: blobs_ok_def update_blob_takedown_status_def Let_def uniq_update set_update_where
        handle.holds_hide handle.holds_reveal split: if_splits) (metis blobs_okD(4) [OF ok])+
qed

section \<open>Runs\<close>

datatype blob_op =
    UploadBlob string "8 word list" string string
  | ProcessWrites "prepared_write list"
  | SetTakedown cid status_attr string
  | RunTask nat

fun run_blob_op ::
  "actor_env \<Rightarrow> (string \<Rightarrow> cid) \<Rightarrow> string \<Rightarrow> blob_op \<Rightarrow> blob_reader \<Rightarrow> blob_reader" where
  "run_blob_op env sha did (UploadBlob mime rnd bytes now) st =
     (case upload_blob_and_get_metadata sha did rnd mime bytes st of
        (md, st) \<Rightarrow> snd (track_untethered_blob env now md st))"
| "run_blob_op env sha did (ProcessWrites writes) st = snd (process_write_blobs env did writes st)"
| "run_blob_op env sha did (SetTakedown c takedown now) st =
     update_blob_takedown_status env did now c takedown st"
| "run_blob_op env sha did (RunTask n) st = run_task env did n st"

text \<open>Keys drawn are fresh, and no blob is uploaded again while its deletion is queued.\<close>

fun careful_op :: "actor_env \<Rightarrow> (string \<Rightarrow> cid) \<Rightarrow> blob_op \<Rightarrow> blob_reader \<Rightarrow> bool" where
  "careful_op env sha (UploadBlob mime rnd bytes now) st \<longleftrightarrow>
     (\<forall>r \<in> set (ad_blobs (bs_db st)). br_temp_key r \<noteq> Some (tmp_key rnd)) \<and>
     content_name env sha bytes \<notin> queued_cids (bs_tasks st)"
| "careful_op env sha _ st \<longleftrightarrow> True"

fun careful :: "actor_env \<Rightarrow> (string \<Rightarrow> cid) \<Rightarrow> string \<Rightarrow> blob_op list \<Rightarrow> blob_reader \<Rightarrow> bool" where
  "careful env sha did [] st \<longleftrightarrow> True"
| "careful env sha did (op' # ops) st \<longleftrightarrow>
     careful_op env sha op' st \<and> careful env sha did ops (run_blob_op env sha did op' st)"

lemma write_temp_temp: "area_of TmpArea did (write_temp did k b op') = (area_of TmpArea did op')(k \<mapsto> b)"
  by (rule handle.put)

lemma upsert_ok:
  assumes keys: "uniq br_cid (ad_blobs db)" "own_keys (ad_blobs db)" and links: "links_ok db"
    and holds: "bytes_ok name (ad_blobs db) temp stored hidden"
    and fresh: "\<forall>r \<in> set (ad_blobs db). br_temp_key r \<noteq> Some k"
    and row: "br_temp_key row = Some k" "\<forall>bs. temp k = Some bs \<longrightarrow> name bs = br_cid row"
  shows "uniq br_cid (ad_blobs (upsert_blob row db))" "own_keys (ad_blobs (upsert_blob row db))"
    "bytes_ok name (ad_blobs (upsert_blob row db)) temp stored hidden" "links_ok (upsert_blob row db)"
    "br_cid ` set (ad_blobs (upsert_blob row db)) \<subseteq> insert (br_cid row) (br_cid ` set (ad_blobs db))"
proof -
  let ?db = "upsert_blob row db"
  have rows: "(br_temp_key r = Some k \<and> br_cid r = br_cid row) \<or> r \<in> set (ad_blobs db)"
    if "r \<in> set (ad_blobs ?db)" for r
    using that row(1) by (auto simp: upsert_blob_def set_update_where split: if_splits)
  show "uniq br_cid (ad_blobs ?db)"
    using keys(1) by (auto simp: upsert_blob_def uniq_update uniq_snoc has_row_iff)
  show "own_keys (ad_blobs ?db)"
    unfolding own_keys_def
  proof (intro ballI impI)
    fix r r'
    assume r: "r \<in> set (ad_blobs ?db)" "r' \<in> set (ad_blobs ?db)" "br_temp_key r \<noteq> None"
      "br_temp_key r = br_temp_key r'"
    show "br_cid r = br_cid r'"
      using rows [OF r(1)] rows [OF r(2)] r(3,4) fresh keys(2) unfolding own_keys_def by metis
  qed
  show "bytes_ok name (ad_blobs ?db) temp stored hidden"
    unfolding bytes_ok_def
  proof (intro conjI ballI allI impI)
    fix r k' bs
    assume r: "r \<in> set (ad_blobs ?db)" "br_temp_key r = Some k'" "temp k' = Some bs"
    from rows [OF r(1)] show "name bs = br_cid r"
    proof
      assume "br_temp_key r = Some k \<and> br_cid r = br_cid row"
      with r row(2) show ?thesis by simp
    next
      assume "r \<in> set (ad_blobs db)"
      with r holds show ?thesis by (simp add: bytes_ok_def)
    qed
  qed (use holds rows in \<open>fastforce simp: bytes_ok_def\<close>)+
  show "links_ok ?db"
    unfolding links_ok_def
  proof
    fix l
    assume "l \<in> set (ad_record_blobs ?db)"
    then obtain b where "b \<in> set (ad_blobs db)" "br_cid b = rbl_blob_cid l" "br_temp_key b = None"
      using links by (auto simp: links_ok_def upsert_blob_def split: if_splits)
    then show "\<exists>b \<in> set (ad_blobs ?db). br_cid b = rbl_blob_cid l \<and> br_temp_key b = None"
      by (intro bexI [of _ b]) (auto simp: upsert_blob_def set_update_where image_iff)
  qed
  show "br_cid ` set (ad_blobs ?db) \<subseteq> insert (br_cid row) (br_cid ` set (ad_blobs db))"
    using rows by auto
qed

lemma upload_ok:
  assumes ok: "blobs_ok env sha did st" and careful: "careful_op env sha (UploadBlob mime rnd bytes now) st"
  shows "blobs_ok env sha did (run_blob_op env sha did (UploadBlob mime rnd bytes now) st)"
proof -
  let ?k = "tmp_key rnd"
  let ?st = "st\<lparr>bs_op := write_temp did ?k bytes (bs_op st)\<rparr>"
  define md where "md = \<lparr>bmd_temp_key = ?k, bmd_size = word_of_nat (length bytes), bmd_cid = sha bytes,
    bmd_mime_type = mime, bmd_width = None, bmd_height = None\<rparr>"
  have run: "run_blob_op env sha did (UploadBlob mime rnd bytes now) st = snd (track_untethered_blob env now md ?st)"
    by (simp add: upload_blob_and_get_metadata_def put_temp_eq md_def)
  have fresh: "\<forall>r \<in> set (ad_blobs (bs_db st)). br_temp_key r \<noteq> Some ?k"
    and unqueued: "content_name env sha bytes \<notin> queued_cids (bs_tasks st)"
    using careful by simp_all
  have holds: "handle.holds did (content_name env sha) (ad_blobs (bs_db st)) (bs_op ?st)"
    using handle.holds_put [OF blobs_okD(3) [OF ok] fresh] by simp
  then have ok1: "blobs_ok env sha did ?st"
    using blobs_okD [OF ok] by (simp add: blobs_ok_def)
  let ?row = "new_blob env now md"
  have row: "br_temp_key ?row = Some ?k" "br_cid ?row = content_name env sha bytes"
    by (simp_all add: new_blob_def md_def)
  have temp: "\<forall>bs. area_of TmpArea did (bs_op ?st) ?k = Some bs \<longrightarrow> content_name env sha bs = br_cid ?row"
    by (simp add: write_temp_temp row(2))
  note up = upsert_ok [OF blobs_okD(1,2,5) [OF ok] holds fresh row(1) temp]
  have "br_cid r \<notin> queued_cids (bs_tasks st)" if r: "r \<in> set (ad_blobs (upsert_blob ?row (bs_db st)))" for r
  proof -
    have "br_cid r = br_cid ?row \<or> br_cid r \<in> br_cid ` set (ad_blobs (bs_db st))"
      using up(5) r by blast
    then show ?thesis
      using blobs_okD(4) [OF ok] unqueued row(2) by auto
  qed
  with up(1-4) have "blobs_ok env sha did (?st\<lparr>bs_db := upsert_blob ?row (bs_db st)\<rparr>)"
    by (simp add: blobs_ok_def)
  with ok1 show ?thesis
    unfolding run by (simp add: track_untethered_blob_def)
qed

lemma run_task_ok:
  assumes env: "cids_ok env" and ok: "blobs_ok env sha did st"
  shows "blobs_ok env sha did (run_task env did n st)"
proof (cases "n < length (bs_tasks st)")
  case True
  let ?task = "bs_tasks st ! n" and ?rest = "take n (bs_tasks st) @ drop (Suc n) (bs_tasks st)"
  have tasks: "queued_cids (bs_tasks st) = set ?task \<union> queued_cids ?rest"
    by (subst id_take_nth_drop [OF True]) (auto simp: queued_cids_def)
  have ok1: "blobs_ok env sha did (st\<lparr>bs_tasks := ?rest\<rparr>)"
    using ok by (auto simp: blobs_ok_def tasks)
  show ?thesis
  proof (cases "parse_texts env BadCid ?task")
    case (Inl e)
    with True ok1 show ?thesis by (simp add: run_task_def)
  next
    case (Inr cs)
    have "\<forall>r \<in> set (ad_blobs (bs_db st)). br_cid r \<notin> set ?task"
      using blobs_okD(4) [OF ok] tasks by blast
    then have "handle.holds did (content_name env sha) (ad_blobs (bs_db st)) (delete_blobs did ?task (bs_op st))"
      using handle.holds_drop [OF blobs_okD(3) [OF ok]] by blast
    with True Inr ok1 show ?thesis
      by (simp add: run_task_def parse_texts_Inr [OF env Inr] blobs_ok_def)
  qed
next
  case False
  with ok show ?thesis by (simp add: run_task_def)
qed

lemma run_ok:
  "cids_ok env \<Longrightarrow> blobs_ok env sha did st \<Longrightarrow> careful env sha did ops st \<Longrightarrow>
   blobs_ok env sha did (fold (run_blob_op env sha did) ops st)"
proof (induction ops arbitrary: st)
  case (Cons op' ops)
  have "blobs_ok env sha did (run_blob_op env sha did op' st)"
  proof (cases op')
    case (UploadBlob mime rnd bytes now)
    with Cons.prems upload_ok [of env sha did st mime rnd bytes now] show ?thesis by simp
  qed (use Cons.prems process_write_blobs_ok takedown_ok run_task_ok in auto)
  with Cons show ?case by simp
qed simp

lemma blobs_ok_start:
  "\<forall>a k. op0 (area_path a did k) = None \<Longrightarrow>
   blobs_ok env sha did \<lparr>bs_db = empty_actor_db, bs_op = op0, bs_tasks = []\<rparr>"
  by (simp add: blobs_ok_def empty_actor_db_def own_keys_def bytes_ok_def area_of_def queued_cids_def
      links_ok_def del: area_path.simps)

lemma linked_blob_served:
  assumes env: "cids_ok env" and ok: "blobs_ok env sha did st"
    and link: "cid_to_str env cid \<in> rbl_blob_cid ` set (ad_record_blobs (bs_db st))"
  shows "\<exists>status. get_blob_takedown_status env cid (bs_db st) = Some status \<and>
    (sa_applied status \<or> (\<exists>out bytes. get_blob env did cid st = Inr (out, bytes) \<and> sha bytes = cid))"
proof -
  note D = blobs_okD [OF ok]
  obtain b where b: "b \<in> set (ad_blobs (bs_db st))" "br_cid b = cid_to_str env cid" "br_temp_key b = None"
    using link D(5) by (auto simp: links_ok_def)
  have at: "blob_at (cid_to_str env cid) (bs_db st) = Some b"
    using find_uniq [OF D(1) b(1)] b(2) by (simp add: blob_at_def)
  show ?thesis
  proof (cases "br_takedown_ref b")
    case (Some x)
    with at show ?thesis by (simp add: get_blob_takedown_status_def)
  next
    case None
    with b D(3) obtain bs where bs: "area_of BlocksArea did (bs_op st) (cid_to_str env cid) = Some bs"
      by (auto simp: bytes_ok_def)
    then have "cid_to_str env (sha bs) = cid_to_str env cid"
      using D(3) by (auto simp: bytes_ok_def)
    then have sha: "sha bs = cid"
      using cid_to_str_inj [OF env] by simp
    have "live_blob env cid (bs_db st) \<noteq> None"
      using b None by (auto simp: live_blob_def find_None_iff)
    then obtain b' where "live_blob env cid (bs_db st) = Some b'" by blast
    then have "\<exists>out. get_blob env did cid st = Inr (out, bs)"
      using bs by (simp add: get_blob_def get_blob_metadata_def get_blob_bytes_def area_of_def)
    with at sha show ?thesis by (auto simp: get_blob_takedown_status_def)
  qed
qed


definition demo_blob_ref :: prepared_blob_ref where
  "demo_blob_ref = \<lparr>pb_cid = ''x'', pb_mime_type = ''image/png'',
     pb_constraints = \<lparr>bc_max_size = None, bc_accept = None\<rparr>\<rparr>"

definition demo_post :: prepared_create_or_update where
  "demo_post = \<lparr>pc_action = WriteCreate, pc_uri = ''p1'', pc_cid = ''r'', pc_swap_cid = None,
     pc_record = [], pc_blobs = [demo_blob_ref]\<rparr>"

definition demo_unpost :: prepared_delete where
  "demo_unpost = \<lparr>pd_action = WriteDelete, pd_uri = ''p1'', pd_swap_cid = None\<rparr>"

abbreviation demo_reader :: blob_reader where
  "demo_reader \<equiv> \<lparr>bs_db = empty_actor_db, bs_op = (\<lambda>_. None), bs_tasks = []\<rparr>"

abbreviation demo_upload :: "8 word \<Rightarrow> blob_op" where
  "demo_upload n \<equiv> UploadBlob ''image/png'' [n] ''x'' ''t''"

abbreviation run_demo :: "blob_op list \<Rightarrow> blob_reader" where
  "run_demo ops \<equiv> fold (run_blob_op demo_actor_env (\<lambda>bs. bs) ''did:plc:a'') ops demo_reader"

lemmas demo_blob_simps = empty_actor_db_def demo_blob_ref_def demo_post_def demo_unpost_def
  upload_blob_and_get_metadata_def put_temp_def track_untethered_blob_def upsert_blob_def new_blob_def
  blob_at_def live_blob_def verify_blob_def verify_blob_and_make_permanent_def make_permanent_def
  rename_object_def clear_temp_key_def associate_blob_def process_write_blobs_def
  delete_dereferenced_blobs_def run_task_def delete_blobs_def delete_blob_def tmp_path_def
  stored_path_def tmp_key_def hex_digits_def


text \<open>
  The condition on uploads is needed: a blob that is uploaded and referred to again before its
  queued deletion runs loses its bytes.
\<close>

lemma reupload_race:
  "let st = run_demo [demo_upload 1, ProcessWrites [PwCreate demo_post], ProcessWrites [PwDelete demo_unpost],
       demo_upload 2, ProcessWrites [PwCreate demo_post], RunTask 0]
   in ad_record_blobs (bs_db st) = [\<lparr>rbl_blob_cid = ''x'', rbl_record_uri = ''p1''\<rparr>] \<and>
      get_blob demo_actor_env ''did:plc:a'' ''x'' st = Inl StoredBlobNotFound"
  by (simp add: demo_blob_simps Let_def get_blob_def get_blob_metadata_def get_blob_bytes_def)

end
