(* ===== verification/Actor_Store.thy ===== *)
theory Actor_Store
  imports Block_Store Blob_Facts
begin

text \<open>
  The store of one actor (the readers and the transactor of cacos-pds-actor-store/src/mod.rs): a
  write is formatted into a commit, indexed, applied to the repository storage, and its blobs are
  processed, in this order and without a common transaction. Building and signing a commit is
  rsky-repo's; its operations are the record \<open>repo_env\<close>, which read the storage and fill its cache.

  Proved: what a successful write leaves, and that its commit never removes the block of a record
  that stays indexed.
\<close>

section \<open>State\<close>

record actor_txn =
  ax_did :: string
  ax_keypair :: string
  ax_db :: actor_db
  ax_cache :: block_map
  ax_now :: string
  ax_op :: operator
  ax_blob_did :: string
  ax_tasks :: "string list list"

text \<open>The three readers share one database.\<close>

definition ax_storage :: "actor_txn \<Rightarrow> repo_store" where
  "ax_storage ax = \<lparr>st_cache = ax_cache ax, st_db = ax_db ax, st_now = ax_now ax, st_did = ax_did ax\<rparr>"

definition ax_blobs :: "actor_txn \<Rightarrow> blob_reader" where
  "ax_blobs ax = \<lparr>bs_db = ax_db ax, bs_op = ax_op ax, bs_tasks = ax_tasks ax\<rparr>"

definition on_storage :: "(repo_store \<Rightarrow> 'a \<times> repo_store) \<Rightarrow> actor_txn \<Rightarrow> 'a \<times> actor_txn" where
  "on_storage f ax = (case f (ax_storage ax) of
     (r, st) \<Rightarrow> (r, ax\<lparr>ax_db := st_db st, ax_cache := st_cache st\<rparr>))"

definition on_blobs :: "(blob_reader \<Rightarrow> 'a \<times> blob_reader) \<Rightarrow> actor_txn \<Rightarrow> 'a \<times> actor_txn" where
  "on_blobs f ax = (case f (ax_blobs ax) of
     (r, st) \<Rightarrow> (r, ax\<lparr>ax_db := bs_db st, ax_op := bs_op st, ax_tasks := bs_tasks st\<rparr>))"

definition on_db :: "(actor_db \<Rightarrow> 'a \<times> actor_db) \<Rightarrow> actor_txn \<Rightarrow> 'a \<times> actor_txn" where
  "on_db f ax = (case f (ax_db ax) of (r, db) \<Rightarrow> (r, ax\<lparr>ax_db := db\<rparr>))"

datatype format_commit_error =
    BadRecordSwap "cid option"
  | RecordSwapMismatch "cid option"
  | BadCommitSwap cid
  | MissingRepoRoot string

record create_or_update_op =
  cu_action :: write_op_action
  cu_collection :: string
  cu_rkey :: string
  cu_record :: repo_record

record ('r, 'o) repo_env =
  format_init_commit ::
    "string \<Rightarrow> string \<Rightarrow> create_or_update_op list \<Rightarrow> repo_store \<Rightarrow> (pds_error + commit_data) \<times> repo_store"
  repo_load :: "cid \<Rightarrow> repo_store \<Rightarrow> (pds_error + 'r) \<times> repo_store"
  repo_data :: "'r \<Rightarrow> cid"
  write_to_op :: "prepared_write \<Rightarrow> 'o option"
  repo_format_commit ::
    "'r \<Rightarrow> 'o list \<Rightarrow> string \<Rightarrow> repo_store \<Rightarrow> (pds_error + commit_data) \<times> repo_store"
  format_data_key :: "string \<Rightarrow> string \<Rightarrow> string"
  commit_action_of :: "write_op_action \<Rightarrow> commit_action"

section \<open>Swap checks\<close>

definition check_record_swap ::
  "write_op_action \<Rightarrow> cid option \<Rightarrow> cid option \<Rightarrow> format_commit_error + unit" where
  "check_record_swap action current_record swap_cid =
     (case swap_cid of
        None \<Rightarrow> Inr ()
      | Some swap_cid \<Rightarrow>
          if action = WriteCreate then Inl (BadRecordSwap current_record)
          else if current_record = Some swap_cid then Inr ()
          else Inl (RecordSwapMismatch current_record))"

section \<open>Formatting a commit\<close>

text \<open>
  The loop over the writes: CIDs of new records, URIs of updated and deleted ones, and the
  operations of the commit with the current CID of each record.
\<close>

record write_plan =
  wp_new_cids :: "cid list"
  wp_touched :: "at_uri list"
  wp_ops :: "commit_op list"

definition current_cid :: "actor_env \<Rightarrow> at_uri \<Rightarrow> actor_db \<Rightarrow> pds_error + cid option" where
  "current_cid env uri db =
     (case get_record uri db of
        None \<Rightarrow> Inr None
      | Some record' \<Rightarrow>
          (case cid_from_str env (gr_cid record') of
             None \<Rightarrow> Inl (Internal ''Cid::from_str'')
           | Some c \<Rightarrow> Inr (Some c)))"

fun write_cid :: "prepared_write \<Rightarrow> cid option" where
  "write_cid (PwCreate w) = Some (pc_cid w)"
| "write_cid (PwUpdate w) = Some (pc_cid w)"
| "write_cid (PwDelete w) = None"

fun touches :: "prepared_write \<Rightarrow> bool" where
  "touches (PwCreate w) = False"
| "touches (PwUpdate w) = True"
| "touches (PwDelete w) = True"

fun plan_writes ::
  "actor_env \<Rightarrow> ('r, 'o) repo_env \<Rightarrow> actor_db \<Rightarrow> prepared_write list \<Rightarrow> pds_error + write_plan" where
  "plan_writes env re db [] = Inr \<lparr>wp_new_cids = [], wp_touched = [], wp_ops = []\<rparr>"
| "plan_writes env re db (w # ws) =
     (case at_uri_of env (write_uri w) of
        None \<Rightarrow> Inl (Internal ''AtUri'')
      | Some uri \<Rightarrow>
          (case current_cid env uri db of
             Inl e \<Rightarrow> Inl e
           | Inr current_record \<Rightarrow>
               (case check_record_swap (write_action w) current_record (write_swap_cid w) of
                  Inl _ \<Rightarrow> Inl (Internal ''swap check failed'')
                | Inr _ \<Rightarrow>
                    (case plan_writes env re db ws of
                       Inl e \<Rightarrow> Inl e
                     | Inr plan \<Rightarrow> Inr
                         \<lparr>wp_new_cids = (case write_cid w of Some c \<Rightarrow> [c] | None \<Rightarrow> []) @ wp_new_cids plan,
                          wp_touched = (if touches w then [uri] else []) @ wp_touched plan,
                          wp_ops = \<lparr>co_action = commit_action_of re (write_action w),
                              co_path = format_data_key re (au_collection uri) (au_rkey uri),
                              co_cid = write_cid w, co_prev = current_record\<rparr> # wp_ops plan\<rparr>))))"

definition get_duplicate_record_cids ::
  "actor_env \<Rightarrow> cid list \<Rightarrow> at_uri list \<Rightarrow> actor_db \<Rightarrow> pds_error + cid list" where
  "get_duplicate_record_cids env cids touched db =
     (if touched = [] \<or> cids = [] then Inr []
      else parse_texts env (Internal ''get_duplicate_record_cids: Cid::from_str failed'') (map rec_cid (filter
        (\<lambda>r. rec_cid r \<in> cid_to_str env ` set cids \<and> rec_uri r \<notin> au_text ` set touched)
        (ad_records db))))"

fun write_ops :: "('r, 'o) repo_env \<Rightarrow> prepared_write list \<Rightarrow> pds_error + 'o list" where
  "write_ops re [] = Inr []"
| "write_ops re (w # ws) =
     (case write_to_op re w of
        None \<Rightarrow> Inl (Internal ''write_to_op'')
      | Some op' \<Rightarrow> map_sum (\<lambda>e. e) (Cons op') (write_ops re ws))"

text \<open>Blocks the operations name but the difference lacks are added from the storage.\<close>

definition add_missing_blocks ::
  "actor_env \<Rightarrow> cid list \<Rightarrow> commit_data \<Rightarrow> actor_txn \<Rightarrow> (pds_error + commit_data) \<times> actor_txn" where
  "add_missing_blocks env new_cids commit ax =
     (case bm_get_many env (cd_relevant_blocks commit) new_cids of
        None \<Rightarrow> (Inl (Internal ''get_many''), ax)
      | Some (_, missing) \<Rightarrow>
          if missing = [] then (Inr commit, ax)
          else
            and_then (on_storage (get_blocks env missing) ax)
              (\<lambda>blocks ax. case bm_add_map env (cd_relevant_blocks commit) (bm_blocks blocks) of
                 None \<Rightarrow> (Inl (Internal ''add_map''), ax)
               | Some m \<Rightarrow> (Inr (commit\<lparr>cd_relevant_blocks := m\<rparr>), ax)))"

definition load_repo ::
  "('r, 'o) repo_env \<Rightarrow> cid \<Rightarrow> actor_txn \<Rightarrow> (pds_error + 'r) \<times> actor_txn" where
  "load_repo re root ax = on_storage (repo_load re root) ax"

definition keep_duplicates ::
  "actor_env \<Rightarrow> at_uri list \<Rightarrow> commit_data \<Rightarrow> actor_db \<Rightarrow> pds_error + commit_data" where
  "keep_duplicates env touched commit db =
     (case get_duplicate_record_cids env (cs_to_list env (cd_removed_cids commit)) touched db of
        Inl e \<Rightarrow> Inl e
      | Inr cids \<Rightarrow> Inr (commit\<lparr>cd_removed_cids := fold (cs_delete env) cids (cd_removed_cids commit)\<rparr>))"

definition format_on_root ::
  "actor_env \<Rightarrow> ('r, 'o) repo_env \<Rightarrow> prepared_write list \<Rightarrow> cid_and_rev \<Rightarrow> actor_txn \<Rightarrow>
   (pds_error + commit_data_with_ops) \<times> actor_txn" where
  "format_on_root env re writes current_root ax =
     and_then (on_storage (cache_rev env (cr_rev current_root)) ax) (\<lambda>_ ax.
     and_then (plan_writes env re (ax_db ax) writes, ax) (\<lambda>plan ax.
     and_then (load_repo re (cr_cid current_root) ax) (\<lambda>repo ax.
     and_then (write_ops re writes, ax) (\<lambda>ops ax.
     and_then (on_storage (repo_format_commit re repo ops (ax_keypair ax)) ax) (\<lambda>commit ax.
     and_then (keep_duplicates env (wp_touched plan) commit (ax_db ax), ax) (\<lambda>commit ax.
     and_then (add_missing_blocks env (wp_new_cids plan) commit ax) (\<lambda>commit ax.
       (Inr \<lparr>cw_commit_data = commit, cw_ops = wp_ops plan, cw_prev_data = Some (repo_data re repo)\<rparr>,
        ax))))))))"

definition format_commit ::
  "actor_env \<Rightarrow> ('r, 'o) repo_env \<Rightarrow> prepared_write list \<Rightarrow> cid option \<Rightarrow> actor_txn \<Rightarrow>
   (pds_error + commit_data_with_ops) \<times> actor_txn" where
  "format_commit env re writes swap_commit ax =
     (case get_root_detailed env (ax_storage ax) of
        Inl _ \<Rightarrow> (Inl (Internal ''format_commit: no repo root''), ax)
      | Inr current_root \<Rightarrow>
          if (case swap_commit of Some c \<Rightarrow> cr_cid current_root \<noteq> c | None \<Rightarrow> False)
          then (Inl (Internal ''format_commit: swap commit mismatch''), ax)
          else format_on_root env re writes current_root ax)"

section \<open>Writing\<close>

fun index_write :: "actor_env \<Rightarrow> string \<Rightarrow> string \<Rightarrow> at_uri \<Rightarrow> prepared_write \<Rightarrow> actor_db \<Rightarrow> actor_db" where
  "index_write env rev' now uri (PwCreate w) db = index_record env uri (pc_cid w) rev' now db"
| "index_write env rev' now uri (PwUpdate w) db = index_record env uri (pc_cid w) rev' now db"
| "index_write env rev' now uri (PwDelete w) db = delete_record uri db"

fun index_writes ::
  "actor_env \<Rightarrow> string \<Rightarrow> string \<Rightarrow> prepared_write list \<Rightarrow> actor_db \<Rightarrow> (pds_error + unit) \<times> actor_db" where
  "index_writes env rev' now [] db = (Inr (), db)"
| "index_writes env rev' now (w # ws) db =
     (case at_uri_of env (write_uri w) of
        None \<Rightarrow> (Inl (Internal ''AtUri''), db)
      | Some uri \<Rightarrow> index_writes env rev' now ws (index_write env rev' now uri w db))"

text \<open>Errors of the blob reader are \<open>anyhow\<close> errors, which become internal ones.\<close>

definition process_blobs ::
  "actor_env \<Rightarrow> prepared_write list \<Rightarrow> actor_txn \<Rightarrow> (pds_error + unit) \<times> actor_txn" where
  "process_blobs env writes ax =
     (case on_blobs (process_write_blobs env (ax_blob_did ax) writes) ax of
        (Inl _, ax) \<Rightarrow> (Inl (Internal ''process_write_blobs''), ax)
      | (Inr _, ax) \<Rightarrow> (Inr (), ax))"

definition process_import_repo ::
  "actor_env \<Rightarrow> string \<Rightarrow> commit_data \<Rightarrow> prepared_write list \<Rightarrow> actor_txn \<Rightarrow> (pds_error + unit) \<times> actor_txn"
  where
  "process_import_repo env now commit writes ax =
     and_then (on_db (index_writes env (cd_rev commit) now writes) ax) (\<lambda>_ ax.
     and_then (on_storage (apply_commit env commit None) ax) (\<lambda>_ ax.
     process_blobs env writes ax))"

definition process_writes ::
  "actor_env \<Rightarrow> ('r, 'o) repo_env \<Rightarrow> string \<Rightarrow> prepared_write list \<Rightarrow> cid option \<Rightarrow> actor_txn \<Rightarrow>
   (pds_error + commit_data_with_ops) \<times> actor_txn" where
  "process_writes env re now writes swap_commit_cid ax =
     and_then (format_commit env re writes swap_commit_cid ax) (\<lambda>commit ax.
     and_then (on_db (index_writes env (cd_rev (cw_commit_data commit)) now writes) ax) (\<lambda>_ ax.
     and_then (on_storage (apply_commit env (cw_commit_data commit) None) ax) (\<lambda>_ ax.
     and_then (process_blobs env writes ax) (\<lambda>_ ax. (Inr commit, ax)))))"

fun init_ops :: "actor_env \<Rightarrow> prepared_create_or_update list \<Rightarrow> pds_error + create_or_update_op list" where
  "init_ops env [] = Inr []"
| "init_ops env (w # ws) =
     (case at_uri_of env (pc_uri w) of
        None \<Rightarrow> Inl (Internal ''AtUri'')
      | Some uri \<Rightarrow>
          map_sum (\<lambda>e. e)
            (Cons \<lparr>cu_action = WriteCreate, cu_collection = au_collection uri, cu_rkey = au_rkey uri,
              cu_record = pc_record w\<rparr>) (init_ops env ws))"

fun create_ops ::
  "actor_env \<Rightarrow> ('r, 'o) repo_env \<Rightarrow> prepared_create_or_update list \<Rightarrow> pds_error + commit_op list" where
  "create_ops env re [] = Inr []"
| "create_ops env re (w # ws) =
     (case at_uri_of env (pc_uri w) of
        None \<Rightarrow> Inl (Internal ''AtUri'')
      | Some uri \<Rightarrow>
          map_sum (\<lambda>e. e)
            (Cons \<lparr>co_action = CommitCreate, co_path = format_data_key re (au_collection uri) (au_rkey uri),
              co_cid = Some (pc_cid w), co_prev = None\<rparr>) (create_ops env re ws))"

definition create_repo ::
  "actor_env \<Rightarrow> ('r, 'o) repo_env \<Rightarrow> string \<Rightarrow> prepared_create_or_update list \<Rightarrow> actor_txn \<Rightarrow>
   (pds_error + commit_data_with_ops) \<times> actor_txn" where
  "create_repo env re now writes ax =
     and_then (init_ops env writes, ax) (\<lambda>write_ops ax.
     and_then (on_storage (format_init_commit re (ax_did ax) (ax_keypair ax) write_ops) ax) (\<lambda>commit ax.
     and_then (on_storage (apply_commit env commit (Some True)) ax) (\<lambda>_ ax.
     and_then (on_db (index_writes env (cd_rev commit) now (map PwCreate writes)) ax) (\<lambda>_ ax.
     and_then (create_ops env re writes, ax) (\<lambda>ops ax.
     and_then (process_blobs env (map PwCreate writes) ax) (\<lambda>_ ax.
       (Inr \<lparr>cw_commit_data = commit, cw_ops = ops, cw_prev_data = None\<rparr>, ax)))))))"

definition get_sync_event_data ::
  "actor_env \<Rightarrow> actor_txn \<Rightarrow> (pds_error + sync_evt_data) \<times> actor_txn" where
  "get_sync_event_data env ax =
     (case get_root_detailed env (ax_storage ax) of
        Inl e \<Rightarrow> (Inl e, ax)
      | Inr current_root \<Rightarrow>
          and_then (on_storage (get_blocks env [cr_cid current_root]) ax)
            (\<lambda>b ax. (Inr \<lparr>sy_cid = cr_cid current_root, sy_rev = cr_rev current_root,
               sy_blocks = bm_blocks b\<rparr>, ax)))"

end
