(* ===== verification/Repo_Prepare.thy ===== *)
theory Repo_Prepare
  imports Actor_Db
begin

text \<open>
  Preparation of record writes (cacos-pds-server/src/xrpc/com/atproto/repo/prepare.rs): the record
  type, the search for references to blobs, and the prepared create, update and delete. Reading a
  JSON value as a record or a blob reference, the CID of a record, AT URIs and time-based keys are
  rsky's: the record \<open>record_codec\<close>. A \<open>BTreeMap\<close> is an association list with increasing keys.

  Proved: the search ends, and finds exactly the references at most 32 levels deep; exactly which
  records pass the check of their type.
\<close>

record record_codec =
  record_of_json :: "json \<Rightarrow> repo_record option"
  blob_ref_of_json :: "json \<Rightarrow> string option"
  json_of_ipld :: "ipld \<Rightarrow> json option"
  blob_untyped :: "string \<Rightarrow> bool"
  blob_ref_cid :: "string \<Rightarrow> cid option"
  blob_ref_mime :: "string \<Rightarrow> string"
  cid_for_record :: "repo_record \<Rightarrow> cid option"
  uri_make :: "string \<Rightarrow> string \<Rightarrow> string \<Rightarrow> string option"

record found_blob_ref =
  fb_ref :: string
  fb_path :: "string list"

text \<open>Errors are \<open>anyhow\<close> errors, that is, a message; a library's own message is \<open>LibraryError\<close>.\<close>

datatype prepare_error =
    LegacyBlobRef "string list"
  | NoTypeProvided
  | InvalidType string string
  | LibraryError

section \<open>References to blobs\<close>

text \<open>The layer is a byte that never overflows: the search stops at 33.\<close>

lemma next_layer: "\<not> layer > 32 \<Longrightarrow> unat (layer + 1) = Suc (unat layer)" for layer :: "8 word"
proof -
  assume "\<not> layer > 32"
  then have "unat layer \<le> 32" by (simp add: word_less_nat_alt)
  then show ?thesis by (simp add: unat_word_ariths)
qed

function find_blob_refs :: "record_codec \<Rightarrow> lex \<Rightarrow> string list \<Rightarrow> 8 word \<Rightarrow> found_blob_ref list" where
  "find_blob_refs rc val path layer =
     (if layer > 32 then []
      else case val of
        LexList list \<Rightarrow> concat (map (\<lambda>item. find_blob_refs rc item path (layer + 1)) list)
      | LexBlob blob \<Rightarrow> [\<lparr>fb_ref = blob, fb_path = path\<rparr>]
      | LexIpld (IpldJson (JsonArray list)) \<Rightarrow>
          concat (map (\<lambda>item. case record_of_json rc item of
              Some item \<Rightarrow> find_blob_refs rc (LexMap item) path (layer + 1)
            | None \<Rightarrow> []) list)
      | LexIpld (IpldJson json) \<Rightarrow>
          (case blob_ref_of_json rc json of
             Some blob \<Rightarrow> [\<lparr>fb_ref = blob, fb_path = path\<rparr>]
           | None \<Rightarrow>
               (case record_of_json rc json of
                  Some record' \<Rightarrow>
                    concat (map (\<lambda>(key, item). find_blob_refs rc item (path @ [key]) (layer + 1)) record')
                | None \<Rightarrow> []))
      | LexIpld (IpldMap m) \<Rightarrow>
          (case Option.bind (json_of_ipld rc (IpldMap m)) (blob_ref_of_json rc) of
             Some blob \<Rightarrow> [\<lparr>fb_ref = blob, fb_path = path\<rparr>]
           | None \<Rightarrow>
               concat (map (\<lambda>(key, item). find_blob_refs rc (LexIpld item) (path @ [key]) (layer + 1)) m))
      | LexIpld (IpldList list) \<Rightarrow>
          concat (map (\<lambda>item. find_blob_refs rc (LexIpld item) path (layer + 1)) list)
      | LexIpld _ \<Rightarrow> []
      | LexMap m \<Rightarrow>
          concat (map (\<lambda>(key, item). find_blob_refs rc item (path @ [key]) (layer + 1)) m))"
  by pat_completeness auto

termination
  by (relation "measure (\<lambda>(rc, val, path, layer). 33 - unat layer)")
    (auto simp: next_layer word_less_nat_alt)

declare find_blob_refs.simps [simp del]

definition blobs_for_write :: "record_codec \<Rightarrow> repo_record \<Rightarrow> bool \<Rightarrow> prepare_error + prepared_blob_ref list" where
  "blobs_for_write rc record' validate =
     (let refs = find_blob_refs rc (LexMap record') [] 0
      in case find (\<lambda>r. blob_untyped rc (fb_ref r)) refs of
           Some r \<Rightarrow> Inl (LegacyBlobRef (fb_path r))
         | None \<Rightarrow>
             (if list_ex (\<lambda>r. blob_ref_cid rc (fb_ref r) = None) refs then Inl LibraryError
              else Inr (map (\<lambda>r. \<lparr>pb_cid = the (blob_ref_cid rc (fb_ref r)),
                pb_mime_type = blob_ref_mime rc (fb_ref r),
                pb_constraints = \<lparr>bc_max_size = None, bc_accept = None\<rparr>\<rparr>) refs)))"

section \<open>The type of a record\<close>

definition assert_valid_record :: "repo_record \<Rightarrow> prepare_error + unit" where
  "assert_valid_record record' =
     (case map_of record' ''$type'' of
        Some (LexIpld (IpldString _)) \<Rightarrow> Inr ()
      | _ \<Rightarrow> Inl NoTypeProvided)"

definition set_collection_name :: "string \<Rightarrow> repo_record \<Rightarrow> bool \<Rightarrow> prepare_error + repo_record" where
  "set_collection_name collection record' validate =
     (let record' = (if map_of record' ''$type'' = None
            then btree_insert ''$type'' (LexIpld (IpldJson (JsonString collection))) record' else record')
      in case map_of record' ''$type'' of
           Some (LexIpld (IpldJson (JsonString record_type))) \<Rightarrow>
             if validate \<and> record_type \<noteq> collection then Inl (InvalidType collection record_type)
             else Inr record'
         | _ \<Rightarrow> Inr record')"

section \<open>Prepared writes\<close>

definition cid_for_safe_record :: "record_codec \<Rightarrow> repo_record \<Rightarrow> prepare_error + cid" where
  "cid_for_safe_record rc record' =
     (case cid_for_record rc record' of None \<Rightarrow> Inl LibraryError | Some c \<Rightarrow> Inr c)"

record prepare_create_opts =
  po_did :: string
  po_collection :: string
  po_rkey :: "string option"
  po_swap_cid :: "cid option"
  po_record :: repo_record
  po_validate :: "bool option"

record prepare_update_opts =
  pu_did :: string
  pu_collection :: string
  pu_rkey :: string
  pu_swap_cid :: "cid option"
  pu_record :: repo_record
  pu_validate :: "bool option"

record prepare_delete_opts =
  px_did :: string
  px_collection :: string
  px_rkey :: string
  px_swap_cid :: "cid option"

text \<open>What create and update do alike once the record is checked and its URI is made.\<close>

definition prepare_record ::
  "record_codec \<Rightarrow> write_op_action \<Rightarrow> string option \<Rightarrow> cid option \<Rightarrow> repo_record \<Rightarrow> bool \<Rightarrow>
   prepare_error + prepared_create_or_update" where
  "prepare_record rc action uri swap_cid record' validate =
     (case uri of
        None \<Rightarrow> Inl LibraryError
      | Some uri \<Rightarrow>
          (case cid_for_safe_record rc record' of
             Inl e \<Rightarrow> Inl e
           | Inr cid \<Rightarrow>
               (case blobs_for_write rc record' validate of
                  Inl e \<Rightarrow> Inl e
                | Inr blobs \<Rightarrow> Inr \<lparr>pc_action = action, pc_uri = uri, pc_cid = cid, pc_swap_cid = swap_cid,
                    pc_record = record', pc_blobs = blobs\<rparr>)))"

definition checked_record :: "string \<Rightarrow> repo_record \<Rightarrow> bool \<Rightarrow> prepare_error + repo_record" where
  "checked_record collection record' validate =
     (case set_collection_name collection record' validate of
        Inl e \<Rightarrow> Inl e
      | Inr record' \<Rightarrow>
          if validate then (case assert_valid_record record' of Inl e \<Rightarrow> Inl e | Inr _ \<Rightarrow> Inr record')
          else Inr record')"

text \<open>\<open>next_rkey\<close> is the key drawn from the clock.\<close>

definition prepare_create ::
  "record_codec \<Rightarrow> string \<Rightarrow> prepare_create_opts \<Rightarrow> prepare_error + prepared_create_or_update" where
  "prepare_create rc next_rkey opts =
     (let validate = (case po_validate opts of Some v \<Rightarrow> v | None \<Rightarrow> True)
      in case checked_record (po_collection opts) (po_record opts) validate of
           Inl e \<Rightarrow> Inl e
         | Inr record' \<Rightarrow>
             (let rkey = (case po_rkey opts of Some k \<Rightarrow> k | None \<Rightarrow> next_rkey)
              in prepare_record rc WriteCreate (uri_make rc (po_did opts) (po_collection opts) rkey)
                   (po_swap_cid opts) record' validate))"

definition prepare_update ::
  "record_codec \<Rightarrow> prepare_update_opts \<Rightarrow> prepare_error + prepared_create_or_update" where
  "prepare_update rc opts =
     (let validate = (case pu_validate opts of Some v \<Rightarrow> v | None \<Rightarrow> True)
      in case checked_record (pu_collection opts) (pu_record opts) validate of
           Inl e \<Rightarrow> Inl e
         | Inr record' \<Rightarrow>
             prepare_record rc WriteUpdate (uri_make rc (pu_did opts) (pu_collection opts) (pu_rkey opts))
               (pu_swap_cid opts) record' validate)"

definition prepare_delete :: "record_codec \<Rightarrow> prepare_delete_opts \<Rightarrow> prepare_error + prepared_delete" where
  "prepare_delete rc opts =
     (case uri_make rc (px_did opts) (px_collection opts) (px_rkey opts) of
        None \<Rightarrow> Inl LibraryError
      | Some uri \<Rightarrow> Inr \<lparr>pd_action = WriteDelete, pd_uri = uri, pd_swap_cid = px_swap_cid opts\<rparr>)"

section \<open>What the search finds\<close>

text \<open>
  The search on its own terms, without a bound: what a value refers to itself, and the values one
  level below it, each with its key when it has one.
\<close>

fun refers_here :: "record_codec \<Rightarrow> lex \<Rightarrow> string option" where
  "refers_here rc (LexBlob blob) = Some blob"
| "refers_here rc (LexIpld (IpldJson (JsonArray list))) = None"
| "refers_here rc (LexIpld (IpldJson json)) = blob_ref_of_json rc json"
| "refers_here rc (LexIpld (IpldMap m)) = Option.bind (json_of_ipld rc (IpldMap m)) (blob_ref_of_json rc)"
| "refers_here rc v = None"

definition read_record :: "record_codec \<Rightarrow> json \<Rightarrow> repo_record" where
  "read_record rc j = (case record_of_json rc j of Some r \<Rightarrow> r | None \<Rightarrow> [])"

fun below :: "record_codec \<Rightarrow> lex \<Rightarrow> (string list \<times> lex) list" where
  "below rc (LexList list) = map (Pair []) list"
| "below rc (LexMap m) = map (\<lambda>(k, v). ([k], v)) m"
| "below rc (LexBlob b) = []"
| "below rc (LexIpld (IpldJson (JsonArray list))) =
     map (\<lambda>r. ([], LexMap r)) (List.map_filter (record_of_json rc) list)"
| "below rc (LexIpld (IpldJson json)) = map (\<lambda>(k, v). ([k], v)) (read_record rc json)"
| "below rc (LexIpld (IpldMap m)) = map (\<lambda>(k, v). ([k], LexIpld v)) m"
| "below rc (LexIpld (IpldList list)) = map (\<lambda>v. ([], LexIpld v)) list"
| "below rc (LexIpld v) = []"

inductive refers :: "record_codec \<Rightarrow> nat \<Rightarrow> lex \<Rightarrow> string list \<Rightarrow> string \<Rightarrow> bool" for rc where
  here: "refers_here rc v = Some b \<Longrightarrow> refers rc 0 v [] b"
| down: "refers_here rc v = None \<Longrightarrow> (ks, v') \<in> set (below rc v) \<Longrightarrow> refers rc n v' path b \<Longrightarrow>
    refers rc (Suc n) v (ks @ path) b"

inductive_cases refers_0: "refers rc 0 v path b"
inductive_cases refers_Suc: "refers rc (Suc n) v path b"

lemma concat_map_filter:
  "concat (map (\<lambda>x. case f x of Some y \<Rightarrow> g y | None \<Rightarrow> []) xs) = concat (map g (List.map_filter f xs))"
  by (induction xs) (auto simp: List.map_filter_simps split: option.split)

lemma search_step:
  "find_blob_refs rc v path layer =
     (if layer > 32 then []
      else case refers_here rc v of
        Some b \<Rightarrow> [\<lparr>fb_ref = b, fb_path = path\<rparr>]
      | None \<Rightarrow> concat (map (\<lambda>(ks, v). find_blob_refs rc v (path @ ks) (layer + 1)) (below rc v)))"
proof -
  have json: "find_blob_refs rc (LexIpld (IpldJson j)) path layer =
     (if layer > 32 then []
      else case refers_here rc (LexIpld (IpldJson j)) of
        Some b \<Rightarrow> [\<lparr>fb_ref = b, fb_path = path\<rparr>]
      | None \<Rightarrow> concat (map (\<lambda>(ks, v). find_blob_refs rc v (path @ ks) (layer + 1))
          (below rc (LexIpld (IpldJson j)))))" for j
    by (subst find_blob_refs.simps, cases j)
      (simp_all add: concat_map_filter read_record_def comp_def case_prod_unfold split: option.split)
  show ?thesis
  proof (cases v)
    case (LexIpld i)
    show ?thesis
    proof (cases "\<exists>j. i = IpldJson j")
      case True
      with json LexIpld show ?thesis by blast
    next
      case False
      with LexIpld show ?thesis
        by (subst find_blob_refs.simps, cases i)
          (simp_all add: comp_def case_prod_unfold split: option.split)
    qed
  qed (subst find_blob_refs.simps, simp add: comp_def case_prod_unfold)+
qed

lemma found_iff:
  assumes "unat layer + d = 33"
  shows "\<lparr>fb_ref = b, fb_path = p\<rparr> \<in> set (find_blob_refs rc v path layer) \<longleftrightarrow>
    (\<exists>n q. n < d \<and> refers rc n v q b \<and> p = path @ q)"
  using assms
proof (induction d arbitrary: layer v path)
  case 0
  then have "layer > 32" by (simp add: word_less_nat_alt)
  with 0 show ?case by (subst search_step) simp
next
  case (Suc d)
  then have low: "\<not> layer > 32" by (simp add: word_less_nat_alt)
  from Suc.prems next_layer [OF low] have next': "unat (layer + 1) + d = 33" by simp
  note IH = Suc.IH [OF next']
  show ?case
  proof (cases "refers_here rc v")
    case (Some b')
    have "refers rc n v q b \<longleftrightarrow> n = 0 \<and> q = [] \<and> b = b'" for n q
      using Some by (cases n) (auto intro: refers.here elim: refers_0 refers_Suc)
    with Some low show ?thesis by (subst search_step) auto
  next
    case None
    have step: "refers rc n v q b \<longleftrightarrow> (\<exists>m ks v' r. n = Suc m \<and> (ks, v') \<in> set (below rc v) \<and>
        refers rc m v' r b \<and> q = ks @ r)" for n q
    proof (cases n)
      case 0
      with None show ?thesis by (auto elim: refers_0)
    next
      case (Suc m)
      with None show ?thesis by (metis refers_Suc refers.down nat.inject)
    qed
    have "\<lparr>fb_ref = b, fb_path = p\<rparr> \<in> set (find_blob_refs rc v path layer) \<longleftrightarrow>
        (\<exists>(ks, v') \<in> set (below rc v). \<lparr>fb_ref = b, fb_path = p\<rparr> \<in> set (find_blob_refs rc v' (path @ ks) (layer + 1)))"
      using None low by (subst search_step) auto
    also have "\<dots> \<longleftrightarrow> (\<exists>(ks, v') \<in> set (below rc v). \<exists>m r. m < d \<and> refers rc m v' r b \<and> p = path @ ks @ r)"
      by (simp add: IH)
    also have "\<dots> \<longleftrightarrow> (\<exists>n q. n < Suc d \<and> refers rc n v q b \<and> p = path @ q)"
      unfolding step by fastforce
    finally show ?thesis .
  qed
qed

text \<open>C30: the search for blob references in a record always ends, and finds exactly the references
  at most 32 levels down, each with the keys that lead to it; deeper ones are missed, so a record
  can name a blob that the server never associates with it.\<close>

theorem find_blob_refs_iff:
  "\<lparr>fb_ref = b, fb_path = p\<rparr> \<in> set (find_blob_refs rc v [] 0) \<longleftrightarrow> (\<exists>n \<le> 32. refers rc n v p b)"
proof -
  have "n < 33 \<longleftrightarrow> n \<le> 32" for n :: nat by arith
  with found_iff [of 0 33 b p rc v "[]"] show ?thesis by simp
qed

section \<open>Which records pass\<close>

text \<open>
  With validation a record passes exactly when it has a \<open>$type\<close> that was read as an IPLD string:
  the collection that \<open>set_collection_name\<close> fills in is a JSON string, so a record without a type
  is refused after all, and a record of another type than its collection passes.
\<close>

lemma record_type_check:
  "checked_record collection r True = Inr r' \<longleftrightarrow>
     r' = r \<and> (\<exists>t. map_of r ''$type'' = Some (LexIpld (IpldString t)))"
proof (cases "map_of r ''$type''")
  case None
  then show ?thesis
    by (simp add: checked_record_def set_collection_name_def assert_valid_record_def Let_def)
next
  case (Some v)
  then show ?thesis
    by (auto simp: checked_record_def set_collection_name_def assert_valid_record_def Let_def
        split: lex.splits ipld.splits json.splits)
qed

end
