(* ===== verification/Plc_Operations.thy ===== *)
theory Plc_Operations
  imports Rust_Text
begin

text \<open>
  The PLC directory client (crate cacos-pds-plc: operations.rs, types.rs): the operations
  that create a DID and change its document. Signing, hashing and encodings are the record
  \<open>plc_env\<close>; a \<open>BTreeMap\<close> is an association list with increasing keys. The client that posts
  them is in Plc_Client.

  Proved: an update changes exactly what it was asked to change.
\<close>

section \<open>Types\<close>

record plc_service =
  pv_type :: string
  pv_endpoint :: string

record document_data =
  dd_did :: string
  dd_rotation_keys :: "string list"
  dd_verification_methods :: "(string \<times> string) list"
  dd_also_known_as :: "string list"
  dd_services :: "(string \<times> plc_service) list"

record create_op_v1 =
  v1_type :: string
  v1_signing_key :: string
  v1_recovery_key :: string
  v1_handle :: string
  v1_service :: string
  v1_prev :: "string option"
  v1_sig :: "string option"

record plc_operation =
  op_type :: string
  op_rotation_keys :: "string list"
  op_verification_methods :: "(string \<times> string) list"
  op_also_known_as :: "string list"
  op_services :: "(string \<times> plc_service) list"
  op_prev :: "string option"
  op_sig :: "string option"

record tombstone =
  tb_type :: string
  tb_prev :: string
  tb_sig :: "string option"

datatype compatible_op_or_tombstone =
    CotCreateOpV1 create_op_v1 | CotOperation plc_operation | CotTombstone tombstone

datatype compatible_op = CoCreateOpV1 create_op_v1 | CoOperation plc_operation

datatype op_or_tombstone = OtOperation plc_operation | OtTombstone tombstone

fun cot_set_sig :: "string \<Rightarrow> compatible_op_or_tombstone \<Rightarrow> compatible_op_or_tombstone" where
  "cot_set_sig s (CotCreateOpV1 create) = CotCreateOpV1 (create\<lparr>v1_sig := Some s\<rparr>)"
| "cot_set_sig s (CotOperation operation) = CotOperation (operation\<lparr>op_sig := Some s\<rparr>)"
| "cot_set_sig s (CotTombstone tomb) = CotTombstone (tomb\<lparr>tb_sig := Some s\<rparr>)"

fun cot_get_sig :: "compatible_op_or_tombstone \<Rightarrow> string option" where
  "cot_get_sig (CotCreateOpV1 create) = v1_sig create"
| "cot_get_sig (CotOperation operation) = op_sig operation"
| "cot_get_sig (CotTombstone tomb) = tb_sig tomb"

fun co_set_sig :: "string \<Rightarrow> compatible_op \<Rightarrow> compatible_op" where
  "co_set_sig s (CoCreateOpV1 create) = CoCreateOpV1 (create\<lparr>v1_sig := Some s\<rparr>)"
| "co_set_sig s (CoOperation operation) = CoOperation (operation\<lparr>op_sig := Some s\<rparr>)"

fun co_get_sig :: "compatible_op \<Rightarrow> string option" where
  "co_get_sig (CoCreateOpV1 create) = v1_sig create"
| "co_get_sig (CoOperation operation) = op_sig operation"

fun ot_set_sig :: "string \<Rightarrow> op_or_tombstone \<Rightarrow> op_or_tombstone" where
  "ot_set_sig s (OtOperation operation) = OtOperation (operation\<lparr>op_sig := Some s\<rparr>)"
| "ot_set_sig s (OtTombstone tomb) = OtTombstone (tomb\<lparr>tb_sig := Some s\<rparr>)"

fun ot_get_sig :: "op_or_tombstone \<Rightarrow> string option" where
  "ot_get_sig (OtOperation operation) = op_sig operation"
| "ot_get_sig (OtTombstone tomb) = tb_sig tomb"

text \<open>\<open>Panics\<close> is an \<open>unwrap\<close>, an index out of range or the \<open>panic!\<close> of \<open>create_update_op\<close>.\<close>

datatype plc_error = SignFailed | EncodeFailed | CannotApplyToTombstone | BadEndpoint string
  | BadResponse string | Refused | Panics

record plc_env =
  atproto_sign :: "compatible_op_or_tombstone \<Rightarrow> string \<Rightarrow> string option"
  base64_url :: "string \<Rightarrow> string"
  genesis_bytes :: "plc_operation \<Rightarrow> string option"
  plc_sha256 :: "string \<Rightarrow> string"
  base32 :: "string \<Rightarrow> string"
  cid_of_op :: "compatible_op \<Rightarrow> string option"

section \<open>Prefixes\<close>

definition ensure_http_prefix :: "string \<Rightarrow> string" where
  "ensure_http_prefix s =
     (if starts_with s ''http://'' \<or> starts_with s ''https://'' then s else ''https://'' @ s)"

function delete_str :: "string \<Rightarrow> string \<Rightarrow> string" where
  "delete_str p [] = []"
| "delete_str p (c # cs) =
     (if p \<noteq> [] \<and> starts_with (c # cs) p then delete_str p (drop (length p) (c # cs))
      else c # delete_str p cs)"
  by pat_completeness auto

termination
  by (relation "measure (\<lambda>(p, s). length s)") (auto simp: neq_Nil_conv)

definition ensure_atproto_prefix :: "string \<Rightarrow> string" where
  "ensure_atproto_prefix s =
     (if starts_with s ''at://'' then s
      else ''at://'' @ delete_str ''https://'' (delete_str ''http://'' s))"

lemma ensure_http_prefix_idem: "ensure_http_prefix (ensure_http_prefix s) = ensure_http_prefix s"
  by (simp add: ensure_http_prefix_def starts_with_def)

lemma ensure_atproto_prefix_starts: "starts_with (ensure_atproto_prefix s) ''at://''"
  by (auto simp: ensure_atproto_prefix_def starts_with_def)

lemma ensure_atproto_prefix_idem: "ensure_atproto_prefix (ensure_atproto_prefix s) = ensure_atproto_prefix s"
  using ensure_atproto_prefix_starts [of s] by (simp add: ensure_atproto_prefix_def)

section \<open>Signing\<close>

definition strip_padding :: "string \<Rightarrow> string" where
  "strip_padding s = filter (\<lambda>c. c \<noteq> CHR ''='') s"

definition sign_operation :: "plc_env \<Rightarrow> plc_operation \<Rightarrow> string \<Rightarrow> plc_error + plc_operation" where
  "sign_operation pe operation private_key =
     (case atproto_sign pe (CotOperation operation) private_key of
        None \<Rightarrow> Inl Panics
      | Some s \<Rightarrow> Inr (operation\<lparr>op_sig := Some (strip_padding (base64_url pe s))\<rparr>))"

definition add_signature ::
  "plc_env \<Rightarrow> compatible_op_or_tombstone \<Rightarrow> string \<Rightarrow> plc_error + compatible_op_or_tombstone" where
  "add_signature pe obj key =
     (case atproto_sign pe obj key of
        None \<Rightarrow> Inl SignFailed
      | Some s \<Rightarrow> Inr (cot_set_sig (strip_padding (base64_url pe s)) obj))"

section \<open>Creating a DID\<close>

record create_atproto_op_input =
  ca_signing_key :: string
  ca_handle :: string
  ca_pds :: string
  ca_rotation_keys :: "string list"

definition pds_service :: "string \<Rightarrow> plc_service" where
  "pds_service pds = \<lparr>pv_type = ''AtprotoPersonalDataServer'', pv_endpoint = ensure_http_prefix pds\<rparr>"

definition did_plc :: "plc_env \<Rightarrow> string \<Rightarrow> plc_error + string" where
  "did_plc pe bytes =
     (let s = ''did:plc:'' @ base32 pe (plc_sha256 pe bytes)
      in if length s < 32 then Inl Panics else Inr (ascii_lower (take 32 s)))"

definition unsigned_genesis :: "create_atproto_op_input \<Rightarrow> plc_operation" where
  "unsigned_genesis opts =
     \<lparr>op_type = ''plc_operation'', op_rotation_keys = ca_rotation_keys opts,
      op_verification_methods = [(''atproto'', ca_signing_key opts)],
      op_also_known_as = [ensure_atproto_prefix (ca_handle opts)],
      op_services = [(''atproto_pds'', pds_service (ca_pds opts))], op_prev = None, op_sig = None\<rparr>"

definition create_op :: "plc_env \<Rightarrow> create_atproto_op_input \<Rightarrow> string \<Rightarrow> plc_error + string \<times> plc_operation" where
  "create_op pe opts secret_key =
     (case sign_operation pe (unsigned_genesis opts) secret_key of
        Inl e \<Rightarrow> Inl e
      | Inr operation \<Rightarrow>
          (case genesis_bytes pe operation of
             None \<Rightarrow> Inl EncodeFailed
           | Some bytes \<Rightarrow> map_sum (\<lambda>e. e) (\<lambda>did. (did, operation)) (did_plc pe bytes)))"

section \<open>Updating a document\<close>

record create_atproto_update_op_opts =
  ua_signing_key :: "string option"
  ua_handle :: "string option"
  ua_pds :: "string option"
  ua_rotation_keys :: "string list option"

fun normalize_op :: "compatible_op \<Rightarrow> plc_operation" where
  "normalize_op (CoOperation operation) = operation"
| "normalize_op (CoCreateOpV1 create) =
     \<lparr>op_type = ''plc_operation'', op_rotation_keys = [v1_recovery_key create, v1_signing_key create],
      op_verification_methods = [(''atproto'', v1_signing_key create)],
      op_also_known_as = [ensure_atproto_prefix (v1_handle create)],
      op_services = [(''atproto_pds'', pds_service (v1_service create))],
      op_prev = v1_prev create, op_sig = v1_sig create\<rparr>"

fun position :: "('a \<Rightarrow> bool) \<Rightarrow> 'a list \<Rightarrow> nat option" where
  "position P [] = None"
| "position P (x # xs) = (if P x then Some 0 else map_option Suc (position P xs))"

definition with_handle :: "string \<Rightarrow> string list \<Rightarrow> string list" where
  "with_handle handle also_known_as =
     (let formatted = ensure_atproto_prefix handle
      in case position (\<lambda>h. starts_with h ''at://'') also_known_as of
           None \<Rightarrow> formatted # also_known_as
         | Some i \<Rightarrow> take i also_known_as @ [formatted] @ drop (i + 1) also_known_as)"

definition apply_update :: "create_atproto_update_op_opts \<Rightarrow> plc_operation \<Rightarrow> plc_operation" where
  "apply_update opts normalized =
     (let u = normalized;
          u = (case ua_signing_key opts of
              Some k \<Rightarrow> u\<lparr>op_verification_methods := btree_insert ''atproto'' k (op_verification_methods u)\<rparr>
            | None \<Rightarrow> u);
          u = (case ua_handle opts of
              Some h \<Rightarrow> u\<lparr>op_also_known_as := with_handle h (op_also_known_as normalized)\<rparr> | None \<Rightarrow> u);
          u = (case ua_pds opts of
              Some p \<Rightarrow> u\<lparr>op_services := btree_insert ''atproto_pds'' (pds_service p) (op_services u)\<rparr> | None \<Rightarrow> u)
      in case ua_rotation_keys opts of Some ks \<Rightarrow> u\<lparr>op_rotation_keys := ks\<rparr> | None \<Rightarrow> u)"

definition create_update_op ::
  "plc_env \<Rightarrow> compatible_op \<Rightarrow> string \<Rightarrow> (plc_operation \<Rightarrow> plc_operation) \<Rightarrow> plc_error + plc_operation" where
  "create_update_op pe last_op signer func =
     (case cid_of_op pe last_op of
        None \<Rightarrow> Inl EncodeFailed
      | Some prev \<Rightarrow>
          (let unsigned = (func ((normalize_op last_op)\<lparr>op_sig := None\<rparr>))\<lparr>op_prev := Some prev\<rparr>
           in case add_signature pe (CotOperation unsigned) signer of
                Inl e \<Rightarrow> Inl e
              | Inr (CotOperation operation) \<Rightarrow> Inr operation
              | Inr _ \<Rightarrow> Inl Panics))"

definition create_atproto_update_op ::
  "plc_env \<Rightarrow> compatible_op \<Rightarrow> string \<Rightarrow> create_atproto_update_op_opts \<Rightarrow> plc_error + plc_operation" where
  "create_atproto_update_op pe last_op signer opts = create_update_op pe last_op signer (apply_update opts)"

definition update_handle_op :: "plc_env \<Rightarrow> compatible_op \<Rightarrow> string \<Rightarrow> string \<Rightarrow> plc_error + plc_operation" where
  "update_handle_op pe last_op signer handle =
     create_atproto_update_op pe last_op signer
       \<lparr>ua_signing_key = None, ua_handle = Some handle, ua_pds = None, ua_rotation_keys = None\<rparr>"

section \<open>What an update changes\<close>

lemma position_Some:
  "position P xs = Some i \<longleftrightarrow> i < length xs \<and> P (xs ! i) \<and> (\<forall>j < i. \<not> P (xs ! j))"
proof (induction xs arbitrary: i)
  case (Cons x xs)
  then show ?case by (cases i) (auto simp: All_less_Suc2)
qed simp

lemma position_None: "position P xs = None \<longleftrightarrow> (\<forall>x \<in> set xs. \<not> P x)"
  by (induction xs) auto

lemma with_handle_cases:
  obtains before old after where "\<forall>a \<in> set before. \<not> starts_with a ''at://''" "starts_with old ''at://''"
    "xs = before @ old # after" "with_handle h xs = before @ ensure_atproto_prefix h # after"
  | "\<forall>a \<in> set xs. \<not> starts_with a ''at://''" "with_handle h xs = ensure_atproto_prefix h # xs"
proof (cases "position (\<lambda>h. starts_with h ''at://'') xs")
  case None
  with that(2) show thesis by (simp add: with_handle_def position_None)
next
  case (Some i)
  then have i: "i < length xs" "starts_with (xs ! i) ''at://''" "\<forall>j < i. \<not> starts_with (xs ! j) ''at://''"
    by (simp_all add: position_Some)
  have "\<forall>a \<in> set (take i xs). \<not> starts_with a ''at://''"
    using i by (auto simp: in_set_conv_nth)
  moreover have "xs = take i xs @ xs ! i # drop (i + 1) xs"
    using id_take_nth_drop [OF i(1)] by simp
  moreover have "with_handle h xs = take i xs @ ensure_atproto_prefix h # drop (i + 1) xs"
    using Some by (simp add: with_handle_def)
  ultimately show thesis using that(1) i(2) by blast
qed

lemma apply_update_simps:
  "op_type (apply_update opts u) = op_type u" "op_prev (apply_update opts u) = op_prev u"
  "op_sig (apply_update opts u) = op_sig u"
  "op_rotation_keys (apply_update opts u) = (case ua_rotation_keys opts of Some ks \<Rightarrow> ks | None \<Rightarrow> op_rotation_keys u)"
  "map_of (op_verification_methods (apply_update opts u)) = (case ua_signing_key opts of
     Some k \<Rightarrow> (map_of (op_verification_methods u))(''atproto'' \<mapsto> k) | None \<Rightarrow> map_of (op_verification_methods u))"
  "map_of (op_services (apply_update opts u)) = (case ua_pds opts of
     Some p \<Rightarrow> (map_of (op_services u))(''atproto_pds'' \<mapsto> pds_service p) | None \<Rightarrow> map_of (op_services u))"
  "op_also_known_as (apply_update opts u) = (case ua_handle opts of
     Some h \<Rightarrow> with_handle h (op_also_known_as u) | None \<Rightarrow> op_also_known_as u)"
  by (simp_all add: apply_update_def Let_def split: option.split)

lemma update_op_Inr:
  assumes "create_update_op pe last_op signer func = Inr u"
  obtains prev s where "cid_of_op pe last_op = Some prev"
    "atproto_sign pe (CotOperation ((func ((normalize_op last_op)\<lparr>op_sig := None\<rparr>))\<lparr>op_prev := Some prev\<rparr>)) signer = Some s"
    "u = (func ((normalize_op last_op)\<lparr>op_sig := None\<rparr>))\<lparr>op_prev := Some prev, op_sig := Some (strip_padding (base64_url pe s))\<rparr>"
  using assms by (auto simp: create_update_op_def add_signature_def Let_def split: option.splits)

text \<open>C36: an update of a DID document changes what it was asked to and nothing else, from either
  format of the last operation: the rotation keys, the signing key and the PDS endpoint are the new
  ones or the old ones and no other verification method or service changes; a new handle replaces the
  first at:// alias in its place, or comes first when there is none, and the other aliases keep their
  order. The operation names the CID of the last one, and its signature is over the operation itself,
  without a signature, by the given key.\<close>

theorem update_changes_only_asked:
  assumes "create_atproto_update_op pe last_op signer opts = Inr u"
  shows "op_type u = op_type (normalize_op last_op) \<and>
    op_rotation_keys u = (case ua_rotation_keys opts of Some ks \<Rightarrow> ks | None \<Rightarrow> op_rotation_keys (normalize_op last_op)) \<and>
    (\<forall>k. map_of (op_verification_methods u) k =
      (if k = ''atproto'' \<and> ua_signing_key opts \<noteq> None then ua_signing_key opts
       else map_of (op_verification_methods (normalize_op last_op)) k)) \<and>
    (\<forall>k. map_of (op_services u) k =
      (if k = ''atproto_pds'' \<and> ua_pds opts \<noteq> None then map_option pds_service (ua_pds opts)
       else map_of (op_services (normalize_op last_op)) k)) \<and>
    (ua_handle opts = None \<longrightarrow> op_also_known_as u = op_also_known_as (normalize_op last_op)) \<and>
    (\<forall>h. ua_handle opts = Some h \<longrightarrow> (\<exists>before after.
      op_also_known_as u = before @ ensure_atproto_prefix h # after \<and>
      (\<forall>a \<in> set before. \<not> starts_with a ''at://'') \<and>
      ((\<exists>old. starts_with old ''at://'' \<and> op_also_known_as (normalize_op last_op) = before @ old # after) \<or>
       before = [] \<and> after = op_also_known_as (normalize_op last_op) \<and>
       (\<forall>a \<in> set after. \<not> starts_with a ''at://'')))) \<and>
    op_prev u = cid_of_op pe last_op \<and>
    (\<exists>s. atproto_sign pe (CotOperation (u\<lparr>op_sig := None\<rparr>)) signer = Some s \<and>
      op_sig u = Some (strip_padding (base64_url pe s)))"
proof -
  obtain prev s where u: "cid_of_op pe last_op = Some prev"
    "atproto_sign pe (CotOperation ((apply_update opts ((normalize_op last_op)\<lparr>op_sig := None\<rparr>))\<lparr>op_prev := Some prev\<rparr>)) signer = Some s"
    "u = (apply_update opts ((normalize_op last_op)\<lparr>op_sig := None\<rparr>))\<lparr>op_prev := Some prev, op_sig := Some (strip_padding (base64_url pe s))\<rparr>"
    using assms by (auto simp: create_atproto_update_op_def elim: update_op_Inr)
  have unsigned: "u\<lparr>op_sig := None\<rparr> = (apply_update opts ((normalize_op last_op)\<lparr>op_sig := None\<rparr>))\<lparr>op_prev := Some prev\<rparr>"
    using apply_update_simps(3) [of opts "(normalize_op last_op)\<lparr>op_sig := None\<rparr>"] by (simp add: u(3))
  have handle: "\<exists>before after. with_handle h xs = before @ ensure_atproto_prefix h # after \<and>
      (\<forall>a \<in> set before. \<not> starts_with a ''at://'') \<and>
      ((\<exists>old. starts_with old ''at://'' \<and> xs = before @ old # after) \<or>
       before = [] \<and> after = xs \<and> (\<forall>a \<in> set after. \<not> starts_with a ''at://''))" for h xs
    by (rule with_handle_cases [of xs h]) (metis, metis append_Nil empty_iff list.set(1))
  show ?thesis
    unfolding unsigned using u(1,2) handle
    by (auto simp: u(3) apply_update_simps split: option.split)
qed

lemma update_changes_only_asked_witness:
  "let pe = \<lparr>atproto_sign = (\<lambda>o' k. Some k), base64_url = (\<lambda>s. s @ ''=''), genesis_bytes = (\<lambda>_. None),
       plc_sha256 = (\<lambda>s. s), base32 = (\<lambda>s. s), cid_of_op = (\<lambda>_. Some ''cid'')\<rparr>;
     last_op = CoCreateOpV1 \<lparr>v1_type = ''create'', v1_signing_key = ''key'', v1_recovery_key = ''recovery'', v1_handle = ''a.x.org'',
       v1_service = ''pds.x.org'', v1_prev = None, v1_sig = Some ''sig''\<rparr>
   in \<exists>u. create_atproto_update_op pe last_op ''k'' \<lparr>ua_signing_key = None, ua_handle = Some ''b.x.org'', ua_pds = None,
        ua_rotation_keys = None\<rparr> = Inr u \<and> op_rotation_keys u = [''recovery'', ''key''] \<and> op_sig u = Some ''k''"
proof -
  let ?pe = "\<lparr>atproto_sign = (\<lambda>o' k. Some k), base64_url = (\<lambda>s. s @ ''=''), genesis_bytes = (\<lambda>_. None),
       plc_sha256 = (\<lambda>s. s), base32 = (\<lambda>s. s), cid_of_op = (\<lambda>_. Some ''cid'')\<rparr>"
  let ?last = "CoCreateOpV1 \<lparr>v1_type = ''create'', v1_signing_key = ''key'', v1_recovery_key = ''recovery'', v1_handle = ''a.x.org'',
       v1_service = ''pds.x.org'', v1_prev = None, v1_sig = Some ''sig''\<rparr>"
  let ?opts = "\<lparr>ua_signing_key = None, ua_handle = Some ''b.x.org'', ua_pds = None, ua_rotation_keys = None\<rparr>"
  obtain u where run: "create_atproto_update_op ?pe ?last ''k'' ?opts = Inr u"
    by (simp add: create_atproto_update_op_def create_update_op_def add_signature_def Let_def)
  have "op_rotation_keys u = [''recovery'', ''key'']" "op_sig u = Some ''k''"
    using update_changes_only_asked [OF run] by (simp_all add: strip_padding_def)
  with run show ?thesis by (simp add: Let_def)
qed

section \<open>A new DID\<close>

lemma ascii_lower_length [simp]: "length (ascii_lower s) = length s"
  by (simp add: ascii_lower_def)

lemma create_op_Inr:
  assumes "create_op pe opts key = Inr (did, operation)"
  shows "op_rotation_keys operation = ca_rotation_keys opts"
    "op_verification_methods operation = [(''atproto'', ca_signing_key opts)]"
    "op_services operation = [(''atproto_pds'', pds_service (ca_pds opts))]"
    "op_also_known_as operation = [ensure_atproto_prefix (ca_handle opts)]"
    "op_prev operation = None" "length did = 32" "starts_with did ''did:plc:''"
    "\<exists>bytes. genesis_bytes pe operation = Some bytes \<and>
       did = ascii_lower (take 32 (''did:plc:'' @ base32 pe (plc_sha256 pe bytes)))"
proof -
  have lower: "ascii_lower ''did:plc:'' = ''did:plc:''" by code_simp
  show "op_rotation_keys operation = ca_rotation_keys opts"
    "op_verification_methods operation = [(''atproto'', ca_signing_key opts)]"
    "op_services operation = [(''atproto_pds'', pds_service (ca_pds opts))]"
    "op_also_known_as operation = [ensure_atproto_prefix (ca_handle opts)]"
    "op_prev operation = None" "length did = 32"
    "\<exists>bytes. genesis_bytes pe operation = Some bytes \<and>
       did = ascii_lower (take 32 (''did:plc:'' @ base32 pe (plc_sha256 pe bytes)))"
    using assms
    by (auto simp: create_op_def sign_operation_def did_plc_def unsigned_genesis_def Let_def
        split: option.splits sum.splits if_splits)
  then obtain r where "did = ascii_lower (''did:plc:'' @ r)" by auto
  then have "did = ''did:plc:'' @ ascii_lower r"
    using lower by (simp add: ascii_lower_def)
  then show "starts_with did ''did:plc:''" by (simp add: starts_with_def)
qed

end
