(* ===== verification/Server_State.thy ===== *)
theory Server_State
  imports Actor_Keys Actor_Store Repo_Prepare Sequencer Auth_Extractors Plc_Client
begin

text \<open>
  What the request handlers share (\<open>SharedState\<close> of cacos-pds-server/src/xrpc/mod.rs, built by
  xrpc/types.rs): the account database, the actor stores, the one blob store handle, whose DID is
  the text \<open>shared\<close>, and the sequencer, which is built without a job pool; \<open>ss_posted\<close> are the
  operations posted to the PLC directory. The record
  \<open>server_env\<close> holds the parameters of all parts, \<open>moment\<close> the clock and the identifiers drawn
  during one request. A handler locks its actor until it returns, so the requests for one actor
  are sequential.
\<close>

record server_state =
  ss_accounts :: account_db
  ss_actors :: actor_service
  ss_blobs :: operator
  ss_tasks :: "string list list"
  ss_sequencer :: sequencer
  ss_posted :: "(string \<times> op_or_tombstone) list"

record ('r, 'o) server_env =
  sx_actor :: actor_env
  sx_keys :: key_env
  sx_repo :: "('r, 'o) repo_env"
  sx_codec :: seq_codec
  sx_records :: record_codec
  sx_covers :: "string \<Rightarrow> string \<Rightarrow> bool"
  sx_sha256_cid :: "string \<Rightarrow> cid"

record moment =
  mo_now :: string
  mo_time :: int
  mo_net :: crawl_net
  mo_ids :: "nat \<Rightarrow> db_id"
  mo_rkey :: string

definition SHARED_BLOB_DID :: string where
  "SHARED_BLOB_DID = ''shared''"

definition shared_state :: "account_db \<Rightarrow> repo_seq_row list \<Rightarrow> string \<Rightarrow> string list \<Rightarrow> string \<Rightarrow> nat \<Rightarrow> operator \<Rightarrow> server_state" where
  "shared_state acc log hostname relays directory cache_size blobs =
     \<lparr>ss_accounts = acc, ss_actors = actor_store_new directory cache_size, ss_blobs = blobs, ss_tasks = [],
      ss_sequencer = sequencer_new log (crawlers_new hostname relays) None None, ss_posted = []\<rparr>"

section \<open>Credentials\<close>

definition requester_did :: "access_output \<Rightarrow> api_error + string" where
  "requester_did auth =
     (case Option.bind (ao_credentials auth) cr_did of
        Some did \<Rightarrow> Inr did
      | None \<Rightarrow> Inl (InvalidRequest ''Missing did on access token''))"

section \<open>Actor transactions\<close>

text \<open>Every failure below a handler is reported as the same internal error.\<close>

definition runtime_error :: "('e + 'a) \<times> 's \<Rightarrow> (api_error + 'a) \<times> 's" where
  "runtime_error r = (case r of (Inl _, s) \<Rightarrow> (Inl RuntimeError, s) | (Inr x, s) \<Rightarrow> (Inr x, s))"

definition open_txn :: "moment \<Rightarrow> server_state \<Rightarrow> actor_service \<Rightarrow> actor_reader \<Rightarrow> string \<Rightarrow> actor_txn" where
  "open_txn mo s acs r key =
     \<lparr>ax_did = ar_did r, ax_keypair = key, ax_db = as_contents acs (ar_db r), ax_cache = [],
      ax_now = mo_now mo, ax_op = ss_blobs s, ax_blob_did = SHARED_BLOB_DID, ax_tasks = []\<rparr>"

definition close_txn :: "actor_service \<Rightarrow> actor_reader \<Rightarrow> actor_txn \<Rightarrow> server_state \<Rightarrow> server_state" where
  "close_txn acs r ax s =
     s\<lparr>ss_actors := acs\<lparr>as_contents := (as_contents acs)(ar_db r := ax_db ax)\<rparr>,
       ss_blobs := ax_op ax, ss_tasks := ss_tasks s @ ax_tasks ax\<rparr>"

definition with_transactor ::
  "('r, 'o) server_env \<Rightarrow> moment \<Rightarrow> string \<Rightarrow> (actor_txn \<Rightarrow> (pds_error + 'a) \<times> actor_txn) \<Rightarrow> server_state \<Rightarrow>
   (api_error + 'a) \<times> server_state" where
  "with_transactor sx mo did f s =
     (case transact (sx_keys sx) did (ss_actors s) of
        (Inl _, acs) \<Rightarrow> (Inl RuntimeError, s\<lparr>ss_actors := acs\<rparr>)
      | (Inr (r, key), acs) \<Rightarrow>
          (case f (open_txn mo s acs r key) of
             (res, ax) \<Rightarrow> runtime_error (res, close_txn acs r ax s)))"

text \<open>A reader is a transactor without the lock and the key.\<close>

definition with_reader ::
  "('r, 'o) server_env \<Rightarrow> moment \<Rightarrow> string \<Rightarrow> (actor_txn \<Rightarrow> (pds_error + 'a) \<times> actor_txn) \<Rightarrow> server_state \<Rightarrow>
   (api_error + 'a) \<times> server_state" where
  "with_reader sx mo did f s =
     (case read_actor (sx_keys sx) did (ss_actors s) of
        (Inl _, acs) \<Rightarrow> (Inl RuntimeError, s\<lparr>ss_actors := acs\<rparr>)
      | (Inr r, acs) \<Rightarrow>
          (case f (open_txn mo s acs r []) of
             (res, ax) \<Rightarrow> runtime_error (res, close_txn acs r ax s)))"

section \<open>Sequencing\<close>

text \<open>
  Handlers sequence on a clone of the sequencer: the table, the job pool and the relays that were
  asked are shared with the clone, its throttle and its \<open>last_seen\<close> are not.
\<close>

definition on_sequencer :: "(sequencer \<Rightarrow> (seq_error + 'a) \<times> sequencer) \<Rightarrow> server_state \<Rightarrow> (seq_error + 'a) \<times> server_state"
  where
  "on_sequencer f s =
     (case f (ss_sequencer s) of (res, q) \<Rightarrow>
       (res, s\<lparr>ss_sequencer := q\<lparr>sq_crawlers := sq_crawlers (ss_sequencer s),
          sq_last_seen := sq_last_seen (ss_sequencer s)\<rparr>\<rparr>))"

definition destroy_in :: "('r, 'o) server_env \<Rightarrow> string \<Rightarrow> server_state \<Rightarrow> (api_error + unit) \<times> server_state" where
  "destroy_in sx did s =
     (case destroy_actor (sx_keys sx) (sx_covers sx) SHARED_BLOB_DID did (ss_actors s, ss_blobs s) of
        (res, acs, blobs) \<Rightarrow> runtime_error (res, s\<lparr>ss_actors := acs, ss_blobs := blobs\<rparr>))"

end
