(* ===== verification/Account_Handlers.thy ===== *)
theory Account_Handlers
  imports Session_Handlers Server_State
begin

text \<open>
  The life of an account over com.atproto.server: createAccount, activateAccount,
  deactivateAccount, checkAccountStatus, deleteAccount and reserveSigningKey
  (cacos-pds-server/src/xrpc/com/atproto/server/*.rs), with the checks of a DID document in mod.rs.
  \<open>account_env\<close> holds the configuration, the library checks of handles and addresses and the PLC
  directory; \<open>draws\<close> the clock and the random values of one request. The DID document of the answer
  is opaque. Timeouts and logging are left out.
\<close>

record account_env =
  hx_ext :: ext
  hx_plc :: plc_env
  hx_post :: "string \<Rightarrow> op_or_tombstone \<Rightarrow> bool"
  hx_document :: "string \<Rightarrow> document_data option"
  hx_resolve :: "string \<Rightarrow> string option"
  hx_doc_value :: "string \<Rightarrow> string option"
  hx_service_did :: string
  hx_hostname :: string
  hx_public_url :: string
  hx_domains :: "string list"
  hx_invite_required :: bool
  hx_email_valid :: "string \<Rightarrow> bool"
  hx_normalise :: "string \<Rightarrow> string + string"
  hx_valid_tld :: "string \<Rightarrow> bool"
  hx_slurs :: "string \<Rightarrow> bool"
  hx_repo_key :: string
  hx_global_rotation :: "string option"

record draws =
  dw_now :: int
  dw_salt :: string
  dw_raw :: string
  dw_secret :: string

section \<open>The document of a DID\<close>

record assertion_contents =
  an_signing_key :: "string option"
  an_pds_endpoint :: "string option"
  an_rotation_keys :: "string list option"
  an_per_did_rotation_key :: "string option"

text \<open>\<open>hx_global_rotation\<close> is the did:key of the server-wide rotation key, when one is configured.\<close>

definition assert_valid_doc_contents :: "key_env \<Rightarrow> account_env \<Rightarrow> assertion_contents \<Rightarrow> string + unit" where
  "assert_valid_doc_contents ke hx contents =
     (let holds = (\<lambda>key keys. case key of Some k \<Rightarrow> k \<in> set keys | None \<Rightarrow> False)
      in if (case an_rotation_keys contents of
             Some keys \<Rightarrow> \<not> holds (an_per_did_rotation_key contents) keys \<and> \<not> holds (hx_global_rotation hx) keys
           | None \<Rightarrow> False)
         then Inl ''No rotation key controlled by this PDS is included in PLC DID data''
         else if an_pds_endpoint contents \<noteq> Some (hx_public_url hx)
         then Inl ''DID document atproto_pds service endpoint does not match PDS public url''
         else if an_signing_key contents \<noteq> Some (did_key_of ke (hx_repo_key hx))
         then Inl ''DID document verification method does not match expected signing key''
         else Inr ())"

definition assert_valid_did_documents_with_store ::
  "key_env \<Rightarrow> account_env \<Rightarrow> string \<Rightarrow> actor_service option \<Rightarrow> string + unit" where
  "assert_valid_did_documents_with_store ke hx did store =
     (if starts_with did ''did:plc'' then
        (case hx_document hx did of
           None \<Rightarrow> Inl ''PLC''
         | Some resolved \<Rightarrow> assert_valid_doc_contents ke hx
             \<lparr>an_signing_key = map_of (dd_verification_methods resolved) ''atproto'',
              an_pds_endpoint = map_option pv_endpoint (map_of (dd_services resolved) ''atproto_pds''),
              an_rotation_keys = Some (dd_rotation_keys resolved),
              an_per_did_rotation_key = (case store of
                  Some s \<Rightarrow> (case rotation_keypair ke did s of Inr key \<Rightarrow> Some (did_key_of ke key) | Inl _ \<Rightarrow> None)
                | None \<Rightarrow> None)\<rparr>)
      else Inl ''Not yet supporting did:web'')"

definition assert_valid_did_documents_for_service :: "key_env \<Rightarrow> account_env \<Rightarrow> string \<Rightarrow> string + unit" where
  "assert_valid_did_documents_for_service ke hx did = assert_valid_did_documents_with_store ke hx did None"

definition is_valid_did_doc_for_service :: "key_env \<Rightarrow> account_env \<Rightarrow> string \<Rightarrow> bool" where
  "is_valid_did_doc_for_service ke hx did = is_ok (assert_valid_did_documents_for_service ke hx did)"

definition validate_handle :: "string \<Rightarrow> string list \<Rightarrow> bool" where
  "validate_handle handle service_handle_domains =
     list_ex (\<lambda>domain. case strip_suffix (as_dotted_suffix domain) handle of
         Some front \<Rightarrow> front \<noteq> [] \<and> CHR ''.'' \<notin> set front
       | None \<Rightarrow> False) service_handle_domains"

section \<open>createAccount: the input\<close>

record create_account_input =
  na_email :: "string option"
  na_handle :: string
  na_did :: "string option"
  na_invite_code :: "string option"
  na_password :: "string option"
  na_recovery_key :: "string option"
  na_plc_op :: "string option"

record transformed_input =
  tr_email :: string
  tr_handle :: string
  tr_did :: string
  tr_invite_code :: "string option"
  tr_password :: string
  tr_plc_op :: "plc_operation option"
  tr_deactivated :: bool

text \<open>\<open>dw_secret\<close> is the rotation key generated for the new DID; the handle goes in as it was sent.\<close>

definition format_did_and_plc_op ::
  "key_env \<Rightarrow> account_env \<Rightarrow> draws \<Rightarrow> create_account_input \<Rightarrow> api_error + string \<times> plc_operation \<times> string" where
  "format_did_and_plc_op ke hx dw input =
     (let rotation_keys = (case na_recovery_key input of Some k \<Rightarrow> [k] | None \<Rightarrow> []) @ [did_key_of ke (dw_secret dw)]
      in case create_op (hx_plc hx)
           \<lparr>ca_signing_key = did_key_of ke (hx_repo_key hx), ca_handle = na_handle input,
            ca_pds = ''https://'' @ hx_hostname hx, ca_rotation_keys = rotation_keys\<rparr> (dw_secret dw) of
         Inl _ \<Rightarrow> Inl RuntimeError
       | Inr (did, operation) \<Rightarrow> Inr (did, operation, dw_secret dw))"

fun api_error_of_kind :: "error_kind \<Rightarrow> api_error" where
  "api_error_of_kind InvalidHandle = ApiInvalidHandle"
| "api_error_of_kind error_kind.HandleNotAvailable = api_error.HandleNotAvailable"
| "api_error_of_kind error_kind.UnsupportedDomain = api_error.UnsupportedDomain"
| "api_error_of_kind InternalError = RuntimeError"

definition valid_new_handle :: "account_env \<Rightarrow> string \<Rightarrow> string option \<Rightarrow> api_error + string" where
  "valid_new_handle hx handle requester =
     (case normalize_and_validate_handle (hx_normalise hx) (hx_valid_tld hx) (hx_slurs hx)
         \<lparr>hv_handle = handle, hv_did = requester, hv_allow_reserved = None\<rparr> (hx_domains hx) of
        Inl e \<Rightarrow> Inl (api_error_of_kind (he_kind e))
      | Inr handle \<Rightarrow> if validate_handle handle (hx_domains hx) then Inr handle else Inl ApiInvalidHandle)"

text \<open>Who the account is for: a DID sent with the request, or a new one.\<close>

definition new_account_did ::
  "key_env \<Rightarrow> account_env \<Rightarrow> draws \<Rightarrow> create_account_input \<Rightarrow> string option \<Rightarrow>
   api_error + string \<times> plc_operation option \<times> string option \<times> bool" where
  "new_account_did ke hx dw input requester =
     (case na_did input of
        Some input_did \<Rightarrow>
          if Some input_did = requester
          then Inl (AuthRequiredError (''Missing auth to create account with did: '' @ input_did))
          else Inr (input_did, None, None, True)
      | None \<Rightarrow>
          (case format_did_and_plc_op ke hx dw input of
             Inl e \<Rightarrow> Inl e
           | Inr (did, operation, key) \<Rightarrow> Inr (did, Some operation, Some key, False)))"

definition validate_inputs_for_local_pds ::
  "key_env \<Rightarrow> account_env \<Rightarrow> draws \<Rightarrow> create_account_input \<Rightarrow> string option \<Rightarrow> account_db \<Rightarrow>
   api_error + transformed_input \<times> string option" where
  "validate_inputs_for_local_pds ke hx dw input requester db =
     (if na_plc_op input \<noteq> None then Inl (InvalidRequest ''Unsupported input: `plcOp`'')
      else if hx_invite_required hx \<and> na_invite_code input = None then Inl InvalidInviteCode
      else
        (case na_email input of
           None \<Rightarrow> Inl InvalidEmail
         | Some email \<Rightarrow>
             if \<not> hx_email_valid hx email then Inl InvalidEmail
             else
               (case valid_new_handle hx (na_handle input) requester of
                  Inl e \<Rightarrow> Inl e
                | Inr handle \<Rightarrow>
                    if get_account handle None db \<noteq> None then Inl api_error.HandleNotAvailable
                    else if get_account_by_email (hx_ext hx) email None db \<noteq> None then Inl EmailNotAvailable
                    else
                      (case na_password input of
                         None \<Rightarrow> Inl InvalidPassword
                       | Some password \<Rightarrow>
                           (case new_account_did ke hx dw input requester of
                              Inl e \<Rightarrow> Inl e
                            | Inr (did, plc_op, plc_rotation_key, deactivated) \<Rightarrow>
                                Inr (\<lparr>tr_email = email, tr_handle = handle, tr_did = did,
                                   tr_invite_code = na_invite_code input, tr_password = password,
                                   tr_plc_op = plc_op, tr_deactivated = deactivated\<rparr>, plc_rotation_key))))))"

section \<open>createAccount: the steps\<close>

definition registration_requester :: "access_output option \<Rightarrow> string option" where
  "registration_requester auth = Option.bind (Option.bind auth ao_credentials) cr_iss"

definition on_actors ::
  "(actor_service \<Rightarrow> (pds_error + 'a) \<times> actor_service) \<Rightarrow> server_state \<Rightarrow> (pds_error + 'a) \<times> server_state" where
  "on_actors f s = (case f (ss_actors s) of (r, acs) \<Rightarrow> (r, s\<lparr>ss_actors := acs\<rparr>))"

definition on_accounts ::
  "(account_db \<Rightarrow> ('e + 'a) \<times> account_db) \<Rightarrow> server_state \<Rightarrow> ('e + 'a) \<times> server_state" where
  "on_accounts f s = (case f (ss_accounts s) of (r, db) \<Rightarrow> (r, s\<lparr>ss_accounts := db\<rparr>))"

text \<open>Once the actor exists, a failing step destroys it and answers with the internal error.\<close>

definition or_abandon ::
  "('r, 'o) server_env \<Rightarrow> string \<Rightarrow> ('e + 'a) \<times> server_state \<Rightarrow> (api_error + 'a) \<times> server_state" where
  "or_abandon sx did r =
     (case r of
        (Inl _, s) \<Rightarrow> (Inl RuntimeError, snd (destroy_in sx did s))
      | (Inr x, s) \<Rightarrow> (Inr x, s))"

definition keep_rotation_key ::
  "('r, 'o) server_env \<Rightarrow> string \<Rightarrow> string \<Rightarrow> string option \<Rightarrow> server_state \<Rightarrow> (api_error + unit) \<times> server_state" where
  "keep_rotation_key sx fresh did plc_rotation_key s =
     (case plc_rotation_key of
        Some key \<Rightarrow> or_abandon sx did (on_actors (store_rotation_keypair (sx_keys sx) did key) s)
      | None \<Rightarrow> (Inr (), snd (on_actors (create_rotation_keypair (sx_keys sx) fresh did) s)))"

definition post_operation ::
  "account_env \<Rightarrow> string \<Rightarrow> plc_operation option \<Rightarrow> server_state \<Rightarrow> (plc_error + unit) \<times> server_state" where
  "post_operation hx did plc_op s =
     (case plc_op of
        None \<Rightarrow> (Inr (), s)
      | Some operation \<Rightarrow>
          if hx_post hx did (OtOperation operation)
          then (Inr (), s\<lparr>ss_posted := ss_posted s @ [(did, OtOperation operation)]\<rparr>)
          else (Inl Refused, s))"

text \<open>The four events of a new account, on one clone of the sequencer; a failing one is logged only.\<close>

definition announce_account ::
  "('r, 'o) server_env \<Rightarrow> moment \<Rightarrow> string \<Rightarrow> string \<Rightarrow> commit_data_with_ops \<Rightarrow> sync_evt_data \<Rightarrow> sequencer \<Rightarrow>
   (seq_error + unit) \<times> sequencer" where
  "announce_account sx mo did handle commit sync_data q =
     (let c = sx_codec sx; net = mo_net mo; now = mo_time mo;
          (active, status) = lex_status Active;
          q = snd (sequence_identity_evt c net (mo_ids mo 0) now did (Some handle) q);
          q = snd (sequence_account_evt c net (mo_ids mo 1) now did active status q);
          q = snd (sequence_commit c net (mo_ids mo 2) now did commit q);
          q = snd (sequence_sync_evt c net (mo_ids mo 3) now did (sy_rev sync_data) (sy_blocks sync_data) q)
      in (Inr (), q))"

definition announce_unless_deactivated ::
  "('r, 'o) server_env \<Rightarrow> moment \<Rightarrow> transformed_input \<Rightarrow> commit_data_with_ops \<Rightarrow> server_state \<Rightarrow>
   (api_error + unit) \<times> server_state" where
  "announce_unless_deactivated sx mo input commit s =
     (if tr_deactivated input then (Inr (), s)
      else
        and_then (runtime_error (sync_evt_data_from_commit (sx_codec sx) commit, s)) (\<lambda>sync_data s.
          runtime_error (on_sequencer
            (announce_account sx mo (tr_did input) (tr_handle input) commit sync_data) s)))"

record create_account_output =
  no_access_jwt :: string
  no_refresh_jwt :: string
  no_handle :: string
  no_did :: string
  no_did_doc :: "string option"

definition account_opts ::
  "('r, 'o) server_env \<Rightarrow> account_env \<Rightarrow> transformed_input \<Rightarrow> commit_data_with_ops \<Rightarrow> create_account_opts" where
  "account_opts sx hx input commit =
     \<lparr>co_did = tr_did input, co_handle = tr_handle input, co_email = Some (tr_email input),
      co_password = Some (tr_password input),
      co_repo_cid = cid_to_str (sx_actor sx) (cd_cid (cw_commit_data commit)),
      co_repo_rev = cd_rev (cw_commit_data commit), co_invite_code = tr_invite_code input,
      co_deactivated = Some (tr_deactivated input), co_service_did = hx_service_did hx\<rparr>"

text \<open>Everything up to the account's rows; from the second step on a failure destroys the actor.\<close>

definition set_up_account ::
  "('r, 'o) server_env \<Rightarrow> account_env \<Rightarrow> moment \<Rightarrow> draws \<Rightarrow> transformed_input \<Rightarrow> string option \<Rightarrow> server_state \<Rightarrow>
   (api_error + commit_data_with_ops \<times> string \<times> string) \<times> server_state" where
  "set_up_account sx hx mo dw input plc_rotation_key s =
     (let did = tr_did input in
     and_then (runtime_error (on_actors (create_actor (sx_keys sx) did (hx_repo_key hx)) s)) (\<lambda>_ s.
     and_then (keep_rotation_key sx (dw_secret dw) did plc_rotation_key s) (\<lambda>_ s.
     and_then (or_abandon sx did (with_transactor sx mo did
         (create_repo (sx_actor sx) (sx_repo sx) (mo_now mo) []) s)) (\<lambda>commit s.
     and_then (or_abandon sx did (post_operation hx did (tr_plc_op input) s)) (\<lambda>_ s.
     and_then (or_abandon sx did (on_accounts (create_account (hx_ext hx) (dw_now dw) (dw_salt dw) (dw_raw dw)
         (account_opts sx hx input commit)) s)) (\<lambda>(access_jwt, refresh_jwt) s.
       (Inr (commit, access_jwt, refresh_jwt), s)))))))"

definition inner_create_account ::
  "('r, 'o) server_env \<Rightarrow> account_env \<Rightarrow> moment \<Rightarrow> draws \<Rightarrow> create_account_input \<Rightarrow> access_output option \<Rightarrow>
   server_state \<Rightarrow> (api_error + create_account_output) \<times> server_state" where
  "inner_create_account sx hx mo dw body auth s =
     and_then (validate_inputs_for_local_pds (sx_keys sx) hx dw body (registration_requester auth) (ss_accounts s), s)
       (\<lambda>(input, plc_rotation_key) s.
     and_then (set_up_account sx hx mo dw input plc_rotation_key s) (\<lambda>(commit, access_jwt, refresh_jwt) s.
     and_then (announce_unless_deactivated sx mo input commit s) (\<lambda>_ s.
     and_then (runtime_error (on_accounts (update_root (hx_ext hx) (dw_now dw) (tr_did input)
         (cid_to_str (sx_actor sx) (cd_cid (cw_commit_data commit))) (cd_rev (cw_commit_data commit))) s)) (\<lambda>_ s.
     and_then (case hx_resolve hx (tr_did input) of
         None \<Rightarrow> Inr None
       | Some did_doc \<Rightarrow> (case hx_doc_value hx did_doc of None \<Rightarrow> Inl RuntimeError | Some v \<Rightarrow> Inr (Some v)), s)
       (\<lambda>did_doc s.
       (Inr \<lparr>no_access_jwt = access_jwt, no_refresh_jwt = refresh_jwt, no_handle = tr_handle input,
          no_did = tr_did input, no_did_doc = did_doc\<rparr>, s))))))"

section \<open>Activation, status, deletion\<close>

text \<open>The three events of an activation on one clone; here a failing one ends the request.\<close>

definition announce_activation ::
  "('r, 'o) server_env \<Rightarrow> moment \<Rightarrow> string \<Rightarrow> string \<Rightarrow> account_status \<Rightarrow> sync_evt_data \<Rightarrow> sequencer \<Rightarrow>
   (seq_error + unit) \<times> sequencer" where
  "announce_activation sx mo did handle status sync_data q =
     (let c = sx_codec sx; net = mo_net mo; now = mo_time mo; (active, status_lex) = lex_status status in
     and_then (sequence_account_evt c net (mo_ids mo 0) now did active status_lex q) (\<lambda>_ q.
     and_then (sequence_identity_evt c net (mo_ids mo 1) now did (Some handle) q) (\<lambda>_ q.
     and_then (sequence_sync_evt c net (mo_ids mo 2) now did (sy_rev sync_data) (sy_blocks sync_data) q) (\<lambda>_ q.
       (Inr (), q)))))"

definition inner_activate_account ::
  "('r, 'o) server_env \<Rightarrow> account_env \<Rightarrow> moment \<Rightarrow> access_output \<Rightarrow> server_state \<Rightarrow>
   (api_error + unit) \<times> server_state" where
  "inner_activate_account sx hx mo auth s =
     and_then (access_did auth, s) (\<lambda>requester s.
     and_then (runtime_error (assert_valid_did_documents_for_service (sx_keys sx) hx requester, s)) (\<lambda>_ s.
       case get_account requester (Some \<lparr>include_taken_down = None, include_deactivated = Some True\<rparr>)
           (ss_accounts s) of
         None \<Rightarrow> (Inl RuntimeError, s)
       | Some account \<Rightarrow>
           (let s = s\<lparr>ss_accounts := activate_account requester (ss_accounts s)\<rparr> in
           and_then (with_reader sx mo requester (get_sync_event_data (sx_actor sx)) s) (\<lambda>sync_data s.
           and_then (runtime_error (get_account_status requester (ss_accounts s), s)) (\<lambda>status s.
             runtime_error (on_sequencer (announce_activation sx mo requester
               (case aa_handle account of Some h \<Rightarrow> h | None \<Rightarrow> INVALID_HANDLE) status sync_data) s))))))"

record account_status_output =
  ck_activated :: bool
  ck_valid_did :: bool
  ck_repo_commit :: string
  ck_repo_rev :: string
  ck_repo_blocks :: nat
  ck_indexed_records :: nat
  ck_private_state_values :: nat
  ck_expected_blobs :: nat
  ck_imported_blobs :: nat

definition inner_check_account_status ::
  "('r, 'o) server_env \<Rightarrow> account_env \<Rightarrow> moment \<Rightarrow> access_output \<Rightarrow> server_state \<Rightarrow>
   (api_error + account_status_output) \<times> server_state" where
  "inner_check_account_status sx hx mo auth s =
     and_then (access_did auth, s) (\<lambda>requester s.
     and_then (with_reader sx mo requester (\<lambda>ax.
         (map_sum (\<lambda>e. e) (\<lambda>root. (root, count_blocks (ax_storage ax), record_count (ax_db ax),
            blob_count (ax_db ax), record_blob_count (ax_db ax)))
          (get_root_detailed (sx_actor sx) (ax_storage ax)), ax)) s)
       (\<lambda>(repo_root, repo_blocks, indexed_records, imported_blobs, expected_blobs) s.
       (Inr \<lparr>ck_activated = is_account_activated requester (ss_accounts s),
          ck_valid_did = is_valid_did_doc_for_service (sx_keys sx) hx requester,
          ck_repo_commit = cid_to_str (sx_actor sx) (cr_cid repo_root), ck_repo_rev = cr_rev repo_root,
          ck_repo_blocks = repo_blocks, ck_indexed_records = indexed_records, ck_private_state_values = 0,
          ck_expected_blobs = expected_blobs, ck_imported_blobs = imported_blobs\<rparr>, s)))"

text \<open>The outer handler answers every failure with the internal error.\<close>

definition check_account_status_handler ::
  "('r, 'o) server_env \<Rightarrow> account_env \<Rightarrow> moment \<Rightarrow> access_output \<Rightarrow> server_state \<Rightarrow>
   (api_error + account_status_output) \<times> server_state" where
  "check_account_status_handler sx hx mo auth s = runtime_error (inner_check_account_status sx hx mo auth s)"

definition deactivate_account_handler ::
  "account_env \<Rightarrow> draws \<Rightarrow> string option \<Rightarrow> access_output \<Rightarrow> server_state \<Rightarrow> (api_error + unit) \<times> server_state" where
  "deactivate_account_handler hx dw delete_after auth s =
     and_then (access_did auth, s) (\<lambda>did s.
       (Inr (), s\<lparr>ss_accounts := deactivate_account (hx_ext hx) (dw_now dw) did delete_after (ss_accounts s)\<rparr>))"

definition inner_delete_account ::
  "('r, 'o) server_env \<Rightarrow> account_env \<Rightarrow> moment \<Rightarrow> draws \<Rightarrow> string \<Rightarrow> string \<Rightarrow> string \<Rightarrow> server_state \<Rightarrow>
   (api_error + unit) \<times> server_state" where
  "inner_delete_account sx hx mo dw did password token s =
     (if get_account did any_account (ss_accounts s) = None then (Inl RuntimeError, s)
      else
        and_then (runtime_error (verify_account_password (hx_ext hx) did password (ss_accounts s), s)) (\<lambda>valid_pass s.
        if \<not> valid_pass then (Inl InvalidLogin, s)
        else
          and_then (runtime_error
              (assert_valid_token (hx_ext hx) (dw_now dw) did DeleteAccount token None (ss_accounts s), s)) (\<lambda>_ s.
          and_then (destroy_in sx did s) (\<lambda>_ s.
          and_then (runtime_error (on_accounts (delete_account did) s)) (\<lambda>_ s.
            let (active, status) = lex_status Deleted in
            runtime_error (on_sequencer (\<lambda>q.
              and_then (sequence_account_evt (sx_codec sx) (mo_net mo) (mo_ids mo 0) (mo_time mo) did active status q)
                (\<lambda>_ q. (Inr (), delete_all_for_user did q))) s))))))"

definition reserve_signing_key ::
  "('r, 'o) server_env \<Rightarrow> draws \<Rightarrow> string option \<Rightarrow> server_state \<Rightarrow> (api_error + string) \<times> server_state" where
  "reserve_signing_key sx dw did s = runtime_error (on_actors (reserve_keypair (sx_keys sx) (dw_secret dw) did) s)"

end
