(* ===== verification/Repo_Handlers.thy ===== *)
theory Repo_Handlers
  imports Server_State
begin

text \<open>
  The methods of com.atproto.repo (cacos-pds-server/src/xrpc/com/atproto/repo/create_record.rs,
  put_record.rs, delete_record.rs, apply_writes.rs, upload_blob.rs, describe_repo.rs): a record is
  read and prepared, written through the actor's store, and the commit is sequenced. The text of
  an error raised by a library is left out of messages.
\<close>

section \<open>Inputs\<close>

record create_record_input =
  ci_collection :: string
  ci_rkey :: "string option"
  ci_validate :: "bool option"
  ci_record :: json
  ci_swap_commit :: "string option"

record put_record_input =
  pi_collection :: string
  pi_rkey :: string
  pi_validate :: "bool option"
  pi_record :: json
  pi_swap_commit :: "string option"

record delete_record_input =
  di_collection :: string
  di_rkey :: string
  di_swap_commit :: "string option"

datatype apply_write =
    RefWriteCreate string "string option" json
  | RefWriteUpdate string string json
  | RefWriteDelete string string

record apply_writes_input =
  wi_validate :: "bool option"
  wi_writes :: "apply_write list"
  wi_swap_commit :: "string option"

record record_output =
  out_cid :: string
  out_uri :: string

section \<open>Shared steps\<close>

definition invalid :: "string \<Rightarrow> 'e + 'a \<Rightarrow> api_error + 'a" where
  "invalid message r = map_sum (\<lambda>_. InvalidRequest message) (\<lambda>x. x) r"

definition read_json :: "record_codec \<Rightarrow> string \<Rightarrow> json \<Rightarrow> api_error + repo_record" where
  "read_json rc message j =
     (case record_of_json rc j of None \<Rightarrow> Inl (InvalidRequest message) | Some r \<Rightarrow> Inr r)"

definition parse_swap :: "actor_env \<Rightarrow> string option \<Rightarrow> api_error + cid option" where
  "parse_swap env swap_commit =
     (case swap_commit of
        None \<Rightarrow> Inr None
      | Some text \<Rightarrow>
          (case cid_from_str env text of None \<Rightarrow> Inl (InvalidRequest ''CID'') | Some c \<Rightarrow> Inr (Some c)))"

text \<open>The tail of every write: the transaction, then the event.\<close>

definition write_and_sequence ::
  "('r, 'o) server_env \<Rightarrow> moment \<Rightarrow> string \<Rightarrow> prepared_write list \<Rightarrow> cid option \<Rightarrow> server_state \<Rightarrow>
   (api_error + unit) \<times> server_state" where
  "write_and_sequence sx mo did writes swap_cid s =
     and_then (with_transactor sx mo did
         (process_writes (sx_actor sx) (sx_repo sx) (mo_now mo) writes swap_cid) s) (\<lambda>commit s.
     and_then (runtime_error (on_sequencer
         (sequence_commit (sx_codec sx) (mo_net mo) (mo_ids mo 0) (mo_time mo) did commit) s)) (\<lambda>_ s.
       (Inr (), s)))"

section \<open>createRecord, putRecord, deleteRecord\<close>

text \<open>The action of a prepared create is \<open>WriteCreate\<close>; the other arm of the match is an error.\<close>

definition inner_create_record ::
  "('r, 'o) server_env \<Rightarrow> moment \<Rightarrow> create_record_input \<Rightarrow> access_output \<Rightarrow> server_state \<Rightarrow>
   (api_error + record_output) \<times> server_state" where
  "inner_create_record sx mo body auth s =
     (let rc = sx_records sx; validate = (case ci_validate body of Some v \<Rightarrow> v | None \<Rightarrow> True) in
     and_then (requester_did auth, s) (\<lambda>did s.
     and_then (read_json rc ''Record did not deserialize'' (ci_record body), s) (\<lambda>record' s.
     and_then (invalid ''Invalid $type'' (set_collection_name (ci_collection body) record' validate), s) (\<lambda>record' s.
     and_then (if validate then invalid ''No $type provided'' (assert_valid_record record') else Inr (), s) (\<lambda>_ s.
     and_then (parse_swap (sx_actor sx) (ci_swap_commit body), s) (\<lambda>swap_cid s.
     and_then (invalid ''prepare_create'' (prepare_create rc (mo_rkey mo)
         \<lparr>po_did = did, po_collection = ci_collection body, po_rkey = ci_rkey body, po_swap_cid = swap_cid,
          po_record = record', po_validate = Some validate\<rparr>), s) (\<lambda>prepared s.
     and_then (if pc_action prepared = WriteCreate then Inr (PwCreate prepared)
         else Inl (InvalidRequest ''prepare_create returned non-create action''), s) (\<lambda>write s.
     and_then (write_and_sequence sx mo did [write] swap_cid s) (\<lambda>_ s.
       (Inr \<lparr>out_cid = cid_to_str (sx_actor sx) (pc_cid prepared), out_uri = pc_uri prepared\<rparr>, s))))))))))"

definition inner_put_record ::
  "('r, 'o) server_env \<Rightarrow> moment \<Rightarrow> put_record_input \<Rightarrow> access_output \<Rightarrow> server_state \<Rightarrow>
   (api_error + record_output) \<times> server_state" where
  "inner_put_record sx mo body auth s =
     (let rc = sx_records sx; validate = (case pi_validate body of Some v \<Rightarrow> v | None \<Rightarrow> True) in
     and_then (requester_did auth, s) (\<lambda>did s.
     and_then (read_json rc ''Record did not deserialize'' (pi_record body), s) (\<lambda>record' s.
     and_then (invalid ''Invalid $type'' (set_collection_name (pi_collection body) record' validate), s) (\<lambda>record' s.
     and_then (parse_swap (sx_actor sx) (pi_swap_commit body), s) (\<lambda>swap_cid s.
     and_then (invalid ''prepare_update'' (prepare_update rc
         \<lparr>pu_did = did, pu_collection = pi_collection body, pu_rkey = pi_rkey body, pu_swap_cid = swap_cid,
          pu_record = record', pu_validate = Some validate\<rparr>), s) (\<lambda>prepared s.
     and_then (if pc_action prepared = WriteDelete
         then Inl (InvalidRequest ''prepare_update returned unexpected action'')
         else Inr (PwUpdate prepared), s) (\<lambda>write s.
     and_then (write_and_sequence sx mo did [write] swap_cid s) (\<lambda>_ s.
       (Inr \<lparr>out_cid = cid_to_str (sx_actor sx) (pc_cid prepared), out_uri = pc_uri prepared\<rparr>, s)))))))))"

definition inner_delete_record ::
  "('r, 'o) server_env \<Rightarrow> moment \<Rightarrow> delete_record_input \<Rightarrow> access_output \<Rightarrow> server_state \<Rightarrow>
   (api_error + unit) \<times> server_state" where
  "inner_delete_record sx mo body auth s =
     and_then (requester_did auth, s) (\<lambda>did s.
     and_then (parse_swap (sx_actor sx) (di_swap_commit body), s) (\<lambda>swap_cid s.
     and_then (invalid ''prepare_delete'' (prepare_delete (sx_records sx)
         \<lparr>px_did = did, px_collection = di_collection body, px_rkey = di_rkey body, px_swap_cid = swap_cid\<rparr>), s)
       (\<lambda>prepared s. write_and_sequence sx mo did [PwDelete prepared] swap_cid s)))"

section \<open>applyWrites\<close>

fun dispatch_action ::
  "record_codec \<Rightarrow> string \<Rightarrow> string \<Rightarrow> apply_write \<Rightarrow> bool \<Rightarrow> api_error + prepared_write" where
  "dispatch_action rc next_rkey did (RefWriteCreate collection rkey value') validate =
     (case read_json rc ''create record'' value' of
        Inl e \<Rightarrow> Inl e
      | Inr record' \<Rightarrow> map_sum (\<lambda>e. e) PwCreate (invalid ''prepare_create'' (prepare_create rc next_rkey
          \<lparr>po_did = did, po_collection = collection, po_rkey = rkey, po_swap_cid = None,
           po_record = record', po_validate = Some validate\<rparr>)))"
| "dispatch_action rc next_rkey did (RefWriteUpdate collection rkey value') validate =
     (case read_json rc ''update record'' value' of
        Inl e \<Rightarrow> Inl e
      | Inr record' \<Rightarrow> map_sum (\<lambda>e. e) PwUpdate (invalid ''prepare_update'' (prepare_update rc
          \<lparr>pu_did = did, pu_collection = collection, pu_rkey = rkey, pu_swap_cid = None,
           pu_record = record', pu_validate = Some validate\<rparr>)))"
| "dispatch_action rc next_rkey did (RefWriteDelete collection rkey) validate =
     map_sum (\<lambda>e. e) PwDelete (invalid ''prepare_delete'' (prepare_delete rc
       \<lparr>px_did = did, px_collection = collection, px_rkey = rkey, px_swap_cid = None\<rparr>))"

text \<open>Each create draws its own key; here the keys drawn are a list.\<close>

fun dispatch_actions ::
  "record_codec \<Rightarrow> (nat \<Rightarrow> string) \<Rightarrow> string \<Rightarrow> bool \<Rightarrow> apply_write list \<Rightarrow> api_error + prepared_write list" where
  "dispatch_actions rc rkeys did validate [] = Inr []"
| "dispatch_actions rc rkeys did validate (a # as) =
     (case dispatch_action rc (rkeys 0) did a validate of
        Inl e \<Rightarrow> Inl e
      | Inr w \<Rightarrow> map_sum (\<lambda>e. e) (Cons w) (dispatch_actions rc (\<lambda>n. rkeys (Suc n)) did validate as))"

definition inner_apply_writes ::
  "('r, 'o) server_env \<Rightarrow> moment \<Rightarrow> (nat \<Rightarrow> string) \<Rightarrow> apply_writes_input \<Rightarrow> access_output \<Rightarrow> server_state \<Rightarrow>
   (api_error + unit) \<times> server_state" where
  "inner_apply_writes sx mo rkeys body auth s =
     and_then (requester_did auth, s) (\<lambda>did s.
     and_then (parse_swap (sx_actor sx) (wi_swap_commit body), s) (\<lambda>swap_cid s.
     and_then (dispatch_actions (sx_records sx) rkeys did
         (case wi_validate body of Some v \<Rightarrow> v | None \<Rightarrow> True) (wi_writes body), s)
       (\<lambda>prepared_writes s. write_and_sequence sx mo did prepared_writes swap_cid s)))"

section \<open>uploadBlob, describeRepo\<close>

record blob_answer =
  ba_ref :: cid
  ba_mime_type :: string
  ba_size :: "64 word"

text \<open>The bytes go straight to the blob store; no row of the actor's database mentions them.\<close>

definition upload_blob ::
  "('r, 'o) server_env \<Rightarrow> string \<Rightarrow> access_output \<Rightarrow> server_state \<Rightarrow>
   (api_error + blob_answer) \<times> server_state" where
  "upload_blob sx bytes auth s =
     and_then (requester_did auth, s) (\<lambda>_ s.
       let cid = sx_sha256_cid sx bytes;
           blobs = put_permanent SHARED_BLOB_DID (cid_to_str (sx_actor sx) cid) bytes (ss_blobs s)
       in (Inr \<lparr>ba_ref = cid, ba_mime_type = ''application/octet-stream'', ba_size = of_nat (length bytes)\<rparr>,
           s\<lparr>ss_blobs := blobs\<rparr>))"

record describe_repo_output =
  dr_handle :: string
  dr_did :: string
  dr_collections :: "string list"
  dr_handle_is_correct :: bool

definition describe_repo ::
  "('r, 'o) server_env \<Rightarrow> moment \<Rightarrow> string \<Rightarrow> server_state \<Rightarrow> (api_error + describe_repo_output) \<times> server_state"
  where
  "describe_repo sx mo repo s =
     (case get_account repo None (ss_accounts s) of
        None \<Rightarrow> (Inl ApiAccountNotFound, s)
      | Some user \<Rightarrow>
          and_then (with_reader sx mo (aa_did user)
              (\<lambda>ax. (Inr (list_collections (ax_db ax)), ax)) s) (\<lambda>collections s.
            (Inr \<lparr>dr_handle = (case aa_handle user of Some h \<Rightarrow> h | None \<Rightarrow> ''handle.invalid''), dr_did = aa_did user,
               dr_collections = collections, dr_handle_is_correct = False\<rparr>, s)))"

end
