(* ===== verification/Actor_Facts.thy ===== *)
theory Actor_Facts
  imports Actor_Store
begin

text \<open>
  What a write to an actor's repository leaves in its database: the record index refines a map from
  URIs to CIDs, the root is that of the commit, and the blocks of indexed records are kept.
\<close>

section \<open>What is relied on\<close>

text \<open>
  Loading and formatting read the storage only. A commit has the blocks of the records it writes
  and does not remove them; when no record is updated or deleted it removes no block of a record.
\<close>

definition repo_reads :: "('r, 'o) repo_env \<Rightarrow> bool" where
  "repo_reads re \<longleftrightarrow>
     (\<forall>c st. st_db (snd (repo_load re c st)) = st_db st) \<and>
     (\<forall>r ops k st. st_db (snd (repo_format_commit re r ops k st)) = st_db st)"

definition diff_ok :: "actor_env \<Rightarrow> ('r, 'o) repo_env \<Rightarrow> bool" where
  "diff_ok env re \<longleftrightarrow>
     (\<forall>root st repo st1 writes ops key st2 commit st3.
        repo_load re root st = (Inr repo, st1) \<longrightarrow> write_ops re writes = Inr ops \<longrightarrow>
        st_db st2 = st_db st \<longrightarrow> repo_format_commit re repo ops key st2 = (Inr commit, st3) \<longrightarrow>
        (\<forall>w \<in> set writes. \<forall>c. write_cid w = Some c \<longrightarrow>
           c \<notin> set (cs_to_list env (cd_removed_cids commit)) \<and>
           (cid_to_str env c \<in> fst ` set (cd_new_blocks commit) \<or>
            block_at (st_db st) (cid_to_str env c) \<noteq> None)) \<and>
        ((\<forall>w \<in> set writes. \<not> touches w) \<longrightarrow>
           (\<forall>c \<in> set (cs_to_list env (cd_removed_cids commit)). \<forall>r \<in> set (ad_records (st_db st)).
              rec_cid r \<noteq> cid_to_str env c)))"

section \<open>Which parts of the database change\<close>

lemma on_storage_db:
  assumes "\<And>st. st_db (snd (f st)) = st_db st"
  shows "ax_db (snd (on_storage f ax)) = ax_db ax" "ax_did (snd (on_storage f ax)) = ax_did ax"
    "ax_now (snd (on_storage f ax)) = ax_now ax"
  using assms [of "ax_storage ax"] by (simp_all add: on_storage_def ax_storage_def case_prod_beta)

lemma cache_rows_db: "st_db (snd (cache_rows env rows st)) = st_db st"
  by (induction rows arbitrary: st) (simp_all split: option.split)

lemma cache_rev_db: "st_db (snd (cache_rev env r st)) = st_db st"
  by (simp add: cache_rev_def cache_rows_db)

lemma get_blocks_db: "st_db (snd (get_blocks env cs st)) = st_db st"
  by (simp add: get_blocks_def split: option.split sum.split)

text \<open>Blob processing leaves roots, blocks and records as they are.\<close>

definition core :: "actor_db \<Rightarrow> repo_root_row list \<times> repo_block_row list \<times> record_row list" where
  "core db = (ad_roots db, ad_blocks db, ad_records db)"

lemma verify_core: "core (bs_db (snd (verify_blob_and_make_permanent env did b st))) = core (bs_db st)"
  by (simp add: verify_blob_and_make_permanent_def and_then_def core_def clear_temp_key_def
      split: option.split sum.split prod.split)

lemma refer_blobs_core: "core (bs_db (snd (refer_blobs env did uri blobs st))) = core (bs_db st)"
proof (induction blobs arbitrary: st)
  case (Cons b blobs)
  obtain r st' where v: "verify_blob_and_make_permanent env did b st = (r, st')" by fastforce
  with verify_core [of env did b st] Cons show ?case
    by (cases r) (simp_all add: core_def associate_blob_def Let_def)
qed simp

lemma refer_writes_core: "core (bs_db (snd (refer_writes env did ws st))) = core (bs_db st)"
proof (induction ws arbitrary: st)
  case (Cons w ws)
  obtain r st' where v: "refer_blobs env did (write_uri w) (write_blobs w) st = (r, st')" by fastforce
  with refer_blobs_core [of env did "write_uri w" "write_blobs w" st] Cons show ?case
    by (cases r) simp_all
qed simp

lemma deref_core: "core (bs_db (delete_dereferenced_blobs env ws st)) = core (bs_db st)"
  by (simp add: delete_dereferenced_blobs_def Let_def core_def)

lemma process_write_blobs_core:
  "core (bs_db (snd (process_write_blobs env did ws st))) = core (bs_db st)"
  by (simp add: process_write_blobs_def refer_writes_core deref_core)

lemma process_blobs_core: "core (ax_db (snd (process_blobs env ws ax))) = core (ax_db ax)"
proof -
  obtain r st where p: "process_write_blobs env (ax_blob_did ax) ws (ax_blobs ax) = (r, st)" by fastforce
  with process_write_blobs_core [of env "ax_blob_did ax" ws "ax_blobs ax"] show ?thesis
    by (cases r) (simp_all add: process_blobs_def on_blobs_def core_def, simp_all add: ax_blobs_def)
qed

section \<open>The index as a map\<close>

definition index_map :: "actor_db \<Rightarrow> string \<Rightarrow> string option" where
  "index_map db uri = map_option rec_cid (record_at uri db)"

fun write_map ::
  "actor_env \<Rightarrow> prepared_write list \<Rightarrow> (string \<Rightarrow> string option) \<Rightarrow> string \<Rightarrow> string option" where
  "write_map env [] m = m"
| "write_map env (w # ws) m =
     (case at_uri_of env (write_uri w) of
        None \<Rightarrow> m
      | Some uri \<Rightarrow> write_map env ws
          (m(au_text uri := map_option (cid_to_str env) (write_cid w))))"

lemma index_map_write:
  "index_map (index_write env rev' now uri w db) =
     (index_map db)(au_text uri := map_option (cid_to_str env) (write_cid w))"
  by (cases w) (auto simp: index_map_def record_at_index record_at_delete new_record_def fun_eq_iff
      split: option.split)

lemma index_writes_map:
  "index_writes env rev' now ws db = (Inr (), db') \<Longrightarrow> index_map db' = write_map env ws (index_map db)"
  by (induction ws arbitrary: db) (auto simp: index_map_write split: option.splits)

lemma index_writes_keeps:
  "ad_roots (snd (index_writes env rev' now ws db)) = ad_roots db \<and>
   ad_blocks (snd (index_writes env rev' now ws db)) = ad_blocks db"
proof (induction ws arbitrary: db)
  case (Cons w ws)
  have "ad_roots (index_write env rev' now uri w db) = ad_roots db \<and>
      ad_blocks (index_write env rev' now uri w db) = ad_blocks db" for uri
    by (cases w) (simp_all add: index_record_def delete_record_def)
  with Cons show ?case by (simp split: option.split)
qed simp

text \<open>An entry of the map after the writes is one they wrote or one none of them named.\<close>

lemma write_map_cases:
  assumes "write_map env ws m u = Some k" and "\<forall>w \<in> set ws. at_uri_of env (write_uri w) \<noteq> None"
  shows "(\<exists>w \<in> set ws. \<exists>c. write_cid w = Some c \<and> k = cid_to_str env c) \<or>
    (m u = Some k \<and> (\<forall>w \<in> set ws. \<forall>uri. at_uri_of env (write_uri w) = Some uri \<longrightarrow> au_text uri \<noteq> u))"
  using assms
proof (induction ws arbitrary: m)
  case (Cons w ws)
  then obtain uri where uri: "at_uri_of env (write_uri w) = Some uri" by auto
  let ?m = "m(au_text uri := map_option (cid_to_str env) (write_cid w))"
  have "write_map env ws ?m u = Some k"
    using Cons.prems(1) uri by simp
  from Cons.IH [OF this] Cons.prems(2)
  consider "\<exists>w \<in> set ws. \<exists>c. write_cid w = Some c \<and> k = cid_to_str env c"
    | "?m u = Some k" "\<forall>w \<in> set ws. \<forall>uri. at_uri_of env (write_uri w) = Some uri \<longrightarrow> au_text uri \<noteq> u"
    by (meson list.set_intros(2))
  then show ?case
  proof cases
    case 2
    then show ?thesis
      using uri by (cases "u = au_text uri") auto
  qed auto
qed simp

lemma index_writes_uris:
  "index_writes env rev' now ws db = (Inr (), db') \<Longrightarrow> \<forall>w \<in> set ws. at_uri_of env (write_uri w) \<noteq> None"
  by (induction ws arbitrary: db) (auto split: option.splits)

section \<open>A commit that was formatted\<close>

lemma on_storage_Inr:
  "on_storage f ax = (Inr r, ax') \<longleftrightarrow>
   (\<exists>st'. f (ax_storage ax) = (Inr r, st') \<and> ax' = ax\<lparr>ax_db := st_db st', ax_cache := st_cache st'\<rparr>)"
  by (auto simp: on_storage_def split: prod.splits)

lemma storage_db [simp]: "st_db (ax_storage ax) = ax_db ax" "st_did (ax_storage ax) = ax_did ax"
  "st_now (ax_storage ax) = ax_now ax"
  by (simp_all add: ax_storage_def)

text \<open>Actors that differ in their cache only.\<close>

definition same_store :: "actor_txn \<Rightarrow> actor_txn \<Rightarrow> bool" where
  "same_store ax ax' \<longleftrightarrow> (\<exists>m. ax' = ax\<lparr>ax_cache := m\<rparr>)"

lemma same_store_refl [simp]: "same_store ax ax"
  unfolding same_store_def by (rule exI [of _ "ax_cache ax"]) simp

lemma same_store_trans [trans]: "same_store a b \<Longrightarrow> same_store b c \<Longrightarrow> same_store a c"
  by (auto simp: same_store_def)

lemma same_storeD:
  assumes "same_store ax ax'"
  shows "ax_db ax' = ax_db ax" "ax_did ax' = ax_did ax" "ax_now ax' = ax_now ax" "ax_op ax' = ax_op ax"
    "ax_blob_did ax' = ax_blob_did ax" "ax_tasks ax' = ax_tasks ax" "ax_keypair ax' = ax_keypair ax"
  using assms by (auto simp: same_store_def)

lemma on_storage_same:
  assumes "\<And>st. st_db (snd (f st)) = st_db st"
  shows "same_store ax (snd (on_storage f ax))"
  using assms [of "ax_storage ax"] by (auto simp: on_storage_def same_store_def case_prod_beta)

lemma add_missing_same: "same_store ax (snd (add_missing_blocks env cs commit ax))"
proof -
  have "same_store ax (snd (on_storage (get_blocks env missing) ax))" for missing
    by (rule on_storage_same) (rule get_blocks_db)
  then show ?thesis
    by (auto simp: add_missing_blocks_def and_then_def split: option.split sum.split prod.split)
      (metis snd_conv)+
qed

lemma add_missing_commit:
  "add_missing_blocks env cs commit ax = (Inr commit', ax') \<Longrightarrow>
   cd_cid commit' = cd_cid commit \<and> cd_rev commit' = cd_rev commit \<and>
   cd_removed_cids commit' = cd_removed_cids commit \<and> cd_new_blocks commit' = cd_new_blocks commit"
  by (auto simp: add_missing_blocks_def and_then_Inr_iff split: option.splits if_splits)

lemma format_commit_same:
  assumes "repo_reads re"
  shows "same_store ax (snd (format_commit env re writes swap ax))"
proof -
  have load: "same_store a (snd (load_repo re c a))" for c a
    using assms unfolding load_repo_def by (intro on_storage_same) (simp add: repo_reads_def)
  have fmt: "same_store a (snd (on_storage (repo_format_commit re r ops k) a))" for r ops k a
    using assms by (intro on_storage_same) (simp add: repo_reads_def)
  have rev': "same_store a (snd (on_storage (cache_rev env r) a))" for r a
    by (intro on_storage_same) (rule cache_rev_db)
  note steps = and_then_invariant [where P = "same_store ax"]
  show ?thesis
    unfolding format_commit_def format_on_root_def
    by (auto split: sum.split intro!: steps rev' intro: same_store_trans load fmt add_missing_same)
qed

lemma format_commit_Inr:
  assumes reads: "repo_reads re" and run: "format_commit env re writes swap ax = (Inr cw, ax')"
  obtains root st repo st1 ops st2 commit st3 dups plan
  where "repo_load re root st = (Inr repo, st1)" "st_db st = ax_db ax" "write_ops re writes = Inr ops"
    "st_db st2 = ax_db ax" "repo_format_commit re repo ops (ax_keypair ax) st2 = (Inr commit, st3)"
    "plan_writes env re (ax_db ax) writes = Inr plan"
    "get_duplicate_record_cids env (cs_to_list env (cd_removed_cids commit)) (wp_touched plan) (ax_db ax) = Inr dups"
    "cd_removed_cids (cw_commit_data cw) = fold (cs_delete env) dups (cd_removed_cids commit)"
    "cd_new_blocks (cw_commit_data cw) = cd_new_blocks commit"
proof -
  note bind = and_then_Inr_iff
  have load: "same_store a (snd (load_repo re c a))" for c a
    using reads unfolding load_repo_def by (intro on_storage_same) (simp add: repo_reads_def)
  have fmt: "same_store a (snd (on_storage (repo_format_commit re r ops k) a))" for r ops k a
    using reads by (intro on_storage_same) (simp add: repo_reads_def)
  have rev': "same_store a (snd (on_storage (cache_rev env r) a))" for r a
    by (intro on_storage_same) (rule cache_rev_db)
  from run obtain root where root: "format_on_root env re writes root ax = (Inr cw, ax')"
    by (auto simp: format_commit_def split: sum.splits if_splits)
  then obtain u ax1 plan repo ax2 ops commit0 ax3 commit1 commit2 where
    s1: "on_storage (cache_rev env (cr_rev root)) ax = (Inr u, ax1)" and
    s2: "plan_writes env re (ax_db ax1) writes = Inr plan" and
    s3: "load_repo re (cr_cid root) ax1 = (Inr repo, ax2)" and
    s4: "write_ops re writes = Inr ops" and
    s5: "on_storage (repo_format_commit re repo ops (ax_keypair ax2)) ax2 = (Inr commit0, ax3)" and
    s6: "keep_duplicates env (wp_touched plan) commit0 (ax_db ax3) = Inr commit1" and
    s7: "add_missing_blocks env (wp_new_cids plan) commit1 ax3 = (Inr commit2, ax')" and
    s8: "cw_commit_data cw = commit2"
    unfolding format_on_root_def bind by auto
  have e1: "same_store ax ax1" using rev' [of ax "cr_rev root"] s1 by simp
  have e2: "same_store ax ax2" using e1 load [of ax1 "cr_cid root"] s3 by (metis same_store_trans snd_conv)
  have e3: "same_store ax ax3" using e2 fmt [of ax2 repo ops "ax_keypair ax2"] s5
    by (metis same_store_trans snd_conv)
  obtain st1 where load1: "repo_load re (cr_cid root) (ax_storage ax1) = (Inr repo, st1)"
    using s3 by (auto simp: load_repo_def on_storage_Inr)
  obtain st3 where fmt1: "repo_format_commit re repo ops (ax_keypair ax) (ax_storage ax2) = (Inr commit0, st3)"
    using s5 same_storeD(7) [OF e2] by (auto simp: on_storage_Inr)
  obtain dups where dups: "get_duplicate_record_cids env (cs_to_list env (cd_removed_cids commit0))
      (wp_touched plan) (ax_db ax) = Inr dups"
    "commit1 = commit0\<lparr>cd_removed_cids := fold (cs_delete env) dups (cd_removed_cids commit0)\<rparr>"
    using s6 same_storeD(1) [OF e3] by (auto simp: keep_duplicates_def split: sum.splits)
  show thesis
    using that [OF load1 _ s4 _ fmt1 _ dups(1)] same_storeD(1) [OF e1] same_storeD(1) [OF e2] s2
      add_missing_commit [OF s7] dups(2) s8 by simp
qed

section \<open>What a successful write leaves\<close>

definition records_stored :: "actor_db \<Rightarrow> bool" where
  "records_stored db \<longleftrightarrow> (\<forall>r \<in> set (ad_records db). block_at db (rec_cid r) \<noteq> None)"

lemma insert_blocks_dom:
  "block_at (insert_blocks bm rev' db) k \<noteq> None \<longleftrightarrow> block_at db k \<noteq> None \<or> k \<in> fst ` set bm"
proof (induction bm arbitrary: db)
  case (Cons p bm)
  show ?case
    using Cons.IH [of "insert_block (fst p) rev' (snd p) db"]
    by (auto simp: insert_blocks_def case_prod_beta block_at_insert)
qed (simp add: insert_blocks_def)

lemma insert_blocks_keeps:
  "ad_records (insert_blocks bm rev' db) = ad_records db \<and> ad_roots (insert_blocks bm rev' db) = ad_roots db"
  unfolding insert_blocks_def
  by (induction bm arbitrary: db) (simp_all add: case_prod_beta insert_block_def)

lemma delete_blocks_keeps:
  "ad_records (delete_blocks keys db) = ad_records db \<and> ad_roots (delete_blocks keys db) = ad_roots db"
proof -
  have "ad_records (fold (\<lambda>batch db. db\<lparr>ad_blocks := delete_where (\<lambda>r. rb_cid r \<in> set batch) (ad_blocks db)\<rparr>) bs db) = ad_records db \<and>
      ad_roots (fold (\<lambda>batch db. db\<lparr>ad_blocks := delete_where (\<lambda>r. rb_cid r \<in> set batch) (ad_blocks db)\<rparr>) bs db) = ad_roots db" for bs
    by (induction bs arbitrary: db) simp_all
  then show ?thesis by (simp add: delete_blocks_def)
qed

lemma apply_commit_Inr:
  assumes run: "apply_commit env cd None st = (Inr u, st')"
  shows "find (\<lambda>r. rr_did r = st_did st) (ad_roots (st_db st')) =
      Some (root_row (st_did st) (cid_to_str env (cd_cid cd)) (cd_rev cd) (st_now st))"
    "ad_records (st_db st') = ad_records (st_db st)"
    "block_at (st_db st') k \<noteq> None \<longleftrightarrow>
       k \<notin> cid_to_str env ` set (cs_to_list env (cd_removed_cids cd)) \<and>
       (block_at (st_db st) k \<noteq> None \<or> k \<in> fst ` set (cd_new_blocks cd))"
proof -
  let ?keys = "map (cid_to_str env) (cs_to_list env (cd_removed_cids cd))"
  let ?row = "root_row (st_did st) (cid_to_str env (cd_cid cd)) (cd_rev cd) (st_now st)"
  let ?db = "(st_db st)\<lparr>ad_roots := update_where (\<lambda>r. rr_did r = st_did st) (\<lambda>_. ?row) (ad_roots (st_db st))\<rparr>"
  have has: "has_row (\<lambda>r. rr_did r = st_did st) (ad_roots (st_db st))"
    using run by (rule_tac ccontr) (simp add: apply_commit_def apply_commit_txn_def write_root_def)
  have "st' = snd (apply_commit env cd None st)"
    using run by simp
  with has have db: "st_db st' = delete_blocks ?keys (insert_blocks (cd_new_blocks cd) (cd_rev cd) ?db)"
    by (simp add: apply_commit_def apply_commit_txn_def write_root_def Let_def)
  have "find (\<lambda>r. rr_did r = did) (update_where (\<lambda>r. rr_did r = did) (\<lambda>_. root_row did c v n) t) =
      Some (root_row did c v n)" if "has_row (\<lambda>r. rr_did r = did) t" for t did c v n
    using that by (induction t) (auto simp: root_row_def)
  with has show "find (\<lambda>r. rr_did r = st_did st) (ad_roots (st_db st')) = Some ?row"
    by (simp add: db delete_blocks_keeps insert_blocks_keeps)
  show "ad_records (st_db st') = ad_records (st_db st)"
    by (simp add: db delete_blocks_keeps insert_blocks_keeps)
  have "block_at ?db = block_at (st_db st)"
    by (rule blocks_cong) simp
  then show "block_at (st_db st') k \<noteq> None \<longleftrightarrow>
       k \<notin> cid_to_str env ` set (cs_to_list env (cd_removed_cids cd)) \<and>
       (block_at (st_db st) k \<noteq> None \<or> k \<in> fst ` set (cd_new_blocks cd))"
    using insert_blocks_dom [of "cd_new_blocks cd" "cd_rev cd" ?db k]
    by (auto simp: db block_at_delete restrict_map_def)
qed

lemma fold_cs_delete:
  "cid_sets_ok env \<Longrightarrow> set (cs_to_list env (fold (cs_delete env) ds s)) = set (cs_to_list env s) - set ds"
  by (induction ds arbitrary: s) (auto simp: cid_sets_ok_def)

lemma plan_touched:
  "plan_writes env re db ws = Inr plan \<Longrightarrow>
   set (wp_touched plan) = {uri. \<exists>w \<in> set ws. touches w \<and> at_uri_of env (write_uri w) = Some uri}"
proof (induction ws arbitrary: plan)
  case (Cons w ws)
  then obtain uri plan' where "at_uri_of env (write_uri w) = Some uri" "plan_writes env re db ws = Inr plan'"
    "wp_touched plan = (if touches w then [uri] else []) @ wp_touched plan'"
    by (auto split: option.splits sum.splits)
  with Cons.IH show ?case by auto
qed auto

lemma uniq_index_writes:
  "uniq rec_uri (ad_records db) \<Longrightarrow> uniq rec_uri (ad_records (snd (index_writes env rev' now ws db)))"
proof (induction ws arbitrary: db)
  case (Cons w ws)
  have "uniq rec_uri (ad_records (index_write env rev' now uri w db))" for uri
    using Cons.prems by (cases w)
      (auto simp: index_record_def delete_record_def uniq_update uniq_snoc uniq_delete has_row_iff new_record_def)
  with Cons show ?case by (simp split: option.split)
qed simp

lemma index_map_in:
  "uniq rec_uri (ad_records db) \<Longrightarrow> r \<in> set (ad_records db) \<Longrightarrow> index_map db (rec_uri r) = Some (rec_cid r)"
  by (simp add: index_map_def record_at_def find_uniq [of rec_uri])

lemma index_map_out: "index_map db u = Some k \<Longrightarrow> \<exists>r \<in> set (ad_records db). rec_uri r = u \<and> rec_cid r = k"
  by (auto simp: index_map_def record_at_def dest: find_Some_set)

text \<open>The duplicates found are exactly the removed CIDs that records outside the writes still have.\<close>

lemma duplicates_found:
  assumes env: "cids_ok env" and "get_duplicate_record_cids env cs touched db = Inr dups" and "touched \<noteq> []"
    and "r \<in> set (ad_records db)" and "rec_uri r \<notin> au_text ` set touched" and "rec_cid r = cid_to_str env c"
    and "c \<in> set cs"
  shows "c \<in> set dups"
proof -
  let ?texts = "map rec_cid (filter (\<lambda>r. rec_cid r \<in> cid_to_str env ` set cs \<and> rec_uri r \<notin> au_text ` set touched)
    (ad_records db))"
  have "parse_texts env (Internal ''get_duplicate_record_cids: Cid::from_str failed'') ?texts = Inr dups"
    using assms(2,3,7) by (auto simp: get_duplicate_record_cids_def split: if_splits)
  from parse_texts_Inr [OF env this] have "cid_to_str env ` set dups = set ?texts"
    by (metis set_map)
  moreover have "rec_cid r \<in> set ?texts"
  proof -
    have "rec_cid r \<in> cid_to_str env ` set cs"
      using assms(6,7) by simp
    with assms(4,5) have "r \<in> set (filter (\<lambda>r. rec_cid r \<in> cid_to_str env ` set cs \<and>
        rec_uri r \<notin> au_text ` set touched) (ad_records db))"
      by simp
    then show ?thesis by (simp only: set_map) (rule imageI)
  qed
  ultimately have "cid_to_str env c \<in> cid_to_str env ` set dups"
    using assms(6) by simp
  then show ?thesis
    by (simp only: cid_to_str_image [OF env])
qed

lemma commit_keeps_records:
  assumes env: "cids_ok env" "cid_sets_ok env" and repo: "repo_reads re" "diff_ok env re"
    and fmt: "format_commit env re writes swap ax = (Inr cw, ax1)"
    and uniq: "uniq rec_uri (ad_records (ax_db ax))" and stored: "records_stored (ax_db ax)"
    and idx: "index_writes env rev' now writes (ax_db ax) = (Inr (), db1)"
    and r: "r \<in> set (ad_records db1)"
  shows "rec_cid r \<notin> cid_to_str env ` set (cs_to_list env (cd_removed_cids (cw_commit_data cw)))"
    "block_at (ax_db ax) (rec_cid r) \<noteq> None \<or> rec_cid r \<in> fst ` set (cd_new_blocks (cw_commit_data cw))"
proof -
  obtain root st repo st1 ops st2 commit st3 dups plan where
    c: "repo_load re root st = (Inr repo, st1)" "st_db st = ax_db ax" "write_ops re writes = Inr ops"
    "st_db st2 = ax_db ax" "repo_format_commit re repo ops (ax_keypair ax) st2 = (Inr commit, st3)"
    "plan_writes env re (ax_db ax) writes = Inr plan"
    "get_duplicate_record_cids env (cs_to_list env (cd_removed_cids commit)) (wp_touched plan) (ax_db ax) = Inr dups"
    "cd_removed_cids (cw_commit_data cw) = fold (cs_delete env) dups (cd_removed_cids commit)"
    "cd_new_blocks (cw_commit_data cw) = cd_new_blocks commit"
    by (rule format_commit_Inr [OF repo(1) fmt])
  have written: "c \<notin> set (cs_to_list env (cd_removed_cids commit))"
    "cid_to_str env c \<in> fst ` set (cd_new_blocks commit) \<or> block_at (ax_db ax) (cid_to_str env c) \<noteq> None"
    if "w \<in> set writes" "write_cid w = Some c" for w c
    using repo(2) c(1-5) that unfolding diff_ok_def by metis+
  have quiet: "rec_cid r \<noteq> cid_to_str env c"
    if "\<forall>w \<in> set writes. \<not> touches w" "c \<in> set (cs_to_list env (cd_removed_cids commit))"
      "r \<in> set (ad_records (ax_db ax))" for r c
    using repo(2) c(1-5) that unfolding diff_ok_def by metis
  have removed: "set (cs_to_list env (cd_removed_cids (cw_commit_data cw))) =
      set (cs_to_list env (cd_removed_cids commit)) - set dups"
    by (simp add: c(8) fold_cs_delete [OF env(2)])
  have uniq1: "uniq rec_uri (ad_records db1)"
    using uniq_index_writes [OF uniq, of env rev' now writes] idx by simp
  have "write_map env writes (index_map (ax_db ax)) (rec_uri r) = Some (rec_cid r)"
    using index_writes_map [OF idx] index_map_in [OF uniq1 r] by simp
  from write_map_cases [OF this index_writes_uris [OF idx]]
  have "rec_cid r \<notin> cid_to_str env ` set (cs_to_list env (cd_removed_cids (cw_commit_data cw))) \<and>
    (block_at (ax_db ax) (rec_cid r) \<noteq> None \<or> rec_cid r \<in> fst ` set (cd_new_blocks commit))"
  proof
    assume "\<exists>w \<in> set writes. \<exists>c. write_cid w = Some c \<and> rec_cid r = cid_to_str env c"
    then obtain w c' where w: "w \<in> set writes" "write_cid w = Some c'" "rec_cid r = cid_to_str env c'" by blast
    have "c' \<notin> set (cs_to_list env (cd_removed_cids commit)) - set dups"
      using written(1) [OF w(1,2)] by simp
    with written(2) [OF w(1,2)] show ?thesis
      by (simp add: removed w(3) cid_to_str_image [OF env(1)] disj_commute)
  next
    assume old: "index_map (ax_db ax) (rec_uri r) = Some (rec_cid r) \<and>
      (\<forall>w \<in> set writes. \<forall>uri. at_uri_of env (write_uri w) = Some uri \<longrightarrow> au_text uri \<noteq> rec_uri r)"
    then obtain r0 where r0: "r0 \<in> set (ad_records (ax_db ax))" "rec_uri r0 = rec_uri r" "rec_cid r0 = rec_cid r"
      using index_map_out by metis
    have out: "rec_uri r0 \<notin> au_text ` set (wp_touched plan)"
      using old r0(2) plan_touched [OF c(6)] by auto
    have "c' \<in> set dups" if rc: "rec_cid r = cid_to_str env c'"
      "c' \<in> set (cs_to_list env (cd_removed_cids commit))" for c'
    proof (cases "wp_touched plan = []")
      case True
      then have "\<forall>w \<in> set writes. \<not> touches w"
        using plan_touched [OF c(6)] index_writes_uris [OF idx] by auto
      with quiet [OF _ rc(2) r0(1)] rc(1) r0(3) show ?thesis by simp
    next
      case False
      from duplicates_found [OF env(1) c(7) this r0(1) out] rc r0(3) show ?thesis by simp
    qed
    moreover have "block_at (ax_db ax) (rec_cid r) \<noteq> None"
      using stored r0 by (auto simp: records_stored_def)
    ultimately show ?thesis
      by (auto simp: removed)
  qed
  then show "rec_cid r \<notin> cid_to_str env ` set (cs_to_list env (cd_removed_cids (cw_commit_data cw)))"
    "block_at (ax_db ax) (rec_cid r) \<noteq> None \<or> rec_cid r \<in> fst ` set (cd_new_blocks (cw_commit_data cw))"
    by (simp_all add: c(9))
qed

lemma on_db_Inr:
  "on_db f ax = (Inr r, ax') \<longleftrightarrow> (\<exists>db. f (ax_db ax) = (Inr r, db) \<and> ax' = ax\<lparr>ax_db := db\<rparr>)"
  by (auto simp: on_db_def split: prod.splits)

lemma process_writes_Inr:
  assumes reads: "repo_reads re" and run: "process_writes env re now writes swap ax = (Inr cw, ax')"
  obtains ax1 db1 st' where "format_commit env re writes swap ax = (Inr cw, ax1)" "same_store ax ax1"
    "index_writes env (cd_rev (cw_commit_data cw)) now writes (ax_db ax) = (Inr (), db1)"
    "apply_commit env (cw_commit_data cw) None (ax_storage (ax1\<lparr>ax_db := db1\<rparr>)) = (Inr (), st')"
    "core (ax_db ax') = core (st_db st')"
proof -
  note bind = and_then_Inr_iff
  from run obtain ax1 u2 ax2 u3 ax3 u4 ax4 where
    f: "format_commit env re writes swap ax = (Inr cw, ax1)" and
    i: "on_db (index_writes env (cd_rev (cw_commit_data cw)) now writes) ax1 = (Inr u2, ax2)" and
    a: "on_storage (apply_commit env (cw_commit_data cw) None) ax2 = (Inr u3, ax3)" and
    b: "process_blobs env writes ax3 = (Inr u4, ax')"
    unfolding process_writes_def bind by auto
  have same: "same_store ax ax1"
    using format_commit_same [OF reads, of ax env writes swap] f by simp
  from i same_storeD(1) [OF same] obtain db1 where
    i1: "index_writes env (cd_rev (cw_commit_data cw)) now writes (ax_db ax) = (Inr (), db1)"
    "ax2 = ax1\<lparr>ax_db := db1\<rparr>"
    by (auto simp: on_db_Inr)
  from a obtain st' where a1: "apply_commit env (cw_commit_data cw) None (ax_storage ax2) = (Inr (), st')"
    "ax_db ax3 = st_db st'"
    by (auto simp: on_storage_Inr)
  have "core (ax_db ax') = core (st_db st')"
    using process_blobs_core [of env writes ax3] b a1(2) by simp
  then show thesis
    using that [OF f same i1(1)] a1(1) i1(2) by blast
qed

text \<open>A write to a repository does to its actor's database what it should. Whenever it
  succeeds, the record index, read as a map from URIs to CIDs, is the old one with the writes
  applied in order; the stored root is the commit that was returned; and every record of the
  index has its block, whatever blocks the commit removed, although equal records share a block.\<close>

lemma process_writes_refines:
  assumes "cids_ok env" and "cid_sets_ok env" and "repo_reads re" and "diff_ok env re"
    and "uniq rec_uri (ad_records (ax_db ax))" and "records_stored (ax_db ax)"
    and "process_writes env re now writes swap ax = (Inr cw, ax')"
  shows "index_map (ax_db ax') = write_map env writes (index_map (ax_db ax)) \<and>
    find (\<lambda>r. rr_did r = ax_did ax) (ad_roots (ax_db ax')) =
      Some (root_row (ax_did ax) (cid_to_str env (cd_cid (cw_commit_data cw))) (cd_rev (cw_commit_data cw)) (ax_now ax)) \<and>
    records_stored (ax_db ax') \<and> uniq rec_uri (ad_records (ax_db ax'))"
proof -
  obtain ax1 db1 st' where p: "format_commit env re writes swap ax = (Inr cw, ax1)" "same_store ax ax1"
    "index_writes env (cd_rev (cw_commit_data cw)) now writes (ax_db ax) = (Inr (), db1)"
    "apply_commit env (cw_commit_data cw) None (ax_storage (ax1\<lparr>ax_db := db1\<rparr>)) = (Inr (), st')"
    "core (ax_db ax') = core (st_db st')"
    by (rule process_writes_Inr [OF assms(3,7)])
  note ap = apply_commit_Inr [OF p(4)] and D = same_storeD [OF p(2)]
  have uniq: "uniq rec_uri (ad_records (ax_db ax))"
    by (rule assms(5))
  have recs: "ad_records (ax_db ax') = ad_records db1" and roots: "ad_roots (ax_db ax') = ad_roots (st_db st')"
    and blocks: "block_at (ax_db ax') = block_at (st_db st')"
    using p(5) ap(2) by (auto simp: core_def block_at_def find_block_def fun_eq_iff)
  have "index_map (ax_db ax') = index_map db1"
    by (simp add: index_map_def record_at_def recs fun_eq_iff)
  moreover have "block_at db1 = block_at (ax_db ax)"
    using index_writes_keeps [of env _ now writes "ax_db ax"] p(3)
    by (intro blocks_cong) (metis snd_conv)
  moreover have "block_at (ax_db ax') (rec_cid r) \<noteq> None" if r: "r \<in> set (ad_records db1)" for r
    using commit_keeps_records [OF assms(1-4) p(1) uniq assms(6) p(3) r] ap(3) [of "rec_cid r"]
    by (simp add: blocks \<open>block_at db1 = _\<close>)
  moreover have "uniq rec_uri (ad_records db1)"
    using uniq_index_writes [OF uniq, of env _ now writes] p(3) by (metis snd_conv)
  ultimately show ?thesis
    using index_writes_map [OF p(3)] ap(1) D by (simp add: roots records_stored_def recs ax_storage_def)
qed

section \<open>A concrete repository library\<close>

text \<open>
  For the witnesses: a repository is its root, a commit has a block per written record and, when
  something is updated or deleted, removes the block \<open>old\<close> unless it was written.
\<close>

definition demo_commit :: "prepared_write list \<Rightarrow> commit_data" where
  "demo_commit ops =
     (let cids = List.map_filter write_cid ops
      in \<lparr>cd_cid = ''root2'', cd_rev = ''rev2'', cd_since = None, cd_prev = None,
          cd_new_blocks = (''root2'', ''root2'') # map (\<lambda>c. (c, c)) cids,
          cd_relevant_blocks = map (\<lambda>c. (c, c)) cids,
          cd_removed_cids = (if list_ex touches ops then filter (\<lambda>c. c \<notin> set cids) [''old''] else [])\<rparr>)"

definition demo_repo :: "(cid, prepared_write) repo_env" where
  "demo_repo =
     \<lparr>format_init_commit = (\<lambda>did key ops st. (Inr (demo_commit []), st)),
      repo_load = (\<lambda>c st. (Inr c, st)), repo_data = (\<lambda>c. c), write_to_op = Some,
      repo_format_commit = (\<lambda>r ops key st. (Inr (demo_commit ops), st)),
      format_data_key = (\<lambda>c k. c @ ''/'' @ k),
      commit_action_of = (\<lambda>a. case a of WriteCreate \<Rightarrow> CommitCreate | WriteUpdate \<Rightarrow> CommitUpdate
        | WriteDelete \<Rightarrow> CommitDelete)\<rparr>"

lemma demo_repo_reads: "repo_reads demo_repo"
  by (simp add: repo_reads_def demo_repo_def)

lemma demo_write_ops: "write_ops demo_repo ws = Inr ws"
  by (induction ws) (simp_all add: demo_repo_def)

lemma demo_diff_ok: "diff_ok demo_actor_env demo_repo"
proof -
  have "c \<in> set (List.map_filter write_cid ws)" if "w \<in> set ws" "write_cid w = Some c" for w ws c
    using that by (force simp: List.map_filter_def)
  then show ?thesis
    unfolding diff_ok_def demo_write_ops
    by (auto simp: demo_repo_def demo_commit_def Let_def demo_actor_env_def image_image list_ex_iff)
qed

definition demo_row :: "string \<Rightarrow> string \<Rightarrow> record_row" where
  "demo_row uri cid = \<lparr>rec_uri = uri, rec_cid = cid, rec_collection = take 1 uri, rec_rkey = drop 1 uri,
     rec_repo_rev = ''rev1'', rec_indexed_at = ''t1'', rec_takedown_ref = None\<rparr>"

text \<open>Two records with the same content.\<close>

definition demo_actor :: actor_txn where
  "demo_actor =
     \<lparr>ax_did = ''did:plc:a'', ax_keypair = ''key'',
      ax_db = empty_actor_db\<lparr>
        ad_roots := [root_row ''did:plc:a'' ''root1'' ''rev1'' ''t1''],
        ad_blocks := [block_row ''root1'' ''rev1'' ''root1'', block_row ''old'' ''rev1'' ''old''],
        ad_records := [demo_row ''p1'' ''old'', demo_row ''p2'' ''old'']\<rparr>,
      ax_cache = [], ax_now = ''t2'', ax_op = (\<lambda>_. None), ax_blob_did = ''shared'', ax_tasks = []\<rparr>"

definition demo_edit :: prepared_create_or_update where
  "demo_edit = \<lparr>pc_action = WriteUpdate, pc_uri = ''p1'', pc_cid = ''new'', pc_swap_cid = None,
     pc_record = [], pc_blobs = []\<rparr>"

lemmas demo_actor_simps = demo_actor_def demo_edit_def empty_actor_db_def demo_row_def root_row_def
  block_row_def process_writes_def format_commit_def format_on_root_def get_root_detailed_def ax_storage_def
  on_storage_def cache_rev_def current_cid_def get_record_def record_at_def got_of_def
  check_record_swap_def load_repo_def keep_duplicates_def get_duplicate_record_cids_def
  add_missing_blocks_def on_db_def index_record_def apply_commit_def apply_commit_txn_def write_root_def
  process_blobs_def on_blobs_def ax_blobs_def

lemma demo_commit_removed:
  "cd_removed_cids (demo_commit [PwUpdate demo_edit]) = [''old'']"
  "cd_new_blocks (demo_commit [PwUpdate demo_edit]) = [(''root2'', ''root2''), (''new'', ''new'')]"
  "cd_relevant_blocks (demo_commit [PwUpdate demo_edit]) = [(''new'', ''new'')]"
  "cd_cid (demo_commit ws) = ''root2''" "cd_rev (demo_commit ws) = ''rev2''"
  by (simp_all add: demo_commit_def List.map_filter_def demo_edit_def Let_def)

lemma demo_repo_simps [simp]:
  "repo_load demo_repo c st = (Inr c, st)" "repo_format_commit demo_repo r ops k st = (Inr (demo_commit ops), st)"
  "repo_data demo_repo c = c" "format_data_key demo_repo c k = c @ ''/'' @ k"
  "commit_action_of demo_repo WriteUpdate = CommitUpdate" "write_to_op demo_repo w = Some w"
  by (simp_all add: demo_repo_def)

lemma demo_actor_env_more [simp]:
  "cs_to_list demo_actor_env cs = cs" "cs_delete demo_actor_env = removeAll"
  "bm_get_many demo_actor_env m cs =
     Some (filter (\<lambda>p. fst p \<in> set cs) m, filter (\<lambda>c. map_of m c = None) cs)"
  by (simp_all add: demo_actor_env_def)

lemma demo_format:
  "format_commit demo_actor_env demo_repo [PwUpdate demo_edit] None demo_actor =
     (Inr \<lparr>cw_commit_data = (demo_commit [PwUpdate demo_edit])\<lparr>cd_removed_cids := []\<rparr>,
        cw_ops = [\<lparr>co_action = CommitUpdate, co_path = ''p/1'', co_cid = Some ''new'', co_prev = Some ''old''\<rparr>],
        cw_prev_data = Some ''root1''\<rparr>,
      demo_actor\<lparr>ax_cache := [(''old'', ''old''), (''root1'', ''root1'')]\<rparr>)"
  by (simp add: demo_actor_simps demo_commit_removed [unfolded demo_edit_def] demo_write_ops Let_def)

lemma demo_process:
  "\<exists>cw ax'. process_writes demo_actor_env demo_repo ''t2'' [PwUpdate demo_edit] None demo_actor = (Inr cw, ax')"
  unfolding process_writes_def demo_format
  by (simp add: demo_actor_simps demo_commit_removed [unfolded demo_edit_def] Let_def
      process_write_blobs_def delete_dereferenced_blobs_def)

lemma process_writes_refines_witness:
  "\<exists>cw ax'. process_writes demo_actor_env demo_repo ''t2'' [PwUpdate demo_edit] None demo_actor = (Inr cw, ax') \<and>
     index_map (ax_db ax') ''p1'' = Some ''new'' \<and> index_map (ax_db ax') ''p2'' = Some ''old'' \<and>
     records_stored (ax_db ax')"
proof -
  obtain cw ax' where run:
    "process_writes demo_actor_env demo_repo ''t2'' [PwUpdate demo_edit] None demo_actor = (Inr cw, ax')"
    using demo_process by blast
  have wf: "uniq rec_uri (ad_records (ax_db demo_actor))" "records_stored (ax_db demo_actor)"
    by (simp_all add: records_stored_def demo_actor_simps block_at_def find_block_def)
  have old: "index_map (ax_db demo_actor) ''p2'' = Some ''old''"
    by (simp add: index_map_def demo_actor_simps)
  show ?thesis
    using process_writes_refines [OF demo_actor_env_ok(1,3) demo_repo_reads demo_diff_ok wf run] run old
    by (simp add: demo_edit_def)
qed

end
