(* ===== verification/Repo_Handler_Facts.thy ===== *)
theory Repo_Handler_Facts
  imports Repo_Handlers Actor_Facts
begin

text \<open>
  What the methods of com.atproto.repo do: a successful write updates the actor's record map and
  root and appends exactly its commit event to the log; which swap conditions can hold; which
  records are refused; and that a write naming a blob cannot succeed when the database has no blob
  rows, which no method ever writes.
\<close>

section \<open>Transactions\<close>

lemma open_db_lock: "fst (open_db ke did (did_lock d a)) = fst (open_db ke did a)"
  by (cases "map_of (as_cache a) did"; cases "assert_safe_path_part did")
    (simp_all add: open_db_def did_lock_def get_location_def Let_def split: option.split)

lemma open_db_contents: "as_contents (snd (open_db ke did a)) = as_contents a"
  using open_db_state [of ke did a] by (auto simp: cache_put_def)

lemma transact_contents: "as_contents (snd (transact ke did a)) = as_contents a"
  by (simp add: opening_steps open_db_contents did_lock_def)

lemma transact_Inr:
  assumes "transact ke did a = (Inr (r, key), a')"
  shows "ar_did r = did" "fst (open_db ke did a) = Inr (ar_db r)" "as_contents a' = as_contents a"
proof -
  show "as_contents a' = as_contents a"
    using transact_contents [of ke did a] assms by simp
  from assms obtain db t where "open_db ke did (did_lock did a) = (Inr db, t)" "ar_db r = db" "ar_did r = did"
    unfolding transact_def read_actor_def and_then_Inr_iff by auto
  then show "ar_did r = did" "fst (open_db ke did a) = Inr (ar_db r)"
    using open_db_lock [of ke did did a] by simp_all
qed

lemma runtime_error_iff:
  "runtime_error r = (Inr x, s) \<longleftrightarrow> r = (Inr x, s)"
  "runtime_error r = (Inl e, s) \<longleftrightarrow> e = RuntimeError \<and> (\<exists>e'. r = (Inl e', s))"
  "snd (runtime_error r) = snd r"
  by (auto simp: runtime_error_def split: prod.splits sum.splits)

lemma with_transactor_Inr:
  "with_transactor sx mo did f s = (Inr x, s') \<longleftrightarrow>
     (\<exists>r key acs ax. transact (sx_keys sx) did (ss_actors s) = (Inr (r, key), acs) \<and>
        f (open_txn mo s acs r key) = (Inr x, ax) \<and> s' = close_txn acs r ax s)"
  by (auto simp: with_transactor_def runtime_error_iff split: prod.splits sum.splits)

lemma with_transactor_other:
  "ss_sequencer (snd (with_transactor sx mo did f s)) = ss_sequencer s"
  "ss_accounts (snd (with_transactor sx mo did f s)) = ss_accounts s"
  by (auto simp: with_transactor_def runtime_error_iff close_txn_def split: prod.split sum.split)

text \<open>A transaction changes the database it opened only, to one the operation leaves.\<close>

lemma with_transactor_db:
  "as_contents (ss_actors (snd (with_transactor sx mo did f s))) = as_contents (ss_actors s) \<or>
   (\<exists>r key acs. transact (sx_keys sx) did (ss_actors s) = (Inr (r, key), acs) \<and>
     as_contents (ss_actors (snd (with_transactor sx mo did f s))) =
       (as_contents (ss_actors s))(ar_db r := ax_db (snd (f (open_txn mo s acs r key)))))"
proof (cases "transact (sx_keys sx) did (ss_actors s)")
  case (Pair res acs)
  show ?thesis
  proof (cases res)
    case (Inl e)
    with Pair transact_contents [of "sx_keys sx" did "ss_actors s"] show ?thesis
      by (simp add: with_transactor_def)
  next
    case (Inr rk)
    obtain r key where rk: "rk = (r, key)" by (cases rk)
    with Pair Inr have t: "transact (sx_keys sx) did (ss_actors s) = (Inr (r, key), acs)" by simp
    obtain res' ax where f: "f (open_txn mo s acs r key) = (res', ax)" by fastforce
    have "as_contents (ss_actors (snd (with_transactor sx mo did f s))) =
        (as_contents (ss_actors s))(ar_db r := ax_db (snd (f (open_txn mo s acs r key))))"
      using t f transact_Inr(3) [OF t] by (simp add: with_transactor_def runtime_error_iff close_txn_def)
    with t show ?thesis by blast
  qed
qed

section \<open>Sequencing\<close>

lemma on_sequencer_other:
  "ss_actors (snd (on_sequencer f s)) = ss_actors s" "ss_blobs (snd (on_sequencer f s)) = ss_blobs s"
  "ss_accounts (snd (on_sequencer f s)) = ss_accounts s" "ss_tasks (snd (on_sequencer f s)) = ss_tasks s"
  by (simp_all add: on_sequencer_def case_prod_beta)

lemma on_sequencer_keeps:
  "sq_crawlers (ss_sequencer (snd (on_sequencer f s))) = sq_crawlers (ss_sequencer s)"
  "sq_last_seen (ss_sequencer (snd (on_sequencer f s))) = sq_last_seen (ss_sequencer s)"
  by (simp_all add: on_sequencer_def case_prod_beta)

lemma on_sequencer_db:
  "sq_db (ss_sequencer (snd (on_sequencer f s))) = sq_db (snd (f (ss_sequencer s)))"
  "sq_job_pool (ss_sequencer (snd (on_sequencer f s))) = sq_job_pool (snd (f (ss_sequencer s)))"
  "sq_requests (ss_sequencer (snd (on_sequencer f s))) = sq_requests (snd (f (ss_sequencer s)))"
  "fst (on_sequencer f s) = fst (f (ss_sequencer s))"
  by (simp_all add: on_sequencer_def case_prod_beta)

lemma sequence_commit_Inr:
  assumes "log_of c i ms q" and "i < fresh" and "sequence_commit c net fresh now did cw q = (Inr x, q')"
  obtains evt where "format_seq_commit c did cw now = Inr evt"
    "sq_db q' = sq_db q @ [row_of c (new_model fresh evt)]"
proof -
  from assms(3) obtain evt where evt: "format_seq_commit c did cw now = Inr evt"
    "sequence_evt c net fresh evt q = (Inr x, q')"
    by (auto simp: sequence_commit_def sequence_formatted_def and_then_Inr_iff)
  with sequence_evt_db [OF assms(1,2), of net evt] that show thesis by simp
qed

section \<open>A write that succeeds\<close>

lemma write_and_sequence_Inr:
  assumes "write_and_sequence sx mo did writes swap s = (Inr u, s')"
  obtains r key acs cw ax q x where
    "transact (sx_keys sx) did (ss_actors s) = (Inr (r, key), acs)"
    "process_writes (sx_actor sx) (sx_repo sx) (mo_now mo) writes swap (open_txn mo s acs r key) = (Inr cw, ax)"
    "sequence_commit (sx_codec sx) (mo_net mo) (mo_ids mo 0) (mo_time mo) did cw (ss_sequencer s) = (Inr x, q)"
    "as_contents (ss_actors s') = (as_contents (ss_actors s))(ar_db r := ax_db ax)"
    "sq_db (ss_sequencer s') = sq_db q"
proof -
  from assms obtain cw s1 x s2 where
    w: "with_transactor sx mo did (process_writes (sx_actor sx) (sx_repo sx) (mo_now mo) writes swap) s = (Inr cw, s1)" and
    q: "on_sequencer (sequence_commit (sx_codec sx) (mo_net mo) (mo_ids mo 0) (mo_time mo) did cw) s1 = (Inr x, s2)" and
    s': "s' = s2"
    unfolding write_and_sequence_def and_then_Inr_iff runtime_error_iff by auto
  from w obtain r key acs ax where
    t: "transact (sx_keys sx) did (ss_actors s) = (Inr (r, key), acs)" and
    p: "process_writes (sx_actor sx) (sx_repo sx) (mo_now mo) writes swap (open_txn mo s acs r key) = (Inr cw, ax)" and
    s1: "s1 = close_txn acs r ax s"
    unfolding with_transactor_Inr by auto
  have seq1: "ss_sequencer s1 = ss_sequencer s" by (simp add: s1 close_txn_def)
  obtain res q' where q': "sequence_commit (sx_codec sx) (mo_net mo) (mo_ids mo 0) (mo_time mo) did cw (ss_sequencer s) = (res, q')"
    by fastforce
  have "res = Inr x" "sq_db (ss_sequencer s2) = sq_db q'"
    using on_sequencer_db(1,4) [of "sequence_commit (sx_codec sx) (mo_net mo) (mo_ids mo 0) (mo_time mo) did cw" s1] q q' seq1
    by simp_all
  moreover have "as_contents (ss_actors s2) = (as_contents (ss_actors s))(ar_db r := ax_db ax)"
    using on_sequencer_other(1) [of "sequence_commit (sx_codec sx) (mo_net mo) (mo_ids mo 0) (mo_time mo) did cw" s1] q
      transact_Inr(3) [OF t] by (simp add: s1 close_txn_def)
  ultimately show thesis using that t p q' s' by simp
qed

definition server_ok :: "('r, 'o) server_env \<Rightarrow> bool" where
  "server_ok sx \<longleftrightarrow> cids_ok (sx_actor sx) \<and> cid_sets_ok (sx_actor sx) \<and> repo_reads (sx_repo sx) \<and>
     diff_ok (sx_actor sx) (sx_repo sx)"


section \<open>The swap condition\<close>

text \<open>A record whose CID is the CID of the repository's root: a record and a commit that hash alike.\<close>

definition record_is_root :: "actor_env \<Rightarrow> actor_db \<Rightarrow> bool" where
  "record_is_root env db \<longleftrightarrow>
     (\<exists>r \<in> set (ad_records db). \<exists>m ms c. ad_roots db = m # ms \<and>
        cid_from_str env (rec_cid r) = Some c \<and> cid_from_str env (rr_cid m) = Some c)"

lemma plan_swap_fails:
  assumes "write_swap_cid w = Some c" and "\<not> record_is_root env db"
    and "ad_roots db = m # ms" and "cid_from_str env (rr_cid m) = Some c"
  shows "\<exists>e. plan_writes env re db [w] = Inl e"
proof (cases "plan_writes env re db [w]")
  case (Inr plan)
  then obtain uri cur where cur: "current_cid env uri db = Inr cur"
    "check_record_swap (write_action w) cur (Some c) = Inr ()"
    using assms(1) by (auto split: option.splits sum.splits)
  then have "cur = Some c"
    by (auto simp: check_record_swap_def split: if_splits)
  with cur(1) obtain r where "r \<in> set (ad_records db)" "cid_from_str env (rec_cid r) = Some c"
    by (auto simp: current_cid_def get_record_def record_at_def got_of_def split: option.splits
        dest: find_Some_set)
  with assms(2-4) have False by (auto simp: record_is_root_def)
  then show ?thesis ..
qed simp

lemma swap_fails:
  assumes reads: "repo_reads re" and "write_swap_cid w = Some c" and "\<not> record_is_root env (ax_db ax)"
  shows "(\<exists>e. fst (process_writes env re now [w] (Some c) ax) = Inl e) \<and>
    ax_db (snd (process_writes env re now [w] (Some c) ax)) = ax_db ax"
proof -
  obtain res ax1 where f: "format_commit env re [w] (Some c) ax = (res, ax1)" by fastforce
  have same: "ax_db ax1 = ax_db ax"
    using format_commit_same [OF reads, of ax env "[w]" "Some c"] f by (auto dest: same_storeD)
  have "\<nexists>cw. res = Inr cw"
  proof
    assume "\<exists>cw. res = Inr cw"
    then obtain cw root ax2 plan where root: "get_root_detailed env (ax_storage ax) = Inr root" "cr_cid root = c"
      and u: "on_storage (cache_rev env (cr_rev root)) ax = (Inr (), ax2)" "plan_writes env re (ax_db ax2) [w] = Inr plan"
      using f by (auto simp: format_commit_def format_on_root_def and_then_Inr_iff split: sum.splits if_splits)
    have "ax_db ax2 = ax_db ax"
      using u(1) on_storage_db(1) [of "cache_rev env (cr_rev root)" ax] cache_rev_db by (metis snd_conv)
    moreover from root obtain m ms where "ad_roots (ax_db ax) = m # ms" "cid_from_str env (rr_cid m) = Some c"
      by (auto simp: get_root_detailed_def split: list.splits option.splits)
    ultimately show False using plan_swap_fails [OF assms(2,3), of m ms re] u(2) by auto
  qed
  then obtain e where "res = Inl e" by (cases res) auto
  with f same show ?thesis by (simp add: process_writes_def)
qed

lemma write_swap_fails:
  assumes "repo_reads (sx_repo sx)" and "write_swap_cid w = Some c"
    and "\<forall>n. \<not> record_is_root (sx_actor sx) (as_contents (ss_actors s) n)"
  shows "(\<exists>e. fst (write_and_sequence sx mo did [w] (Some c) s) = Inl e) \<and>
    as_contents (ss_actors (snd (write_and_sequence sx mo did [w] (Some c) s))) = as_contents (ss_actors s) \<and>
    ss_sequencer (snd (write_and_sequence sx mo did [w] (Some c) s)) = ss_sequencer s"
proof -
  let ?p = "process_writes (sx_actor sx) (sx_repo sx) (mo_now mo) [w] (Some c)"
  obtain res s1 where t: "with_transactor sx mo did ?p s = (res, s1)" by fastforce
  have fails: "(\<exists>e. fst (?p (open_txn mo s acs r key)) = Inl e) \<and>
      ax_db (snd (?p (open_txn mo s acs r key))) = as_contents acs (ar_db r)"
    if "as_contents acs = as_contents (ss_actors s)" for acs r key
    using swap_fails [OF assms(1,2), of "sx_actor sx" "open_txn mo s acs r key"] assms(3) that
    by (simp add: open_txn_def)
  have "\<exists>e. res = Inl e"
  proof (cases res)
    case (Inr cw)
    with t obtain r key acs ax where "transact (sx_keys sx) did (ss_actors s) = (Inr (r, key), acs)"
      "?p (open_txn mo s acs r key) = (Inr cw, ax)"
      by (auto simp: with_transactor_Inr)
    with fails [of acs r key] transact_Inr(3) show ?thesis by fastforce
  qed simp
  moreover have "as_contents (ss_actors s1) = as_contents (ss_actors s)"
    using with_transactor_db [of sx mo did ?p s] fails transact_Inr(3) t by fastforce
  moreover have "ss_sequencer s1 = ss_sequencer s"
    using with_transactor_other(1) [of sx mo did ?p s] t by simp
  ultimately show ?thesis using t by (auto simp: write_and_sequence_def)
qed

text \<open>What a handler prepares, with its swap condition.\<close>

lemma prepared_swap:
  "prepare_create rc rkey opts = Inr w \<Longrightarrow> pc_swap_cid w = po_swap_cid opts \<and> pc_action w = WriteCreate"
  "prepare_update rc upd = Inr w \<Longrightarrow> pc_swap_cid w = pu_swap_cid upd \<and> pc_action w = WriteUpdate"
  "prepare_delete rc del = Inr d \<Longrightarrow> pd_swap_cid d = px_swap_cid del"
  by (auto simp: prepare_create_def prepare_update_def prepare_delete_def prepare_record_def Let_def
      split: sum.splits option.splits)

lemma invalid_Inr: "invalid message r = Inr x \<longleftrightarrow> r = Inr x"
  by (cases r) (simp_all add: invalid_def)

lemma parse_swap_Inr:
  "parse_swap env (Some text) = Inr swap \<Longrightarrow> \<exists>c. swap = Some c"
  by (cases "cid_from_str env text") (auto simp: parse_swap_def)

text \<open>A check that needs no state either fails or goes on in the same state.\<close>

lemma and_then_check:
  "\<lbrakk>\<And>e. P (Inl e, s); \<And>x. r = Inr x \<Longrightarrow> P (k x s)\<rbrakk> \<Longrightarrow> P (and_then (r, s) k)"
  by (cases r) auto

definition refused :: "server_state \<Rightarrow> (api_error + 'a) \<times> server_state \<Rightarrow> bool" where
  "refused s r \<longleftrightarrow> (\<exists>e. fst r = Inl e) \<and>
     as_contents (ss_actors (snd r)) = as_contents (ss_actors s) \<and> ss_sequencer (snd r) = ss_sequencer s"

lemma refused_Inl [simp]: "refused s (Inl e, s)"
  by (simp add: refused_def)

lemma refused_and_then: "refused s r \<Longrightarrow> refused s (and_then r k)"
  by (cases r) (auto simp: refused_def)

text \<open>C32: the swapCommit parameter of createRecord, putRecord and deleteRecord cannot be used. It is
  compared with the repository's root and, as if it were swapRecord, with the record as well: unless
  a record and a commit have the same CID, a request that names a commit always fails and changes
  neither a database nor the log, also when it names the current commit.\<close>

theorem swap_commit_never_succeeds:
  assumes "repo_reads (sx_repo sx)"
    and "\<forall>n. \<not> record_is_root (sx_actor sx) (as_contents (ss_actors s) n)"
  shows "(ci_swap_commit create \<noteq> None \<longrightarrow> refused s (inner_create_record sx mo create auth s)) \<and>
    (pi_swap_commit put \<noteq> None \<longrightarrow> refused s (inner_put_record sx mo put auth s)) \<and>
    (di_swap_commit del \<noteq> None \<longrightarrow> refused s (inner_delete_record sx mo del auth s))"
proof -
  have tail: "refused s (write_and_sequence sx mo did [w] swap s)"
    if "parse_swap (sx_actor sx) (Some label) = Inr swap" "write_swap_cid w = swap" for did w swap label
  proof -
    from parse_swap_Inr [OF that(1)] obtain c where "swap = Some c" ..
    with write_swap_fails [OF assms(1) _ assms(2), of w c mo did] that(2) show ?thesis
      by (simp add: refused_def)
  qed
  note checks = refused_Inl and_then_check [where P = "refused s"] refused_and_then
  have "refused s (inner_create_record sx mo create auth s)" if "ci_swap_commit create = Some label" for label
    unfolding inner_create_record_def Let_def that
    by (intro checks tail; (assumption | simp add: invalid_Inr))
      (auto dest!: prepared_swap split: if_splits)
  moreover have "refused s (inner_put_record sx mo put auth s)" if "pi_swap_commit put = Some label" for label
    unfolding inner_put_record_def Let_def that
    by (intro checks tail; (assumption | simp add: invalid_Inr))
      (auto dest!: prepared_swap split: if_splits)
  moreover have "refused s (inner_delete_record sx mo del auth s)" if "di_swap_commit del = Some label" for label
    unfolding inner_delete_record_def that
    by (intro checks tail; (assumption | simp add: invalid_Inr))
      (auto dest!: prepared_swap split: if_splits)
  ultimately show ?thesis by blast
qed

section \<open>References to blobs\<close>

lemma index_writes_blobs: "ad_blobs (snd (index_writes env rev' now ws db)) = ad_blobs db"
proof (induction ws arbitrary: db)
  case (Cons w ws)
  have "ad_blobs (index_write env rev' now uri w db) = ad_blobs db" for uri
    by (cases w) (simp_all add: index_record_def delete_record_def)
  with Cons show ?case by (simp split: option.split)
qed simp

lemma insert_blocks_blobs: "ad_blobs (insert_blocks bm rev' db) = ad_blobs db"
  unfolding insert_blocks_def
  by (induction bm arbitrary: db) (simp_all add: case_prod_beta insert_block_def)

lemma delete_blocks_blobs: "ad_blobs (delete_blocks keys db) = ad_blobs db"
proof -
  have "ad_blobs (fold (\<lambda>batch db. db\<lparr>ad_blocks := delete_where (\<lambda>r. rb_cid r \<in> set batch) (ad_blocks db)\<rparr>) bs db) =
      ad_blobs db" for bs
    by (induction bs arbitrary: db) simp_all
  then show ?thesis by (simp add: delete_blocks_def)
qed

lemma apply_commit_blobs: "ad_blobs (st_db (snd (apply_commit env cd c st))) = ad_blobs (st_db st)"
  by (auto simp: apply_commit_def apply_commit_txn_def write_root_def Let_def and_then_def
      insert_blocks_blobs delete_blocks_blobs split: option.split prod.split sum.split)

text \<open>Without a row for any blob, associating one fails and creates none.\<close>

lemma verify_no_rows:
  "ad_blobs (bs_db st) = [] \<Longrightarrow>
   verify_blob_and_make_permanent env did b st = (Inl (CouldNotFindBlob (cid_to_str env (pb_cid b))), st)"
  by (simp add: verify_blob_and_make_permanent_def live_blob_def)

lemma refer_writes_no_rows:
  "ad_blobs (bs_db st) = [] \<Longrightarrow>
   ad_blobs (bs_db (snd (refer_writes env did ws st))) = [] \<and>
   ((\<exists>w \<in> set ws. write_blobs w \<noteq> []) \<longrightarrow> (\<exists>e. fst (refer_writes env did ws st) = Inl e))"
proof (induction ws arbitrary: st)
  case (Cons w ws)
  show ?case
  proof (cases "write_blobs w")
    case Nil
    with Cons show ?thesis by simp
  next
    case (Cons b bs)
    with Cons.prems show ?thesis by (simp add: verify_no_rows)
  qed
qed simp

lemma deref_no_rows: "ad_blobs (bs_db st) = [] \<Longrightarrow> ad_blobs (bs_db (delete_dereferenced_blobs env ws st)) = []"
  by (simp add: delete_dereferenced_blobs_def Let_def delete_where_def)

lemma process_blobs_no_rows:
  assumes "ad_blobs (ax_db ax) = []"
  shows "ad_blobs (ax_db (snd (process_blobs env ws ax))) = []"
    "\<exists>w \<in> set ws. write_blobs w \<noteq> [] \<Longrightarrow> \<exists>e. fst (process_blobs env ws ax) = Inl e"
proof -
  let ?st = "delete_dereferenced_blobs env ws (ax_blobs ax)"
  have "ad_blobs (bs_db ?st) = []"
    using assms by (intro deref_no_rows) (simp add: ax_blobs_def)
  note rows = refer_writes_no_rows [OF this, of env "ax_blob_did ax" ws]
  obtain r st' where "refer_writes env (ax_blob_did ax) ws ?st = (r, st')" by fastforce
  with rows show "ad_blobs (ax_db (snd (process_blobs env ws ax))) = []"
    "\<exists>w \<in> set ws. write_blobs w \<noteq> [] \<Longrightarrow> \<exists>e. fst (process_blobs env ws ax) = Inl e"
    by (cases r; simp add: process_blobs_def on_blobs_def process_write_blobs_def)+
qed

lemma on_storage_blobs:
  "(\<And>st. ad_blobs (st_db (snd (f st))) = ad_blobs (st_db st)) \<Longrightarrow>
   ad_blobs (ax_db (snd (on_storage f ax))) = ad_blobs (ax_db ax)"
  by (simp add: on_storage_def case_prod_beta)

lemma process_writes_no_rows:
  assumes "repo_reads re" and "ad_blobs (ax_db ax) = []"
  shows "ad_blobs (ax_db (snd (process_writes env re now ws swap ax))) = []"
    "\<exists>w \<in> set ws. write_blobs w \<noteq> [] \<Longrightarrow> \<exists>e. fst (process_writes env re now ws swap ax) = Inl e"
proof -
  let ?P = "\<lambda>ax. ad_blobs (ax_db ax) = []"
  have f: "?P (snd (format_commit env re ws swap ax))"
    using format_commit_same [OF assms(1), of ax env ws swap] assms(2) by (auto dest: same_storeD)
  have i: "?P a \<Longrightarrow> ?P (snd (on_db (index_writes env r now ws) a))" for r a
    using index_writes_blobs [of env r now ws "ax_db a"] by (simp add: on_db_def case_prod_beta)
  have c: "?P a \<Longrightarrow> ?P (snd (on_storage (apply_commit env cd None) a))" for cd a
    by (simp add: on_storage_blobs apply_commit_blobs)
  note step = and_then_invariant [where P = ?P]
  show "?P (snd (process_writes env re now ws swap ax))"
    unfolding process_writes_def
    by (intro step f i c process_blobs_no_rows(1)) simp_all
  assume blobs: "\<exists>w \<in> set ws. write_blobs w \<noteq> []"
  show "\<exists>e. fst (process_writes env re now ws swap ax) = Inl e"
  proof (cases "process_writes env re now ws swap ax")
    case (Pair res ax')
    show ?thesis
    proof (cases res)
      case (Inr cw)
      with Pair have "process_writes env re now ws swap ax = (Inr cw, ax')" by simp
      then obtain a1 a2 a3 u1 u2 u3 where
        "format_commit env re ws swap ax = (Inr cw, a1)"
        "on_db (index_writes env (cd_rev (cw_commit_data cw)) now ws) a1 = (Inr u1, a2)"
        "on_storage (apply_commit env (cw_commit_data cw) None) a2 = (Inr u2, a3)"
        "process_blobs env ws a3 = (Inr u3, ax')"
        unfolding process_writes_def and_then_Inr_iff by auto
      with f i [of a1] c [of a2] process_blobs_no_rows(2) [of a3 ws env] blobs show ?thesis
        by (metis fst_conv snd_conv sum.distinct(1))
    qed (use Pair in simp)
  qed
qed

lemma write_no_rows:
  assumes "repo_reads (sx_repo sx)" and "\<forall>n. ad_blobs (as_contents (ss_actors s) n) = []"
  shows "\<forall>n. ad_blobs (as_contents (ss_actors (snd (write_and_sequence sx mo did ws swap s))) n) = []"
    "\<exists>w \<in> set ws. write_blobs w \<noteq> [] \<Longrightarrow>
     (\<exists>e. fst (write_and_sequence sx mo did ws swap s) = Inl e) \<and>
     ss_sequencer (snd (write_and_sequence sx mo did ws swap s)) = ss_sequencer s"
proof -
  let ?p = "process_writes (sx_actor sx) (sx_repo sx) (mo_now mo) ws swap"
  let ?P = "\<lambda>s. \<forall>n. ad_blobs (as_contents (ss_actors s) n) = []"
  have txn: "ad_blobs (ax_db (open_txn mo s acs r key)) = []"
    if "transact (sx_keys sx) did (ss_actors s) = (Inr (r, key), acs)" for acs r key
    using transact_Inr(3) [OF that] assms(2) by (simp add: open_txn_def)
  have w: "?P (snd (with_transactor sx mo did ?p s))"
    using with_transactor_db [of sx mo did ?p s] assms(2) process_writes_no_rows(1) [OF assms(1) txn] by auto
  have q: "?P s1 \<Longrightarrow> ?P (snd (runtime_error (on_sequencer f s1)))" for f s1
    by (simp add: runtime_error_iff on_sequencer_other)
  show "?P (snd (write_and_sequence sx mo did ws swap s))"
    unfolding write_and_sequence_def by (intro and_then_invariant [where P = ?P] w q) simp_all
  assume blobs: "\<exists>w \<in> set ws. write_blobs w \<noteq> []"
  have "\<exists>e. fst (with_transactor sx mo did ?p s) = Inl e"
  proof (cases "fst (with_transactor sx mo did ?p s)")
    case (Inr cw)
    then have "with_transactor sx mo did ?p s = (Inr cw, snd (with_transactor sx mo did ?p s))"
      by (metis prod.collapse)
    then obtain r key acs ax where
      t: "transact (sx_keys sx) did (ss_actors s) = (Inr (r, key), acs)" and
      p: "?p (open_txn mo s acs r key) = (Inr cw, ax)"
      unfolding with_transactor_Inr by blast
    from process_writes_no_rows(2) [OF assms(1) txn [OF t] blobs, of "sx_actor sx" "mo_now mo" swap] p
    show ?thesis by simp
  qed simp
  then show "(\<exists>e. fst (write_and_sequence sx mo did ws swap s) = Inl e) \<and>
      ss_sequencer (snd (write_and_sequence sx mo did ws swap s)) = ss_sequencer s"
    using with_transactor_other(1) [of sx mo did ?p s]
    by (cases "with_transactor sx mo did ?p s") (auto simp: write_and_sequence_def)
qed

section \<open>A concrete server\<close>

text \<open>One actor with two equal records, an empty log, and the libraries of the witnesses so far.\<close>

definition demo_records :: record_codec where
  "demo_records =
     \<lparr>record_of_json = (\<lambda>j. None), blob_ref_of_json = (\<lambda>j. None), json_of_ipld = (\<lambda>i. None),
      blob_untyped = (\<lambda>b. False), blob_ref_cid = (\<lambda>b. Some b), blob_ref_mime = (\<lambda>b. ''text/plain''),
      cid_for_record = (\<lambda>r. Some ''new''), uri_make = (\<lambda>did collection rkey. Some (collection @ rkey))\<rparr>"

definition demo_server :: "(cid, prepared_write) server_env" where
  "demo_server =
     \<lparr>sx_actor = demo_actor_env, sx_keys = demo_keys, sx_repo = demo_repo,
      sx_codec = demo_seq_codec\<lparr>enc_commit := (\<lambda>e. Some ''C'')\<rparr>, sx_records = demo_records,
      sx_covers = (\<lambda>_ _. False), sx_sha256_cid = (\<lambda>b. b)\<rparr>"

definition demo_moment :: moment where
  "demo_moment = \<lparr>mo_now = ''t2'', mo_time = 5, mo_net = (None, \<lambda>_. False), mo_ids = (\<lambda>n. 7), mo_rkey = ''k''\<rparr>"

definition demo_server_state :: server_state where
  "demo_server_state =
     (let s = shared_state empty_db [] ''host'' [] ''data'' 1 (\<lambda>_. None)
      in s\<lparr>ss_actors := (snd (create_actor demo_keys ''did:plc:a'' ''key'' (ss_actors s)))
             \<lparr>as_contents := (\<lambda>_. ax_db demo_actor)\<rparr>\<rparr>)"

definition demo_auth :: access_output where
  "demo_auth = \<lparr>ao_credentials = Some \<lparr>cr_type = ''access'', cr_did = Some ''did:plc:a'', cr_scope = None, cr_audience = None,
     cr_token_id = None, cr_aud = None, cr_iss = None, cr_is_privileged = None, cr_admin_scopes = None\<rparr>, ao_artifacts = None\<rparr>"

text \<open>Deleting the first record: the block it shares with the second stays.\<close>

definition demo_delete :: prepared_write where
  "demo_delete = PwDelete \<lparr>pd_action = WriteDelete, pd_uri = ''p1'', pd_swap_cid = None\<rparr>"

lemma demo_delete_commit:
  "cd_removed_cids (demo_commit [demo_delete]) = [''old'']"
  "cd_new_blocks (demo_commit [demo_delete]) = [(''root2'', ''root2'')]"
  "cd_relevant_blocks (demo_commit [demo_delete]) = []"
  by (simp_all add: demo_commit_def List.map_filter_def demo_delete_def Let_def)

lemma demo_delete_run:
  assumes "ax_db ax = ax_db demo_actor" and "ax_did ax = ''did:plc:a''" and "ax_cache ax = []"
  shows "\<exists>cw ax'. process_writes demo_actor_env demo_repo ''t2'' [demo_delete] None ax = (Inr cw, ax')"
  using assms
  by (simp add: demo_actor_simps demo_delete_commit [unfolded demo_delete_def] demo_commit_removed demo_delete_def demo_write_ops Let_def
      process_write_blobs_def delete_dereferenced_blobs_def delete_record_def)

lemma demo_server_simps [simp]:
  "sx_actor demo_server = demo_actor_env" "sx_keys demo_server = demo_keys" "sx_repo demo_server = demo_repo"
  "sx_records demo_server = demo_records" "mo_now demo_moment = ''t2''" "mo_time demo_moment = 5"
  "mo_ids demo_moment n = 7" "requester_did demo_auth = Inr ''did:plc:a''"
  "as_contents (ss_actors demo_server_state) n = ax_db demo_actor"
  "sq_db (ss_sequencer demo_server_state) = []" "sq_job_pool (ss_sequencer demo_server_state) = None"
  by (simp_all add: demo_server_def demo_moment_def requester_did_def demo_auth_def demo_server_state_def
      shared_state_def sequencer_new_def)

lemma demo_transact:
  "\<exists>acs. transact demo_keys ''did:plc:a'' (ss_actors demo_server_state) =
     (Inr (\<lparr>ar_did = ''did:plc:a'', ar_db = 0,
        ar_key_location = actor_file demo_keys ''data'' ''did:plc:a'' ''key''\<rparr>, ''key''), acs)"
proof -
  have safe: "assert_safe_path_part ''did:plc:a'' = Inr ()"
    by (simp add: assert_safe_path_part_def starts_with_def)
  show ?thesis
    by (simp add: demo_server_state_def shared_state_def create_actor_def get_location_def safe actor_store_new_def
        Let_def transact_def read_actor_def open_db_def cache_put_def did_lock_def reader_keypair_def load_key_def
        import_keypair_def write_file_def actor_file_def actor_dir_def path_join_def)
qed

lemma demo_open: "fst (open_db demo_keys ''did:plc:a'' (ss_actors demo_server_state)) = Inr 0"
  using demo_transact transact_Inr(2) by fastforce

lemma demo_write_run:
  "\<exists>u s'. write_and_sequence demo_server demo_moment ''did:plc:a'' [demo_delete] None demo_server_state = (Inr u, s')"
proof -
  obtain r acs where t: "transact demo_keys ''did:plc:a'' (ss_actors demo_server_state) = (Inr (r, ''key''), acs)"
    and r: "ar_db r = 0" "ar_did r = ''did:plc:a''"
    using demo_transact by fastforce
  have "as_contents acs n = ax_db demo_actor" for n
    using transact_Inr(3) [OF t] by simp
  with r obtain cw ax where p: "process_writes demo_actor_env demo_repo ''t2'' [demo_delete] None
      (open_txn demo_moment demo_server_state acs r ''key'') = (Inr cw, ax)"
    using demo_delete_run [of "open_txn demo_moment demo_server_state acs r ''key''"] by (auto simp: open_txn_def)
  have w: "with_transactor demo_server demo_moment ''did:plc:a''
      (process_writes demo_actor_env demo_repo ''t2'' [demo_delete] None) demo_server_state =
      (Inr cw, close_txn acs r ax demo_server_state)"
    using t p by (auto simp: with_transactor_Inr)
  obtain evt where e: "format_seq_commit (sx_codec demo_server) ''did:plc:a'' cw 5 = Inr evt"
    by (simp add: format_seq_commit_def encoded_row_def demo_server_def demo_seq_codec_def)
  have empty: "sq_db (ss_sequencer (close_txn acs r ax demo_server_state)) = []"
    "sq_job_pool (ss_sequencer (close_txn acs r ax demo_server_state)) = None"
    by (simp_all add: close_txn_def)
  have "\<exists>x q. sequence_commit (sx_codec demo_server) (mo_net demo_moment) 7 5 ''did:plc:a'' cw
      (ss_sequencer (close_txn acs r ax demo_server_state)) = (Inr x, q)"
    using empty
    by (simp add: sequence_commit_def sequence_formatted_def e sequence_evt_def insert_repo_seq_def Let_def
        notify_crawlers_def case_prod_beta)
  then show ?thesis
    by (auto simp: write_and_sequence_def w runtime_error_def on_sequencer_def)
qed

definition demo_writes :: apply_writes_input where
  "demo_writes = \<lparr>wi_validate = None, wi_writes = [RefWriteDelete ''p'' ''1''], wi_swap_commit = None\<rparr>"

lemma demo_dispatch: "dispatch_actions demo_records rkeys did v (wi_writes demo_writes) = Inr [demo_delete]"
  by (simp add: demo_writes_def prepare_delete_def demo_records_def invalid_def demo_delete_def)

lemma demo_swapless: "wi_swap_commit demo_writes = None"
  by (simp add: demo_writes_def)

lemma demo_server_ok: "server_ok demo_server"
  using demo_actor_env_ok demo_repo_reads demo_diff_ok by (simp add: server_ok_def)

lemma demo_actor_wf: "uniq rec_uri (ad_records (ax_db demo_actor))" "records_stored (ax_db demo_actor)"
  by (simp_all add: records_stored_def demo_actor_simps block_at_def find_block_def)


text \<open>The current root as swapCommit.\<close>

definition demo_swap :: delete_record_input where
  "demo_swap = \<lparr>di_collection = ''p'', di_rkey = ''1'', di_swap_commit = Some ''root1''\<rparr>"

lemma swap_commit_never_succeeds_witness:
  "refused demo_server_state (inner_delete_record demo_server demo_moment demo_swap demo_auth demo_server_state)"
proof -
  have "\<not> record_is_root demo_actor_env (ax_db demo_actor)"
    by (simp add: record_is_root_def demo_actor_simps)
  with swap_commit_never_succeeds [of demo_server demo_server_state] demo_repo_reads show ?thesis
    by (simp add: demo_swap_def)
qed

end
