(* ===== verification/Account_Handler_Facts.thy ===== *)
theory Account_Handler_Facts
  imports Account_Handlers Repo_Handler_Facts
begin

text \<open>
  What the life of an account guarantees, and what it does not. A registration is all or nothing for
  the new actor, but one that fails, like a deletion, takes the blobs of every actor along; the event
  of a deletion is gone with the request; and the account of a DID this server made cannot be
  activated by it without a server-wide rotation key.
\<close>

section \<open>Destroying an actor\<close>

text \<open>What the operator promises of a recursive deletion: nothing is left in the directory.\<close>

definition covers_inside :: "(string \<Rightarrow> string \<Rightarrow> bool) \<Rightarrow> bool" where
  "covers_inside covers \<longleftrightarrow> (\<forall>prefix k. covers prefix (prefix @ ''/'' @ k))"

definition no_blobs_left :: "server_state \<Rightarrow> bool" where
  "no_blobs_left s \<longleftrightarrow> (\<forall>a k. ss_blobs s (area_path a SHARED_BLOB_DID k) = None)"

lemma destroy_in_blobs: "ss_blobs (snd (destroy_in sx did s)) = delete_all (sx_covers sx) SHARED_BLOB_DID (ss_blobs s)"
  by (cases "get_location (sx_keys sx) did
        ((cache_pop did (ss_actors s))\<lparr>as_locks := as_locks (cache_pop did (ss_actors s)) - {did}\<rparr>)")
    (simp_all add: destroy_in_def destroy_actor_def Let_def runtime_error_def)

lemma destroy_in_no_blobs:
  assumes "covers_inside (sx_covers sx)"
  shows "no_blobs_left (snd (destroy_in sx did s))"
proof -
  have inside: "sx_covers sx (area_name a @ ''/'' @ SHARED_BLOB_DID) (area_path a SHARED_BLOB_DID k)" for a k
    using assms by (simp add: covers_inside_def area_path)
      (metis append.assoc append_Cons append_Nil)
  show ?thesis
    unfolding no_blobs_left_def destroy_in_blobs delete_all_def delete_prefix_def
  proof (intro allI)
    fix a k
    show "fold (\<lambda>prefix op' path. if sx_covers sx prefix path then None else op' path)
        [''tmp/'' @ SHARED_BLOB_DID, ''blocks/'' @ SHARED_BLOB_DID, ''quarantine/'' @ SHARED_BLOB_DID] (ss_blobs s)
        (area_path a SHARED_BLOB_DID k) = None"
      using inside [of a k] by (cases a) simp_all
  qed
qed

lemma destroy_in_other:
  "ss_sequencer (snd (destroy_in sx did s)) = ss_sequencer s" "ss_accounts (snd (destroy_in sx did s)) = ss_accounts s"
  "ss_posted (snd (destroy_in sx did s)) = ss_posted s" "ss_tasks (snd (destroy_in sx did s)) = ss_tasks s"
  by (auto simp: destroy_in_def runtime_error_iff split: prod.split)

lemma destroy_in_actors:
  "ss_actors (snd (destroy_in sx did s)) =
     fst (snd (destroy_actor (sx_keys sx) (sx_covers sx) SHARED_BLOB_DID did (ss_actors s, ss_blobs s)))"
  by (auto simp: destroy_in_def runtime_error_iff split: prod.split)

text \<open>Neither the actor's database nor its rotation key is there.\<close>

definition forgotten :: "key_env \<Rightarrow> string \<Rightarrow> actor_service \<Rightarrow> bool" where
  "forgotten ke did s \<longleftrightarrow> exists_actor ke did s \<noteq> Inr True \<and> \<not> has_rotation_keypair ke did s"

lemma destroy_in_forgets: "forgotten (sx_keys sx) did (ss_actors (snd (destroy_in sx did s)))"
proof (cases "is_ok (assert_safe_path_part did)")
  case True
  have inside: "in_directory (actor_dir ke root did) (actor_file ke root did f)" for ke root f
    by (simp add: in_directory_def actor_file_def path_join_def starts_with_iff)
  show ?thesis
    using get_location_ok [OF True]
    by (simp add: forgotten_def destroy_in_actors destroy_result exists_actor_def has_rotation_keypair_def
        cache_pop_def inside)
next
  case False
  then show ?thesis
    by (auto simp: forgotten_def exists_actor_def has_rotation_keypair_def get_location_def is_ok_iff split: sum.split)
qed

section \<open>A failed registration\<close>

text \<open>What every way out of a started registration but success leaves behind.\<close>

definition wiped :: "key_env \<Rightarrow> string \<Rightarrow> (api_error + 'a) \<times> server_state \<Rightarrow> bool" where
  "wiped ke did r \<longleftrightarrow> fst r = Inl RuntimeError \<and> no_blobs_left (snd r) \<and> forgotten ke did (ss_actors (snd r))"

lemma wiped_or_abandon:
  "covers_inside (sx_covers sx) \<Longrightarrow> wiped (sx_keys sx) did (or_abandon sx did (Inl e, s))"
  by (simp add: wiped_def or_abandon_def destroy_in_no_blobs destroy_in_forgets)

definition all_or_nothing :: "key_env \<Rightarrow> string \<Rightarrow> (api_error + 'a) \<times> server_state \<Rightarrow> bool" where
  "all_or_nothing ke did r \<longleftrightarrow> is_ok (fst r) \<or> wiped ke did r"

lemma wiped_and_then: "wiped ke did r \<Longrightarrow> wiped ke did (and_then r k)"
  by (cases r; cases "fst r") (auto simp: wiped_def)

lemma or_abandon_cases:
  "or_abandon sx did (r, s) = (case r of Inl _ \<Rightarrow> (Inl RuntimeError, snd (destroy_in sx did s)) | Inr x \<Rightarrow> (Inr x, s))"
  by (simp add: or_abandon_def split: sum.split)

text \<open>After a step that is guarded, either all is wiped or the rest goes on.\<close>

lemma guarded_step:
  assumes "covers_inside (sx_covers sx)" and "\<And>x s'. all_or_nothing (sx_keys sx) did (k x s')"
  shows "all_or_nothing (sx_keys sx) did (and_then (or_abandon sx did r) k)"
proof (cases r)
  case (Pair res s')
  show ?thesis
  proof (cases res)
    case (Inl e)
    with Pair assms(1) show ?thesis
      by (simp add: all_or_nothing_def wiped_and_then wiped_or_abandon)
  next
    case (Inr x)
    with Pair assms(2) show ?thesis by (simp add: or_abandon_cases)
  qed
qed

lemma keep_rotation_key_step:
  assumes "covers_inside (sx_covers sx)" and "\<And>x s'. all_or_nothing (sx_keys sx) did (k x s')"
  shows "all_or_nothing (sx_keys sx) did (and_then (keep_rotation_key sx fresh did key s) k)"
  using assms by (cases key) (simp_all add: keep_rotation_key_def guarded_step)

lemma set_up_ends:
  assumes "covers_inside (sx_covers sx)"
    and "is_ok (fst (create_actor (sx_keys sx) (tr_did input) (hx_repo_key hx) (ss_actors s)))"
  shows "all_or_nothing (sx_keys sx) (tr_did input) (set_up_account sx hx mo dw input key s)"
proof -
  obtain s1 where s1: "runtime_error (on_actors (create_actor (sx_keys sx) (tr_did input) (hx_repo_key hx)) s) = (Inr (), s1)"
    using assms(2) by (cases "create_actor (sx_keys sx) (tr_did input) (hx_repo_key hx) (ss_actors s)")
      (auto simp: runtime_error_def is_ok_iff on_actors_def)
  show ?thesis
    unfolding set_up_account_def Let_def s1 and_then_simps
    by (intro keep_rotation_key_step guarded_step assms(1)) (simp add: all_or_nothing_def case_prod_beta)
qed

section \<open>What a registration leaves alone\<close>

lemma on_actors_other:
  "ss_accounts (snd (on_actors f s)) = ss_accounts s" "ss_blobs (snd (on_actors f s)) = ss_blobs s"
  "ss_sequencer (snd (on_actors f s)) = ss_sequencer s" "ss_posted (snd (on_actors f s)) = ss_posted s"
  "ss_actors (snd (on_actors f s)) = snd (f (ss_actors s))" "fst (on_actors f s) = fst (f (ss_actors s))"
  by (simp_all add: on_actors_def case_prod_beta)

lemma on_accounts_other:
  "ss_sequencer (snd (on_accounts f s)) = ss_sequencer s" "ss_actors (snd (on_accounts f s)) = ss_actors s"
  "ss_posted (snd (on_accounts f s)) = ss_posted s" "ss_accounts (snd (on_accounts f s)) = snd (f (ss_accounts s))"
  by (simp_all add: on_accounts_def case_prod_beta)

lemma post_operation_other:
  "ss_accounts (snd (post_operation hx did o' s)) = ss_accounts s"
  "ss_sequencer (snd (post_operation hx did o' s)) = ss_sequencer s"
  by (simp_all add: post_operation_def split: option.split)

lemma or_abandon_other:
  "ss_accounts (snd (or_abandon sx did r)) = ss_accounts (snd r)"
  "ss_sequencer (snd (or_abandon sx did r)) = ss_sequencer (snd r)"
  by (auto simp: or_abandon_def destroy_in_other split: prod.split sum.split)

lemma keep_rotation_key_other:
  "ss_accounts (snd (keep_rotation_key sx fresh did key s)) = ss_accounts s"
  "ss_sequencer (snd (keep_rotation_key sx fresh did key s)) = ss_sequencer s"
  by (simp_all add: keep_rotation_key_def or_abandon_other on_actors_other split: option.split)

lemmas step_other = on_actors_other on_accounts_other post_operation_other or_abandon_other keep_rotation_key_other
  with_transactor_other runtime_error_iff(3)

lemma set_up_sequencer: "ss_sequencer (snd (set_up_account sx hx mo dw input key s)) = ss_sequencer s"
  unfolding set_up_account_def Let_def
  by (intro and_then_invariant [where P = "\<lambda>s'. ss_sequencer s' = ss_sequencer s"])
    (auto simp: step_other)

lemma create_account_refused:
  assumes "co_invite_code opts = Some code" and "ensure_invite_is_available code db = Inl e"
  shows "\<not> is_ok (fst (create_account ext now salt raw opts db)) \<and> snd (create_account ext now salt raw opts db) = db"
proof -
  have fails: "\<not> is_ok (fst (and_then (reading r db) k)) \<and> snd (and_then (reading r db) k) = db"
    if "\<And>x. \<not> is_ok (fst (k x db)) \<and> snd (k x db) = db" for r and k :: "'b \<Rightarrow> account_db \<Rightarrow> (account_error + 'c) \<times> account_db"
    using that by (cases r) (auto simp: is_ok_iff)
  show ?thesis
    unfolding create_account_def
    by (rule fails, rule fails, simp only: split_beta, rule fails) (simp add: assms is_ok_iff)
qed

section \<open>A refused invite code\<close>

lemma set_up_refused:
  assumes "tr_invite_code input = Some code" and "ensure_invite_is_available code (ss_accounts s) = Inl e"
  shows "\<not> is_ok (fst (set_up_account sx hx mo dw input key s))"
    "ss_accounts (snd (set_up_account sx hx mo dw input key s)) = ss_accounts s"
proof -
  let ?P = "\<lambda>s'. ss_accounts s' = ss_accounts s"
  let ?create = "\<lambda>commit. create_account (hx_ext hx) (dw_now dw) (dw_salt dw) (dw_raw dw) (account_opts sx hx input commit)"
  have refused: "\<not> is_ok (fst (?create commit (ss_accounts s)))" "snd (?create commit (ss_accounts s)) = ss_accounts s" for commit
    using create_account_refused [of "account_opts sx hx input commit" code "ss_accounts s" e] assms
    by (simp_all add: account_opts_def)
  show "?P (snd (set_up_account sx hx mo dw input key s))"
    unfolding set_up_account_def Let_def
    by (intro and_then_invariant [where P = ?P]) (auto simp: step_other refused)
  have fails: "\<not> is_ok (fst (and_then r k))"
    if "?P (snd r)" "\<And>x s'. ?P s' \<Longrightarrow> \<not> is_ok (fst (k x s'))" for r :: "('x + 'y) \<times> server_state" and k :: "'y \<Rightarrow> server_state \<Rightarrow> ('x + 'z) \<times> server_state"
    using that by (cases r; cases "fst r") (auto simp: is_ok_iff)
  have last: "\<not> is_ok (fst (and_then (or_abandon sx did (on_accounts (?create commit) s')) k))" if "?P s'" for s' did commit and k :: "_ \<Rightarrow> _ \<Rightarrow> (api_error + 'z) \<times> server_state"
    using that refused(1) [of commit]
    by (cases "?create commit (ss_accounts s)"; cases "fst (?create commit (ss_accounts s))")
      (auto simp: is_ok_iff or_abandon_def on_accounts_def)
  show "\<not> is_ok (fst (set_up_account sx hx mo dw input key s))"
    unfolding set_up_account_def Let_def
    by (intro fails last) (simp_all add: step_other)
qed


text \<open>The demo server with a recursive deletion, and a request to import a DID with a code nobody issued.\<close>

definition demo_lifecycle :: "(cid, prepared_write) server_env" where
  "demo_lifecycle = demo_server\<lparr>sx_covers := (\<lambda>prefix path. starts_with path (prefix @ ''/''))\<rparr>"

definition demo_account_env :: account_env where
  "demo_account_env =
     \<lparr>hx_ext = demo_ext, hx_plc = \<lparr>atproto_sign = (\<lambda>_ _. None), base64_url = (\<lambda>s. s), genesis_bytes = (\<lambda>_. None),
        plc_sha256 = (\<lambda>s. s), base32 = (\<lambda>s. s), cid_of_op = (\<lambda>_. None)\<rparr>,
      hx_post = (\<lambda>_ _. True), hx_document = (\<lambda>_. None), hx_resolve = (\<lambda>_. None), hx_doc_value = (\<lambda>_. None),
      hx_service_did = ''did:web:x.org'', hx_hostname = ''x.org'', hx_public_url = ''https://x.org'', hx_domains = [''.x.org''],
      hx_invite_required = True, hx_email_valid = (\<lambda>_. True), hx_normalise = Inr, hx_valid_tld = (\<lambda>_. True),
      hx_slurs = (\<lambda>_. False), hx_repo_key = ''repo'', hx_global_rotation = None\<rparr>"

definition demo_draws :: draws where
  "demo_draws = \<lparr>dw_now = 0, dw_salt = ''salt'', dw_raw = ''raw'', dw_secret = ''own''\<rparr>"

definition demo_import :: create_account_input where
  "demo_import = \<lparr>na_email = Some ''b@x.org'', na_handle = ''bobby.x.org'', na_did = Some ''did:plc:b'',
     na_invite_code = Some ''nobody'', na_password = Some ''pw'', na_recovery_key = None, na_plc_op = None\<rparr>"

lemma demo_import_valid:
  "validate_inputs_for_local_pds demo_keys demo_account_env demo_draws demo_import None empty_db =
     Inr (\<lparr>tr_email = ''b@x.org'', tr_handle = ''bobby.x.org'', tr_did = ''did:plc:b'', tr_invite_code = Some ''nobody'',
       tr_password = ''pw'', tr_plc_op = None, tr_deactivated = True\<rparr>, None)"
  by (simp add: validate_inputs_for_local_pds_def demo_account_env_def demo_import_def valid_new_handle_def
      normalize_and_validate_handle_def base_normalize_and_validate_def ensure_handle_service_constraints_def
      is_service_domain_def as_dotted_suffix_def validate_handle_def new_account_did_def get_account_def
      get_account_by_email_def actor_left_join_account_def empty_db_def strip_suffix_def ends_with_def starts_with_def RESERVED_SUBDOMAINS_def)

lemma demo_lifecycle_covers: "covers_inside (sx_covers demo_lifecycle)"
  by (simp add: covers_inside_def demo_lifecycle_def starts_with_iff)

lemma demo_lifecycle_keys: "sx_keys demo_lifecycle = demo_keys"
  by (simp add: demo_lifecycle_def)

lemma demo_import_actor: "is_ok (fst (create_actor demo_keys ''did:plc:b'' ''repo'' (ss_actors demo_server_state)))"
  by (simp add: demo_server_state_def shared_state_def create_actor_def actor_store_new_def
      assert_safe_path_part_def starts_with_def get_location_def Let_def cache_put_def write_file_def path_join_def)


section \<open>Events of an account\<close>

lemma sequence_evt_Inr:
  assumes "sequence_evt c net fresh evt q = (Inr x, q')"
  shows "(\<exists>row. sq_db q' = sq_db q @ [row] \<and> sr_did row = rn_did evt \<and> sr_event_type row = rn_event_type evt) \<and>
    (sq_job_pool q = None \<longrightarrow> sq_job_pool q' = None)"
  using assms
  by (auto simp: sequence_evt_def and_then_Inr_iff insert_repo_seq_def active_of_new_def Let_def
      split: if_splits option.splits sum.splits)

lemma encoded_row_fields: "encoded_row did ty body now = Inr evt \<Longrightarrow> rn_did evt = did \<and> rn_event_type evt = ty"
  by (auto simp: encoded_row_def mk_repo_seq_new_def split: option.splits)

text \<open>An event that was sequenced is one row more, under the DID it is about.\<close>

definition logged :: "string \<Rightarrow> string \<Rightarrow> sequencer \<Rightarrow> sequencer \<Rightarrow> bool" where
  "logged did ty q q' \<longleftrightarrow> (\<exists>row. sq_db q' = sq_db q @ [row] \<and> sr_did row = did \<and> sr_event_type row = ty) \<and>
     (sq_job_pool q = None \<longrightarrow> sq_job_pool q' = None)"

lemma sequence_logged:
  "sequence_account_evt c net fresh now did active status q = (Inr x, q') \<Longrightarrow> logged did ''account'' q q'"
  "sequence_identity_evt c net fresh now did handle q = (Inr x, q') \<Longrightarrow> logged did ''identity'' q q'"
  "sequence_sync_evt c net fresh now did rev' blocks q = (Inr x, q') \<Longrightarrow> logged did ''sync'' q q'"
  by (auto simp: logged_def sequence_account_evt_def sequence_identity_evt_def sequence_sync_evt_def
      sequence_formatted_def format_seq_account_evt_def format_seq_identity_evt_def format_seq_sync_evt_def and_then_Inr_iff
      dest!: sequence_evt_Inr encoded_row_fields split: option.splits)

lemma on_sequencer_Inr:
  assumes "on_sequencer f s = (Inr x, s')"
  obtains q where "f (ss_sequencer s) = (Inr x, q)" "sq_db (ss_sequencer s') = sq_db q"
    "sq_job_pool (ss_sequencer s') = sq_job_pool q" "ss_accounts s' = ss_accounts s" "ss_actors s' = ss_actors s"
    "ss_blobs s' = ss_blobs s"
  using assms by (auto simp: on_sequencer_def split: prod.splits)

section \<open>A deletion\<close>

lemma delete_account_gone: "actor_of did (snd (delete_account did db)) = None \<and> account_of did (snd (delete_account did db)) = None"
  by (simp add: delete_account_def actor_of_def account_of_def find_delete_where)

text \<open>C39: what deleteAccount has checked and done when it answers with success. The password and the
  mailed token were right; the account's rows, its actor, database and rotation key are gone. But the
  blobs of every other actor are gone too, as all share one blob store handle; and the log has lost
  every event of the DID, the one about the deletion included, which is written and removed in the
  same request: without a job pool, as the server is built, no subscriber is ever told.\<close>

theorem deletion_silent:
  assumes "covers_inside (sx_covers sx)"
    and "inner_delete_account sx hx mo dw did password token s = (Inr (), s')"
  shows "verify_account_password (hx_ext hx) did password (ss_accounts s) = Inr True \<and>
    assert_valid_token (hx_ext hx) (dw_now dw) did DeleteAccount token None (ss_accounts s) = Inr () \<and>
    ss_accounts s' = snd (delete_account did (ss_accounts s)) \<and>
    actor_of did (ss_accounts s') = None \<and> account_of did (ss_accounts s') = None \<and>
    forgotten (sx_keys sx) did (ss_actors s') \<and> no_blobs_left s' \<and>
    sq_db (ss_sequencer s') = filter (\<lambda>r. sr_did r \<noteq> did) (sq_db (ss_sequencer s)) \<and>
    (sq_job_pool (ss_sequencer s) = None \<longrightarrow> sq_job_pool (ss_sequencer s') = None)"
proof -
  let ?s1 = "snd (destroy_in sx did s)" and ?accs = "snd (delete_account did (ss_accounts s))"
  let ?event = "\<lambda>q. and_then (sequence_account_evt (sx_codec sx) (mo_net mo) (mo_ids mo 0) (mo_time mo) did False (Some LexDeleted) q)
      (\<lambda>_ q. (Inr (), delete_all_for_user did q))"
  from assms(2) have checks: "verify_account_password (hx_ext hx) did password (ss_accounts s) = Inr True"
    "assert_valid_token (hx_ext hx) (dw_now dw) did DeleteAccount token None (ss_accounts s) = Inr ()"
    and run: "on_sequencer ?event (?s1\<lparr>ss_accounts := ?accs\<rparr>) = (Inr (), s')"
    using destroy_in_other(2) [of sx did s]
    by (auto simp: inner_delete_account_def and_then_Inr_iff runtime_error_iff on_accounts_def delete_account_def
        split: if_splits prod.splits)
  obtain q where q: "?event (ss_sequencer s) = (Inr (), q)" and s': "sq_db (ss_sequencer s') = sq_db q"
    "sq_job_pool (ss_sequencer s') = sq_job_pool q" "ss_accounts s' = ?accs" "ss_actors s' = ss_actors ?s1"
    "ss_blobs s' = ss_blobs ?s1"
    using on_sequencer_Inr [OF run] by (auto simp: destroy_in_other)
  from q obtain x q1 where "logged did ''account'' (ss_sequencer s) q1" "q = delete_all_for_user did q1"
    by (auto simp: and_then_Inr_iff dest: sequence_logged(1))
  then have "sq_db q = filter (\<lambda>r. sr_did r \<noteq> did) (sq_db (ss_sequencer s))"
    "sq_job_pool (ss_sequencer s) = None \<longrightarrow> sq_job_pool q = None"
    by (auto simp: logged_def delete_all_for_user_def delete_where_def)
  moreover have "forgotten (sx_keys sx) did (ss_actors s')" "no_blobs_left s'"
    using destroy_in_forgets [of sx did s] destroy_in_no_blobs [OF assms(1), of did s] s'(4,5)
    by (simp_all add: no_blobs_left_def)
  ultimately show ?thesis
    using checks s' delete_account_gone [of did "ss_accounts s"] by simp
qed

section \<open>Activation\<close>

lemma with_reader_other:
  "ss_sequencer (snd (with_reader sx mo did f s)) = ss_sequencer s"
  "ss_accounts (snd (with_reader sx mo did f s)) = ss_accounts s"
  by (auto simp: with_reader_def runtime_error_iff close_txn_def split: prod.split sum.split)

lemma activation_checks:
  assumes "assert_valid_did_documents_with_store ke hx did store = Inr ()"
  obtains doc where "hx_document hx did = Some doc"
    "(\<exists>acs key. store = Some acs \<and> rotation_keypair ke did acs = Inr key \<and> did_key_of ke key \<in> set (dd_rotation_keys doc)) \<or>
     (\<exists>key. hx_global_rotation hx = Some key \<and> key \<in> set (dd_rotation_keys doc))"
    "map_option pv_endpoint (map_of (dd_services doc) ''atproto_pds'') = Some (hx_public_url hx)"
    "map_of (dd_verification_methods doc) ''atproto'' = Some (did_key_of ke (hx_repo_key hx))"
  using assms
  by (auto simp: assert_valid_did_documents_with_store_def assert_valid_doc_contents_def Let_def
      split: if_splits option.splits sum.splits)

text \<open>C40: who can be activated, and what it does. A successful activation had a document that lists
  the server-wide rotation key and the server's signing key; it activates the account and appends
  exactly its account, identity and sync events. A document that lists the DID's own rotation key
  instead, which the check accepts when it is given the actor store, is refused: the handlers never
  give it, so a DID created by this server is invalid to it unless a server-wide key is configured.\<close>

theorem activation_needs_server_key:
  assumes "access_did auth = Inr did"
  shows "(inner_activate_account sx hx mo auth s = (Inr (), s') \<longrightarrow>
      (\<exists>doc key. hx_document hx did = Some doc \<and> hx_global_rotation hx = Some key \<and> key \<in> set (dd_rotation_keys doc) \<and>
        map_of (dd_verification_methods doc) ''atproto'' = Some (did_key_of (sx_keys sx) (hx_repo_key hx)) \<and>
        ss_accounts s' = activate_account did (ss_accounts s) \<and>
        (\<exists>rows. sq_db (ss_sequencer s') = sq_db (ss_sequencer s) @ rows \<and> (\<forall>r \<in> set rows. sr_did r = did) \<and>
          map sr_event_type rows = [''account'', ''identity'', ''sync'']))) \<and>
    (starts_with did ''did:plc'' \<and> hx_document hx did = Some doc \<and>
      rotation_keypair (sx_keys sx) did (ss_actors s) = Inr own \<and>
      did_key_of (sx_keys sx) own \<in> set (dd_rotation_keys doc) \<and>
      map_option pv_endpoint (map_of (dd_services doc) ''atproto_pds'') = Some (hx_public_url hx) \<and>
      map_of (dd_verification_methods doc) ''atproto'' = Some (did_key_of (sx_keys sx) (hx_repo_key hx)) \<and>
      (\<forall>key. hx_global_rotation hx = Some key \<longrightarrow> key \<notin> set (dd_rotation_keys doc)) \<longrightarrow>
      assert_valid_did_documents_with_store (sx_keys sx) hx did (Some (ss_actors s)) = Inr () \<and>
      \<not> is_valid_did_doc_for_service (sx_keys sx) hx did \<and>
      inner_activate_account sx hx mo auth s = (Inl RuntimeError, s))"
proof (intro conjI impI)
  assume run: "inner_activate_account sx hx mo auth s = (Inr (), s')"
  then have "assert_valid_did_documents_with_store (sx_keys sx) hx did None = Inr ()"
    using assms by (auto simp: inner_activate_account_def and_then_Inr_iff runtime_error_iff
        assert_valid_did_documents_for_service_def)
  then obtain doc key where doc: "hx_document hx did = Some doc" "hx_global_rotation hx = Some key"
    "key \<in> set (dd_rotation_keys doc)"
    "map_of (dd_verification_methods doc) ''atproto'' = Some (did_key_of (sx_keys sx) (hx_repo_key hx))"
    by (rule activation_checks) auto
  from run assms obtain sync_data status handle s1 where
    reader: "with_reader sx mo did (get_sync_event_data (sx_actor sx)) (s\<lparr>ss_accounts := activate_account did (ss_accounts s)\<rparr>) =
      (Inr sync_data, s1)" and
    events: "on_sequencer (announce_activation sx mo did handle status sync_data) s1 = (Inr (), s')"
    by (auto simp: inner_activate_account_def and_then_Inr_iff runtime_error_iff Let_def split: option.splits)
  have s1: "ss_accounts s1 = activate_account did (ss_accounts s)" "ss_sequencer s1 = ss_sequencer s"
    using with_reader_other [of sx mo did "get_sync_event_data (sx_actor sx)" "s\<lparr>ss_accounts := activate_account did (ss_accounts s)\<rparr>"]
      reader by simp_all
  obtain q where q: "announce_activation sx mo did handle status sync_data (ss_sequencer s) = (Inr (), q)"
    "sq_db (ss_sequencer s') = sq_db q" "ss_accounts s' = ss_accounts s1"
    using on_sequencer_Inr [OF events] s1(2) by metis
  then obtain q1 q2 where "logged did ''account'' (ss_sequencer s) q1" "logged did ''identity'' q1 q2" "logged did ''sync'' q2 q"
    by (auto simp: announce_activation_def Let_def and_then_Inr_iff split: prod.splits dest!: sequence_logged)
  then have "\<exists>rows. sq_db q = sq_db (ss_sequencer s) @ rows \<and> (\<forall>r \<in> set rows. sr_did r = did) \<and>
      map sr_event_type rows = [''account'', ''identity'', ''sync'']"
    by (auto simp: logged_def)
  with doc q s1 show "\<exists>doc key. hx_document hx did = Some doc \<and> hx_global_rotation hx = Some key \<and> key \<in> set (dd_rotation_keys doc) \<and>
        map_of (dd_verification_methods doc) ''atproto'' = Some (did_key_of (sx_keys sx) (hx_repo_key hx)) \<and>
        ss_accounts s' = activate_account did (ss_accounts s) \<and>
        (\<exists>rows. sq_db (ss_sequencer s') = sq_db (ss_sequencer s) @ rows \<and> (\<forall>r \<in> set rows. sr_did r = did) \<and>
          map sr_event_type rows = [''account'', ''identity'', ''sync''])"
    by auto
next
  assume doc: "starts_with did ''did:plc'' \<and> hx_document hx did = Some doc \<and>
      rotation_keypair (sx_keys sx) did (ss_actors s) = Inr own \<and>
      did_key_of (sx_keys sx) own \<in> set (dd_rotation_keys doc) \<and>
      map_option pv_endpoint (map_of (dd_services doc) ''atproto_pds'') = Some (hx_public_url hx) \<and>
      map_of (dd_verification_methods doc) ''atproto'' = Some (did_key_of (sx_keys sx) (hx_repo_key hx)) \<and>
      (\<forall>key. hx_global_rotation hx = Some key \<longrightarrow> key \<notin> set (dd_rotation_keys doc))"
  then show "assert_valid_did_documents_with_store (sx_keys sx) hx did (Some (ss_actors s)) = Inr ()"
    by (simp add: assert_valid_did_documents_with_store_def assert_valid_doc_contents_def)
  from doc have "\<exists>e. assert_valid_did_documents_for_service (sx_keys sx) hx did = Inl e"
    by (cases "hx_global_rotation hx")
      (simp_all add: assert_valid_did_documents_for_service_def assert_valid_did_documents_with_store_def assert_valid_doc_contents_def)
  then show "\<not> is_valid_did_doc_for_service (sx_keys sx) hx did"
    "inner_activate_account sx hx mo auth s = (Inl RuntimeError, s)"
    using assms by (auto simp: is_valid_did_doc_for_service_def inner_activate_account_def runtime_error_def)
qed

section \<open>A deletion and an activation\<close>

definition demo_delete_db :: account_db where
  "demo_delete_db = empty_db\<lparr>actors := [new_actor demo_ext 0 ''did:plc:a'' ''a.x.org'' None],
     accounts := [new_account demo_ext 0 ''did:plc:a'' ''a@x.org'' ''s|pw'' None],
     email_tokens := [\<lparr>et_purpose = ''delete_account'', et_did = ''did:plc:a'', et_token = ''ABCDE-FGHIJ'',
       et_requested_at = fmt_ts demo_ext 5000000\<rparr>]\<rparr>"

definition demo_account_codec :: seq_codec where
  "demo_account_codec = demo_seq_codec\<lparr>enc_account := (\<lambda>e. Some ''A'')\<rparr>"

lemma demo_delete_login:
  "verify_account_password demo_ext ''did:plc:a'' ''pw'' demo_delete_db = Inr True"
  "get_account ''did:plc:a'' any_account demo_delete_db \<noteq> None"
  by (simp_all add: verify_account_password_def verify_def demo_delete_db_def new_account_def new_actor_def demo_ext_def
      get_account_def any_account_def actor_left_join_account_def availability_conditions_def empty_db_def starts_with_def)

lemma demo_delete_token:
  "assert_valid_token demo_ext 6000000 ''did:plc:a'' DeleteAccount ''abcde-fghij'' None demo_delete_db = Inr ()"
proof -
  have up: "to_uppercase demo_ext ''abcde-fghij'' = ''ABCDE-FGHIJ''"
    unfolding demo_ext_def ext.simps by code_simp
  have utc: "from_str_to_utc demo_ext (fmt_ts demo_ext 5000000) = Some 5000000"
    using timestamps_parse_utc [OF demo_timestamps, of 5000000] by (simp add: demo_ext_def)
  have fresh: "less_than_ago_s demo_ext 6000000 5000000 (MINUTE demo_ext * 15)"
    by (simp add: demo_ext_def now_secs_def)
  let ?row = "\<lparr>et_purpose = ''delete_account'', et_did = ''did:plc:a'', et_token = ''ABCDE-FGHIJ'',
       et_requested_at = fmt_ts demo_ext 5000000\<rparr>"
  show ?thesis
    using email_token_from_row_ok [of ?row DeleteAccount] utc fresh
    by (simp add: assert_valid_token_def demo_delete_db_def up check_expiry_def)
qed

lemma deletion_silent_witness:
  "\<exists>s'. inner_delete_account (demo_lifecycle\<lparr>sx_codec := demo_account_codec\<rparr>) demo_account_env demo_moment
       (demo_draws\<lparr>dw_now := 6000000\<rparr>) ''did:plc:a'' ''pw'' ''abcde-fghij'' (demo_server_state\<lparr>ss_accounts := demo_delete_db\<rparr>) =
     (Inr (), s') \<and> sq_db (ss_sequencer s') = [] \<and> no_blobs_left s'"
proof -
  let ?sx = "demo_lifecycle\<lparr>sx_codec := demo_account_codec\<rparr>" and ?s = "demo_server_state\<lparr>ss_accounts := demo_delete_db\<rparr>"
  let ?run = "inner_delete_account ?sx demo_account_env demo_moment (demo_draws\<lparr>dw_now := 6000000\<rparr>)
      ''did:plc:a'' ''pw'' ''abcde-fghij'' ?s"
  have ext: "hx_ext demo_account_env = demo_ext" by (simp add: demo_account_env_def)
  have keys: "sx_keys ?sx = demo_keys" "sx_codec ?sx = demo_account_codec" "covers_inside (sx_covers ?sx)"
    using demo_lifecycle_covers demo_lifecycle_keys by simp_all
  obtain s1 where s1: "destroy_in ?sx ''did:plc:a'' ?s = (Inr (), s1)"
    by (simp add: destroy_in_def destroy_actor_def keys(1) get_location_def assert_safe_path_part_def starts_with_def Let_def
        runtime_error_def)
  have seq: "ss_sequencer s1 = ss_sequencer demo_server_state" "ss_accounts s1 = demo_delete_db"
    using destroy_in_other(1,2) [of ?sx "''did:plc:a''" ?s] s1 by simp_all
  have "\<exists>x q. sequence_account_evt demo_account_codec (mo_net demo_moment) 7 5 ''did:plc:a'' False (Some LexDeleted)
      (ss_sequencer demo_server_state) = (Inr x, q)"
    by (simp add: sequence_account_evt_def sequence_formatted_def format_seq_account_evt_def encoded_row_def demo_account_codec_def
        sequence_evt_def insert_repo_seq_def Let_def notify_crawlers_def case_prod_beta)
  then obtain s' where run: "?run = (Inr (), s')"
    using demo_delete_login demo_delete_token s1 seq
    by (auto simp: inner_delete_account_def ext demo_draws_def runtime_error_def on_accounts_def delete_account_def keys(2)
        on_sequencer_def split: prod.split)
  then show ?thesis
    using deletion_silent [OF keys(3) run] by simp
qed

definition demo_own_document :: document_data where
  "demo_own_document = \<lparr>dd_did = ''did:plc:a'', dd_rotation_keys = [''did:key:own''],
     dd_verification_methods = [(''atproto'', ''did:key:repo'')], dd_also_known_as = [],
     dd_services = [(''atproto_pds'', \<lparr>pv_type = ''AtprotoPersonalDataServer'', pv_endpoint = ''https://x.org''\<rparr>)]\<rparr>"

lemma activation_needs_server_key_witness:
  "let s = demo_server_state\<lparr>ss_actors := snd (store_rotation_keypair demo_keys ''did:plc:a'' ''own'' (ss_actors demo_server_state))\<rparr>
   in inner_activate_account demo_lifecycle (demo_account_env\<lparr>hx_document := (\<lambda>_. Some demo_own_document)\<rparr>) demo_moment demo_auth s =
     (Inl RuntimeError, s)"
proof -
  let ?s = "demo_server_state\<lparr>ss_actors := snd (store_rotation_keypair demo_keys ''did:plc:a'' ''own'' (ss_actors demo_server_state))\<rparr>"
  let ?hx = "demo_account_env\<lparr>hx_document := (\<lambda>_. Some demo_own_document)\<rparr>"
  have did: "access_did demo_auth = Inr ''did:plc:a''" by (simp add: access_did_def demo_auth_def)
  have key: "rotation_keypair demo_keys ''did:plc:a'' (ss_actors ?s) = Inr ''own''"
    by (simp add: rotation_keypair_def key_at_def store_rotation_keypair_def get_location_def assert_safe_path_part_def
        starts_with_def Let_def write_file_def load_key_def import_keypair_def demo_keys_def)
  have doc: "hx_document ?hx ''did:plc:a'' = Some demo_own_document" "hx_global_rotation ?hx = None"
    "hx_public_url ?hx = ''https://x.org''" "hx_repo_key ?hx = ''repo''"
    by (simp_all add: demo_account_env_def)
  show ?thesis
    using activation_needs_server_key [OF did, of demo_lifecycle ?hx demo_moment ?s ?s demo_own_document "''own''"]
      key doc
    by (simp add: demo_lifecycle_keys Let_def) (simp add: demo_own_document_def demo_keys_def starts_with_def)
qed

end
