(* ===== verification/Spec2Isabelle.thy ===== *)
theory Spec2Isabelle
  imports OAuth_Facts Auth_Facts Firehose Actor_Keys Session_Facts Account_Handler_Facts
begin

text \<open>
  Verification of cacos, a personal data server (PDS) of the AT Protocol in Rust.

  The program. A PDS keeps the accounts of its users (crate cacos-pds-account), one store per
  user with the repository, its records and blobs (cacos-pds-actor-store, cacos-pds-blobstore),
  and the log of repository events that relays subscribe to (cacos-pds-sequencer); the server
  (cacos-pds-server) exposes them as XRPC methods, authorised by sessions, app passwords, OAuth
  tokens, service tokens or admin tokens. Each part is a group of theories below. A theory
  follows its source file: a \<open>record\<close> per table row or struct, a \<open>datatype\<close> per enum, one
  function per operation with its early returns as branches, then the lemmas. SQL statements
  are operations on lists of rows (theory Prelude); a statement that violates a key is an error
  value; a group of statements without a transaction keeps what ran before the error. Database
  failures other than violated constraints, metrics and logging are left out throughout.

  Foundations.
  \<^item> Prelude: results (\<open>and_then\<close> is the \<open>?\<close> operator), tables, byte strings, decimal text.
  \<^item> Rust_Text: UTF-8 white space, validity, character boundaries, splitting (Rust's \<open>str\<close>).
  \<^item> Externals: the packages the account code calls (time stamps, argon2, JWT) as one record of
    functions with the laws relied on, and an instance of them for witnesses.
  \<^item> Db_Id: identifiers (migration/src/types/db_id.rs); byte order is numeric order, and
    hexadecimal parsing is exactly the inverse of printing.

  Accounts (cacos-pds-account/src/account, cacos-pds-handle).
  \<^item> Handles: validation of handles against the service domains (cacos-pds-handle/src/lib.rs).
  \<^item> Account_Db: the tables with their keys (migration), \<open>wf_db\<close> and the budget of invites.
  \<^item> Accounts, Email_Tokens, Passwords, Invites, Auth_Tokens, Repo_Roots: the helpers
    (account/helpers/account.rs, email_token.rs, password.rs, invite.rs, auth.rs, repo.rs).
  \<^item> Account_Manager: the operations that combine them (account/mod.rs); Account_Steps: the
    step relation of the manager and its invariant; Account_Registration and Account_Sessions:
    what registration, handle and address changes, sign-in, lockout, rotation of refresh tokens,
    password reset, takedown and deletion do. Rotation retries at most three times; concurrent
    clients are functions applied between its statements.

  OAuth (account/oauth_store.rs, core/src/db/consent_state.rs).
  \<^item> OAuth_Store, OAuth_Devices: requests, tokens, devices, clients, replay store, consent nonces.
  \<^item> OAuth_Steps: the step relation of the whole account database under account and OAuth
    operations together; OAuth_Rotation: families of refresh tokens and the detection of
    replays; OAuth_Facts: codes, proofs, clients, sign-in.

  Authorisation (account/src/auth/verifier, helpers/admin_tokens.rs, xrpc/error.rs,
  xrpc/auth_extractors.rs).
  \<^item> Auth_Verifier, Auth_Extractors: headers, tokens of every kind, and the extractors each
    method uses; Auth_Facts: which credentials pass which extractor.

  Firehose (cacos-pds-sequencer, xrpc/com/atproto/sync/subscribe_repos.rs).
  \<^item> Seq_Events: event bodies, rows and envelopes (events.rs); Seq_Demo: a codec for witnesses.
  \<^item> Seq_Worker: the job table and its worker (apalis_worker.rs); one turn of the loop is
    \<open>worker_turn\<close>, a schedule is a list of enqueueings and turns, and n + 1 turns are enough for
    a job behind n others.
  \<^item> Sequencer: numbering and queries (mod.rs), relay notification (crawlers.rs); the table
    refines a list of events.
  \<^item> Outbox: replay and live stream (outbox.rs) under every schedule of publisher, task and
    consumer; Firehose: cursor, frames and session loop of the endpoint.

  Actor stores (cacos-pds-actor-store, cacos-pds-blobstore).
  \<^item> Actor_Db: the tables of one actor; Block_Store: the repository's blocks with the cache in
    front of them (repo/sql_repo.rs); Record_Index: records and backlinks (record/mod.rs).
  \<^item> Blob_Store: objects of a handle as a map from paths to bytes (opendal.rs); Blobs: the rows
    of blobs, uploads, garbage collection with its queued deletions, takedown (blob/*.rs);
    Blob_Facts: what a record refers to stays readable.
  \<^item> Actor_Store: the transactor, which formats, checks, indexes and applies a commit (mod.rs);
    Actor_Facts: a write refines the update of the record map. Building and diffing commits is
    rsky-repo, given as functions that read the storage.
  \<^item> Actor_Files: locations, keys, connections, creation and destruction of actors (mod.rs);
    Actor_Keys: an actor keeps its own database and key.

  PLC directory (cacos-pds-plc).
  \<^item> Plc_Operations: operations that create a DID or change its document (operations.rs, types.rs);
    Plc_Client: the client and its guard against private addresses (lib.rs).

  Server (cacos-pds-server/src/xrpc).
  \<^item> Server_State: what the handlers share, transactions and the clone of the sequencer (types.rs,
    mod.rs); Repo_Prepare: checks before a write (repo/prepare.rs). The search for blob
    references counts layers in a byte and stops at 33, which is its termination measure.
  \<^item> Repo_Handlers and Repo_Handler_Facts: createRecord, putRecord, deleteRecord, applyWrites,
    uploadBlob, describeRepo (repo/*.rs), from the request to the log.
  \<^item> Session_Handlers, Invite_Handlers and Session_Facts: sessions, addresses, passwords, invites
    and service tokens (server/*.rs); Account_Handlers and Account_Handler_Facts: createAccount,
    activation, status, deactivation, deletion and the checks of DID documents.

  Interfaces. Contracts between parts are locales, interpreted on the model where the provider
  is: \<open>one_time_token\<close> (Email_Tokens; also authorization codes in OAuth_Facts), \<open>lockout_store\<close>
  (Account_Sessions), \<open>refresh_family\<close> (OAuth_Rotation), \<open>replay_guard\<close> (OAuth_Facts),
  \<open>job_queue\<close> (Seq_Worker) and \<open>blob_storage\<close> (Blob_Store).

  What the properties say: invariants of the account database along every reachable sequence of
  operations; outcome of each account operation on every branch; lockout and replay policies as
  refinements; who may pass which authorisation check. For the firehose: a commit reaches
  subscribers unchanged, the worker publishes every event, subscribers see events in order and a
  client that resumes in time misses none. For the stores: cached reads are the table, actors do
  not touch each other's objects and databases, blobs in use stay readable. For the methods: a
  successful write updates the records and the log together; wrong passwords are bounded; which
  service tokens are given out; and, where the code falls short of its intent, exactly how: a
  commit cannot be named as a swap condition, failed registrations and deletions wipe everybody's
  blobs, a deletion is not announced, activation needs a server-wide key, mapped addresses pass
  the guard.

  Not modelled: see the components of the manifest with that status: the rsky OAuth provider's
  adapter and pages, start-up and configuration, the cache of DID documents, preferences (no
  method uses them), the background queue, metrics, the mailer and the migration tool.
\<close>

end
